(* ===== verification/Prelude.thy ===== *)
theory Prelude
  imports "HOL-Library.AList" "HOL-Library.Char_ord" "HOL-Library.List_Lexorder"
begin

text \<open>
  Shared vocabulary of the development: the error values that stand for Python exceptions,
  Python dictionaries as insertion-ordered association lists, the string operations the sources
  use (on ASCII text), and the SQL statements the sources issue on a table, a table being the list
  of its rows.
\<close>

named_theorems table_simps "what the SQL operations do to a table"
named_theorems dict_simps "what the Python dictionary operations do to a dictionary"

subsection \<open>Exceptions\<close>

text \<open>
  One constructor per exception class the modelled code raises; \<open>ValueError\<close> and
  \<open>RuntimeError\<close> carry a message tag, \<open>UnsafePayloadError\<close> its code and field.
\<close>

datatype py_error =
    ValueError string
  | RuntimeError string
  | UnsafePayloadError string string
  | JobQueueFullError
  | JobLeaseLostError
  | JobCancelledError
  | HTTPException int
  | IntegrityError
  | OperationalError
  | OverflowError
  | ZeroDivisionError
  | TypeError

type_synonym 'a result = "py_error + 'a"

definition rbind :: "'a result \<Rightarrow> ('a \<Rightarrow> 'b result) \<Rightarrow> 'b result" where
  "rbind r k = (case r of Inl e \<Rightarrow> Inl e | Inr x \<Rightarrow> k x)"

lemma rbind_simps [simp]:
  "rbind (Inl e) k = Inl e"
  "rbind (Inr x) k = k x"
  by (simp_all add: rbind_def)

lemma rbind_Inr_conv: "rbind r k = Inr y \<longleftrightarrow> (\<exists>x. r = Inr x \<and> k x = Inr y)"
  by (cases r) auto

lemma rbind_return_Inl: "(\<exists>e. rbind r (\<lambda>x. Inr (f x)) = Inl e) \<longleftrightarrow> (\<exists>e. r = Inl e)"
  by (cases r) auto

lemma rbind_InrE:
  assumes "rbind r k = Inr y"
  obtains x where "r = Inr x" and "k x = Inr y"
  using assms by (auto simp: rbind_Inr_conv)

text \<open>A loop that stops at the first exception.\<close>

fun rmap :: "('a \<Rightarrow> 'b result) \<Rightarrow> 'a list \<Rightarrow> 'b list result" where
  "rmap f [] = Inr []"
| "rmap f (x # xs) = rbind (f x) (\<lambda>y. rbind (rmap f xs) (\<lambda>ys. Inr (y # ys)))"

lemma rmap_Inr_iff: "rmap f xs = Inr ys \<longleftrightarrow> list_all2 (\<lambda>x y. f x = Inr y) xs ys"
  by (induction xs arbitrary: ys) (auto simp: rbind_Inr_conv list_all2_Cons1)

fun rfold :: "('a \<Rightarrow> 's \<Rightarrow> 's result) \<Rightarrow> 'a list \<Rightarrow> 's \<Rightarrow> 's result" where
  "rfold f [] s = Inr s"
| "rfold f (x # xs) s = rbind (f x s) (rfold f xs)"

lemma rfold_invariant:
  assumes "rfold f xs s = Inr s'" and "P s"
    and "\<And>x s s'. x \<in> set xs \<Longrightarrow> P s \<Longrightarrow> f x s = Inr s' \<Longrightarrow> P s'"
  shows "P s'"
  using assms by (induction xs arbitrary: s) (auto simp: rbind_Inr_conv)

lemma fold_invariant_list:
  assumes "P s" and "\<And>x s. x \<in> set xs \<Longrightarrow> P s \<Longrightarrow> P (f x s)"
  shows "P (fold f xs s)"
  using assms by (induction xs arbitrary: s) auto

text \<open>Sequencing of code that keeps what it did before it raised.\<close>

definition sbind :: "'s \<times> 'a result \<Rightarrow> ('a \<Rightarrow> 's \<Rightarrow> 's \<times> 'b result) \<Rightarrow> 's \<times> 'b result" where
  "sbind p k = (case p of (s, r) \<Rightarrow> (case r of Inl e \<Rightarrow> (s, Inl e) | Inr x \<Rightarrow> k x s))"

subsection \<open>Dictionaries\<close>

text \<open>
  A \<open>dict\<close> keeps the insertion order of its keys and some of the modelled loops depend on it,
  so a dictionary is an association list with distinct keys. \<open>d[k] = v\<close> overwrites in place or
  appends (\<open>AList.update\<close>), \<open>d.pop(k, None)\<close> removes (\<open>AList.delete\<close>).
\<close>

type_synonym ('k, 'v) dict = "('k \<times> 'v) list"

definition dict_get :: "('k, 'v) dict \<Rightarrow> 'k \<Rightarrow> 'v \<Rightarrow> 'v" where
  "dict_get d k v = (case map_of d k of None \<Rightarrow> v | Some x \<Rightarrow> x)"

definition dict_wf :: "('k, 'v) dict \<Rightarrow> bool" where
  "dict_wf d = distinct (map fst d)"

lemma dict_wf_Nil [simp, intro]: "dict_wf []"
  by (simp add: dict_wf_def)

lemma dict_wf_update [simp, intro]: "dict_wf d \<Longrightarrow> dict_wf (AList.update k v d)"
  by (simp add: dict_wf_def distinct_update)

lemma dict_wf_delete [simp, intro]: "dict_wf d \<Longrightarrow> dict_wf (AList.delete k d)"
  by (simp add: dict_wf_def distinct_delete)

lemma dict_get_Nil [simp]: "dict_get [] k v = v"
  by (simp add: dict_get_def)

lemma dict_get_update [dict_simps]:
  "dict_get (AList.update k x d) k' v = (if k' = k then x else dict_get d k' v)"
  by (simp add: dict_get_def update_conv)

lemma dict_get_delete [dict_simps]:
  "dict_get (AList.delete k d) k' v = (if k' = k then v else dict_get d k' v)"
  by (auto simp: dict_get_def delete_conv)

lemma dict_get_mem: "dict_get d k v \<noteq> v \<Longrightarrow> (k, dict_get d k v) \<in> set d"
  by (auto simp: dict_get_def split: option.splits dest: map_of_SomeD)

lemma dict_get_eq_mem: "dict_wf d \<Longrightarrow> (k, x) \<in> set d \<Longrightarrow> dict_get d k v = x"
  by (simp add: dict_get_def dict_wf_def)

lemma length_update_le: "length (AList.update k v d) \<le> Suc (length d)"
  by (induction d) auto

lemma length_update_mem: "k \<in> fst ` set d \<Longrightarrow> length (AList.update k v d) = length d"
  by (induction d) auto

lemma length_update_bound: "dict_get d k v \<noteq> v \<Longrightarrow> length (AList.update k x d) = length d"
  by (metis dict_get_mem fst_conv image_eqI length_update_mem)

lemma length_update_conv:
  "length (AList.update k v d) = (if k \<in> fst ` set d then length d else Suc (length d))"
  by (induction d) auto

lemma set_update_subset: "set (AList.update k v d) \<subseteq> insert (k, v) (set d)"
  by (induction d) auto

lemma set_delete_subset: "set (AList.delete k d) \<subseteq> set d"
  by (auto simp: AList.delete_eq)

lemma length_delete_le: "length (AList.delete k d) \<le> length d"
  by (simp add: AList.delete_eq)

text \<open>A dict comprehension: later pairs overwrite earlier ones.\<close>

definition dict_of :: "('k \<times> 'v) list \<Rightarrow> ('k, 'v) dict" where
  "dict_of ps = fold (\<lambda>(k, v) d. AList.update k v d) ps []"

lemma dict_wf_fold_update: "dict_wf d \<Longrightarrow> dict_wf (fold (\<lambda>(k, v) d. AList.update k v d) ps d)"
  by (induction ps arbitrary: d) auto

lemma dict_wf_dict_of [simp, intro]: "dict_wf (dict_of ps)"
  by (simp add: dict_of_def dict_wf_fold_update)

lemma set_dict_of: "set (dict_of ps) \<subseteq> set ps"
proof -
  have "set (fold (\<lambda>(k, v) d. AList.update k v d) ps d) \<subseteq> set ps \<union> set d" for d
  proof (induction ps arbitrary: d)
    case Nil
    then show ?case by simp
  next
    case (Cons p ps)
    then show ?case
      using set_update_subset [of "fst p" "snd p" d] by (cases p) fastforce
  qed
  then show ?thesis unfolding dict_of_def by force
qed

subsection \<open>Strings\<close>

text \<open>\<open>str.upper\<close>, \<open>str.lower\<close>, \<open>str.strip\<close>, \<open>str.startswith\<close> and \<open>str(int)\<close>, on ASCII text.\<close>

definition char_upper :: "char \<Rightarrow> char" where
  "char_upper c =
     (let n = of_char c :: nat in if 97 \<le> n \<and> n \<le> 122 then char_of (n - 32) else c)"

definition char_lower :: "char \<Rightarrow> char" where
  "char_lower c =
     (let n = of_char c :: nat in if 65 \<le> n \<and> n \<le> 90 then char_of (n + 32) else c)"

definition str_upper :: "string \<Rightarrow> string" where "str_upper = map char_upper"

definition str_lower :: "string \<Rightarrow> string" where "str_lower = map char_lower"

definition is_space :: "char \<Rightarrow> bool" where
  "is_space c = (let n = of_char c :: nat in n = 32 \<or> (9 \<le> n \<and> n \<le> 13) \<or> (28 \<le> n \<and> n \<le> 31))"

definition str_strip :: "string \<Rightarrow> string" where
  "str_strip s = rev (dropWhile is_space (rev (dropWhile is_space s)))"

definition startswith :: "string \<Rightarrow> string \<Rightarrow> bool" where
  "startswith s p = (take (length p) s = p)"

fun str_of_nat :: "nat \<Rightarrow> string" where
  "str_of_nat n =
     (if n < 10 then [char_of (48 + n)] else str_of_nat (n div 10) @ [char_of (48 + n mod 10)])"

declare str_of_nat.simps [simp del]

definition str_of_int :: "int \<Rightarrow> string" where
  "str_of_int i = (if i < 0 then CHR ''-'' # str_of_nat (nat (- i)) else str_of_nat (nat i))"

fun str_contains :: "string \<Rightarrow> string \<Rightarrow> bool" where
  "str_contains [] p = (p = [])"
| "str_contains (c # s) p = (startswith (c # s) p \<or> str_contains s p)"

fun str_join :: "string \<Rightarrow> string list \<Rightarrow> string" where
  "str_join sep [] = []"
| "str_join sep [s] = s"
| "str_join sep (s # t # ss) = s @ sep @ str_join sep (t # ss)"

fun str_split :: "char \<Rightarrow> string \<Rightarrow> string \<Rightarrow> string list" where
  "str_split sep acc [] = [rev acc]"
| "str_split sep acc (c # s) =
     (if c = sep then rev acc # str_split sep [] s else str_split sep (c # acc) s)"

fun digits_val :: "int \<Rightarrow> string \<Rightarrow> int" where
  "digits_val acc [] = acc"
| "digits_val acc (c # s) = digits_val (10 * acc + (of_char c - 48)) s"

definition is_digit :: "char \<Rightarrow> bool" where
  "is_digit c = (let n = of_char c :: nat in 48 \<le> n \<and> n \<le> 57)"

text \<open>SQLite's \<open>CAST(x AS INTEGER)\<close> of a text: its longest integer prefix, 0 when there is none.\<close>

definition sql_cast_int :: "string \<Rightarrow> int" where
  "sql_cast_int s =
     (case dropWhile is_space s of
        [] \<Rightarrow> 0
      | c # t \<Rightarrow>
          if c = CHR ''-'' then - digits_val 0 (takeWhile is_digit t)
          else if c = CHR ''+'' then digits_val 0 (takeWhile is_digit t)
          else digits_val 0 (takeWhile is_digit (c # t)))"

text \<open>Python's \<open>int(s)\<close> of a text; \<open>None\<close> is its \<open>ValueError\<close>.\<close>

definition py_int_of_str :: "string \<Rightarrow> int option" where
  "py_int_of_str s =
     (let t = str_strip s;
          neg = (take 1 t = ''-'');
          ds = (if take 1 t = ''-'' \<or> take 1 t = ''+'' then drop 1 t else t)
      in if ds = [] \<or> \<not> list_all is_digit ds then None
         else Some (if neg then - digits_val 0 ds else digits_val 0 ds))"

text \<open>A number is read back from the text it is written as.\<close>

lemma digits_val_append: "digits_val a (s @ [c]) = 10 * digits_val a s + (of_char c - 48)"
  by (induction s arbitrary: a) simp_all

lemma of_char_digit: "d < 10 \<Longrightarrow> (of_char (char_of (48 + d) :: char) :: nat) = 48 + d"
  by (simp add: take_bit_eq_mod)

lemma str_of_nat_digits: "list_all is_digit (str_of_nat n) \<and> str_of_nat n \<noteq> []"
proof -
  have "is_digit (char_of (48 + d))" if "d < 10" for d :: nat
    using that by (simp add: is_digit_def of_char_digit)
  then show ?thesis
    by (induction n rule: str_of_nat.induct) (subst (1 2) str_of_nat.simps, auto)
qed

lemma digits_val_str_of_nat: "digits_val 0 (str_of_nat n) = int n"
proof (induction n rule: str_of_nat.induct)
  case (1 n)
  have c: "(of_char (char_of (48 + d) :: char) :: int) = 48 + int d" if "d < 10" for d :: nat
    using of_char_digit [OF that] by (metis of_nat_add of_nat_numeral of_nat_of_char)
  show ?case
  proof (cases "n < 10")
    case True
    then show ?thesis by (subst str_of_nat.simps) (simp add: c)
  next
    case False
    then show ?thesis
      using 1 by (subst str_of_nat.simps) (simp add: digits_val_append c zdiv_int zmod_int)
  qed
qed

lemma digit_not_space: "is_digit c \<Longrightarrow> \<not> is_space c"
  by (auto simp: is_digit_def is_space_def Let_def)

lemma str_strip_id: "s \<noteq> [] \<Longrightarrow> \<not> is_space (hd s) \<Longrightarrow> \<not> is_space (last s) \<Longrightarrow> str_strip s = s"
  by (cases s) (auto simp: str_strip_def hd_rev dropWhile_eq_self_iff simp flip: hd_rev)

lemma py_int_of_str_of_int [simp]: "py_int_of_str (str_of_int i) = Some i"
proof -
  have digits: "list_all is_digit (str_of_nat n)" "str_of_nat n \<noteq> []" for n
    using str_of_nat_digits by auto
  have hd: "is_digit (hd (str_of_nat n))" "is_digit (last (str_of_nat n))" for n
    using digits [of n] by (auto simp: list_all_iff)
  have strip: "str_strip (str_of_int i) = str_of_int i"
    using digits hd digit_not_space
    by (intro str_strip_id) (auto simp: str_of_int_def is_space_def)
  have nosign: "take 1 (str_of_nat n) \<noteq> ''-''" "take 1 (str_of_nat n) \<noteq> ''+''" for n
    using digits(2) [of n] hd(1) [of n] by (cases "str_of_nat n"; auto simp: is_digit_def)+
  show ?thesis
    using digits nosign
    by (simp add: py_int_of_str_def strip Let_def digits_val_str_of_nat)
      (simp add: str_of_int_def digits_val_str_of_nat)
qed

lemma str_of_int_inject [simp]: "str_of_int i = str_of_int j \<longleftrightarrow> i = j"
  by (metis option.inject py_int_of_str_of_int)

subsection \<open>Tables\<close>

text \<open>
  \<open>UPDATE t SET f WHERE p\<close> rewrites the rows with \<open>p\<close>, and its \<open>rowcount\<close> is their number;
  \<open>SELECT .. WHERE p\<close> followed by \<open>fetchone\<close> is \<open>find p\<close>; \<open>SELECT COUNT(*)\<close> is \<open>sql_count\<close>;
  \<open>EXISTS\<close> is \<open>list_ex\<close>; \<open>DELETE\<close> keeps the other rows.
\<close>

definition sql_update :: "('r \<Rightarrow> bool) \<Rightarrow> ('r \<Rightarrow> 'r) \<Rightarrow> 'r list \<Rightarrow> 'r list" where
  "sql_update p f t = map (\<lambda>r. if p r then f r else r) t"

definition sql_count :: "('r \<Rightarrow> bool) \<Rightarrow> 'r list \<Rightarrow> nat" where
  "sql_count p t = length (filter p t)"

definition sql_delete :: "('r \<Rightarrow> bool) \<Rightarrow> 'r list \<Rightarrow> 'r list" where
  "sql_delete p t = filter (\<lambda>r. \<not> p r) t"

lemma sql_update_Nil [table_simps]: "sql_update p f [] = []"
  by (simp add: sql_update_def)

lemma sql_update_Cons [table_simps]:
  "sql_update p f (r # t) = (if p r then f r else r) # sql_update p f t"
  by (simp add: sql_update_def)

lemma sql_update_append [table_simps]: "sql_update p f (t @ u) = sql_update p f t @ sql_update p f u"
  by (simp add: sql_update_def)

lemma length_sql_update [simp, table_simps]: "length (sql_update p f t) = length t"
  by (simp add: sql_update_def)

lemma map_sql_update [table_simps]:
  "(\<And>r. p r \<Longrightarrow> g (f r) = g r) \<Longrightarrow> map g (sql_update p f t) = map g t"
  by (simp add: sql_update_def)

lemma in_sql_update:
  "r \<in> set (sql_update p f t) \<longleftrightarrow> (\<exists>q\<in>set t. r = (if p q then f q else q))"
  by (auto simp: sql_update_def)

lemma sql_count_0 [simp]: "sql_count p t = 0 \<longleftrightarrow> (\<forall>r\<in>set t. \<not> p r)"
  by (simp add: sql_count_def filter_empty_conv)

lemma sql_count_append [table_simps]: "sql_count p (t @ u) = sql_count p t + sql_count p u"
  by (simp add: sql_count_def)

lemma sql_count_Nil [table_simps]: "sql_count p [] = 0"
  by (simp add: sql_count_def)

lemma sql_count_Cons [table_simps]: "sql_count p (r # t) = (if p r then Suc (sql_count p t) else sql_count p t)"
  by (simp add: sql_count_def)

lemma sql_count_mono: "(\<And>r. r \<in> set t \<Longrightarrow> p r \<Longrightarrow> q r) \<Longrightarrow> sql_count p t \<le> sql_count q t"
  by (induction t) (auto simp: table_simps)

lemma sql_count_update_le:
  "(\<And>r. r \<in> set t \<Longrightarrow> u r \<Longrightarrow> p (f r) \<Longrightarrow> p r) \<Longrightarrow> sql_count p (sql_update u f t) \<le> sql_count p t"
  by (induction t) (auto simp: table_simps)

lemma find_Some_mem: "find p t = Some r \<Longrightarrow> r \<in> set t \<and> p r"
  by (metis find_Some_iff nth_mem)

lemma find_None_iff_all: "find p t = None \<longleftrightarrow> (\<forall>r\<in>set t. \<not> p r)"
  by (auto simp: find_None_iff)

text \<open>A key column without duplicates selects one row.\<close>

lemma find_key_eq:
  assumes "distinct (map k t)" and "r \<in> set t"
  shows "find (\<lambda>x. k x = k r) t = Some r"
  using assms by (induction t) (auto simp: image_iff)

lemma find_key_conv:
  assumes "distinct (map k t)"
  shows "find (\<lambda>x. k x = a) t = Some r \<longleftrightarrow> r \<in> set t \<and> k r = a"
  using find_key_eq [OF assms] find_Some_mem by fastforce

lemma sql_count_key_le1:
  assumes "distinct (map k t)"
  shows "sql_count (\<lambda>r. k r = a \<and> p r) t \<le> 1"
proof -
  have "filter (\<lambda>r. k r = a \<and> p r) t = [] \<or> (\<exists>r. filter (\<lambda>r. k r = a \<and> p r) t = [r])"
    using assms by (induction t) (auto simp: filter_empty_conv image_iff)
  then show ?thesis by (auto simp: sql_count_def)
qed

lemma sql_count_key_one:
  assumes "distinct (map k t)" and "r \<in> set t" and "p r"
  shows "sql_count (\<lambda>x. k x = k r \<and> p x) t = 1"
proof -
  have "sql_count (\<lambda>x. k x = k r \<and> p x) t \<noteq> 0"
    using assms(2,3) by auto
  then show ?thesis using sql_count_key_le1 [OF assms(1), of "k r" p] by linarith
qed

end
