(* ===== verification/Py_Float.thy ===== *)
theory Py_Float
  imports Prelude "HOL-Library.Log_Nat"
begin

text \<open>
  Python's \<open>float\<close>. A finite float is a rational number, and every arithmetic operation returns
  the exact result rounded to the nearest representable number, ties to even (IEEE 754 binary64:
  53 significant bits, subnormals down to $2^{-1074}$). \<open>fl\<close> is that rounding. Overflow to an
  infinity (results of $2^{1024}$ and more) is outside the model; the infinities and NaN do occur
  as input data, hence the type \<open>pyfloat\<close>.
\<close>

datatype pyfloat = Fin rat | PInf | NInf | NaN

fun isfinite :: "pyfloat \<Rightarrow> bool" where
  "isfinite (Fin x) = True"
| "isfinite _ = False"

fun isnan :: "pyfloat \<Rightarrow> bool" where
  "isnan NaN = True"
| "isnan _ = False"

text \<open>\<open>x > 0\<close>: false for NaN, as every comparison with it.\<close>

fun fpos :: "pyfloat \<Rightarrow> bool" where
  "fpos (Fin x) = (0 < x)"
| "fpos PInf = True"
| "fpos NInf = False"
| "fpos NaN = False"

subsection \<open>Rounding to binary64\<close>

definition pow2 :: "int \<Rightarrow> rat" where
  "pow2 k = (if 0 \<le> k then 2 ^ nat k else 1 / 2 ^ nat (- k))"

text \<open>\<open>ilog2 x\<close> is the integer \<open>k\<close> with \<open>pow2 k \<le> x < pow2 (k + 1)\<close>, for \<open>x > 0\<close>.\<close>

definition ilog2 :: "rat \<Rightarrow> int" where
  "ilog2 x =
     (let (a, b) = quotient_of x; k = bitlen a - bitlen b
      in if pow2 k \<le> x then k else k - 1)"

definition round_half_even :: "rat \<Rightarrow> int" where
  "round_half_even x =
     (let n = \<lfloor>x\<rfloor>; d = x - of_int n
      in if d < 1 / 2 then n else if 1 / 2 < d then n + 1 else if even n then n else n + 1)"

definition ulp_exp :: "rat \<Rightarrow> int" where
  "ulp_exp x = max (ilog2 x - 52) (- 1074)"

definition fl_pos :: "rat \<Rightarrow> rat" where
  "fl_pos x = (let e = ulp_exp x in of_int (round_half_even (x / pow2 e)) * pow2 e)"

definition fl :: "rat \<Rightarrow> rat" where
  "fl x = (if x = 0 then 0 else if 0 < x then fl_pos x else - fl_pos (- x))"

definition fadd :: "rat \<Rightarrow> rat \<Rightarrow> rat" where "fadd x y = fl (x + y)"
definition fsub :: "rat \<Rightarrow> rat \<Rightarrow> rat" where "fsub x y = fl (x - y)"
definition fmul :: "rat \<Rightarrow> rat \<Rightarrow> rat" where "fmul x y = fl (x * y)"
definition fdiv :: "rat \<Rightarrow> rat \<Rightarrow> rat" where "fdiv x y = fl (x / y)"

text \<open>\<open>float(n)\<close> of a Python integer, and \<open>int(x)\<close> of a finite float (towards zero).\<close>

definition float_of_int :: "int \<Rightarrow> rat" where "float_of_int n = fl (of_int n)"

definition int_of_float :: "rat \<Rightarrow> int" where
  "int_of_float x = (if 0 \<le> x then \<lfloor>x\<rfloor> else \<lceil>x\<rceil>)"

text \<open>
  \<open>x // y\<close> on floats, for \<open>y > 0\<close>, the way the interpreter computes it: the exact remainder
  \<open>fmod(x, y)\<close> first (it has the sign of \<open>x\<close>), then the quotient of what is left, then a
  correction towards the nearest integer.
\<close>

definition ffloordiv :: "rat \<Rightarrow> rat \<Rightarrow> rat" where
  "ffloordiv x y =
     (let m = x - y * of_int (int_of_float (x / y));
          d0 = fdiv (fsub x m) y;
          d = (if m < 0 then fsub d0 1 else d0);
          q = \<lfloor>d\<rfloor>
      in if d = 0 then 0
         else if 1 / 2 < d - of_int q then float_of_int (q + 1) else float_of_int q)"

subsection \<open>Properties of the rounding\<close>

lemma pow2_pos [simp]: "0 < pow2 k"
  by (simp add: pow2_def)

lemma pow2_nonneg [simp]: "0 \<le> pow2 k"
  by (rule less_imp_le) simp

lemma pow2_nonzero [simp]: "pow2 k \<noteq> 0"
  by (metis less_irrefl pow2_pos)

lemma pow2_powi: "pow2 k = 2 powi k"
  by (simp add: pow2_def power_int_def field_simps)

lemma pow2_add: "pow2 (j + k) = pow2 j * pow2 k"
  by (simp add: pow2_powi power_int_add)

lemma pow2_mono: "j \<le> k \<Longrightarrow> pow2 j \<le> pow2 k"
  by (simp add: pow2_powi power_int_increasing)

lemma pow2_of_nat: "0 \<le> k \<Longrightarrow> pow2 k = of_int (2 ^ nat k)"
  by (simp add: pow2_def)

lemma pow2_code [code]:
  "pow2 k = (if 0 \<le> k then of_int (2 ^ nat k) else 1 / of_int (2 ^ nat (- k)))"
  by (simp add: pow2_def)

lemma round_half_even_mono: "x \<le> y \<Longrightarrow> round_half_even x \<le> round_half_even y"
proof -
  assume le: "x \<le> y"
  then consider "\<lfloor>x\<rfloor> = \<lfloor>y\<rfloor>" | "\<lfloor>x\<rfloor> < \<lfloor>y\<rfloor>"
    using floor_mono [OF le] by fastforce
  then show ?thesis
  proof cases
    case 1
    then show ?thesis using le by (auto simp: round_half_even_def Let_def)
  next
    case 2
    then show ?thesis by (auto simp: round_half_even_def Let_def)
  qed
qed

lemma round_half_even_of_int [simp]: "round_half_even (of_int n) = n"
  by (simp add: round_half_even_def)

lemma ilog2_bounds:
  assumes "0 < x"
  shows "pow2 (ilog2 x) \<le> x \<and> x < pow2 (ilog2 x + 1)"
proof -
  obtain a b where q: "quotient_of x = (a, b)" by force
  then have b: "0 < b" and x: "x = of_int a / of_int b"
    by (auto simp: quotient_of_denom_pos quotient_of_div)
  with assms have a: "0 < a" by (simp add: zero_less_divide_iff)
  let ?k = "bitlen a - bitlen b"
  have bl: "1 \<le> bitlen a" "1 \<le> bitlen b"
    using a b by (simp_all add: bitlen_def floorlog_def)
  have lo: "pow2 (bitlen n - 1) \<le> of_int n" and hi: "of_int n < pow2 (bitlen n)"
    if "0 < n" "1 \<le> bitlen n" for n
  proof -
    from bitlen_bounds [OF that(1)]
    have *: "2 ^ nat (bitlen n - 1) \<le> n" "n < 2 ^ nat (bitlen n)" by auto
    show "pow2 (bitlen n - 1) \<le> of_int n" "of_int n < pow2 (bitlen n)"
      using * that(2) by (simp_all only: pow2_of_nat of_int_le_iff of_int_less_iff)
  qed
  have "x < pow2 (bitlen a) / pow2 (bitlen b - 1)"
    unfolding x using lo [OF b bl(2)] hi [OF a bl(1)] a b
    by (intro frac_less) auto
  also have "\<dots> = pow2 (?k + 1)"
    using pow2_add [of "?k + 1" "bitlen b - 1"] by simp
  finally have up: "x < pow2 (?k + 1)" .
  have "pow2 (bitlen a - 1) / pow2 (bitlen b) \<le> x"
    unfolding x using lo [OF a bl(1)] hi [OF b bl(2)] a b
    by (intro frac_le) auto
  moreover have "pow2 (bitlen a - 1) / pow2 (bitlen b) = pow2 (?k - 1)"
    using pow2_add [of "?k - 1" "bitlen b"] by simp
  ultimately have dn: "pow2 (?k - 1) \<le> x" by simp
  show ?thesis using up dn q by (simp add: ilog2_def Let_def)
qed

lemma pow2_ulp_dvd:
  assumes "ulp_exp x \<le> k"
  shows "pow2 k / pow2 (ulp_exp x) = of_int (2 ^ nat (k - ulp_exp x))"
  using assms pow2_add [of "k - ulp_exp x" "ulp_exp x"]
  by (simp add: pow2_of_nat [of "k - ulp_exp x"])

text \<open>A power of two on the grid of \<open>x\<close> separates what it rounds to.\<close>

lemma fl_pos_le_pow2:
  assumes "x \<le> pow2 k" and "ulp_exp x \<le> k"
  shows "fl_pos x \<le> pow2 k"
proof -
  have "x / pow2 (ulp_exp x) \<le> of_int (2 ^ nat (k - ulp_exp x))"
    using assms(1) by (simp only: pow2_ulp_dvd [OF assms(2), symmetric] divide_right_mono pow2_nonneg)
  then have "round_half_even (x / pow2 (ulp_exp x)) \<le> 2 ^ nat (k - ulp_exp x)"
    by (metis round_half_even_mono round_half_even_of_int)
  then have "of_int (round_half_even (x / pow2 (ulp_exp x))) \<le> pow2 k / pow2 (ulp_exp x)"
    by (simp only: pow2_ulp_dvd [OF assms(2)] of_int_le_iff)
  then show ?thesis by (simp add: fl_pos_def Let_def pos_le_divide_eq)
qed

lemma pow2_le_fl_pos:
  assumes "pow2 k \<le> x" and "ulp_exp x \<le> k"
  shows "pow2 k \<le> fl_pos x"
proof -
  have "of_int (2 ^ nat (k - ulp_exp x)) \<le> x / pow2 (ulp_exp x)"
    using assms(1) by (simp only: pow2_ulp_dvd [OF assms(2), symmetric] divide_right_mono pow2_nonneg)
  then have "2 ^ nat (k - ulp_exp x) \<le> round_half_even (x / pow2 (ulp_exp x))"
    by (metis round_half_even_mono round_half_even_of_int)
  then have "pow2 k / pow2 (ulp_exp x) \<le> of_int (round_half_even (x / pow2 (ulp_exp x)))"
    by (simp only: pow2_ulp_dvd [OF assms(2)] of_int_le_iff)
  then show ?thesis by (simp add: fl_pos_def Let_def pos_divide_le_eq)
qed

lemma fl_pos_nonneg: "0 \<le> x \<Longrightarrow> 0 \<le> fl_pos x"
  using round_half_even_mono [of 0 "x / pow2 (ulp_exp x)"] round_half_even_of_int [of 0]
  by (simp add: fl_pos_def Let_def)

lemma ilog2_mono:
  assumes "0 < x" and "x \<le> y"
  shows "ilog2 x \<le> ilog2 y"
proof (rule ccontr)
  assume "\<not> ?thesis"
  then have "pow2 (ilog2 y + 1) \<le> pow2 (ilog2 x)" by (intro pow2_mono) simp
  with ilog2_bounds [of x] ilog2_bounds [of y] assms show False by simp
qed

lemma fl_pos_mono:
  assumes "0 < x" and "x \<le> y"
  shows "fl_pos x \<le> fl_pos y"
proof (cases "ulp_exp x = ulp_exp y")
  case True
  have "round_half_even (x / pow2 (ulp_exp y)) \<le> round_half_even (y / pow2 (ulp_exp y))"
    using assms(2) by (intro round_half_even_mono divide_right_mono) auto
  with True show ?thesis by (simp add: fl_pos_def Let_def mult_right_mono)
next
  case False
  with ilog2_mono [OF assms] have "ilog2 x + 1 \<le> ilog2 y" "- 1074 < ulp_exp y"
    and *: "ulp_exp y = ilog2 y - 52" "ulp_exp x \<le> ilog2 y"
    by (auto simp: ulp_exp_def)
  then have "x \<le> pow2 (ilog2 y)"
    using ilog2_bounds [OF assms(1)] pow2_mono [of "ilog2 x + 1" "ilog2 y"] by simp
  then have "fl_pos x \<le> pow2 (ilog2 y)" using *(2) by (rule fl_pos_le_pow2)
  also have "\<dots> \<le> fl_pos y"
    using ilog2_bounds [of y] assms *(1) by (intro pow2_le_fl_pos) auto
  finally show ?thesis .
qed

lemma fl_0 [simp]: "fl 0 = 0"
  by (simp add: fl_def)

lemma fl_mono: "x \<le> y \<Longrightarrow> fl x \<le> fl y"
  using fl_pos_mono [of x y] fl_pos_mono [of "- y" "- x"] fl_pos_nonneg [of y]
    fl_pos_nonneg [of "- x"]
  by (auto simp: fl_def)

lemma fl_minus: "fl (- x) = - fl x"
  by (simp add: fl_def)

text \<open>
  A number with at most 53 significant bits is a float itself: rounding is idempotent, and
  integers below $2^{53}$ (share counts, for example) convert exactly.
\<close>

lemma ilog2_grid_le:
  assumes "0 < m" and "m < 2 ^ 53"
  shows "ilog2 (of_int m * pow2 e) \<le> 52 + e"
proof (rule ccontr)
  let ?y = "of_int m * pow2 e"
  assume "\<not> ?thesis"
  then have "pow2 (53 + e) \<le> pow2 (ilog2 ?y)" by (intro pow2_mono) simp
  also have "\<dots> \<le> ?y" using ilog2_bounds [of ?y] assms by simp
  finally have "pow2 53 \<le> of_int m" by (simp add: pow2_add)
  then have "(of_int (2 ^ 53) :: rat) \<le> of_int m" by (simp add: pow2_def)
  with assms(2) show False by (simp only: of_int_le_iff)
qed

lemma fl_pos_grid:
  assumes "0 < m" and "m < 2 ^ 53" and "- 1074 \<le> e"
  shows "fl_pos (of_int m * pow2 e) = of_int m * pow2 e"
proof -
  let ?y = "of_int m * pow2 e"
  let ?u = "ulp_exp ?y"
  have "?u \<le> e" using ilog2_grid_le [OF assms(1,2), of e] assms(3) by (simp add: ulp_exp_def)
  then have "?y / pow2 ?u = of_int (m * 2 ^ nat (e - ?u))"
    using pow2_ulp_dvd [of ?y e] by (simp add: field_simps)
  then have "of_int (round_half_even (?y / pow2 ?u)) = ?y / pow2 ?u"
    by (metis round_half_even_of_int)
  then show ?thesis by (simp add: fl_pos_def Let_def)
qed

lemma fl_of_int:
  assumes "\<bar>n\<bar> < 2 ^ 53"
  shows "fl (of_int n) = of_int n"
  using assms fl_pos_grid [of n 0] fl_pos_grid [of "- n" 0] by (auto simp: fl_def pow2_def)

text \<open>Evaluation takes the exact integers without computing an exponent.\<close>

lemma fl_code [code]:
  "fl x =
     (let (a, b) = quotient_of x
      in if b = 1 \<and> \<bar>a\<bar> < 9007199254740992 then x
         else if 0 < a then fl_pos x else - fl_pos (- x))"
proof -
  obtain a b where q: "quotient_of x = (a, b)" by force
  then have b: "0 < b" and x: "x = of_int a / of_int b"
    by (auto simp: quotient_of_denom_pos quotient_of_div)
  have "b = 1 \<Longrightarrow> \<bar>a\<bar> < 9007199254740992 \<Longrightarrow> fl x = x" using fl_of_int [of a] by (simp add: x)
  moreover have "a = 0 \<Longrightarrow> b = 1" using q by (simp add: x)
  moreover have "0 < x \<longleftrightarrow> 0 < a" "x = 0 \<longleftrightarrow> a = 0"
    using b by (simp_all add: x zero_less_divide_iff)
  ultimately show ?thesis by (auto simp: q fl_def)
qed

lemma fl_numeral: "(numeral n :: int) < 2 ^ 53 \<Longrightarrow> fl (numeral n) = numeral n"
  using fl_of_int [of "numeral n"] by simp

lemma fl_1 [simp]: "fl 1 = 1"
  using fl_of_int [of 1] by simp

lemma fl_pos_idem:
  assumes "0 < x"
  shows "fl (fl_pos x) = fl_pos x"
proof -
  let ?e = "ulp_exp x" and ?m = "round_half_even (x / pow2 (ulp_exp x))"
  have y: "fl_pos x = of_int ?m * pow2 ?e" by (simp add: fl_pos_def Let_def)
  have e: "- 1074 \<le> ?e" by (simp add: ulp_exp_def)
  have "x \<le> pow2 (53 + ?e)"
  proof -
    have "x < pow2 (ilog2 x + 1)" using ilog2_bounds [OF assms] by simp
    also have "\<dots> \<le> pow2 (53 + ?e)" by (rule pow2_mono) (simp add: ulp_exp_def)
    finally show ?thesis by simp
  qed
  then have "x / pow2 ?e \<le> pow2 53" by (simp add: pow2_add pos_divide_le_eq)
  then have "x / pow2 ?e \<le> of_int (2 ^ 53)" by (simp add: pow2_def)
  then have le: "?m \<le> 2 ^ 53" by (metis round_half_even_mono round_half_even_of_int)
  have ge: "0 \<le> ?m" using round_half_even_mono [of 0 "x / pow2 ?e"] round_half_even_of_int [of 0] assms by simp
  consider "?m = 0" | "0 < ?m" "?m < 2 ^ 53" | "?m = 2 ^ 53" using le ge by linarith
  then show ?thesis
  proof cases
    case 1
    then show ?thesis by (simp add: y)
  next
    case 2
    then show ?thesis using fl_pos_grid [OF 2 e] by (simp add: y fl_def)
  next
    case 3
    then have y': "fl_pos x = of_int (2 ^ 52) * pow2 (?e + 1)"
      by (simp add: y pow2_add pow2_def [of 1])
    show ?thesis using fl_pos_grid [of "2 ^ 52" "?e + 1"] e by (simp add: y' fl_def)
  qed
qed

lemma fl_idem [simp]: "fl (fl x) = fl x"
  using fl_pos_idem [of x] fl_pos_idem [of "- x"] fl_minus [of "fl_pos (- x)"]
  by (auto simp: fl_def)

lemma fl_float_ops [simp]:
  "fl (fadd x y) = fadd x y" "fl (fsub x y) = fsub x y"
  "fl (fmul x y) = fmul x y" "fl (fdiv x y) = fdiv x y"
  "fl (float_of_int n) = float_of_int n"
  by (simp_all add: fadd_def fsub_def fmul_def fdiv_def float_of_int_def)

lemma fadd_ge: "0 \<le> y \<Longrightarrow> fl x \<le> fadd x y"
  by (simp add: fadd_def fl_mono)

lemma fsub_le: "0 \<le> y \<Longrightarrow> fsub x y \<le> fl x"
  by (simp add: fsub_def fl_mono)

corollary float_of_int_exact: "\<bar>n\<bar> < 2 ^ 53 \<Longrightarrow> float_of_int n = of_int n"
  by (simp add: float_of_int_def fl_of_int)

subsection \<open>What the clients rely on\<close>

text \<open>
  The accounting lemmas of the development do not depend on the format: they use only that the
  rounding keeps the order of the exact results and keeps zero.
\<close>

locale monotone_rounding =
  fixes rnd :: "rat \<Rightarrow> rat"
  assumes rnd_mono: "x \<le> y \<Longrightarrow> rnd x \<le> rnd y"
    and rnd_zero: "rnd 0 = 0"
begin

lemma rnd_nonneg: "0 \<le> x \<Longrightarrow> 0 \<le> rnd x"
  using rnd_mono [of 0 x] by (simp add: rnd_zero)

lemma rnd_nonpos: "x \<le> 0 \<Longrightarrow> rnd x \<le> 0"
  using rnd_mono [of x 0] by (simp add: rnd_zero)

lemma rnd_diff_nonneg: "y \<le> x \<Longrightarrow> 0 \<le> rnd (x - y)"
  by (rule rnd_nonneg) simp

lemma rnd_add_nonneg: "0 \<le> x \<Longrightarrow> 0 \<le> y \<Longrightarrow> 0 \<le> rnd (x + y)"
  by (rule rnd_nonneg) simp

lemma rnd_mult_nonneg: "0 \<le> x \<Longrightarrow> 0 \<le> y \<Longrightarrow> 0 \<le> rnd (x * y)"
  by (rule rnd_nonneg) simp

lemma rnd_divide_nonneg: "0 \<le> x \<Longrightarrow> 0 \<le> y \<Longrightarrow> 0 \<le> rnd (x / y)"
  by (rule rnd_nonneg) simp

lemma rnd_add_mono: "x \<le> x' \<Longrightarrow> y \<le> y' \<Longrightarrow> rnd (x + y) \<le> rnd (x' + y')"
  by (rule rnd_mono) (rule add_mono)

lemma rnd_mult_mono: "x \<le> x' \<Longrightarrow> 0 \<le> y \<Longrightarrow> rnd (x * y) \<le> rnd (x' * y)"
  by (rule rnd_mono) (rule mult_right_mono)

end

interpretation b64: monotone_rounding fl
  by unfold_locales (simp_all add: fl_mono)

lemma fadd_nonneg [intro]: "0 \<le> x \<Longrightarrow> 0 \<le> y \<Longrightarrow> 0 \<le> fadd x y"
  by (simp add: fadd_def b64.rnd_add_nonneg)

lemma fsub_nonneg [intro]: "y \<le> x \<Longrightarrow> 0 \<le> fsub x y"
  by (simp add: fsub_def b64.rnd_diff_nonneg)

lemma fmul_nonneg [intro]: "0 \<le> x \<Longrightarrow> 0 \<le> y \<Longrightarrow> 0 \<le> fmul x y"
  by (simp add: fmul_def b64.rnd_mult_nonneg)

lemma fdiv_nonneg [intro]: "0 \<le> x \<Longrightarrow> 0 \<le> y \<Longrightarrow> 0 \<le> fdiv x y"
  by (simp add: fdiv_def b64.rnd_divide_nonneg)

lemma float_of_int_nonneg [intro]: "0 \<le> n \<Longrightarrow> 0 \<le> float_of_int n"
  by (simp add: float_of_int_def b64.rnd_nonneg)

lemma int_of_float_nonneg [intro]: "0 \<le> x \<Longrightarrow> 0 \<le> int_of_float x"
  by (simp add: int_of_float_def)

end
