(* ===== verification/Cost_Model.thy ===== *)
theory Cost_Model
  imports Py_Float
begin

text \<open>
  The A-share trading rules: \<open>backend/core/cost_model.py\<close> (commission, slippage and stamp duty of a
  fill, and how many shares an amount of cash buys) and \<open>backend/core/rules.py\<close> (round lots,
  trading days, the cash check before a buy). Dates are proleptic Gregorian ordinals, as
  \<open>date.toordinal\<close> gives them; a trading calendar is the list of its sessions.
\<close>

subsection \<open>The cost model\<close>

record cost_model =
  commission_rate :: rat
  slippage_rate :: rat
  stamp_duty_rate :: rat
  min_commission :: rat

definition CostModel :: cost_model where
  "CostModel = \<lparr>commission_rate = fl (3 / 10000), slippage_rate = fl (1 / 1000),
     stamp_duty_rate = fl (1 / 1000), min_commission = 5\<rparr>"

definition calc_buy_cost :: "cost_model \<Rightarrow> rat \<Rightarrow> int \<Rightarrow> rat" where
  "calc_buy_cost cm price shares =
     (let trade_amount = fmul price (float_of_int shares);
          commission = max (fmul trade_amount (commission_rate cm)) (min_commission cm);
          slippage = fmul trade_amount (slippage_rate cm)
      in fadd (fadd trade_amount commission) slippage)"

definition calc_sell_cost :: "cost_model \<Rightarrow> rat \<Rightarrow> int \<Rightarrow> rat" where
  "calc_sell_cost cm price shares =
     (let trade_amount = fmul price (float_of_int shares);
          commission = max (fmul trade_amount (commission_rate cm)) (min_commission cm);
          stamp_duty = fmul trade_amount (stamp_duty_rate cm);
          slippage = fmul trade_amount (slippage_rate cm)
      in fsub (fsub (fsub trade_amount commission) stamp_duty) slippage)"

definition calc_shares :: "cost_model \<Rightarrow> rat \<Rightarrow> rat \<Rightarrow> int" where
  "calc_shares cm capital price =
     (if price \<le> 0 \<or> capital \<le> 0 then 0
      else
        let all_rates = fadd (commission_rate cm) (slippage_rate cm);
            raw_shares = fdiv capital (fmul price (fadd 1 all_rates));
            min_commission_check =
              fmul (fmul price (fmul (ffloordiv raw_shares 100) 100)) (commission_rate cm);
            raw_shares' =
              (if 0 < min_commission_check \<and> min_commission_check < min_commission cm
               then fdiv (fsub capital (fsub (min_commission cm) min_commission_check))
                      (fmul price (fadd 1 (slippage_rate cm)))
               else raw_shares)
        in max (int_of_float (fmul (ffloordiv raw_shares' 100) 100)) 0)"

definition zero_cost :: cost_model where
  "zero_cost = \<lparr>commission_rate = 0, slippage_rate = 0, stamp_duty_rate = 0, min_commission = 0\<rparr>"

text \<open>The rates a cost model is built with are fractions of the amount, never negative.\<close>

definition cost_model_wf :: "cost_model \<Rightarrow> bool" where
  "cost_model_wf cm \<longleftrightarrow> 0 \<le> commission_rate cm \<and> 0 \<le> slippage_rate cm \<and>
     0 \<le> stamp_duty_rate cm \<and> 0 \<le> min_commission cm"

subsection \<open>Trading rules\<close>

definition round_lot :: "int \<Rightarrow> int" where
  "round_lot shares = max 0 ((shares div 100) * 100)"

definition weekday :: "int \<Rightarrow> int" where
  "weekday d = (d + 6) mod 7"

definition is_trading_day :: "int \<Rightarrow> int list option \<Rightarrow> bool" where
  "is_trading_day d calendar =
     (case calendar of Some days \<Rightarrow> d \<in> set days | None \<Rightarrow> weekday d < 5)"

text \<open>The \<open>while attempts < max_attempts\<close> loop, on the number of attempts left.\<close>

fun next_trading_day_loop :: "nat \<Rightarrow> int \<Rightarrow> int list option \<Rightarrow> int option" where
  "next_trading_day_loop 0 nxt calendar = None"
| "next_trading_day_loop (Suc n) nxt calendar =
     (if is_trading_day nxt calendar then Some nxt
      else next_trading_day_loop n (nxt + 1) calendar)"

definition next_trading_day :: "int \<Rightarrow> int list option \<Rightarrow> int" where
  "next_trading_day d calendar =
     (case next_trading_day_loop 30 (d + 1) calendar of Some r \<Rightarrow> r | None \<Rightarrow> d + 1)"

definition can_buy :: "rat \<Rightarrow> rat \<Rightarrow> int \<Rightarrow> cost_model \<Rightarrow> bool" where
  "can_buy cash price shares cm =
     (if price \<le> 0 \<or> shares \<le> 0 \<or> cash \<le> 0 then False
      else calc_buy_cost cm price shares \<le> cash)"

subsection \<open>Costs\<close>

lemma CostModel_wf: "cost_model_wf CostModel"
  by (simp add: cost_model_wf_def CostModel_def b64.rnd_nonneg)

lemma trade_amount_nonneg: "0 \<le> price \<Longrightarrow> 0 \<le> shares \<Longrightarrow> 0 \<le> fmul price (float_of_int shares)"
  by auto

lemma calc_buy_cost_ge_amount:
  assumes "cost_model_wf cm" and "0 \<le> price" and "0 \<le> shares"
  shows "fmul price (float_of_int shares) \<le> calc_buy_cost cm price shares"
proof -
  let ?a = "fmul price (float_of_int shares)"
  let ?c = "max (fmul ?a (commission_rate cm)) (min_commission cm)"
  let ?s = "fmul ?a (slippage_rate cm)"
  have a: "0 \<le> ?a" using assms(2,3) by (rule trade_amount_nonneg)
  have c: "0 \<le> ?c" "0 \<le> ?s" using assms(1) a by (auto simp: cost_model_wf_def)
  have "?a \<le> fadd ?a ?c" using fadd_ge [OF c(1), of ?a] by simp
  also have "\<dots> \<le> fadd (fadd ?a ?c) ?s" using fadd_ge [OF c(2), of "fadd ?a ?c"] by simp
  finally show ?thesis by (simp add: calc_buy_cost_def Let_def)
qed

lemma calc_sell_cost_le_amount:
  assumes "cost_model_wf cm" and "0 \<le> price" and "0 \<le> shares"
  shows "calc_sell_cost cm price shares \<le> fmul price (float_of_int shares)"
proof -
  let ?a = "fmul price (float_of_int shares)"
  let ?c = "max (fmul ?a (commission_rate cm)) (min_commission cm)"
  let ?d = "fmul ?a (stamp_duty_rate cm)"
  let ?s = "fmul ?a (slippage_rate cm)"
  have a: "0 \<le> ?a" using assms(2,3) by (rule trade_amount_nonneg)
  have c: "0 \<le> ?c" "0 \<le> ?d" "0 \<le> ?s" using assms(1) a by (auto simp: cost_model_wf_def)
  have "fsub (fsub (fsub ?a ?c) ?d) ?s \<le> fsub (fsub ?a ?c) ?d"
    using fsub_le [OF c(3), of "fsub (fsub ?a ?c) ?d"] by simp
  also have "\<dots> \<le> fsub ?a ?c" using fsub_le [OF c(2), of "fsub ?a ?c"] by simp
  also have "\<dots> \<le> ?a" using fsub_le [OF c(1), of ?a] by simp
  finally show ?thesis by (simp add: calc_sell_cost_def Let_def)
qed

text \<open>A sale for less than the minimum commission has negative proceeds.\<close>

lemma calc_sell_cost_negative:
  assumes "cost_model_wf cm" and "0 \<le> price" and "0 \<le> shares"
    and "fmul price (float_of_int shares) + 1 \<le> min_commission cm"
  shows "calc_sell_cost cm price shares < 0"
proof -
  let ?a = "fmul price (float_of_int shares)"
  let ?c = "max (fmul ?a (commission_rate cm)) (min_commission cm)"
  let ?d = "fmul ?a (stamp_duty_rate cm)"
  let ?s = "fmul ?a (slippage_rate cm)"
  have a: "0 \<le> ?a" using assms(2,3) by (rule trade_amount_nonneg)
  have c: "0 \<le> ?d" "0 \<le> ?s" using assms(1) a by (auto simp: cost_model_wf_def)
  have "?a - ?c \<le> - 1" using assms(4) by simp
  then have "fsub ?a ?c \<le> fl (- 1)" by (simp only: fsub_def fl_mono)
  then have "fsub ?a ?c \<le> - 1" using fl_minus [of 1] by simp
  moreover have "fsub (fsub (fsub ?a ?c) ?d) ?s \<le> fsub (fsub ?a ?c) ?d"
    using fsub_le [OF c(2), of "fsub (fsub ?a ?c) ?d"] by simp
  moreover have "fsub (fsub ?a ?c) ?d \<le> fsub ?a ?c" using fsub_le [OF c(1), of "fsub ?a ?c"] by simp
  ultimately show ?thesis by (simp add: calc_sell_cost_def Let_def)
qed

text \<open>A fill of more shares never costs less, whatever the rounding does on the way.\<close>

lemma calc_buy_cost_mono:
  assumes "cost_model_wf cm" and "0 \<le> price" and "0 \<le> m" and "m \<le> n"
  shows "calc_buy_cost cm price m \<le> calc_buy_cost cm price n"
proof -
  have f: "float_of_int m \<le> float_of_int n"
    using assms(4) by (simp add: float_of_int_def fl_mono)
  then have a: "fmul price (float_of_int m) \<le> fmul price (float_of_int n)"
    using assms(2) by (simp add: fmul_def fl_mono mult_left_mono)
  show ?thesis
    unfolding calc_buy_cost_def Let_def fadd_def
    using a assms(1)
    by (intro fl_mono add_mono max.mono order_refl)
       (auto simp: fmul_def cost_model_wf_def intro!: fl_mono mult_right_mono)
qed

subsection \<open>Share counts\<close>

lemma calc_shares_nonneg: "0 \<le> calc_shares cm capital price"
  by (simp add: calc_shares_def Let_def)

lemma if_float_of_int:
  "\<exists>k. (if c then 0 else if d then float_of_int m else float_of_int n) = float_of_int k"
  using float_of_int_exact [of 0] by (cases c; cases d) auto

lemma ffloordiv_integral: "\<exists>k. ffloordiv x y = float_of_int k"
  unfolding ffloordiv_def Let_def by (rule if_float_of_int)

text \<open>A float lot count times 100 is a whole number of lots as long as it is exact.\<close>

lemma lots_times_100:
  assumes "int_of_float (fmul (float_of_int k) 100) < 2 ^ 53"
    and "0 \<le> int_of_float (fmul (float_of_int k) 100)"
  shows "100 dvd int_of_float (fmul (float_of_int k) 100)"
proof (cases "\<bar>k * 100\<bar> < 2 ^ 53")
  case True
  then have k: "float_of_int k = of_int k" by (intro float_of_int_exact) simp
  have "fmul (float_of_int k) 100 = of_int (k * 100)"
    using fl_of_int [OF True] by (simp add: k fmul_def)
  then have "int_of_float (fmul (float_of_int k) 100) = k * 100"
    by (simp only: int_of_float_def floor_of_int ceiling_of_int if_cancel)
  then show ?thesis by simp
next
  case False
  then have "90071992547410 \<le> k \<or> k < 0" by (auto simp: abs_if split: if_splits)
  then consider "90071992547410 \<le> k" | "k < 0" by blast
  then show ?thesis
  proof cases
    case 1
    have "float_of_int 90071992547410 \<le> float_of_int k"
      using 1 by (simp add: float_of_int_def fl_mono)
    then have "fl (9007199254740992 :: rat) \<le> fmul (float_of_int k) 100"
      using float_of_int_exact [of 90071992547410] by (simp add: fmul_def fl_mono)
    moreover have "fl (9007199254740992 :: rat) = 9007199254740992" by code_simp
    ultimately have "9007199254740992 \<le> int_of_float (fmul (float_of_int k) 100)"
      by (simp add: int_of_float_def le_floor_iff)
    with assms(1) show ?thesis by simp
  next
    case 2
    then have "float_of_int k \<le> float_of_int (- 1)"
      by (simp add: float_of_int_def fl_mono del: of_int_minus of_int_1)
    then have "fmul (float_of_int k) 100 \<le> fl (- 100)"
      using float_of_int_exact [of "- 1"] by (simp add: fmul_def fl_mono)
    then have "fmul (float_of_int k) 100 \<le> - 100"
      using fl_of_int [of "- 100"] by simp
    then have "int_of_float (fmul (float_of_int k) 100) < 0"
      by (simp add: int_of_float_def)
    with assms(2) show ?thesis by simp
  qed
qed

lemma calc_shares_lots:
  assumes "calc_shares cm capital price < 2 ^ 53"
  shows "100 dvd calc_shares cm capital price"
proof (cases "price \<le> 0 \<or> capital \<le> 0")
  case True
  then show ?thesis by (auto simp: calc_shares_def)
next
  case False
  then have "\<exists>x. calc_shares cm capital price = max (int_of_float (fmul (ffloordiv x 100) 100)) 0"
    by (simp only: calc_shares_def Let_def if_False) (intro exI, rule refl)
  then obtain x where
    x: "calc_shares cm capital price = max (int_of_float (fmul (ffloordiv x 100) 100)) 0" ..
  obtain k where k: "ffloordiv x 100 = float_of_int k" using ffloordiv_integral by blast
  show ?thesis
    using assms lots_times_100 [of k] by (auto simp: x k max_def)
qed

text \<open>
  The share count never divides by zero: with non-negative rates both divisors stay at least the
  price, which is a positive float.
\<close>

lemma calc_shares_divisor_pos:
  assumes "0 \<le> r" and "0 < price" and "fl price = price"
  shows "0 < fmul price (fadd 1 r)"
proof -
  have "1 \<le> fadd 1 r" using fadd_ge [OF assms(1), of 1] by simp
  then have "price \<le> price * fadd 1 r" using assms(2) by simp
  then have "fl price \<le> fmul price (fadd 1 r)" by (simp add: fmul_def fl_mono)
  with assms show ?thesis by simp
qed

lemma round_lot_spec: "0 \<le> shares \<Longrightarrow> round_lot shares \<le> shares \<and> shares < round_lot shares + 100"
  by (simp add: round_lot_def) presburger

subsection \<open>Trading days\<close>

lemma next_trading_day_loop_Some:
  "next_trading_day_loop n d cal = Some r \<longleftrightarrow>
     d \<le> r \<and> r < d + int n \<and> is_trading_day r cal \<and> (\<forall>x. d \<le> x \<and> x < r \<longrightarrow> \<not> is_trading_day x cal)"
proof (induction n arbitrary: d)
  case 0
  then show ?case by simp
next
  case (Suc n)
  show ?case
  proof (cases "is_trading_day d cal")
    case True
    then have *: "(\<forall>x. d \<le> x \<and> x < r \<longrightarrow> \<not> is_trading_day x cal) \<longleftrightarrow> r \<le> d"
      by force
    show ?thesis unfolding * using True by auto
  next
    case False
    then have "(\<forall>x. d + 1 \<le> x \<and> x < r \<longrightarrow> \<not> is_trading_day x cal) \<longleftrightarrow>
        (\<forall>x. d \<le> x \<and> x < r \<longrightarrow> \<not> is_trading_day x cal)"
      by (metis add1_zle_eq order_le_less)
    moreover have "d + 1 \<le> r \<longleftrightarrow> d \<le> r" if "is_trading_day r cal"
      using that False by (cases "d = r") auto
    ultimately show ?thesis using False Suc.IH [of "d + 1"] by auto
  qed
qed

lemma next_trading_day_loop_None:
  "next_trading_day_loop n d cal = None \<longleftrightarrow>
     (\<forall>x. d \<le> x \<and> x < d + int n \<longrightarrow> \<not> is_trading_day x cal)"
proof (induction n arbitrary: d)
  case 0
  then show ?case by auto
next
  case (Suc n)
  have "(\<forall>x. d \<le> x \<and> x < d + int (Suc n) \<longrightarrow> \<not> is_trading_day x cal) \<longleftrightarrow>
      \<not> is_trading_day d cal \<and> (\<forall>x. d + 1 \<le> x \<and> x < d + 1 + int n \<longrightarrow> \<not> is_trading_day x cal)"
    (is "?l \<longleftrightarrow> ?r")
  proof
    show "?l \<Longrightarrow> ?r" by auto
    assume r: ?r
    show ?l
    proof (intro allI impI)
      fix x assume "d \<le> x \<and> x < d + int (Suc n)"
      then have "x = d \<or> d + 1 \<le> x \<and> x < d + 1 + int n" by auto
      with r show "\<not> is_trading_day x cal" by blast
    qed
  qed
  then show ?case using Suc.IH [of "d + 1"] by simp
qed

lemma weekday_soon: "\<exists>k\<in>{1..3}. weekday (d + k) < 5"
proof -
  have "(d + 7) mod 7 < 5 \<or> (d + 8) mod 7 < 5 \<or> (d + 9) mod 7 < 5" by presburger
  then have "weekday (d + 1) < 5 \<or> weekday (d + 2) < 5 \<or> weekday (d + 3) < 5"
    by (simp add: weekday_def algebra_simps)
  then show ?thesis by force
qed

subsection \<open>Properties of the trading rules\<close>

text \<open>
  \<open>calc_shares\<close> returns a whole number of 100-share lots, never negative, for every count
  below $2^{53}$ (beyond that the float product that the count is read from is itself rounded).
\<close>

theorem calc_shares_whole_lots:
  assumes "calc_shares cm capital price < 2 ^ 53"
  shows "0 \<le> calc_shares cm capital price \<and> round_lot (calc_shares cm capital price) = calc_shares cm capital price"
  using calc_shares_nonneg [of cm capital price] calc_shares_lots [OF assms]
  by (auto simp: round_lot_def)

text \<open>
  The next trading day is the first session strictly after \<open>d\<close> whenever the calendar has one
  within thirty days.
\<close>

theorem next_trading_day_first_session:
  assumes "is_trading_day s cal" and "d < s" and "s \<le> d + 30"
  shows "is_trading_day (next_trading_day d cal) cal \<and> d < next_trading_day d cal \<and>
    next_trading_day d cal \<le> s \<and> (\<forall>x. d < x \<and> x < next_trading_day d cal \<longrightarrow> \<not> is_trading_day x cal)"
proof -
  have "next_trading_day_loop 30 (d + 1) cal \<noteq> None"
    using assms by (auto simp: next_trading_day_loop_None intro!: exI [of _ s])
  then obtain r where r: "next_trading_day_loop 30 (d + 1) cal = Some r" by blast
  then have "next_trading_day d cal = r" by (simp add: next_trading_day_def)
  with r assms show ?thesis
    by (auto simp: next_trading_day_loop_Some) (metis linorder_not_less zless_imp_add1_zle)
qed

lemma calc_shares_2000: "calc_shares zero_cost 2055 10 = 200"
  by code_simp

theorem calc_shares_whole_lots_witness:
  "calc_shares zero_cost 2055 10 = 200 \<and> round_lot (calc_shares zero_cost 2055 10) = 200"
  using calc_shares_whole_lots [of zero_cost 2055 10] by (simp add: calc_shares_2000)

theorem next_trading_day_first_session_witness:
  "is_trading_day 738005 (Some [738001, 738005]) \<and> next_trading_day 738001 (Some [738001, 738005]) = 738005"
proof -
  have "is_trading_day 738005 (Some [738001, 738005])" by (simp add: is_trading_day_def)
  from next_trading_day_first_session [OF this, of 738001] this show ?thesis
    by (auto simp: is_trading_day_def)
qed

text \<open>Without a calendar the next weekday is at most three days away.\<close>

lemma next_weekday: "weekday (next_trading_day d None) < 5 \<and> next_trading_day d None \<le> d + 3"
proof -
  obtain k where k: "k \<in> {1..3}" "weekday (d + k) < 5" using weekday_soon [of d] by blast
  then have "next_trading_day_loop 30 (d + 1) None \<noteq> None"
    by (auto simp: next_trading_day_loop_None is_trading_day_def intro!: exI [of _ "d + k"])
  then obtain r where r: "next_trading_day_loop 30 (d + 1) None = Some r" by blast
  have "r \<le> d + k"
  proof (rule ccontr)
    assume "\<not> r \<le> d + k"
    with r k show False by (auto simp: next_trading_day_loop_Some is_trading_day_def)
  qed
  moreover have "next_trading_day d None = r" using r by (simp add: next_trading_day_def)
  ultimately show ?thesis using r k by (auto simp: next_trading_day_loop_Some is_trading_day_def)
qed

text \<open>
  The cash check agrees with the cost: \<open>can_buy\<close> holds exactly for a positive price, quantity
  and balance whose total cost the balance covers, and then the cost is at least the traded amount
  and no smaller quantity costs more.
\<close>

theorem can_buy_covers_cost:
  assumes "cost_model_wf cm" and "can_buy balance price shares cm"
  shows "0 < price \<and> 0 < shares \<and> fmul price (float_of_int shares) \<le> calc_buy_cost cm price shares \<and>
    calc_buy_cost cm price shares \<le> balance \<and>
    (\<forall>n. 0 < n \<and> n \<le> shares \<longrightarrow> can_buy balance price n cm)"
proof -
  from assms(2) have *: "0 < price" "0 < shares" "0 < balance" "calc_buy_cost cm price shares \<le> balance"
    by (auto simp: can_buy_def split: if_splits)
  have "can_buy balance price n cm" if "0 < n" "n \<le> shares" for n
    using calc_buy_cost_mono [OF assms(1), of price n shares] * that by (auto simp: can_buy_def)
  with * calc_buy_cost_ge_amount [OF assms(1), of price shares] show ?thesis by auto
qed

theorem can_buy_covers_cost_witness:
  "cost_model_wf CostModel \<and> can_buy 2000 10 100 CostModel \<and> calc_buy_cost CostModel 10 100 \<le> 2000"
proof -
  have "can_buy 2000 10 100 CostModel" by code_simp
  from can_buy_covers_cost [OF CostModel_wf this] this CostModel_wf show ?thesis by blast
qed

text \<open>
  \<open>calc_shares\<close> can return a count the capital does not cover: below the commission minimum it
  deducts only the difference to the computed commission and then leaves the commission out of the
  divisor, so 1005.9 of capital at a price of 10 is answered with 100 shares, which cost 1006.
\<close>

theorem calc_shares_can_exceed_capital:
  "\<exists>capital price. 0 < price \<and> 0 < calc_shares CostModel capital price \<and>
     capital < calc_buy_cost CostModel price (calc_shares CostModel capital price)"
proof -
  have "calc_shares CostModel (fl (10059 / 10)) 10 = 100" by code_simp
  moreover have "fl (10059 / 10) < calc_buy_cost CostModel 10 100" by code_simp
  ultimately show ?thesis by (intro exI [of _ "fl (10059 / 10)"] exI [of _ 10]) simp
qed

end
