(* ===== verification/Engine.thy ===== *)
theory Engine
  imports Cost_Model
begin

text \<open>
  The T+1 backtest engine, \<open>backend/core/engine.py\<close>, with the records of
  \<open>backend/core/types.py\<close>. Signals produced on one session are executed at the open of the next.
  The engine's loop over the sessions is split into the phases its body has, in order: forced
  exits of securities that left the universe, the optional monthly liquidation, SELL signals, the
  selection of BUY signals, the optional rebalancing sells, the buys, and the closing valuation.

  Sessions are date ordinals; the key \<open>''\<close> the code uses when there is no earlier session is
  \<open>None\<close>. A price table (\<open>pivot\<close>) maps each day to its row in one of the three shapes
  \<open>pivot.loc[day]\<close> can have.
\<close>

subsection \<open>Data\<close>

record signal_item =
  sig_code :: string
  sig_action :: string
  sig_score :: rat
  sig_weight :: rat

type_synonym date_key = "int option"

type_synonym signal_dict = "(date_key, signal_item list) dict"

record trade_record =
  t_date :: int
  t_signal_date :: date_key
  t_code :: string
  t_action :: string
  t_price :: rat
  t_shares :: int
  t_amount :: rat
  t_cost :: rat
  t_signal_strategy :: string
  t_signal_score :: rat

record position_snapshot =
  p_date :: int
  p_code :: string
  p_shares :: int
  p_avg_cost :: rat
  p_close_price :: rat
  p_market_value :: rat
  p_unrealized_pnl :: rat

record equity_record =
  e_date :: int
  e_equity :: rat
  e_cash :: rat

record backtest_result =
  equity_curve :: "equity_record list"
  trade_log :: "trade_record list"
  position_snapshots :: "position_snapshot list"
  final_equity :: rat
  signals_generated :: nat
  trades_executed :: nat

record execution_constraints =
  volume_participation :: "rat option"
  lot_size :: int

definition ExecutionConstraints :: "rat option \<Rightarrow> int \<Rightarrow> execution_constraints result" where
  "ExecutionConstraints participation lots =
     (if lots \<le> 0 then Inl (ValueError ''lot_size must be positive'')
      else if (case participation of None \<Rightarrow> False | Some p \<Rightarrow> \<not> (0 < p \<and> p \<le> 1))
      then Inl (ValueError ''volume_participation must be in (0, 1]'')
      else Inr \<lparr>volume_participation = participation, lot_size = lots\<rparr>)"

record portfolio_state =
  cash :: rat
  holdings :: "(string, int) dict"
  avg_costs :: "(string, rat) dict"
  last_closes :: "(string, rat) dict"

record engine =
  initial_capital :: rat
  eng_cost_model :: cost_model
  start_date :: int
  end_date :: int
  max_positions :: int
  rebalance_mode :: string
  portfolio_signal_mode :: string
  eng_constraints :: execution_constraints
  eligible_codes_by_date :: "(int, string list) dict option"

definition BacktestEngine_init ::
  "rat \<Rightarrow> cost_model \<Rightarrow> int \<Rightarrow> int \<Rightarrow> int \<Rightarrow> string \<Rightarrow> string \<Rightarrow> execution_constraints option \<Rightarrow>
   (int \<times> string list) list option \<Rightarrow> string \<Rightarrow> engine result" where
  "BacktestEngine_init capital cm start_d end_d positions rmode smode constraints eligible exit_policy =
     (if capital \<le> 0 then Inl (ValueError ''initial_capital must be positive'')
      else if positions \<le> 0 then Inl (ValueError ''max_positions must be positive'')
      else if rmode \<notin> {''signal_driven'', ''monthly_liquidate_compat''}
      then Inl (ValueError ''unsupported rebalance_mode'')
      else if smode \<notin> {''event_orders'', ''target_weights''}
      then Inl (ValueError ''unsupported portfolio_signal_mode'')
      else if exit_policy \<notin> {''research_next_session_open'', ''raw_effective_close_auction''}
      then Inl (ValueError ''unsupported membership_exit_policy'')
      else if exit_policy = ''raw_effective_close_auction''
      then Inl (ValueError ''raw_close_auction_execution_not_supported'')
      else Inr \<lparr>initial_capital = capital, eng_cost_model = cm, start_date = start_d,
        end_date = end_d, max_positions = positions, rebalance_mode = rmode,
        portfolio_signal_mode = smode,
        eng_constraints = (case constraints of Some c \<Rightarrow> c
          | None \<Rightarrow> \<lparr>volume_participation = None, lot_size = 100\<rparr>),
        eligible_codes_by_date = map_option dict_of eligible\<rparr>)"

subsection \<open>Reading prices\<close>

text \<open>
  \<open>pivot.loc[day]\<close>: a frame with named columns, a series indexed by \<open>(code, field)\<close>, or a series
  indexed by the code alone.
\<close>

datatype pivot_row =
    FrameRow "(string \<times> (string \<times> pyfloat) list) list"
  | MultiRow "((string \<times> string) \<times> pyfloat) list"
  | FlatRow "(string \<times> pyfloat) list"

type_synonym pivot = "(int, pivot_row) dict"

type_synonym prices = "(string, pyfloat) dict"

definition dropna :: "(string \<times> pyfloat) list \<Rightarrow> prices" where
  "dropna ps = dict_of (filter (\<lambda>(c, v). \<not> isnan v) ps)"

definition get_optional_field :: "pivot \<Rightarrow> int \<Rightarrow> string \<Rightarrow> prices option" where
  "get_optional_field pv day field_name =
     (case map_of pv day of
        None \<Rightarrow> None
      | Some (FrameRow columns) \<Rightarrow>
          (case filter (\<lambda>(c, s). str_lower c = str_lower field_name) columns of
             [] \<Rightarrow> None
           | (c, series) # _ \<Rightarrow> Some (dropna series))
      | Some (MultiRow entries) \<Rightarrow>
          (let matching = map (\<lambda>((code, f), v). (code, v))
                 (filter (\<lambda>((code, f), v). str_lower f = str_lower field_name) entries)
           in if matching = [] then None else Some (dropna matching))
      | Some (FlatRow _) \<Rightarrow> None)"

definition get_field :: "pivot \<Rightarrow> int \<Rightarrow> string \<Rightarrow> prices" where
  "get_field pv day field_name =
     (case get_optional_field pv day field_name of None \<Rightarrow> [] | Some d \<Rightarrow> d)"

definition get_close :: "pivot \<Rightarrow> int \<Rightarrow> prices" where
  "get_close pv day =
     (case get_optional_field pv day ''close'' of
        Some closes \<Rightarrow> dict_of (filter (\<lambda>(c, v). fpos v \<and> isfinite v) closes)
      | None \<Rightarrow>
          (case map_of pv day of
             Some (FlatRow entries) \<Rightarrow>
               dict_of (filter (\<lambda>(c, v). \<not> isnan v \<and> fpos v \<and> isfinite v) entries)
           | _ \<Rightarrow> []))"

definition get_trading_days :: "engine \<Rightarrow> pivot \<Rightarrow> int list" where
  "get_trading_days eng pv =
     filter (\<lambda>d. start_date eng \<le> d \<and> d \<le> end_date eng) (sort (remdups (map fst pv)))"

definition valid_price :: "pyfloat option \<Rightarrow> bool" where
  "valid_price p = (case p of None \<Rightarrow> False | Some v \<Rightarrow> isfinite v \<and> fpos v)"

text \<open>The number behind a price that passed \<open>valid_price\<close>.\<close>

fun price_value :: "pyfloat option \<Rightarrow> rat" where
  "price_value (Some (Fin x)) = x"
| "price_value _ = 0"

subsection \<open>Sizing and selling\<close>

definition executable_shares ::
  "engine \<Rightarrow> string \<Rightarrow> int \<Rightarrow> prices option \<Rightarrow> int" where
  "executable_shares eng code requested_shares volumes =
     (let lot = lot_size (eng_constraints eng);
          requested = requested_shares div lot * lot;
          volume = (case volumes of None \<Rightarrow> None | Some vs \<Rightarrow> map_of vs code)
      in if requested_shares \<le> 0 then 0
         else if requested \<le> 0 then 0
         else if volumes \<noteq> None \<and>
           (case volume of None \<Rightarrow> True | Some v \<Rightarrow> \<not> isfinite v \<or> \<not> fpos v) then 0
         else
           (case volume_participation (eng_constraints eng) of
              None \<Rightarrow> requested
            | Some participation \<Rightarrow>
                (case volume of
                   None \<Rightarrow> 0
                 | Some v \<Rightarrow>
                     (let volume_cap = int_of_float (fmul (price_value (Some v)) participation)
                            div lot * lot
                      in min requested (max volume_cap 0)))))"

definition round_lot_eng :: "engine \<Rightarrow> int \<Rightarrow> int" where
  "round_lot_eng eng shares =
     (let lot = lot_size (eng_constraints eng) in max (shares div lot * lot) 0)"

definition buy_is_eligible :: "engine \<Rightarrow> string \<Rightarrow> date_key \<Rightarrow> int \<Rightarrow> bool" where
  "buy_is_eligible eng code signal_date execution_date =
     (case eligible_codes_by_date eng of
        None \<Rightarrow> True
      | Some by_date \<Rightarrow>
          (case (Option.bind signal_date (map_of by_date), map_of by_date execution_date) of
             (Some signal_members, Some execution_members) \<Rightarrow>
               code \<in> set signal_members \<and> code \<in> set execution_members
           | _ \<Rightarrow> False))"

definition execute_sell ::
  "engine \<Rightarrow> portfolio_state \<Rightarrow> string \<Rightarrow> int \<Rightarrow> pyfloat option \<Rightarrow> prices option \<Rightarrow> int \<Rightarrow>
   date_key \<Rightarrow> string \<Rightarrow> rat \<Rightarrow> portfolio_state \<times> trade_record option" where
  "execute_sell eng st code requested_shares execution_price volumes date signal_date strategy_id score =
     (let held = dict_get (holdings st) code 0
      in if held \<le> 0 \<or> \<not> valid_price execution_price then (st, None)
         else
           let price = price_value execution_price;
               shares = executable_shares eng code (min requested_shares held) volumes
           in if shares \<le> 0 then (st, None)
              else
                let proceeds = calc_sell_cost (eng_cost_model eng) price shares;
                    remaining = held - shares;
                    st1 = st\<lparr>cash := fadd (cash st) proceeds\<rparr>;
                    st2 = (if 0 < remaining
                           then st1\<lparr>holdings := AList.update code remaining (holdings st)\<rparr>
                           else st1\<lparr>holdings := AList.delete code (holdings st),
                                    avg_costs := AList.delete code (avg_costs st),
                                    last_closes := AList.delete code (last_closes st)\<rparr>);
                    amount = fmul price (float_of_int shares)
                in (st2, Some \<lparr>t_date = date, t_signal_date = signal_date, t_code = code,
                      t_action = ''SELL'', t_price = price, t_shares = shares,
                      t_amount = amount, t_cost = fsub amount proceeds,
                      t_signal_strategy = strategy_id, t_signal_score = score\<rparr>))"

text \<open>What one session works on: its dates and the day's prices.\<close>

record session =
  s_today :: int
  s_signal_date :: date_key
  s_open :: prices
  s_close :: prices
  s_volumes :: "prices option"

type_synonym book = "portfolio_state \<times> trade_record list"

text \<open>\<open>trade = self._execute_sell(...); if trade is not None: trade_log.append(trade)\<close>\<close>

definition sell_into ::
  "engine \<Rightarrow> session \<Rightarrow> string \<Rightarrow> string \<Rightarrow> rat \<Rightarrow> int \<Rightarrow> book \<Rightarrow> book" where
  "sell_into eng ses code strategy score requested b =
     (case execute_sell eng (fst b) code requested (map_of (s_open ses) code) (s_volumes ses)
             (s_today ses) (s_signal_date ses) strategy score of
        (st, None) \<Rightarrow> (st, snd b)
      | (st, Some t) \<Rightarrow> (st, snd b @ [t]))"

definition sell_whole ::
  "engine \<Rightarrow> session \<Rightarrow> string \<Rightarrow> rat \<Rightarrow> string \<Rightarrow> book \<Rightarrow> book" where
  "sell_whole eng ses strategy score code b =
     sell_into eng ses code strategy score (dict_get (holdings (fst b)) code 0) b"

subsection \<open>The phases of a session\<close>

text \<open>Securities that left the point-in-time universe are sold at this open.\<close>

definition forced_exits :: "engine \<Rightarrow> session \<Rightarrow> book \<Rightarrow> book result" where
  "forced_exits eng ses b =
     (case eligible_codes_by_date eng of
        None \<Rightarrow> Inr b
      | Some by_date \<Rightarrow>
          (case map_of by_date (s_today ses) of
             None \<Rightarrow> Inl (ValueError ''point-in-time execution eligibility date is missing'')
           | Some eligible_today \<Rightarrow>
               Inr (fold (sell_whole eng ses ''point_in_time_universe_exit'' 0)
                 (sort (filter (\<lambda>c. c \<notin> set eligible_today) (map fst (holdings (fst b))))) b)))"

definition monthly_liquidation :: "engine \<Rightarrow> session \<Rightarrow> bool \<Rightarrow> book \<Rightarrow> book" where
  "monthly_liquidation eng ses first_session_of_month b =
     (if rebalance_mode eng = ''monthly_liquidate_compat'' \<and> first_session_of_month
      then fold (sell_whole eng ses ''monthly_liquidate_compat'' 0) (map fst (holdings (fst b))) b
      else b)"

definition sell_signals :: "engine \<Rightarrow> session \<Rightarrow> string \<Rightarrow> signal_item list \<Rightarrow> book \<Rightarrow> book" where
  "sell_signals eng ses strategy_id today_signals b =
     fold (\<lambda>s. sell_whole eng ses strategy_id (sig_score s) (sig_code s))
       (filter (\<lambda>s. str_upper (sig_action s) = ''SELL'') today_signals) b"

text \<open>
  BUY candidates, best score first (Python's sort is stable, also with \<open>reverse=True\<close>), the first
  signal of each code, at most \<open>max_positions\<close> of them.
\<close>

fun select_buys :: "int \<Rightarrow> signal_item list \<Rightarrow> signal_item list \<Rightarrow> signal_item list" where
  "select_buys limit acc [] = acc"
| "select_buys limit acc (s # ss) =
     (if sig_code s \<in> set (map sig_code acc) then select_buys limit acc ss
      else let acc' = acc @ [s]
           in if limit \<le> int (length acc') then acc' else select_buys limit acc' ss)"

definition buy_signals :: "engine \<Rightarrow> session \<Rightarrow> signal_item list \<Rightarrow> signal_item list" where
  "buy_signals eng ses today_signals =
     select_buys (max_positions eng) []
       (sort_key (\<lambda>s. - sig_score s)
         (filter (\<lambda>s. str_upper (sig_action s) = ''BUY'' \<and>
            buy_is_eligible eng (sig_code s) (s_signal_date ses) (s_today ses)) today_signals))"

definition target_weights :: "signal_item list \<Rightarrow> rat list" where
  "target_weights signals =
     (if signals = [] then []
      else
        let weights = map (\<lambda>s. max (sig_weight s) 0) signals;
            weight_sum = foldl fadd 0 weights
        in if weight_sum \<le> 0
           then replicate (length signals) (fdiv 1 (float_of_int (int (length signals))))
           else if fl (1000001 / 1000000) < weight_sum
           then map (\<lambda>w. fdiv w weight_sum) weights
           else weights)"

definition portfolio_equity_at_open :: "portfolio_state \<Rightarrow> prices \<Rightarrow> rat" where
  "portfolio_equity_at_open st open_prices =
     fadd (cash st)
       (foldl (\<lambda>mv (code, shares).
          (let price = (case map_of open_prices code of
                          Some p \<Rightarrow> p | None \<Rightarrow> Fin (dict_get (last_closes st) code 0))
           in if fpos price \<and> isfinite price
              then fadd mv (fmul (price_value (Some price)) (float_of_int shares)) else mv))
         0 (holdings st))"

text \<open>\<open>portfolio_signal_mode="target_weights"\<close>: sell what is held beyond its target.\<close>

definition rebalance_one ::
  "engine \<Rightarrow> session \<Rightarrow> string \<Rightarrow> rat \<Rightarrow> (string, rat) dict \<Rightarrow> string \<times> int \<Rightarrow> book \<Rightarrow> book" where
  "rebalance_one eng ses strategy_id portfolio_equity weights_by_code ch b =
     (let (code, held_shares) = ch; execution_price = map_of (s_open ses) code
      in if \<not> valid_price execution_price then b
         else
           let target_value = fmul portfolio_equity (dict_get weights_by_code code 0);
               target_shares = round_lot_eng eng
                 (int_of_float (fdiv target_value (price_value execution_price)));
               excess_shares = max (held_shares - target_shares) 0
           in if excess_shares \<le> 0 then b
              else sell_into eng ses code strategy_id 0 excess_shares b)"

definition rebalance_sells ::
  "engine \<Rightarrow> session \<Rightarrow> string \<Rightarrow> signal_item list \<Rightarrow> rat list \<Rightarrow> rat \<Rightarrow> book \<Rightarrow> book" where
  "rebalance_sells eng ses strategy_id signals weights portfolio_equity b =
     (if portfolio_signal_mode eng = ''target_weights''
      then fold (rebalance_one eng ses strategy_id portfolio_equity
             (dict_of (zip (map sig_code signals) weights))) (holdings (fst b)) b
      else b)"

text \<open>
  The \<open>while executable_shares > 0 and total_cost > state.cash\<close> loop. A lot size is positive
  (\<open>ExecutionConstraints\<close> refuses any other), which is why the loop ends.
\<close>

function shrink_to_cash :: "engine \<Rightarrow> rat \<Rightarrow> rat \<Rightarrow> int \<Rightarrow> int" where
  "shrink_to_cash eng available price shares =
     (if 0 < shares \<and> available < calc_buy_cost (eng_cost_model eng) price shares \<and>
         0 < lot_size (eng_constraints eng)
      then shrink_to_cash eng available price (shares - lot_size (eng_constraints eng))
      else shares)"
  by pat_completeness auto
termination
  by (relation "measure (\<lambda>(eng, available, price, shares). nat shares)") auto

declare shrink_to_cash.simps [simp del]

definition buy_one ::
  "engine \<Rightarrow> session \<Rightarrow> string \<Rightarrow> rat \<Rightarrow> signal_item \<times> rat \<Rightarrow> book \<Rightarrow> book" where
  "buy_one eng ses strategy_id portfolio_equity sw b =
     (let (signal, target_weight) = sw;
          (st, log) = b;
          code = sig_code signal;
          execution_price = map_of (s_open ses) code
      in if \<not> 0 < dict_get (holdings st) code 0 \<and> max_positions eng \<le> int (length (holdings st))
         then b
         else if \<not> valid_price execution_price then b
         else
           let price = price_value execution_price;
               current_value = fmul price (float_of_int (dict_get (holdings st) code 0));
               allocated_cash = min (cash st)
                 (max (fsub (fmul portfolio_equity target_weight) current_value) 0);
               requested_shares = calc_shares (eng_cost_model eng) allocated_cash price;
               executable = executable_shares eng code requested_shares (s_volumes ses)
           in if executable \<le> 0 then b
              else
                let shares = shrink_to_cash eng (cash st) price executable;
                    total_cost = calc_buy_cost (eng_cost_model eng) price shares
                in if shares \<le> 0 then b
                   else
                     let old_shares = dict_get (holdings st) code 0;
                         old_cost = dict_get (avg_costs st) code 0;
                         new_shares = old_shares + shares;
                         amount = fmul price (float_of_int shares)
                     in (st\<lparr>cash := fsub (cash st) total_cost,
                            holdings := AList.update code new_shares (holdings st),
                            avg_costs := AList.update code
                              (fdiv (fadd (fmul old_cost (float_of_int old_shares)) total_cost)
                                 (float_of_int new_shares)) (avg_costs st)\<rparr>,
                         log @ [\<lparr>t_date = s_today ses, t_signal_date = s_signal_date ses,
                           t_code = code, t_action = ''BUY'', t_price = price, t_shares = shares,
                           t_amount = amount, t_cost = fsub total_cost amount,
                           t_signal_strategy = strategy_id, t_signal_score = sig_score signal\<rparr>]))"

definition buy_phase :: "engine \<Rightarrow> session \<Rightarrow> string \<Rightarrow> signal_item list \<Rightarrow> book \<Rightarrow> book" where
  "buy_phase eng ses strategy_id today_signals b =
     (let signals = buy_signals eng ses today_signals;
          weights = target_weights signals
      in if signals = [] then b
         else
           let portfolio_equity = portfolio_equity_at_open (fst b) (s_open ses);
               b' = rebalance_sells eng ses strategy_id signals weights portfolio_equity b
           in fold (buy_one eng ses strategy_id portfolio_equity) (zip signals weights) b')"

text \<open>Closing valuation: remember valid closes, value every holding, snapshot it.\<close>

definition mark_one ::
  "session \<Rightarrow> string \<times> int \<Rightarrow> portfolio_state \<times> rat \<times> position_snapshot list \<Rightarrow>
   portfolio_state \<times> rat \<times> position_snapshot list" where
  "mark_one ses ch acc =
     (let (code, shares) = ch;
          (st, total, snaps) = acc;
          current_close = map_of (s_close ses) code;
          st' = (if valid_price current_close
                 then st\<lparr>last_closes := AList.update code (price_value current_close) (last_closes st)\<rparr>
                 else st);
          close_price = dict_get (last_closes st') code 0
      in if close_price \<le> 0 then (st', total, snaps)
         else
           let market_value = fmul close_price (float_of_int shares);
               average_cost = dict_get (avg_costs st') code close_price
           in (st', fadd total market_value,
               snaps @ [\<lparr>p_date = s_today ses, p_code = code, p_shares = shares,
                 p_avg_cost = average_cost, p_close_price = close_price,
                 p_market_value = market_value,
                 p_unrealized_pnl = fmul (fsub close_price average_cost) (float_of_int shares)\<rparr>]))"

definition mark_to_market ::
  "session \<Rightarrow> portfolio_state \<Rightarrow> portfolio_state \<times> rat \<times> position_snapshot list" where
  "mark_to_market ses st = fold (mark_one ses) (holdings st) (st, 0, [])"

subsection \<open>The run\<close>

record run_state =
  r_book :: book
  r_snapshots :: "position_snapshot list"
  r_equity :: "equity_record list"
  r_signals_count :: nat

text \<open>\<open>(today.year, today.month)\<close> of an ordinal, as \<open>datetime\<close> computes it.\<close>

definition days_before_month :: "bool \<Rightarrow> int \<Rightarrow> int" where
  "days_before_month leap m =
     [0, 0, 31, 59, 90, 120, 151, 181, 212, 243, 273, 304, 334] ! nat m
       + (if 2 < m \<and> leap then 1 else 0)"

definition year_month :: "int \<Rightarrow> int \<times> int" where
  "year_month ordinal =
     (let n = ordinal - 1;
          n400 = n div 146097; n = n mod 146097;
          n100 = n div 36524; n = n mod 36524;
          n4 = n div 1461; n = n mod 1461;
          n1 = n div 365; n = n mod 365;
          year = n400 * 400 + 1 + n100 * 100 + n4 * 4 + n1
      in if n1 = 4 \<or> n100 = 4 then (year - 1, 12)
         else
           let leap = (n1 = 3 \<and> (n4 \<noteq> 24 \<or> n100 = 3));
               month = (n + 50) div 32
           in if days_before_month leap month > n then (year, month - 1) else (year, month))"

definition session_at :: "pivot \<Rightarrow> date_key \<Rightarrow> int \<Rightarrow> session" where
  "session_at prices signal_date today =
     \<lparr>s_today = today, s_signal_date = signal_date,
      s_open = get_field prices today ''open'',
      s_close = get_close prices today,
      s_volumes = get_optional_field prices today ''volume''\<rparr>"

definition run_session ::
  "engine \<Rightarrow> signal_dict \<Rightarrow> pivot \<Rightarrow> string \<Rightarrow> date_key \<Rightarrow> bool \<Rightarrow> int \<Rightarrow> run_state \<Rightarrow> run_state result" where
  "run_session eng signals prices strategy_id signal_date first_session_of_month today rs =
     (let ses = session_at prices signal_date today;
          today_signals = dict_get signals signal_date []
      in rbind (forced_exits eng ses (r_book rs)) (\<lambda>b1.
           let b2 = monthly_liquidation eng ses first_session_of_month b1;
               b3 = sell_signals eng ses strategy_id today_signals b2;
               (st, log) = buy_phase eng ses strategy_id today_signals b3;
               (st', total_market_value, snaps) = mark_to_market ses st
           in Inr \<lparr>r_book = (st', log),
                r_snapshots = r_snapshots rs @ snaps,
                r_equity = r_equity rs @
                  [\<lparr>e_date = today, e_equity = fadd (cash st') total_market_value, e_cash = cash st'\<rparr>],
                r_signals_count = r_signals_count rs + length today_signals\<rparr>))"

fun run_days ::
  "engine \<Rightarrow> signal_dict \<Rightarrow> pivot \<Rightarrow> string \<Rightarrow> date_key \<Rightarrow> (int \<times> int) option \<Rightarrow> int list \<Rightarrow>
   run_state \<Rightarrow> run_state result" where
  "run_days eng signals prices strategy_id signal_date previous_month [] rs = Inr rs"
| "run_days eng signals prices strategy_id signal_date previous_month (today # days) rs =
     rbind (run_session eng signals prices strategy_id signal_date
             (previous_month \<noteq> Some (year_month today)) today rs)
       (run_days eng signals prices strategy_id (Some today) (Some (year_month today)) days)"

definition run ::
  "engine \<Rightarrow> signal_dict \<Rightarrow> pivot \<Rightarrow> string \<Rightarrow> pivot option \<Rightarrow> backtest_result result" where
  "run eng signals pv strategy_id execution_pivot =
     (case get_trading_days eng pv of
        [] \<Rightarrow> Inr \<lparr>equity_curve = [], trade_log = [], position_snapshots = [],
               final_equity = initial_capital eng, signals_generated = 0, trades_executed = 0\<rparr>
      | first # rest \<Rightarrow>
          (let trading_days = first # rest;
               execution_prices = (case execution_pivot of Some p \<Rightarrow> p | None \<Rightarrow> pv);
               prior_days = filter (\<lambda>d. d < first) (sort (remdups (map fst pv)));
               signal_day = (if prior_days = [] then None else Some (last prior_days));
               init = \<lparr>r_book = (\<lparr>cash = initial_capital eng, holdings = [], avg_costs = [],
                          last_closes = []\<rparr>, []),
                        r_snapshots = [],
                        r_equity = [\<lparr>e_date = first - 1, e_equity = initial_capital eng,
                          e_cash = initial_capital eng\<rparr>],
                        r_signals_count = 0\<rparr>
           in if (case execution_pivot of None \<Rightarrow> False
                  | Some p \<Rightarrow> \<exists>d\<in>set trading_days. d \<notin> set (map fst p))
              then Inl (ValueError ''raw execution price role is missing research sessions'')
              else rbind (run_days eng signals execution_prices strategy_id signal_day None trading_days init)
                (\<lambda>rs. Inr \<lparr>equity_curve = r_equity rs, trade_log = snd (r_book rs),
                   position_snapshots = r_snapshots rs,
                   final_equity = e_equity (last (r_equity rs)),
                   signals_generated = r_signals_count rs,
                   trades_executed = length (snd (r_book rs))\<rparr>)))"

end
