(* ===== verification/Engine_Props.thy ===== *)
theory Engine_Props
  imports Engine
begin

text \<open>
  What the backtest engine guarantees of every run: positions in whole lots and within the position
  limit, fills dated after the signal they execute and inside the point-in-time universe, buys paid
  for from available cash. The phases of a session are all built from two operations on the book,
  one sale and one purchase; the locale \<open>session_invariant\<close> states that contract once, and each
  guarantee is an interpretation of it.
\<close>

subsection \<open>Sizing\<close>

definition engine_wf :: "engine \<Rightarrow> bool" where
  "engine_wf eng \<longleftrightarrow> 0 < lot_size (eng_constraints eng) \<and> 0 < max_positions eng \<and>
     0 < initial_capital eng"

lemma BacktestEngine_init_wf:
  assumes "BacktestEngine_init capital cm sd ed mp rm sm (Some c) el pol = Inr eng"
    and "ExecutionConstraints vp lots = Inr c"
  shows "engine_wf eng"
  using assms by (auto simp: BacktestEngine_init_def ExecutionConstraints_def engine_wf_def split: if_splits)

lemma div_mult_le: "0 < (l::int) \<Longrightarrow> n div l * l \<le> n"
  using div_mult_mod_eq [of n l] pos_mod_sign [of l n] by linarith

lemma executable_shares_bounds:
  assumes "0 < lot_size (eng_constraints eng)"
  shows "0 \<le> executable_shares eng code n vols \<and>
    executable_shares eng code n vols \<le> max n 0 \<and>
    lot_size (eng_constraints eng) dvd executable_shares eng code n vols"
proof -
  let ?l = "lot_size (eng_constraints eng)"
  have "?l dvd min (a * ?l) (max (c * ?l) 0)" for a c by (auto simp: min_def max_def)
  moreover have "n div ?l * ?l \<le> max n 0" using div_mult_le [OF assms, of n] by simp
  ultimately show ?thesis
    by (auto simp: executable_shares_def Let_def split: option.splits)
qed

lemma executable_shares_suspended:
  "(case map_of vs code of None \<Rightarrow> True | Some v \<Rightarrow> \<not> (isfinite v \<and> fpos v)) \<Longrightarrow>
   executable_shares eng code n (Some vs) = 0"
  by (auto simp: executable_shares_def Let_def split: option.splits)

lemma executable_shares_volume_cap:
  assumes "volume_participation (eng_constraints eng) = Some p" and "map_of vs code = Some (Fin v)"
    and "0 < lot_size (eng_constraints eng)" and "0 \<le> fmul v p"
  shows "of_int (executable_shares eng code n (Some vs)) \<le> fmul v p"
proof -
  let ?l = "lot_size (eng_constraints eng)"
  have "int_of_float (fmul v p) div ?l * ?l \<le> int_of_float (fmul v p)"
    by (rule div_mult_le [OF assms(3)])
  moreover have "0 \<le> int_of_float (fmul v p)" using assms(4) by blast
  ultimately have "executable_shares eng code n (Some vs) \<le> int_of_float (fmul v p)"
    using assms(1,2) by (auto simp: executable_shares_def Let_def)
  then have "of_int (executable_shares eng code n (Some vs)) \<le> (of_int (int_of_float (fmul v p)) :: rat)"
    by simp
  also have "\<dots> \<le> fmul v p" using assms(4) by (simp add: int_of_float_def)
  finally show ?thesis .
qed

lemma valid_price_pos: "valid_price p \<Longrightarrow> 0 < price_value p"
  by (cases p rule: price_value.cases) (auto simp: valid_price_def)

subsection \<open>The purchase loop\<close>

lemma shrink_to_cash_affordable:
  assumes "0 < lot_size (eng_constraints eng)"
  shows "shrink_to_cash eng c p n \<le> 0 \<or> calc_buy_cost (eng_cost_model eng) p (shrink_to_cash eng c p n) \<le> c"
  using assms
proof (induction eng c p n rule: shrink_to_cash.induct)
  case (1 eng c p n)
  then show ?case
    by (cases "0 < n \<and> c < calc_buy_cost (eng_cost_model eng) p n")
       (auto simp: shrink_to_cash.simps [of eng c p n])
qed

lemma shrink_to_cash_lots:
  assumes "lot_size (eng_constraints eng) dvd n"
  shows "lot_size (eng_constraints eng) dvd shrink_to_cash eng c p n"
  using assms
proof (induction eng c p n rule: shrink_to_cash.induct)
  case (1 eng c p n)
  then show ?case
    by (cases "0 < n \<and> c < calc_buy_cost (eng_cost_model eng) p n \<and> 0 < lot_size (eng_constraints eng)")
       (auto simp: shrink_to_cash.simps [of eng c p n])
qed

text \<open>The loop gives up no more than it must: one more lot would not have been paid for.\<close>

lemma shrink_to_cash_maximal:
  assumes "0 < lot_size (eng_constraints eng)" and "shrink_to_cash eng c p n < n"
  shows "c < calc_buy_cost (eng_cost_model eng) p (shrink_to_cash eng c p n + lot_size (eng_constraints eng))"
  using assms
proof (induction eng c p n rule: shrink_to_cash.induct)
  case (1 eng c p n)
  let ?l = "lot_size (eng_constraints eng)"
  from 1 have run: "0 < n" "c < calc_buy_cost (eng_cost_model eng) p n" "0 < ?l"
    by (auto simp: shrink_to_cash.simps [of eng c p n] split: if_splits)
  then have eq: "shrink_to_cash eng c p n = shrink_to_cash eng c p (n - ?l)"
    by (simp add: shrink_to_cash.simps [of eng c p n])
  show ?case
  proof (cases "shrink_to_cash eng c p (n - ?l) < n - ?l")
    case True
    with 1 run eq show ?thesis by simp
  next
    case False
    have "shrink_to_cash eng c p m \<le> m" for m
      by (induction eng c p m rule: shrink_to_cash.induct)
         (subst shrink_to_cash.simps, auto)
    with False have "shrink_to_cash eng c p (n - ?l) = n - ?l" by (simp add: order_antisym)
    with eq run show ?thesis by simp
  qed
qed

subsection \<open>The contract of a session\<close>

locale session_invariant =
  fixes eng :: engine and ses :: session and I :: "book \<Rightarrow> bool"
  assumes sell: "I b \<Longrightarrow> I (sell_into eng ses code strategy score requested b)"
    and buy: "I b \<Longrightarrow> buy_is_eligible eng (sig_code s) (s_signal_date ses) (s_today ses) \<Longrightarrow>
      I (buy_one eng ses strategy equity (s, w) b)"
    and mark: "I (st, lg) \<Longrightarrow> I (st\<lparr>last_closes := closes\<rparr>, lg)"
begin

lemma sell_whole_keeps: "I b \<Longrightarrow> I (sell_whole eng ses strategy score code b)"
  by (simp add: sell_whole_def sell)

lemma sells_keep: "I b \<Longrightarrow> I (fold (sell_whole eng ses strategy score) codes b)"
  by (induction codes arbitrary: b) (auto simp: sell_whole_keeps)

lemma forced_exits_keeps: "I b \<Longrightarrow> forced_exits eng ses b = Inr b' \<Longrightarrow> I b'"
  by (auto simp: forced_exits_def sells_keep split: option.splits)

lemma monthly_liquidation_keeps: "I b \<Longrightarrow> I (monthly_liquidation eng ses first b)"
  by (simp add: monthly_liquidation_def sells_keep)

lemma sell_signals_keeps: "I b \<Longrightarrow> I (sell_signals eng ses strategy signals b)"
proof -
  have "I b \<Longrightarrow> I (fold (\<lambda>s. sell_whole eng ses strategy (sig_score s) (sig_code s)) xs b)" for xs b
    by (induction xs arbitrary: b) (auto simp: sell_whole_keeps)
  then show "I b \<Longrightarrow> ?thesis" by (simp add: sell_signals_def)
qed

lemma rebalance_sells_keeps: "I b \<Longrightarrow> I (rebalance_sells eng ses strategy signals ws equity b)"
proof -
  have "I b \<Longrightarrow> I (fold (rebalance_one eng ses strategy equity wd) xs b)" for xs wd b
    by (induction xs arbitrary: b) (auto simp: rebalance_one_def Let_def sell split: prod.splits)
  then show "I b \<Longrightarrow> ?thesis" by (simp add: rebalance_sells_def)
qed

lemma buys_keep:
  assumes "\<And>s. s \<in> fst ` set sws \<Longrightarrow> buy_is_eligible eng (sig_code s) (s_signal_date ses) (s_today ses)"
  shows "I b \<Longrightarrow> I (fold (buy_one eng ses strategy equity) sws b)"
  using assms
proof (induction sws arbitrary: b)
  case Nil
  then show ?case by simp
next
  case (Cons sw sws)
  obtain s w where sw: "sw = (s, w)" by force
  with Cons.prems have "I (buy_one eng ses strategy equity sw b)" by (auto intro: buy)
  with Cons show ?case by simp
qed

end

lemma select_buys_subset: "set (select_buys n acc ss) \<subseteq> set acc \<union> set ss"
  by (induction n acc ss rule: select_buys.induct) (auto simp: Let_def)

lemma buy_signals_eligible:
  "s \<in> set (buy_signals eng ses sigs) \<Longrightarrow>
   s \<in> set sigs \<and> str_upper (sig_action s) = ''BUY'' \<and>
   buy_is_eligible eng (sig_code s) (s_signal_date ses) (s_today ses)"
  using select_buys_subset [of "max_positions eng" "[]"] by (fastforce simp: buy_signals_def)

lemma mark_fold_spec:
  assumes "fold (mark_one ses) chs (st, tot, snaps) = (st', tot', snaps')"
  shows "(\<exists>closes. st' = st\<lparr>last_closes := closes\<rparr>) \<and> (\<exists>new. snaps' = snaps @ new \<and>
    length new \<le> length chs \<and>
    (\<forall>p \<in> set new. p_date p = s_today ses \<and> (p_code p, p_shares p) \<in> set chs))"
  using assms
proof (induction chs arbitrary: st tot snaps)
  case Nil
  then show ?case by (auto intro: exI [of _ "last_closes st"])
next
  case (Cons ch chs)
  obtain st1 tot1 snaps1 where m: "mark_one ses ch (st, tot, snaps) = (st1, tot1, snaps1)"
    by (metis prod_cases3)
  have one: "(\<exists>closes. st1 = st\<lparr>last_closes := closes\<rparr>) \<and> (\<exists>new. snaps1 = snaps @ new \<and>
      length new \<le> 1 \<and> (\<forall>p \<in> set new. p_date p = s_today ses \<and> (p_code p, p_shares p) = ch))"
    using m by (auto simp: mark_one_def Let_def split: prod.splits if_splits
        intro: exI [of _ "last_closes st"])
  from Cons.prems m have "fold (mark_one ses) chs (st1, tot1, snaps1) = (st', tot', snaps')" by simp
  from Cons.IH [OF this] one show ?case by fastforce
qed

lemma mark_to_market_spec:
  assumes "mark_to_market ses st = (st', tot, snaps)"
  shows "(\<exists>closes. st' = st\<lparr>last_closes := closes\<rparr>) \<and> length snaps \<le> length (holdings st) \<and>
    (\<forall>p \<in> set snaps. p_date p = s_today ses \<and> (p_code p, p_shares p) \<in> set (holdings st))"
  using mark_fold_spec [OF assms [unfolded mark_to_market_def]] by auto

context session_invariant
begin

lemma buy_phase_keeps: "I b \<Longrightarrow> I (buy_phase eng ses strategy signals b)"
  unfolding buy_phase_def Let_def
  by (auto intro!: buys_keep rebalance_sells_keeps dest!: set_zip_leftD buy_signals_eligible
      split: if_splits)

lemma run_session_keeps:
  assumes "run_session eng signals prices strategy sd fm today rs = Inr rs'"
    and "ses = session_at prices sd today" and "I (r_book rs)"
  shows "I (r_book rs')"
proof -
  let ?sigs = "dict_get signals sd []"
  obtain b1 where b1: "forced_exits eng ses (r_book rs) = Inr b1"
    using assms(1,2) by (auto simp: run_session_def Let_def elim!: rbind_InrE)
  define b3 where "b3 = sell_signals eng ses strategy ?sigs (monthly_liquidation eng ses fm b1)"
  obtain st lg where b4: "buy_phase eng ses strategy ?sigs b3 = (st, lg)" by force
  obtain st' tot snaps where m: "mark_to_market ses st = (st', tot, snaps)"
    by (metis prod_cases3)
  have "I (st, lg)"
    using assms(3) b1 b4 unfolding b3_def
    by (metis buy_phase_keeps sell_signals_keeps monthly_liquidation_keeps forced_exits_keeps)
  moreover have "r_book rs' = (st', lg)"
    using assms(1,2) b1 b4 m by (auto simp: run_session_def Let_def b3_def)
  ultimately show ?thesis using mark_to_market_spec [OF m] mark by auto
qed

end

subsection \<open>One sale, one purchase\<close>

text \<open>
  The two ways a sale can go: nothing happens, or between one and \<open>held\<close> shares are sold.
\<close>

lemma execute_sell_cases [consumes 1, case_names none some]:
  assumes "0 < lot_size (eng_constraints eng)"
  obtains (none) "execute_sell eng st code req price vols d sd strat sc = (st, None)"
  | (some) shares t st' where "execute_sell eng st code req price vols d sd strat sc = (st', Some t)"
      and "0 < shares" and "shares \<le> dict_get (holdings st) code 0" and "shares \<le> req"
      and "lot_size (eng_constraints eng) dvd shares" and "valid_price price"
      and "holdings st' = (if shares < dict_get (holdings st) code 0
             then AList.update code (dict_get (holdings st) code 0 - shares) (holdings st)
             else AList.delete code (holdings st))"
      and "cash st' = fadd (cash st) (calc_sell_cost (eng_cost_model eng) (price_value price) shares)"
      and "t_shares t = shares" and "t_price t = price_value price" and "t_code t = code"
      and "t_action t = ''SELL''" and "t_date t = d" and "t_signal_date t = sd"
proof -
  let ?held = "dict_get (holdings st) code 0"
  define k where k: "k = min req ?held"
  define n where n: "n = executable_shares eng code k vols"
  have b: "n \<le> max k 0" "lot_size (eng_constraints eng) dvd n"
    using executable_shares_bounds [OF assms, of code k vols] by (simp_all add: n)
  note def = execute_sell_def Let_def k [symmetric] n [symmetric]
  show thesis
  proof (cases "?held \<le> 0 \<or> \<not> valid_price price \<or> n \<le> 0")
    case True
    then show thesis by (intro none) (auto simp: def)
  next
    case False
    with b have *: "0 < n" "n \<le> ?held" "n \<le> req" by (auto simp: k)
    define pr where "pr = calc_sell_cost (eng_cost_model eng) (price_value price) n"
    define st' where "st' = (if 0 < ?held - n
      then st\<lparr>cash := fadd (cash st) pr, holdings := AList.update code (?held - n) (holdings st)\<rparr>
      else st\<lparr>cash := fadd (cash st) pr, holdings := AList.delete code (holdings st),
        avg_costs := AList.delete code (avg_costs st), last_closes := AList.delete code (last_closes st)\<rparr>)"
    define t where "t = \<lparr>t_date = d, t_signal_date = sd, t_code = code, t_action = ''SELL'',
      t_price = price_value price, t_shares = n, t_amount = fmul (price_value price) (float_of_int n),
      t_cost = fsub (fmul (price_value price) (float_of_int n)) pr, t_signal_strategy = strat,
      t_signal_score = sc\<rparr>"
    have eq: "execute_sell eng st code req price vols d sd strat sc = (st', Some t)"
      using False by (simp add: def pr_def [symmetric]) (simp add: st'_def t_def pr_def)
    show thesis
      by (rule some [OF eq *(1,2,3) b(2)])
         (use False in \<open>simp_all add: st'_def t_def pr_def\<close>)
  qed
qed

lemma buy_one_cases [consumes 1, case_names none some]:
  assumes "0 < lot_size (eng_constraints eng)"
  obtains (none) "buy_one eng ses strat eq (s, w) (st, lg) = (st, lg)"
  | (some) shares t st' where "buy_one eng ses strat eq (s, w) (st, lg) = (st', lg @ [t])"
      and "0 < shares" and "lot_size (eng_constraints eng) dvd shares"
      and "0 < dict_get (holdings st) (sig_code s) 0 \<or> int (length (holdings st)) < max_positions eng"
      and "calc_buy_cost (eng_cost_model eng) (t_price t) shares \<le> cash st"
      and "holdings st' = AList.update (sig_code s) (dict_get (holdings st) (sig_code s) 0 + shares) (holdings st)"
      and "cash st' = fsub (cash st) (calc_buy_cost (eng_cost_model eng) (t_price t) shares)"
      and "t_shares t = shares" and "t_code t = sig_code s"
      and "t_action t = ''BUY''" and "t_date t = s_today ses" and "t_signal_date t = s_signal_date ses"
proof -
  let ?code = "sig_code s" and ?h = "dict_get (holdings st) (sig_code s) 0"
  let ?p = "price_value (map_of (s_open ses) ?code)"
  let ?req = "calc_shares (eng_cost_model eng)
    (min (cash st) (max (fsub (fmul eq w) (fmul ?p (float_of_int ?h))) 0)) ?p"
  let ?x = "executable_shares eng ?code ?req (s_volumes ses)"
  let ?n = "shrink_to_cash eng (cash st) ?p ?x"
  let ?skip = "\<not> 0 < ?h \<and> max_positions eng \<le> int (length (holdings st)) \<or>
    \<not> valid_price (map_of (s_open ses) ?code) \<or> ?x \<le> 0 \<or> ?n \<le> 0"
  show thesis
  proof (cases ?skip)
    case True
    then show thesis by (intro none) (auto simp: buy_one_def Let_def)
  next
    case False
    have n: "0 < ?n" "lot_size (eng_constraints eng) dvd ?n"
      "calc_buy_cost (eng_cost_model eng) ?p ?n \<le> cash st"
      using False shrink_to_cash_affordable [OF assms, of "cash st" ?p ?x]
        shrink_to_cash_lots executable_shares_bounds [OF assms] by auto
    define tc where "tc = calc_buy_cost (eng_cost_model eng) ?p ?n"
    define st' where "st' = st\<lparr>cash := fsub (cash st) tc,
      holdings := AList.update ?code (?h + ?n) (holdings st),
      avg_costs := AList.update ?code
        (fdiv (fadd (fmul (dict_get (avg_costs st) ?code 0) (float_of_int ?h)) tc)
           (float_of_int (?h + ?n))) (avg_costs st)\<rparr>"
    define t where "t = \<lparr>t_date = s_today ses, t_signal_date = s_signal_date ses, t_code = ?code,
      t_action = ''BUY'', t_price = ?p, t_shares = ?n, t_amount = fmul ?p (float_of_int ?n),
      t_cost = fsub tc (fmul ?p (float_of_int ?n)), t_signal_strategy = strat,
      t_signal_score = sig_score s\<rparr>"
    have eq: "buy_one eng ses strat eq (s, w) (st, lg) = (st', lg @ [t])"
      using False by (simp add: buy_one_def Let_def st'_def t_def tc_def)
    have room: "0 < ?h \<or> int (length (holdings st)) < max_positions eng" using False by auto
    show thesis
      by (rule some [OF eq n(1,2) room])
         (use n(3) in \<open>simp_all add: st'_def t_def tc_def\<close>)
  qed
qed

subsection \<open>Positions: whole lots within the limit\<close>

definition book_wf :: "engine \<Rightarrow> book \<Rightarrow> bool" where
  "book_wf eng b \<longleftrightarrow>
     dict_wf (holdings (fst b)) \<and>
     (\<forall>(c, n) \<in> set (holdings (fst b)). 0 < n \<and> lot_size (eng_constraints eng) dvd n) \<and>
     int (length (holdings (fst b))) \<le> max_positions eng \<and>
     (\<forall>t \<in> set (snd b). 0 < t_shares t \<and> lot_size (eng_constraints eng) dvd t_shares t)"

lemma book_wf_held:
  assumes "book_wf eng (st, lg)"
  shows "0 \<le> dict_get (holdings st) c 0 \<and> lot_size (eng_constraints eng) dvd dict_get (holdings st) c 0"
  using assms dict_get_mem [of "holdings st" c 0]
  by (cases "dict_get (holdings st) c 0 = 0") (auto simp: book_wf_def)

lemma book_wf_sell:
  assumes "engine_wf eng" and wf: "book_wf eng b"
  shows "book_wf eng (sell_into eng ses code strat sc req b)"
proof -
  obtain st lg where b: "b = (st, lg)" by force
  from assms(1) have lot: "0 < lot_size (eng_constraints eng)" by (simp add: engine_wf_def)
  note held = book_wf_held [of eng st lg code]
  from lot show ?thesis
  proof (cases rule: execute_sell_cases [of _ st code req "map_of (s_open ses) code"
        "s_volumes ses" "s_today ses" "s_signal_date ses" strat sc])
    case none
    with wf b show ?thesis by (simp add: sell_into_def)
  next
    case (some n t st')
    have "set (holdings st') \<subseteq> insert (code, dict_get (holdings st) code 0 - n) (set (holdings st))"
      using some(7) set_update_subset [of code _ "holdings st"] set_delete_subset [of code "holdings st"]
      by (auto split: if_splits)
    moreover have "length (holdings st') \<le> length (holdings st)"
      using some(2,3,7) length_delete_le [of code "holdings st"]
        length_update_bound [of "holdings st" code 0] by auto
    moreover have "dict_wf (holdings st')" using wf some(7) by (auto simp: b book_wf_def)
    moreover have "0 < dict_get (holdings st) code 0 - n \<or> (code, dict_get (holdings st) code 0 - n) \<notin> set (holdings st')"
      using some(3,7) wf by (auto simp: AList.delete_eq)
    moreover have "lot_size (eng_constraints eng) dvd dict_get (holdings st) code 0 - n"
      using held some(5) wf b by (auto intro: dvd_diff)
    ultimately have "dict_wf (holdings st') \<and>
        (\<forall>(c, m) \<in> set (holdings st'). 0 < m \<and> lot_size (eng_constraints eng) dvd m) \<and>
        int (length (holdings st')) \<le> max_positions eng"
      using wf unfolding b book_wf_def by auto
    moreover have "sell_into eng ses code strat sc req b = (st', lg @ [t])"
      using some(1) by (simp add: sell_into_def b)
    ultimately show ?thesis
      using wf some(2,5,9) by (simp add: b book_wf_def)
  qed
qed

lemma book_wf_buy:
  assumes "engine_wf eng" and wf: "book_wf eng b"
  shows "book_wf eng (buy_one eng ses strat eq (s, w) b)"
proof -
  obtain st lg where b: "b = (st, lg)" by force
  from assms(1) have lot: "0 < lot_size (eng_constraints eng)" by (simp add: engine_wf_def)
  from lot show ?thesis
  proof (cases rule: buy_one_cases [of _ ses strat eq s w st lg])
    case none
    with wf b show ?thesis by simp
  next
    case (some n t st')
    let ?c = "sig_code s" and ?h = "dict_get (holdings st) (sig_code s) 0"
    have held: "0 \<le> ?h" "lot_size (eng_constraints eng) dvd ?h"
      using book_wf_held [of eng st lg ?c] wf b by auto
    have "set (holdings st') \<subseteq> insert (?c, ?h + n) (set (holdings st))"
      using some(6) set_update_subset [of ?c _ "holdings st"] by auto
    moreover have "int (length (holdings st')) \<le> max_positions eng"
      using some(4,6) wf length_update_le [of ?c "?h + n" "holdings st"]
        length_update_bound [of "holdings st" ?c 0 "?h + n"]
      by (auto simp: b book_wf_def)
    moreover have "dict_wf (holdings st')" using wf some(6) by (auto simp: b book_wf_def)
    moreover have "0 < ?h + n" "lot_size (eng_constraints eng) dvd ?h + n"
      using held some(2,3) by auto
    ultimately have "dict_wf (holdings st') \<and>
        (\<forall>(c, m) \<in> set (holdings st'). 0 < m \<and> lot_size (eng_constraints eng) dvd m) \<and>
        int (length (holdings st')) \<le> max_positions eng"
      using wf unfolding b book_wf_def by auto
    then show ?thesis
      using wf some(1-3,8) by (simp add: b book_wf_def)
  qed
qed

interpretation lots: session_invariant eng ses "\<lambda>b. engine_wf eng \<longrightarrow> book_wf eng b" for eng ses
  by unfold_locales (auto simp: book_wf_sell book_wf_buy, simp add: book_wf_def)

subsection \<open>Fills: dated after the signal, inside the universe\<close>

text \<open>
  A fill is in order when it is dated on a trading session, its signal date lies before its own date and, for a purchase, the code
  was a member of the universe on both.
\<close>

definition fill_ok :: "engine \<Rightarrow> int set \<Rightarrow> trade_record \<Rightarrow> bool" where
  "fill_ok eng days t \<longleftrightarrow>
     t_date t \<in> days \<and>
     (case t_signal_date t of None \<Rightarrow> True | Some d \<Rightarrow> d < t_date t) \<and>
     (t_action t = ''BUY'' \<longrightarrow> buy_is_eligible eng (t_code t) (t_signal_date t) (t_date t))"

definition session_dated :: "int set \<Rightarrow> session \<Rightarrow> bool" where
  "session_dated days ses \<longleftrightarrow> s_today ses \<in> days \<and> (case s_signal_date ses of None \<Rightarrow> True | Some d \<Rightarrow> d < s_today ses)"

definition fills_ok :: "engine \<Rightarrow> int set \<Rightarrow> session \<Rightarrow> book \<Rightarrow> bool" where
  "fills_ok eng days ses b \<longleftrightarrow>
     (0 < lot_size (eng_constraints eng) \<and> session_dated days ses \<longrightarrow> (\<forall>t \<in> set (snd b). fill_ok eng days t))"

lemma fills_ok_sell:
  assumes "fills_ok eng days ses b"
  shows "fills_ok eng days ses (sell_into eng ses code strat sc req b)"
proof (cases "0 < lot_size (eng_constraints eng) \<and> session_dated days ses")
  case True
  then have lot: "0 < lot_size (eng_constraints eng)" ..
  obtain st lg where b: "b = (st, lg)" by force
  from lot show ?thesis
    by (cases rule: execute_sell_cases [of _ st code req "map_of (s_open ses) code"
          "s_volumes ses" "s_today ses" "s_signal_date ses" strat sc])
       (use assms b True in \<open>auto simp: fills_ok_def fill_ok_def session_dated_def sell_into_def split: option.splits\<close>)
next
  case False
  then show ?thesis by (auto simp: fills_ok_def)
qed

lemma fills_ok_buy:
  assumes "fills_ok eng days ses b" and "buy_is_eligible eng (sig_code s) (s_signal_date ses) (s_today ses)"
  shows "fills_ok eng days ses (buy_one eng ses strat eq (s, w) b)"
proof (cases "0 < lot_size (eng_constraints eng) \<and> session_dated days ses")
  case True
  then have lot: "0 < lot_size (eng_constraints eng)" ..
  obtain st lg where b: "b = (st, lg)" by force
  from lot show ?thesis
    by (cases rule: buy_one_cases [of _ ses strat eq s w st lg])
       (use assms b True in \<open>auto simp: fills_ok_def fill_ok_def session_dated_def split: option.splits\<close>)
next
  case False
  then show ?thesis by (auto simp: fills_ok_def)
qed

interpretation fills: session_invariant eng ses "fills_ok eng days ses" for eng ses days
  by unfold_locales (simp_all add: fills_ok_sell fills_ok_buy, simp add: fills_ok_def)

subsection \<open>Cash\<close>

text \<open>
  Cash can only become negative through a sale whose fees exceed its amount; as long as the log
  holds no such sale, it does not.
\<close>

definition covered_sales :: "engine \<Rightarrow> trade_record list \<Rightarrow> bool" where
  "covered_sales eng ts \<longleftrightarrow>
     (\<forall>t \<in> set ts. t_action t = ''SELL'' \<longrightarrow>
        0 \<le> calc_sell_cost (eng_cost_model eng) (t_price t) (t_shares t))"

definition solvent :: "engine \<Rightarrow> book \<Rightarrow> bool" where
  "solvent eng b \<longleftrightarrow>
     (0 < lot_size (eng_constraints eng) \<and> covered_sales eng (snd b) \<longrightarrow> 0 \<le> cash (fst b))"

lemma solvent_sell:
  assumes "solvent eng b"
  shows "solvent eng (sell_into eng ses code strat sc req b)"
proof (cases "0 < lot_size (eng_constraints eng)")
  case True
  obtain st lg where b: "b = (st, lg)" by force
  from True show ?thesis
    by (cases rule: execute_sell_cases [of _ st code req "map_of (s_open ses) code"
          "s_volumes ses" "s_today ses" "s_signal_date ses" strat sc])
       (use assms b in \<open>auto simp: solvent_def covered_sales_def sell_into_def\<close>)
next
  case False
  then show ?thesis by (simp add: solvent_def)
qed

lemma solvent_buy:
  assumes "solvent eng b"
  shows "solvent eng (buy_one eng ses strat eq (s, w) b)"
proof (cases "0 < lot_size (eng_constraints eng)")
  case True
  obtain st lg where b: "b = (st, lg)" by force
  from True show ?thesis
    by (cases rule: buy_one_cases [of _ ses strat eq s w st lg])
       (use assms b in \<open>auto simp: solvent_def covered_sales_def\<close>)
next
  case False
  then show ?thesis by (simp add: solvent_def)
qed

interpretation solvency: session_invariant eng ses "solvent eng" for eng ses
  by unfold_locales (simp_all add: solvent_sell solvent_buy, simp add: solvent_def)

text \<open>The trade log only grows.\<close>

lemma log_grows_sell: "set ts \<subseteq> set (snd b) \<Longrightarrow> set ts \<subseteq> set (snd (sell_into eng ses code strat sc req b))"
  by (auto simp: sell_into_def split: prod.splits option.splits)

lemma log_grows_buy: "set ts \<subseteq> set (snd b) \<Longrightarrow> set ts \<subseteq> set (snd (buy_one eng ses strat eq (s, w) b))"
  by (cases b) (auto simp: buy_one_def Let_def)

interpretation growing: session_invariant eng ses "\<lambda>b. set ts \<subseteq> set (snd b)" for eng ses ts
  by unfold_locales (rule log_grows_sell, assumption, rule log_grows_buy, assumption, simp)

subsection \<open>Runs\<close>

lemma trading_days_sorted: "sorted_wrt (<) (get_trading_days eng pv)"
  by (simp add: get_trading_days_def strict_sorted_iff sorted_wrt_filter)

lemma run_session_InrE:
  assumes "run_session eng signals prices strategy sd fm today rs = Inr rs'"
  obtains st lg st' tot snaps where
    "mark_to_market (session_at prices sd today) st = (st', tot, snaps)"
    "r_book rs' = (st', lg)" "r_snapshots rs' = r_snapshots rs @ snaps"
    "r_equity rs' = r_equity rs @ [\<lparr>e_date = today, e_equity = fadd (cash st') tot, e_cash = cash st'\<rparr>]"
  using assms by (auto simp: run_session_def Let_def split: prod.splits elim!: rbind_InrE)

lemma run_session_snapshots:
  assumes "run_session eng signals prices strategy sd fm today rs = Inr rs'"
  shows "\<exists>new. r_snapshots rs' = r_snapshots rs @ new \<and>
    length new \<le> length (holdings (fst (r_book rs'))) \<and>
    (\<forall>p \<in> set new. p_date p = today \<and> (p_code p, p_shares p) \<in> set (holdings (fst (r_book rs'))))"
  using assms
proof (rule run_session_InrE)
  fix st lg st' tot snaps
  assume "mark_to_market (session_at prices sd today) st = (st', tot, snaps)"
    and r: "r_book rs' = (st', lg)" "r_snapshots rs' = r_snapshots rs @ snaps"
  from mark_to_market_spec [OF this(1)] r show ?thesis by (auto simp: session_at_def)
qed

lemma run_session_cash:
  assumes "run_session eng signals prices strategy sd fm today rs = Inr rs'"
  shows "\<exists>e. r_equity rs' = r_equity rs @ [e] \<and> e_cash e = cash (fst (r_book rs')) \<and> e_date e = today"
  using assms by (rule run_session_InrE) simp

text \<open>
  Induction over the sessions of a run: what one session establishes of its day from the day
  before, the run establishes of its last day.
\<close>

lemma run_days_induct:
  assumes "run_days eng signals prices strategy sd pm days rs = Inr rs'"
    and "sorted_wrt (<) days" and "\<forall>d. sd = Some d \<longrightarrow> (\<forall>x \<in> set days. d < x)"
    and "J sd rs"
    and step: "\<And>sd fm today rs rs'. run_session eng signals prices strategy sd fm today rs = Inr rs' \<Longrightarrow>
      today \<in> set days \<Longrightarrow> (\<forall>d. sd = Some d \<longrightarrow> d < today) \<Longrightarrow> J sd rs \<Longrightarrow> J (Some today) rs'"
  shows "\<exists>d. J d rs'"
  using assms(1-4) step
proof (induction eng signals prices strategy sd pm days rs rule: run_days.induct)
  case (1 eng signals prices strategy sd pm rs)
  then show ?case by auto
next
  case (2 eng signals prices strategy sd pm today days rs)
  from "2.prems"(1) obtain rs1 where
    s: "run_session eng signals prices strategy sd (pm \<noteq> Some (year_month today)) today rs = Inr rs1" and
    r: "run_days eng signals prices strategy (Some today) (Some (year_month today)) days rs1 = Inr rs'"
    by (auto elim!: rbind_InrE)
  have "J (Some today) rs1" using "2.prems"(5) [OF s] "2.prems"(3,4) by simp
  then show ?case using "2.IH" [OF r] "2.prems"(2,5) by simp
qed

text \<open>The sessions a run goes through, with the invariant state of its book.\<close>

lemma run_Inr_cases [consumes 1, case_names empty days]:
  assumes "run eng signals pv strategy xp = Inr res"
  obtains (empty) "get_trading_days eng pv = []" "trade_log res = []" "position_snapshots res = []"
      "equity_curve res = []"
  | (days) rs prices sd first where
      "run_days eng signals prices strategy sd None (get_trading_days eng pv)
         \<lparr>r_book = (\<lparr>cash = initial_capital eng, holdings = [], avg_costs = [], last_closes = []\<rparr>, []),
          r_snapshots = [],
          r_equity = [\<lparr>e_date = first - 1, e_equity = initial_capital eng, e_cash = initial_capital eng\<rparr>],
          r_signals_count = 0\<rparr> = Inr rs"
      "\<forall>d. sd = Some d \<longrightarrow> (\<forall>x \<in> set (get_trading_days eng pv). d < x)"
      "trade_log res = snd (r_book rs)" "position_snapshots res = r_snapshots rs"
      "equity_curve res = r_equity rs"
proof (cases "get_trading_days eng pv")
  case Nil
  with assms show thesis by (intro empty) (auto simp: run_def)
next
  case (Cons first rest)
  let ?prior = "filter (\<lambda>d. d < first) (sort (remdups (map fst pv)))"
  have "\<forall>d. (if ?prior = [] then None else Some (last ?prior)) = Some d \<longrightarrow>
      (\<forall>x \<in> set (get_trading_days eng pv). d < x)"
  proof (intro allI impI ballI)
    fix d x
    assume "(if ?prior = [] then None else Some (last ?prior)) = Some d" and x: "x \<in> set (get_trading_days eng pv)"
    then have "d \<in> set ?prior" by (metis last_in_set option.distinct(1) option.inject)
    then have "d < first" by simp
    moreover have "first \<le> x" using x Cons trading_days_sorted [of eng pv] by auto
    ultimately show "d < x" by simp
  qed
  moreover obtain rs where "run_days eng signals (case xp of None \<Rightarrow> pv | Some p \<Rightarrow> p) strategy
      (if ?prior = [] then None else Some (last ?prior)) None (get_trading_days eng pv)
         \<lparr>r_book = (\<lparr>cash = initial_capital eng, holdings = [], avg_costs = [], last_closes = []\<rparr>, []),
          r_snapshots = [],
          r_equity = [\<lparr>e_date = first - 1, e_equity = initial_capital eng, e_cash = initial_capital eng\<rparr>],
          r_signals_count = 0\<rparr> = Inr rs"
      "trade_log res = snd (r_book rs)" "position_snapshots res = r_snapshots rs"
      "equity_curve res = r_equity rs"
    using assms Cons by (auto simp: run_def Let_def split: if_splits elim!: rbind_InrE)
  ultimately show thesis using days by blast
qed

text \<open>
  The state of a run after the session of day \<open>sd\<close>: a well-formed book, and snapshots of whole
  lots, none of a later day, no more of any day than the position limit.
\<close>

definition run_ok :: "engine \<Rightarrow> date_key \<Rightarrow> run_state \<Rightarrow> bool" where
  "run_ok eng sd rs \<longleftrightarrow>
     book_wf eng (r_book rs) \<and>
     (\<forall>p \<in> set (r_snapshots rs). 0 < p_shares p \<and> lot_size (eng_constraints eng) dvd p_shares p \<and>
        (\<exists>d. sd = Some d \<and> p_date p \<le> d)) \<and>
     (\<forall>x. int (length (filter (\<lambda>p. p_date p = x) (r_snapshots rs))) \<le> max_positions eng)"

lemma run_session_ok:
  assumes "engine_wf eng" and "run_session eng signals prices strategy sd fm today rs = Inr rs'"
    and "\<forall>d. sd = Some d \<longrightarrow> d < today" and ok: "run_ok eng sd rs"
  shows "run_ok eng (Some today) rs'"
proof -
  have wf: "book_wf eng (r_book rs')"
    using lots.run_session_keeps [OF assms(2) refl] assms(1) ok by (simp add: run_ok_def)
  obtain new where new: "r_snapshots rs' = r_snapshots rs @ new"
      "length new \<le> length (holdings (fst (r_book rs')))"
      "\<forall>p \<in> set new. p_date p = today \<and> (p_code p, p_shares p) \<in> set (holdings (fst (r_book rs')))"
    using run_session_snapshots [OF assms(2)] by blast
  have old: "\<forall>p \<in> set (r_snapshots rs). p_date p < today" using ok assms(3) by (fastforce simp: run_ok_def)
  have "int (length (filter (\<lambda>p. p_date p = x) (r_snapshots rs'))) \<le> max_positions eng" for x
  proof (cases "x = today")
    case True
    with old new have "filter (\<lambda>p. p_date p = x) (r_snapshots rs') = new"
      by (auto simp: filter_empty_conv)
    then show ?thesis using new(2) wf by (simp add: book_wf_def)
  next
    case False
    with new have "filter (\<lambda>p. p_date p = x) (r_snapshots rs') = filter (\<lambda>p. p_date p = x) (r_snapshots rs)"
      by (auto simp: filter_empty_conv)
    then show ?thesis using ok by (simp add: run_ok_def)
  qed
  moreover have "\<forall>p \<in> set new. 0 < p_shares p \<and> lot_size (eng_constraints eng) dvd p_shares p"
    using new(3) wf by (auto simp: book_wf_def)
  ultimately show ?thesis
    using wf new(1,3) old ok by (auto simp: run_ok_def intro: less_imp_le)
qed

text \<open>
  C18. Whatever the signals and prices: every fill and every position snapshot of a successful run is
  a positive whole number of lots, and no day ends with more positions than \<open>max_positions\<close>.
\<close>

theorem run_whole_lots_within_limit:
  assumes "engine_wf eng" and "run eng signals pv strategy xp = Inr res"
  shows "(\<forall>t \<in> set (trade_log res). 0 < t_shares t \<and> lot_size (eng_constraints eng) dvd t_shares t) \<and>
    (\<forall>p \<in> set (position_snapshots res). 0 < p_shares p \<and> lot_size (eng_constraints eng) dvd p_shares p) \<and>
    (\<forall>x. int (length (filter (\<lambda>p. p_date p = x) (position_snapshots res))) \<le> max_positions eng)"
  using assms(2)
proof (cases rule: run_Inr_cases)
  case empty
  then show ?thesis using assms(1) by (simp add: engine_wf_def)
next
  case (days rs prices sd first)
  have "\<exists>d. run_ok eng d rs"
  proof (rule run_days_induct [where J = "run_ok eng", OF days(1) trading_days_sorted days(2)])
    show "run_ok eng sd \<lparr>r_book = (\<lparr>cash = initial_capital eng, holdings = [], avg_costs = [],
        last_closes = []\<rparr>, []), r_snapshots = [],
        r_equity = [\<lparr>e_date = first - 1, e_equity = initial_capital eng, e_cash = initial_capital eng\<rparr>],
        r_signals_count = 0\<rparr>"
      using assms(1) by (simp add: run_ok_def book_wf_def engine_wf_def)
  qed (rule run_session_ok [OF assms(1)])
  then show ?thesis using days by (auto simp: run_ok_def book_wf_def)
qed

definition demo_engine :: engine where
  "demo_engine = \<lparr>initial_capital = 10000, eng_cost_model = zero_cost, start_date = 738001,
     end_date = 738010, max_positions = 2, rebalance_mode = ''signal_driven'',
     portfolio_signal_mode = ''event_orders'',
     eng_constraints = \<lparr>volume_participation = None, lot_size = 100\<rparr>,
     eligible_codes_by_date = Some [(738001, [''A'']), (738002, [''A'']), (738003, [''A''])]\<rparr>"

definition demo_row :: "rat \<Rightarrow> rat \<Rightarrow> pivot_row" where
  "demo_row o_price c_price = MultiRow [((''A'', ''open''), Fin o_price), ((''A'', ''close''), Fin c_price)]"

definition demo_pivot :: pivot where
  "demo_pivot = [(738001, demo_row 10 10), (738002, demo_row 10 11), (738003, demo_row 12 12)]"

definition demo_signals :: signal_dict where
  "demo_signals =
     [(Some 738001, [\<lparr>sig_code = ''A'', sig_action = ''buy'', sig_score = 1, sig_weight = 1\<rparr>]),
      (Some 738002, [\<lparr>sig_code = ''A'', sig_action = ''SELL'', sig_score = 1, sig_weight = 0\<rparr>])]"

definition demo_result :: backtest_result where
  "demo_result = \<lparr>equity_curve =
        [\<lparr>e_date = 738000, e_equity = 10000, e_cash = 10000\<rparr>,
         \<lparr>e_date = 738001, e_equity = 10000, e_cash = 10000\<rparr>,
         \<lparr>e_date = 738002, e_equity = 11000, e_cash = 0\<rparr>,
         \<lparr>e_date = 738003, e_equity = 12000, e_cash = 12000\<rparr>],
     trade_log =
       [\<lparr>t_date = 738002, t_signal_date = Some 738001, t_code = ''A'', t_action = ''BUY'',
         t_price = 10, t_shares = 1000, t_amount = 10000, t_cost = 0, t_signal_strategy = ''s'',
         t_signal_score = 1\<rparr>,
        \<lparr>t_date = 738003, t_signal_date = Some 738002, t_code = ''A'', t_action = ''SELL'',
         t_price = 12, t_shares = 1000, t_amount = 12000, t_cost = 0, t_signal_strategy = ''s'',
         t_signal_score = 1\<rparr>],
     position_snapshots =
       [\<lparr>p_date = 738002, p_code = ''A'', p_shares = 1000, p_avg_cost = 10, p_close_price = 11,
         p_market_value = 11000, p_unrealized_pnl = 1000\<rparr>],
     final_equity = 12000, signals_generated = 2, trades_executed = 2\<rparr>"

lemma demo_run: "run demo_engine demo_signals demo_pivot ''s'' None = Inr demo_result"
  by code_simp

lemma demo_engine_wf: "engine_wf demo_engine"
  by (simp add: engine_wf_def demo_engine_def)

theorem run_whole_lots_within_limit_witness:
  "engine_wf demo_engine \<and> run demo_engine demo_signals demo_pivot ''s'' None = Inr demo_result \<and>
   lot_size (eng_constraints demo_engine) dvd t_shares (hd (trade_log demo_result)) \<and>
   int (length (filter (\<lambda>p. p_date p = 738002) (position_snapshots demo_result))) \<le> 2"
  using run_whole_lots_within_limit [OF demo_engine_wf demo_run] demo_engine_wf demo_run
  by (simp add: demo_result_def demo_engine_def)

lemma fills_ok_run_session:
  assumes "0 < lot_size (eng_constraints eng)"
    and "run_session eng signals prices strategy sd fm today rs = Inr rs'" and "today \<in> days"
    and "\<forall>d. sd = Some d \<longrightarrow> d < today" and "\<forall>t \<in> set (snd (r_book rs)). fill_ok eng days t"
  shows "\<forall>t \<in> set (snd (r_book rs')). fill_ok eng days t"
proof -
  have "session_dated days (session_at prices sd today)"
    using assms(3,4) by (auto simp: session_dated_def session_at_def split: option.splits)
  then show ?thesis
    using fills.run_session_keeps [OF assms(2) refl, of days] assms(1,5) by (simp add: fills_ok_def)
qed



text \<open>
  C19. Purchases are paid for: if the fees of no sale of the run exceed its amount, the cash of every
  record of the equity curve is non-negative.
\<close>

theorem run_cash_nonneg:
  assumes "engine_wf eng" and "run eng signals pv strategy xp = Inr res"
    and "covered_sales eng (trade_log res)" and "e \<in> set (equity_curve res)"
  shows "0 \<le> e_cash e"
  using assms(2)
proof (cases rule: run_Inr_cases)
  case empty
  with assms(4) show ?thesis by simp
next
  case (days rs prices sd first)
  have lot: "0 < lot_size (eng_constraints eng)" using assms(1) by (simp add: engine_wf_def)
  let ?J = "\<lambda>(_::date_key) rs. solvent eng (r_book rs) \<and>
    (covered_sales eng (snd (r_book rs)) \<longrightarrow> (\<forall>e \<in> set (r_equity rs). 0 \<le> e_cash e))"
  have "\<exists>d. ?J d rs"
  proof (rule run_days_induct [where J = ?J, OF days(1) trading_days_sorted days(2)])
    fix sd fm today rs rs'
    assume s: "run_session eng signals prices strategy sd fm today rs = Inr rs'" and J: "?J sd rs"
    have sol: "solvent eng (r_book rs')" using solvency.run_session_keeps [OF s refl] J by blast
    have "set (snd (r_book rs)) \<subseteq> set (snd (r_book rs'))"
      using growing.run_session_keeps [OF s refl, of "snd (r_book rs)"] by simp
    then have "covered_sales eng (snd (r_book rs')) \<Longrightarrow> covered_sales eng (snd (r_book rs))"
      by (auto simp: covered_sales_def)
    with J sol lot run_session_cash [OF s] show "?J (Some today) rs'" by (auto simp: solvent_def)
  qed (use assms(1) in \<open>simp add: solvent_def engine_wf_def\<close>)
  then show ?thesis using assms(3,4) days(3,5) by auto
qed

theorem run_cash_nonneg_witness:
  "covered_sales demo_engine (trade_log demo_result) \<and> 0 \<le> e_cash (last (equity_curve demo_result))"
proof -
  have "covered_sales demo_engine (trade_log demo_result)" by code_simp
  moreover have "last (equity_curve demo_result) \<in> set (equity_curve demo_result)"
    by (simp add: demo_result_def)
  ultimately show ?thesis using run_cash_nonneg [OF demo_engine_wf demo_run] by blast
qed

text \<open>
  A sale that does not cover the minimum commission takes money out of the account: 100 shares at
  1/128 bring in less than 1.00, the default model charges 5.00 of commission, and an account
  without cash ends below zero.
\<close>

definition penny_state :: portfolio_state where
  "penny_state = \<lparr>cash = 0, holdings = [(''A'', 100)], avg_costs = [(''A'', 1)], last_closes = []\<rparr>"

lemma calc_sell_cost_fl: "fl (calc_sell_cost cm price n) = calc_sell_cost cm price n"
  by (simp add: calc_sell_cost_def Let_def)

definition penny_engine :: engine where
  "penny_engine = demo_engine\<lparr>eng_cost_model := CostModel\<rparr>"

text \<open>
  A sale is always executed, also when its fees exceed its amount: the engine then books negative
  proceeds and the account's cash can become negative.
\<close>

theorem sell_can_overdraw:
  "\<exists>eng st price t st'. engine_wf eng \<and> 0 \<le> cash st \<and>
     execute_sell eng st ''A'' 100 (Some (Fin price)) None 738002 None ''s'' 0 = (st', Some t) \<and>
     cash st' < 0"
proof -
  let ?r = "execute_sell penny_engine penny_state ''A'' 100 (Some (Fin (1 / 128))) None 738002 None ''s'' 0"
  let ?p = "calc_sell_cost CostModel (1 / 128) 100"
  have "fmul (1 / 128) (float_of_int 100) \<le> fl 1"
    using float_of_int_exact [of 100] by (simp add: fmul_def fl_mono del: fl_1)
  then have "?p < 0"
    by (intro calc_sell_cost_negative [OF CostModel_wf]) (simp_all add: CostModel_def)
  then have "cash (fst ?r) < 0 \<and> snd ?r \<noteq> None"
    using calc_sell_cost_fl [of CostModel "1 / 128" 100]
    by (simp add: execute_sell_def penny_engine_def penny_state_def demo_engine_def Let_def
        dict_get_def valid_price_def executable_shares_def fadd_def)
  then obtain st' t where "?r = (st', Some t)" "cash st' < 0" by (cases ?r) auto
  moreover have "engine_wf penny_engine" "0 \<le> cash penny_state"
    by (simp_all add: engine_wf_def penny_engine_def demo_engine_def penny_state_def)
  ultimately show ?thesis by blast
qed

text \<open>
  Fill constraints: the executable quantity is a whole number of lots between zero and the
  requested one; it is zero for a security without positive finite volume, and with a participation
  limit it never exceeds that share of the session's volume.
\<close>

theorem executable_shares_constraints:
  assumes "0 < lot_size (eng_constraints eng)"
  shows "0 \<le> executable_shares eng code n vols \<and> executable_shares eng code n vols \<le> max n 0 \<and>
    lot_size (eng_constraints eng) dvd executable_shares eng code n vols \<and>
    (\<forall>vs. vols = Some vs \<longrightarrow> (\<nexists>v. map_of vs code = Some (Fin v) \<and> 0 < v) \<longrightarrow>
       executable_shares eng code n vols = 0) \<and>
    (\<forall>vs v p. vols = Some vs \<longrightarrow> map_of vs code = Some (Fin v) \<longrightarrow> 0 \<le> fmul v p \<longrightarrow>
       volume_participation (eng_constraints eng) = Some p \<longrightarrow>
       of_int (executable_shares eng code n vols) \<le> fmul v p)"
proof -
  have "\<forall>vs. vols = Some vs \<longrightarrow> (\<nexists>v. map_of vs code = Some (Fin v) \<and> 0 < v) \<longrightarrow>
      executable_shares eng code n vols = 0"
  proof (intro allI impI)
    fix vs
    assume "vols = Some vs" and none: "\<nexists>v. map_of vs code = Some (Fin v) \<and> 0 < v"
    moreover have "case map_of vs code of None \<Rightarrow> True | Some v \<Rightarrow> \<not> (isfinite v \<and> fpos v)"
    proof (cases "map_of vs code")
      case (Some v)
      with none show ?thesis by (cases v) auto
    qed simp
    ultimately show "executable_shares eng code n vols = 0" using executable_shares_suspended by blast
  qed
  moreover have "\<forall>vs v p. vols = Some vs \<longrightarrow> map_of vs code = Some (Fin v) \<longrightarrow> 0 \<le> fmul v p \<longrightarrow>
      volume_participation (eng_constraints eng) = Some p \<longrightarrow>
      of_int (executable_shares eng code n vols) \<le> fmul v p"
    using executable_shares_volume_cap [OF _ _ assms] by simp
  ultimately show ?thesis
    using executable_shares_bounds [OF assms, of code n vols] by simp
qed

subsection \<open>Selection and weights of the purchases\<close>

lemma select_buys_distinct:
  "distinct (map sig_code acc) \<Longrightarrow> distinct (map sig_code (select_buys n acc ss))"
  by (induction n acc ss rule: select_buys.induct) (auto simp: Let_def)

lemma select_buys_length:
  "int (length acc) < n \<or> ss = [] \<and> int (length acc) \<le> n \<Longrightarrow> int (length (select_buys n acc ss)) \<le> n"
proof (induction n acc ss rule: select_buys.induct)
  case (1 limit acc)
  then show ?case by auto
next
  case (2 limit acc s ss)
  then show ?case by (auto simp: Let_def)
qed

text \<open>What is left out of the selection scores no higher than the last signal selected.\<close>

lemma select_buys_prefix: "\<exists>zs. select_buys n acc ss = acc @ zs"
  by (induction n acc ss rule: select_buys.induct) (fastforce simp: Let_def)+

lemma select_buys_sorted:
  assumes "sorted_wrt R (acc @ ss)"
  shows "sorted_wrt R (select_buys n acc ss)"
  using assms
proof (induction n acc ss rule: select_buys.induct)
  case (1 limit acc)
  then show ?case by simp
next
  case (2 limit acc s ss)
  then have "sorted_wrt R (acc @ ss)" "sorted_wrt R ((acc @ [s]) @ ss)" "sorted_wrt R (acc @ [s])"
    by (auto simp: sorted_wrt_append)
  then show ?case using 2 by (auto simp: Let_def)
qed

lemma sorted_wrt_sort_key: "sorted_wrt (\<lambda>x y. f x \<le> f y) (sort_key f xs)"
  using sorted_sort_key [of f xs] by (simp add: sorted_map)

text \<open>
  The purchases of a session are BUY signals of eligible codes, one per code, no more than
  \<open>max_positions\<close> of them, the best score first.
\<close>

theorem buy_signals_selection:
  assumes "engine_wf eng"
  shows "distinct (map sig_code (buy_signals eng ses sigs)) \<and>
    int (length (buy_signals eng ses sigs)) \<le> max_positions eng \<and>
    sorted_wrt (\<lambda>s1 s2. sig_score s2 \<le> sig_score s1) (buy_signals eng ses sigs) \<and>
    (\<forall>s. s \<in> set (buy_signals eng ses sigs) \<longrightarrow> s \<in> set sigs \<and> str_upper (sig_action s) = ''BUY'' \<and>
       buy_is_eligible eng (sig_code s) (s_signal_date ses) (s_today ses))"
proof -
  have "sorted_wrt (\<lambda>s1 s2. - sig_score s1 \<le> - sig_score s2) (buy_signals eng ses sigs)"
    unfolding buy_signals_def using sorted_wrt_sort_key [of "\<lambda>s. - sig_score s"]
    by (intro select_buys_sorted) simp
  moreover have "distinct (map sig_code (buy_signals eng ses sigs))"
    by (simp add: buy_signals_def select_buys_distinct)
  moreover have "int (length (buy_signals eng ses sigs)) \<le> max_positions eng"
    unfolding buy_signals_def using assms by (intro select_buys_length) (simp add: engine_wf_def)
  ultimately show ?thesis using buy_signals_eligible [of _ eng ses sigs] by simp
qed

lemma foldl_fadd_ge:
  assumes "\<forall>w \<in> set ws. 0 \<le> w \<and> fl w = w" and "0 \<le> a" and "fl a = a"
  shows "a \<le> foldl fadd a ws \<and> (\<forall>w \<in> set ws. w \<le> foldl fadd a ws)"
  using assms
proof (induction ws arbitrary: a)
  case Nil
  then show ?case by simp
next
  case (Cons w ws)
  have "a \<le> fadd a w" using fadd_ge [of w a] Cons.prems by simp
  moreover have "w \<le> fadd a w" using fadd_ge [of a w] Cons.prems by (simp add: fadd_def add.commute)
  moreover have "fadd a w \<le> foldl fadd (fadd a w) ws \<and> (\<forall>v \<in> set ws. v \<le> foldl fadd (fadd a w) ws)"
    using Cons.prems by (intro Cons.IH) auto
  ultimately show ?case by auto
qed

text \<open>
  Target weights: one per signal, each between 0 and the tolerance 1.000001 the code allows a sum
  of weights.
\<close>

theorem target_weights_bounds:
  assumes "\<And>s. s \<in> set sigs \<Longrightarrow> fl (sig_weight s) = sig_weight s"
  shows "length (target_weights sigs) = length sigs \<and>
    (\<forall>w. w \<in> set (target_weights sigs) \<longrightarrow> 0 \<le> w \<and> w \<le> fl (1000001 / 1000000))"
proof (cases "sigs = []")
  case True
  then show ?thesis by (simp add: target_weights_def)
next
  case False
  let ?ws = "map (\<lambda>s. max (sig_weight s) 0) sigs"
  let ?sum = "foldl fadd 0 ?ws"
  have ws: "\<forall>w \<in> set ?ws. 0 \<le> w \<and> fl w = w"
    using assms by (auto simp: max_def)
  have ge: "\<forall>w \<in> set ?ws. w \<le> ?sum"
    using foldl_fadd_ge [OF ws, of 0] by simp
  have one: "1 \<le> fl (1000001 / 1000000)" using fl_mono [of 1 "1000001 / 1000000"] by simp
  consider "?sum \<le> 0" | "0 < ?sum" "fl (1000001 / 1000000) < ?sum" | "0 < ?sum" "?sum \<le> fl (1000001 / 1000000)"
    by linarith
  then show ?thesis
  proof cases
    case 1
    have "1 / float_of_int (int (length sigs)) \<le> 1"
      using False fl_mono [of 1 "of_int (int (length sigs))"]
      by (simp add: float_of_int_def Suc_le_eq divide_le_eq_1)
    then have "fdiv 1 (float_of_int (int (length sigs))) \<le> 1"
      using fl_mono [of "1 / float_of_int (int (length sigs))" 1] by (simp add: fdiv_def)
    moreover have "0 \<le> fdiv 1 (float_of_int (int (length sigs)))"
      by (intro fdiv_nonneg float_of_int_nonneg) simp_all
    ultimately show ?thesis using 1 False one by (auto simp: target_weights_def Let_def)
  next
    case 2
    have "0 \<le> fdiv w ?sum \<and> fdiv w ?sum \<le> 1" if "w \<in> set ?ws" for w
    proof -
      have "w / ?sum \<le> 1" using bspec [OF ge that] 2 by simp
      moreover have "0 \<le> w / ?sum" using bspec [OF ws that] 2 by simp
      ultimately show ?thesis
        using fl_mono [of "w / ?sum" 1] b64.rnd_nonneg [of "w / ?sum"] by (simp add: fdiv_def)
    qed
    moreover have "target_weights sigs = map (\<lambda>w. fdiv w ?sum) ?ws"
      using 2 False by (simp add: target_weights_def Let_def)
    ultimately have "\<forall>w \<in> set (target_weights sigs). 0 \<le> w \<and> w \<le> 1" by simp
    then have "\<forall>w \<in> set (target_weights sigs). 0 \<le> w \<and> w \<le> fl (1000001 / 1000000)"
      using one by (meson order_trans)
    moreover have "length (target_weights sigs) = length sigs" using \<open>target_weights sigs = _\<close> by simp
    ultimately show ?thesis by blast
  next
    case 3
    then have "target_weights sigs = ?ws" using False by (simp add: target_weights_def Let_def)
    moreover have "0 \<le> w \<and> w \<le> fl (1000001 / 1000000)" if "w \<in> set ?ws" for w
      using bspec [OF ws that] bspec [OF ge that] 3(2) by linarith
    ultimately show ?thesis by (simp only: length_map simp_thms) blast
  qed
qed

definition demo_session :: session where
  "demo_session = session_at demo_pivot (Some 738001) 738002"

definition demo_buys :: "signal_item list" where
  "demo_buys = [\<lparr>sig_code = ''A'', sig_action = ''buy'', sig_score = 1, sig_weight = 2\<rparr>,
     \<lparr>sig_code = ''B'', sig_action = ''BUY'', sig_score = 2, sig_weight = 1\<rparr>]"

theorem executable_shares_constraints_witness:
  "lot_size (eng_constraints demo_engine) dvd executable_shares demo_engine ''A'' 250 None \<and>
   executable_shares demo_engine ''A'' 250 None = 200"
proof -
  have "0 < lot_size (eng_constraints demo_engine)" by (simp add: demo_engine_def)
  from executable_shares_constraints [OF this, of "''A''" 250 None] show ?thesis
    by (simp add: demo_engine_def executable_shares_def)
qed

theorem buy_signals_selection_witness:
  "engine_wf demo_engine \<and> distinct (map sig_code (buy_signals demo_engine demo_session demo_buys)) \<and>
   length (buy_signals demo_engine demo_session demo_buys) = 1"
proof -
  have "length (buy_signals demo_engine demo_session demo_buys) = 1" by code_simp
  with buy_signals_selection [OF demo_engine_wf, of demo_session demo_buys] demo_engine_wf
  show ?thesis by blast
qed

theorem target_weights_bounds_witness:
  "fl 2 = 2 \<and> length (target_weights demo_buys) = 2"
proof -
  have f: "fl (2 :: rat) = 2" by (rule fl_numeral) simp
  have "fl (sig_weight s) = sig_weight s" if "s \<in> set demo_buys" for s
    using that f by (auto simp: demo_buys_def)
  from target_weights_bounds [of demo_buys, OF this] f show ?thesis by (simp add: demo_buys_def)
qed

subsection \<open>When a run fails\<close>

lemma run_session_Inl:
  "(\<exists>e. run_session eng signals prices strategy sd fm today rs = Inl e) \<longleftrightarrow>
   (\<exists>by_date. eligible_codes_by_date eng = Some by_date \<and> map_of by_date today = None)"
  by (auto simp: run_session_def Let_def forced_exits_def session_at_def split: option.splits prod.splits)

lemma run_days_Inl:
  "(\<exists>e. run_days eng signals prices strategy sd pm days rs = Inl e) \<longleftrightarrow>
   (\<exists>by_date. eligible_codes_by_date eng = Some by_date \<and> (\<exists>d \<in> set days. map_of by_date d = None))"
proof (induction eng signals prices strategy sd pm days rs rule: run_days.induct)
  case (1 eng signals prices strategy sd pm rs)
  then show ?case by simp
next
  case (2 eng signals prices strategy sd pm today days rs)
  let ?s = "run_session eng signals prices strategy sd (pm \<noteq> Some (year_month today)) today rs"
  show ?case
  proof (cases ?s)
    case (Inl e)
    then show ?thesis using run_session_Inl [of eng signals prices strategy sd _ today rs] by auto
  next
    case (Inr rs1)
    then have "\<not> (\<exists>by_date. eligible_codes_by_date eng = Some by_date \<and> map_of by_date today = None)"
      using run_session_Inl [of eng signals prices strategy sd _ today rs] by (metis Inl_Inr_False)
    then show ?thesis using "2.IH" [of rs1] Inr by auto
  qed
qed


end
