(* ===== verification/Payload.thy ===== *)
theory Payload
  imports Prelude Py_Float
begin

text \<open>
  The payload boundary of \<open>backend/core/security_boundaries.py\<close>: which Python values may be
  stored as JSON (\<open>canonical_json_for_storage\<close>), and what is removed from a value before a client
  sees it (\<open>sanitize_public_payload\<close>, \<open>sanitize_diagnostic\<close>).

  A Python value is a \<open>pyval\<close>. \<open>PSeq\<close> is a list or a tuple, \<open>PDict\<close> a mapping in insertion order
  and \<open>POther\<close> a value of any other class. What the code takes from outside the repository is the
  record \<open>outside\<close>: \<open>repr\<close> of the values whose text the model does not compute (floats and
  containers), and the result of each of the six regular-expression substitutions.
\<close>

datatype pyval =
    PNone
  | PBool bool
  | PInt int
  | PFloat pyfloat
  | PStr string
  | PSeq "pyval list"
  | PDict "(pyval \<times> pyval) list"
  | POther string

datatype redaction =
    SENSITIVE_QUERY_VALUE
  | BEARER
  | SENSITIVE_ASSIGNMENT
  | JWT
  | WINDOWS_ABSOLUTE_PATH
  | POSIX_ABSOLUTE_PATH

record outside =
  py_repr :: "pyval \<Rightarrow> string"
  re_sub :: "redaction \<Rightarrow> string \<Rightarrow> string"

subsection \<open>Python's \<open>bool(v)\<close>, \<open>str(v)\<close>, \<open>int(v)\<close> and \<open>d.get(k)\<close>\<close>

fun truthy :: "pyval \<Rightarrow> bool" where
  "truthy PNone = False"
| "truthy (PBool b) = b"
| "truthy (PInt i) = (i \<noteq> 0)"
| "truthy (PFloat x) = (x \<noteq> Fin 0)"
| "truthy (PStr s) = (s \<noteq> [])"
| "truthy (PSeq vs) = (vs \<noteq> [])"
| "truthy (PDict kvs) = (kvs \<noteq> [])"
| "truthy (POther s) = True"

fun py_str :: "('a outside_scheme) \<Rightarrow> pyval \<Rightarrow> string" where
  "py_str E PNone = ''None''"
| "py_str E (PBool b) = (if b then ''True'' else ''False'')"
| "py_str E (PInt i) = str_of_int i"
| "py_str E (PStr s) = s"
| "py_str E v = py_repr E v"

fun py_int :: "pyval \<Rightarrow> int result" where
  "py_int (PBool b) = Inr (if b then 1 else 0)"
| "py_int (PInt i) = Inr i"
| "py_int (PFloat (Fin x)) = Inr (int_of_float x)"
| "py_int (PStr s) =
     (case py_int_of_str s of None \<Rightarrow> Inl (ValueError ''invalid literal for int()'') | Some i \<Rightarrow> Inr i)"
| "py_int v = Inl (ValueError ''cannot convert to int'')"

fun pget :: "pyval \<Rightarrow> string \<Rightarrow> pyval" where
  "pget (PDict kvs) k = dict_get kvs (PStr k) PNone"
| "pget v k = PNone"

fun pset :: "pyval \<Rightarrow> string \<Rightarrow> pyval \<Rightarrow> pyval" where
  "pset (PDict kvs) k v = PDict (AList.update (PStr k) v kvs)"
| "pset w k v = w"

subsection \<open>What may be stored\<close>

definition SENSITIVE_KEY_PARTS :: "string list" where
  "SENSITIVE_KEY_PARTS =
     [''authorization'', ''api_key'', ''apikey'', ''access_token'', ''refresh_token'', ''password'',
      ''passwd'', ''passphrase'', ''private_key'', ''secret'', ''session'', ''cookie'', ''token'']"

definition PATH_KEY_PARTS :: "string list" where
  "PATH_KEY_PARTS = [''path'', ''directory'', ''checkpoint'', ''review_queue'', ''coverage_report'']"

definition any_part :: "string list \<Rightarrow> string \<Rightarrow> bool" where
  "any_part parts key = list_ex (\<lambda>part. str_contains key part) parts"

record payload_limits =
  max_bytes :: nat
  max_depth :: nat
  max_nodes :: nat
  forbid_sensitive_keys :: bool

text \<open>
  The nested function \<open>inspect\<close> with its \<open>nonlocal nodes\<close> counter: \<open>visit\<close> is its treatment of the
  node itself, it returns the counter, and the two loops over children are \<open>inspect_items\<close> and
  \<open>inspect_seq\<close>.
\<close>

definition visit :: "payload_limits \<Rightarrow> string \<Rightarrow> pyval \<Rightarrow> string \<Rightarrow> nat \<Rightarrow> nat \<Rightarrow> nat result" where
  "visit L fld item path depth nodes =
     (if nodes + 1 > max_nodes L then Inl (UnsafePayloadError ''payload_node_limit_exceeded'' fld)
      else if depth > max_depth L then Inl (UnsafePayloadError ''payload_depth_limit_exceeded'' fld)
      else case item of
        PFloat x \<Rightarrow>
          if isfinite x then Inr (nodes + 1)
          else Inl (UnsafePayloadError ''payload_non_finite_number'' path)
      | POther s \<Rightarrow> Inl (UnsafePayloadError ''payload_type_forbidden'' path)
      | _ \<Rightarrow> Inr (nodes + 1))"

definition check_key :: "payload_limits \<Rightarrow> string \<Rightarrow> pyval \<Rightarrow> string result" where
  "check_key L path key =
     (case key of
        PStr raw_key \<Rightarrow>
          if length raw_key > 128 then Inl (UnsafePayloadError ''payload_key_too_long'' path)
          else if forbid_sensitive_keys L \<and> any_part SENSITIVE_KEY_PARTS (str_lower raw_key)
          then Inl (UnsafePayloadError ''payload_secret_key_forbidden'' path)
          else Inr raw_key
      | _ \<Rightarrow> Inl (UnsafePayloadError ''payload_key_must_be_string'' path))"

lemma size_snd_item [termination_simp]: "size (snd kv) < Suc (size_prod size size (kv :: pyval \<times> pyval))"
  by (cases kv) simp

function (sequential) inspect :: "payload_limits \<Rightarrow> string \<Rightarrow> pyval \<Rightarrow> string \<Rightarrow> nat \<Rightarrow> nat \<Rightarrow> nat result"
  and inspect_items :: "payload_limits \<Rightarrow> string \<Rightarrow> (pyval \<times> pyval) list \<Rightarrow> string \<Rightarrow> nat \<Rightarrow> nat \<Rightarrow> nat result"
  and inspect_seq :: "payload_limits \<Rightarrow> string \<Rightarrow> pyval list \<Rightarrow> nat \<Rightarrow> string \<Rightarrow> nat \<Rightarrow> nat \<Rightarrow> nat result"
where
  "inspect L fld item path depth nodes =
     rbind (visit L fld item path depth nodes) (\<lambda>n.
       case item of
         PDict kvs \<Rightarrow> inspect_items L fld kvs path depth n
       | PSeq vs \<Rightarrow> inspect_seq L fld vs 0 path depth n
       | _ \<Rightarrow> Inr n)"
| "inspect_items L fld [] path depth nodes = Inr nodes"
| "inspect_items L fld (kv # kvs) path depth nodes =
     rbind (check_key L path (fst kv)) (\<lambda>raw_key.
     rbind (inspect L fld (snd kv) (path @ ''.'' @ raw_key) (depth + 1) nodes) (\<lambda>n.
       inspect_items L fld kvs path depth n))"
| "inspect_seq L fld [] index path depth nodes = Inr nodes"
| "inspect_seq L fld (child # vs) index path depth nodes =
     rbind (inspect L fld child (path @ ''['' @ str_of_nat index @ '']'') (depth + 1) nodes) (\<lambda>n.
       inspect_seq L fld vs (index + 1) path depth n)"
  by pat_completeness auto

termination
  by (relation "measure (case_sum (\<lambda>(L, fld, v, path, d, n). size v)
        (case_sum (\<lambda>(L, fld, kvs, path, d, n). size_list (size_prod size size) kvs)
          (\<lambda>(L, fld, vs, i, path, d, n). size_list size vs)))")
    (auto simp: termination_simp less_Suc_eq_le)

text \<open>
  \<open>json.dumps(value, allow_nan=False, ensure_ascii=False, sort_keys=True, separators=(',', ':'))\<close>;
  \<open>None\<close> stands for its \<open>TypeError\<close> or \<open>ValueError\<close>.
\<close>

definition hex_digit :: "nat \<Rightarrow> char" where
  "hex_digit n = (if n < 10 then char_of (48 + n) else char_of (87 + n))"

definition json_escape :: "char \<Rightarrow> string" where
  "json_escape c =
     (let n = of_char c :: nat in
      if n = 34 then [CHR 0x5C, CHR 0x22]
      else if n = 92 then [CHR 0x5C, CHR 0x5C]
      else if n = 10 then CHR 0x5C # ''n''
      else if n = 13 then CHR 0x5C # ''r''
      else if n = 9 then CHR 0x5C # ''t''
      else if n = 12 then CHR 0x5C # ''f''
      else if n = 8 then CHR 0x5C # ''b''
      else if n < 32 then CHR 0x5C # ''u00'' @ [hex_digit (n div 16), hex_digit (n mod 16)]
      else [c])"

definition json_quote :: "string \<Rightarrow> string" where
  "json_quote s = CHR 0x22 # concat (map json_escape s) @ [CHR 0x22]"

fun json_dumps :: "('a outside_scheme) \<Rightarrow> pyval \<Rightarrow> string option"
  and json_items :: "('a outside_scheme) \<Rightarrow> (pyval \<times> pyval) list \<Rightarrow> (string \<times> string) list option"
  and json_seq :: "('a outside_scheme) \<Rightarrow> pyval list \<Rightarrow> string list option"
where
  "json_dumps E PNone = Some ''null''"
| "json_dumps E (PBool b) = Some (if b then ''true'' else ''false'')"
| "json_dumps E (PInt i) = Some (str_of_int i)"
| "json_dumps E (PFloat x) = (if isfinite x then Some (py_repr E (PFloat x)) else None)"
| "json_dumps E (PStr s) = Some (json_quote s)"
| "json_dumps E (PSeq vs) =
     (case json_seq E vs of None \<Rightarrow> None | Some ss \<Rightarrow> Some (''['' @ str_join '','' ss @ '']''))"
| "json_dumps E (PDict kvs) =
     (case json_items E kvs of
        None \<Rightarrow> None
      | Some ps \<Rightarrow>
          Some (''{'' @ str_join '','' (map (\<lambda>(k, s). json_quote k @ '':'' @ s) (sort_key fst ps)) @ ''}''))"
| "json_dumps E (POther s) = None"
| "json_items E [] = Some []"
| "json_items E ((k, v) # kvs) =
     (case k of
        PStr key \<Rightarrow>
          (case json_dumps E v of
             None \<Rightarrow> None
           | Some s \<Rightarrow>
               (case json_items E kvs of None \<Rightarrow> None | Some ps \<Rightarrow> Some ((key, s) # ps)))
      | _ \<Rightarrow> None)"
| "json_seq E [] = Some []"
| "json_seq E (v # vs) =
     (case json_dumps E v of
        None \<Rightarrow> None
      | Some s \<Rightarrow> (case json_seq E vs of None \<Rightarrow> None | Some ss \<Rightarrow> Some (s # ss)))"

definition utf8_length :: "string \<Rightarrow> nat" where
  "utf8_length s = sum_list (map (\<lambda>c. if of_char c < (128 :: nat) then 1 else 2) s)"

definition canonical_json_for_storage ::
  "('a outside_scheme) \<Rightarrow> payload_limits \<Rightarrow> string \<Rightarrow> pyval \<Rightarrow> string result" where
  "canonical_json_for_storage E L fld v =
     rbind (inspect L fld v fld 0 0) (\<lambda>nodes.
       case json_dumps E v of
         None \<Rightarrow> Inl (UnsafePayloadError ''payload_not_canonical_json'' fld)
       | Some encoded \<Rightarrow>
           if utf8_length encoded > max_bytes L
           then Inl (UnsafePayloadError ''payload_size_limit_exceeded'' fld)
           else Inr encoded)"

subsection \<open>What a client sees\<close>

text \<open>
  The ellipsis that opens the truncation mark is U+2026 in the source; here it is the placeholder
  character \<open>CHR 0x1A\<close>, so that lengths agree.
\<close>

definition sanitize_diagnostic :: "('a outside_scheme) \<Rightarrow> nat \<Rightarrow> pyval \<Rightarrow> string" where
  "sanitize_diagnostic E max_length v =
     (let text = (if truthy v then py_str E v else []);
          text = re_sub E SENSITIVE_QUERY_VALUE text;
          text = re_sub E BEARER text;
          text = re_sub E SENSITIVE_ASSIGNMENT text;
          text = re_sub E JWT text;
          text = re_sub E WINDOWS_ABSOLUTE_PATH text;
          text = re_sub E POSIX_ABSOLUTE_PATH text
      in if length text > max_length
         then take (max_length - 14) text @ CHR 0x1A # ''<truncated>''
         else text)"

fun sanitize_public_payload :: "('a outside_scheme) \<Rightarrow> pyval \<Rightarrow> pyval"
  and sanitize_items :: "('a outside_scheme) \<Rightarrow> (pyval \<times> pyval) list \<Rightarrow> (pyval \<times> pyval) list \<Rightarrow> (pyval \<times> pyval) list"
  and sanitize_seq :: "('a outside_scheme) \<Rightarrow> pyval list \<Rightarrow> pyval list"
where
  "sanitize_public_payload E (PDict kvs) = PDict (sanitize_items E [] kvs)"
| "sanitize_public_payload E (PSeq vs) = PSeq (sanitize_seq E vs)"
| "sanitize_public_payload E (PStr s) = PStr (sanitize_diagnostic E 8192 (PStr s))"
| "sanitize_public_payload E v = v"
| "sanitize_items E cleaned [] = cleaned"
| "sanitize_items E cleaned ((raw_key, item) # kvs) =
     (let key = py_str E raw_key; lowered = str_lower key in
      sanitize_items E
        (AList.update (PStr key)
          (if any_part SENSITIVE_KEY_PARTS lowered then PStr ''***''
           else if any_part PATH_KEY_PARTS lowered
           then (if item = PNone then PNone else PStr ''<internal-path>'')
           else sanitize_public_payload E item)
          cleaned)
        kvs)"
| "sanitize_seq E [] = []"
| "sanitize_seq E (v # vs) = sanitize_public_payload E v # sanitize_seq E vs"

subsection \<open>The contract of the storage boundary\<close>

text \<open>
  What \<open>inspect\<close> promises, without its traversal: the number of nodes of a value, the depth of its
  deepest node, and that every node is a storable one.
\<close>

fun node_count :: "pyval \<Rightarrow> nat" and items_count :: "(pyval \<times> pyval) list \<Rightarrow> nat"
  and seq_count :: "pyval list \<Rightarrow> nat"
where
  "node_count (PDict kvs) = Suc (items_count kvs)"
| "node_count (PSeq vs) = Suc (seq_count vs)"
| "node_count v = 1"
| "items_count [] = 0"
| "items_count ((k, v) # kvs) = node_count v + items_count kvs"
| "seq_count [] = 0"
| "seq_count (v # vs) = node_count v + seq_count vs"

fun depth_ok :: "nat \<Rightarrow> pyval \<Rightarrow> bool" and items_depth_ok :: "nat \<Rightarrow> (pyval \<times> pyval) list \<Rightarrow> bool"
  and seq_depth_ok :: "nat \<Rightarrow> pyval list \<Rightarrow> bool"
where
  "depth_ok room (PDict kvs) = items_depth_ok room kvs"
| "depth_ok room (PSeq vs) = seq_depth_ok room vs"
| "depth_ok room v = True"
| "items_depth_ok room [] = True"
| "items_depth_ok room ((k, v) # kvs) = (0 < room \<and> depth_ok (room - 1) v \<and> items_depth_ok room kvs)"
| "seq_depth_ok room [] = True"
| "seq_depth_ok room (v # vs) = (0 < room \<and> depth_ok (room - 1) v \<and> seq_depth_ok room vs)"

definition key_ok :: "bool \<Rightarrow> pyval \<Rightarrow> bool" where
  "key_ok forbid k =
     (case k of
        PStr s \<Rightarrow> length s \<le> 128 \<and> \<not> (forbid \<and> any_part SENSITIVE_KEY_PARTS (str_lower s))
      | _ \<Rightarrow> False)"

fun storable :: "bool \<Rightarrow> pyval \<Rightarrow> bool" and items_storable :: "bool \<Rightarrow> (pyval \<times> pyval) list \<Rightarrow> bool"
  and seq_storable :: "bool \<Rightarrow> pyval list \<Rightarrow> bool"
where
  "storable forbid (PDict kvs) = items_storable forbid kvs"
| "storable forbid (PSeq vs) = seq_storable forbid vs"
| "storable forbid (PFloat x) = isfinite x"
| "storable forbid (POther s) = False"
| "storable forbid v = True"
| "items_storable forbid [] = True"
| "items_storable forbid ((k, v) # kvs) = (key_ok forbid k \<and> storable forbid v \<and> items_storable forbid kvs)"
| "seq_storable forbid [] = True"
| "seq_storable forbid (v # vs) = (storable forbid v \<and> seq_storable forbid vs)"

declare inspect.simps [simp del]

lemma node_count_pos: "0 < node_count v"
  by (cases v) auto

lemma inspect_iff:
  "inspect L fld v path d n = Inr n' \<longleftrightarrow>
     n' = n + node_count v \<and> n' \<le> max_nodes L \<and> d \<le> max_depth L \<and>
     depth_ok (max_depth L - d) v \<and> storable (forbid_sensitive_keys L) v"
  "n \<le> max_nodes L \<Longrightarrow> d \<le> max_depth L \<Longrightarrow>
   inspect_items L fld kvs path d n = Inr n' \<longleftrightarrow>
     n' = n + items_count kvs \<and> n' \<le> max_nodes L \<and>
     items_depth_ok (max_depth L - d) kvs \<and> items_storable (forbid_sensitive_keys L) kvs"
  "n \<le> max_nodes L \<Longrightarrow> d \<le> max_depth L \<Longrightarrow>
   inspect_seq L fld vs i path d n = Inr n' \<longleftrightarrow>
     n' = n + seq_count vs \<and> n' \<le> max_nodes L \<and>
     seq_depth_ok (max_depth L - d) vs \<and> seq_storable (forbid_sensitive_keys L) vs"
proof (induction L fld v path d n and L fld kvs path d n and L fld vs i path d n
    arbitrary: n' and n' and n' rule: inspect_inspect_items_inspect_seq.induct)
  case (1 L fld item path depth nodes)
  then show ?case
    unfolding inspect.simps [of L fld item path depth nodes]
    by (cases item) (auto simp: visit_def)
next
  case (3 L fld kv kvs path depth nodes)
  then show ?case
    by (cases kv) (auto simp: key_ok_def check_key_def rbind_Inr_conv split: pyval.splits)
qed (auto simp: rbind_Inr_conv)

lemma json_dumps_defined:
  "storable forbid v \<Longrightarrow> json_dumps E v \<noteq> None"
  "items_storable forbid kvs \<Longrightarrow> json_items E kvs \<noteq> None"
  "seq_storable forbid vs \<Longrightarrow> json_seq E vs \<noteq> None"
  by (induction forbid v and forbid kvs and forbid vs rule: storable_items_storable_seq_storable.induct)
    (auto simp: key_ok_def split: pyval.splits)


text \<open>
  The values a client may see: no entry of a mapping keeps the value of a sensitive or a path key.
\<close>

definition entry_public :: "pyval \<Rightarrow> pyval \<Rightarrow> bool" where
  "entry_public k v =
     (case k of
        PStr s \<Rightarrow>
          (if any_part SENSITIVE_KEY_PARTS (str_lower s) then v = PStr ''***''
           else any_part PATH_KEY_PARTS (str_lower s) \<longrightarrow> v = PNone \<or> v = PStr ''<internal-path>'')
      | _ \<Rightarrow> False)"

fun public :: "pyval \<Rightarrow> bool" and items_public :: "(pyval \<times> pyval) list \<Rightarrow> bool"
  and seq_public :: "pyval list \<Rightarrow> bool"
where
  "public (PDict kvs) = items_public kvs"
| "public (PSeq vs) = seq_public vs"
| "public (PStr s) = (length s \<le> 8192)"
| "public v = True"
| "items_public [] = True"
| "items_public ((k, v) # kvs) = (entry_public k v \<and> public v \<and> items_public kvs)"
| "seq_public [] = True"
| "seq_public (v # vs) = (public v \<and> seq_public vs)"

lemma sanitize_diagnostic_length: "14 \<le> m \<Longrightarrow> length (sanitize_diagnostic E m v) \<le> m"
  by (auto simp: sanitize_diagnostic_def Let_def)

lemma items_public_update:
  "items_public kvs \<Longrightarrow> entry_public k v \<Longrightarrow> public v \<Longrightarrow> items_public (AList.update k v kvs)"
  by (induction kvs) auto

lemma public_sanitized:
  "public (sanitize_public_payload E v)"
  "items_public cleaned \<Longrightarrow> items_public (sanitize_items E cleaned kvs)"
  "seq_public (sanitize_seq E vs)"
proof (induction E v and E cleaned kvs and E vs
    rule: sanitize_public_payload_sanitize_items_sanitize_seq.induct)
  case (6 E cleaned raw_key item kvs)
  let ?k = "py_str E raw_key"
  let ?v = "if any_part SENSITIVE_KEY_PARTS (str_lower ?k) then PStr ''***''
            else if any_part PATH_KEY_PARTS (str_lower ?k)
            then (if item = PNone then PNone else PStr ''<internal-path>'')
            else sanitize_public_payload E item"
  have "entry_public (PStr ?k) ?v" and "public ?v"
    using 6(1) by (simp_all add: entry_public_def)
  then have "items_public (AList.update (PStr ?k) ?v cleaned)"
    using 6(3) by (intro items_public_update)
  then show ?case
    using 6(2) [OF refl refl] by (simp only: sanitize_items.simps Let_def)
qed (simp_all add: sanitize_diagnostic_length)


end
