(* ===== verification/Job_Store.thy ===== *)
theory Job_Store
  imports Payload
begin

text \<open>
  The data of the durable job queue (\<open>backend/jobs/broker.py\<close>): the SQLite tables it reads and
  writes, the settings it consults, and its module-level helpers, which classify a job (priority,
  queue group, cache resource, dispatch needs), validate a submission and keep a backtest's
  experiment and parameter sweep in step with its job.

  A table is the list of its rows, in the order of their insertion. The clock is a parameter
  \<open>t\<close> in milliseconds since the Unix epoch; \<open>datetime('now')\<close> is the whole second, stored as an
  integer, so that SQLite's comparison of the text is the comparison of the integers. A column
  that holds JSON text holds here the value the text decodes to. The Chinese messages and names
  the code writes are constructors of \<open>msg\<close> and \<open>label\<close>. The columns a schema lacks are those not
  listed in \<open>columns\<close>; tables the code does not look up there exist.
\<close>

subsection \<open>Statuses\<close>

datatype job_status = Pending | Running | Cancel_requested | Completed | Failed | Cancelled

fun status_str :: "job_status \<Rightarrow> string" where
  "status_str Pending = ''pending''"
| "status_str Running = ''running''"
| "status_str Cancel_requested = ''cancel_requested''"
| "status_str Completed = ''completed''"
| "status_str Failed = ''failed''"
| "status_str Cancelled = ''cancelled''"

definition VALID_STATUSES :: "job_status list" where
  "VALID_STATUSES = [Pending, Running, Cancel_requested, Completed, Failed, Cancelled]"

definition parse_status :: "string \<Rightarrow> job_status option" where
  "parse_status s = find (\<lambda>st. status_str st = s) VALID_STATUSES"

fun terminal :: "job_status \<Rightarrow> bool" where
  "terminal Completed = True"
| "terminal Failed = True"
| "terminal Cancelled = True"
| "terminal _ = False"

definition active :: "job_status \<Rightarrow> bool" where
  "active st = (st = Pending \<or> st = Running \<or> st = Cancel_requested)"

definition claimed_status :: "job_status \<Rightarrow> bool" where
  "claimed_status st = (st = Running \<or> st = Cancel_requested)"

lemma active_iff: "active st \<longleftrightarrow> \<not> terminal st"
  by (cases st) (auto simp: active_def)

lemma parse_status_str [simp]: "parse_status (status_str st) = Some st"
  by (cases st) (auto simp: parse_status_def VALID_STATUSES_def)

lemma parse_status_Some: "parse_status s = Some st \<Longrightarrow> s = status_str st"
  by (auto simp: parse_status_def dest: find_Some_mem)

subsection \<open>Rows\<close>

datatype msg =
    Text string
  | Waiting
  | Waiting_recovery
  | Waiting_recovery_copy
  | Started
  | Cancel_done
  | Cancel_stopping
  | Cancel_safely_stopped
  | Cancelled_in_queue
  | Cancelled_at_shutdown
  | Task_cancelled
  | Task_failed
  | Cancel_asked
  | Submitted
  | Batch_submitted
  | Retry_submitted
  | Retry_queued
  | Lease_expired_waiting
  | Lease_expired_cancelled
  | State_reconciled string string
  | Job_failed_reconciled
  | Job_cancelled_reconciled
  | Job_failed_see_audit

datatype label =
    Label string
  | Default_label string
  | Copy_label label int
  | Recovery_label label

record job =
  j_id :: int
  j_type :: string
  j_display_name :: label
  j_params :: pyval
  j_status :: job_status
  j_progress :: rat
  j_progress_message :: "msg option"
  j_stage :: "string option"
  j_result :: "string option"
  j_error :: "string option"
  j_resource_type :: "string option"
  j_resource_id :: "string option"
  j_parent :: "string option"
  j_attempt :: int
  j_worker_id :: "string option"
  j_priority :: int
  j_queue_group :: string
  j_generation :: int
  j_lease_expires_at :: "int option"
  j_cancel_requested_at :: "int option"
  j_heartbeat_at :: "int option"
  j_created_at :: int
  j_updated_at :: int
  j_started_at :: "int option"
  j_completed_at :: "int option"
  j_user_id :: "int option"
  j_uuid :: string
  j_runtime_identity :: string

record job_event =
  ev_uuid :: string
  ev_status :: string
  ev_progress :: rat
  ev_stage :: "string option"
  ev_message :: "msg option"
  ev_created_at :: int

record op_event =
  o_name :: string
  o_category :: string
  o_job_type :: "string option"
  o_outcome :: "string option"
  o_stage :: "string option"
  o_value :: rat
  o_created_at :: int

record experiment_rec =
  e_id :: int
  e_user_id :: "int option"
  e_name :: label
  e_strategy_id :: pyval
  e_strategy_category :: pyval
  e_is_starred :: pyval
  e_labels :: pyval
  e_pool_preset :: pyval
  e_pool_custom_codes :: pyval
  e_pool_industries :: pyval
  e_train_start :: pyval
  e_train_end :: pyval
  e_test_start :: pyval
  e_test_end :: pyval
  e_params :: pyval
  e_params_hash :: pyval
  e_mode :: pyval
  e_requires_training :: pyval
  e_retrain_frequency :: pyval
  e_status :: string
  e_progress_pct :: int
  e_progress_message :: "msg option"
  e_error_log :: "msg option"
  e_started_at :: "int option"
  e_completed_at :: "int option"
  e_source_experiment_id :: pyval
  e_run_spec :: pyval

record param_sweep =
  w_id :: int
  w_user_id :: "int option"
  w_total_experiments :: int
  w_completed_experiments :: int
  w_status :: string

record scheduler_lease =
  l_owner_id :: string
  l_owner_host :: "string option"
  l_owner_pid :: "int option"
  l_owner_process_start :: "string option"
  l_heartbeat_at :: int
  l_expires_at :: int

record db =
  jobs :: "job list"
  job_events :: "job_event list"
  operational_events :: "op_event list"
  experiments :: "experiment_rec list"
  param_sweeps :: "param_sweep list"
  sweep_experiments :: "(int \<times> int) list"
  research_run_manifests :: "int list"
  job_scheduler_lease :: "scheduler_lease option"
  next_job_id :: int
  next_experiment_id :: int
  columns :: "string \<Rightarrow> string list"

text \<open>
  The settings the queue reads (\<open>backend/config.py\<close>), and what it takes from outside the
  repository beside \<open>outside\<close>: the SHA-256 digest, the JSON decoder (\<open>None\<close> is its
  \<open>JSONDecodeError\<close>) and the code identity of the running process.
\<close>

record env = outside +
  JOB_SCHEDULER_LEASE_SECONDS :: int
  JOB_SCHEDULER_SWEEP_MAX_RUNNING :: int
  JOB_SCHEDULER_MAX_PENDING_JOBS :: int
  JOB_SCHEDULER_AGING_SECONDS :: int
  JOB_SCHEDULER_LIGHT_BACKTEST_MAX_CODES :: int
  JOB_SCHEDULER_MAX_ACTIVE_PER_USER :: int
  JOB_OBSERVABILITY_RETENTION_HOURS :: int
  sha256_hex :: "string \<Rightarrow> string"
  json_loads :: "string \<Rightarrow> pyval option"
  runtime_code_evidence_json :: string

subsection \<open>The clock\<close>

definition sql_now :: "int \<Rightarrow> int" where "sql_now t = t div 1000"

text \<open>\<open>julianday(x)\<close> is the double of the milliseconds since the Julian epoch over a day's.\<close>

definition julianday :: "int \<Rightarrow> rat" where
  "julianday ms = fdiv (float_of_int (ms + 210866760000000)) 86400000"

subsection \<open>Classification of a job\<close>

definition JOB_TYPE_METADATA :: "(string \<times> string \<times> string) list" where
  "JOB_TYPE_METADATA =
     [(''backtest'', ''experiment'', ''experiment_id''),
      (''daily_simulation'', ''portfolio'', ''portfolio_id''),
      (''simulation_backfill'', ''portfolio'', ''portfolio_id''),
      (''data_update'', ''data_pool'', ''pool_id''),
      (''pit_governance_refresh'', ''pit_governance'', ''pool_id''),
      (''research_data_refresh'', ''research_data_source'', ''source_id''),
      (''pit_durable_update'', ''pit_automation'', ''idempotency_key''),
      (''candidate_data_preflight'', ''provider_candidate_cycle'', ''idempotency_key''),
      (''retrain'', ''deployment'', ''deployment_id''),
      (''factor_research'', ''factor_research'', ''factor_id'')]"

definition EXCLUSIVE_JOB_TYPES :: "string list" where
  "EXCLUSIVE_JOB_TYPES = [''simulation_backfill'', ''retrain'', ''factor_research'']"

definition CACHE_READER_JOB_TYPES :: "string list" where
  "CACHE_READER_JOB_TYPES = [''backtest'', ''daily_simulation'']"

definition POOL_ALIASES :: "(string \<times> string) list" where
  "POOL_ALIASES =
     [(''hs300'', ''csi300''), (''zz500'', ''csi500''), (''zz800'', ''csi800''), (''zz1000'', ''csi1000'')]"

definition job_priority :: "string \<Rightarrow> pyval \<Rightarrow> int" where
  "job_priority job_type params =
     (if job_type = ''daily_simulation'' then 100
      else if job_type = ''data_update''
      then (if pget params ''source'' = PStr ''paper_scheduler'' then 110 else 80)
      else if job_type = ''pit_governance_refresh'' then 70
      else if job_type = ''research_data_refresh'' then 65
      else if job_type = ''pit_durable_update'' then 75
      else if job_type = ''candidate_data_preflight'' then 70
      else if job_type = ''backtest'' then (if pget params ''sweep_id'' \<noteq> PNone then 40 else 60)
      else if job_type = ''simulation_backfill'' then 30
      else if job_type = ''retrain'' then 20
      else if job_type = ''factor_research'' then 30
      else 10)"

definition queue_group :: "('a env_scheme) \<Rightarrow> string \<Rightarrow> pyval \<Rightarrow> string \<Rightarrow> string" where
  "queue_group E job_type params job_uuid =
     (if job_type = ''backtest'' \<and> pget params ''sweep_id'' \<noteq> PNone
      then ''sweep:'' @ py_str E (pget params ''sweep_id'')
      else ''job:'' @ job_uuid)"

text \<open>
  The SQL expression of \<open>_effective_priority_sql\<close>, evaluated: dates as doubles, \<open>/\<close> on a double
  and an integer, \<open>CAST AS INTEGER\<close> towards zero.
\<close>

definition age_seconds :: "int \<Rightarrow> int \<Rightarrow> rat" where
  "age_seconds t created_at = fmul (fsub (julianday t) (julianday (created_at * 1000))) 86400"

definition effective_priority :: "('a env_scheme) \<Rightarrow> int \<Rightarrow> job \<Rightarrow> int" where
  "effective_priority E t j =
     (let quantum = max (JOB_SCHEDULER_AGING_SECONDS E) 1; base = j_priority j in
      if base \<ge> 100 then base
      else min 99 (base + int_of_float (fdiv (max (age_seconds t (j_created_at j)) 0) (float_of_int quantum))))"

definition pool_alias :: "string \<Rightarrow> string" where
  "pool_alias p = dict_get POOL_ALIASES p p"

definition data_resource :: "('a env_scheme) \<Rightarrow> pyval \<Rightarrow> string" where
  "data_resource E params =
     (let pool_id = pget params ''pool_id'' in
      if pool_id = PNone then ''*''
      else let normalized = str_lower (str_strip (py_str E pool_id)) in
           if normalized = '''' \<or> normalized = ''all'' then ''*'' else pool_alias normalized)"

subsection \<open>Experiments and sweeps of a backtest job\<close>

definition table_columns :: "('a db_scheme) \<Rightarrow> string \<Rightarrow> string list" where
  "table_columns d table = columns d table"

definition table_exists :: "('a db_scheme) \<Rightarrow> string \<Rightarrow> bool" where
  "table_exists d table = (columns d table \<noteq> [])"

definition insert_job_event ::
  "int \<Rightarrow> string \<Rightarrow> string \<Rightarrow> rat \<Rightarrow> string option \<Rightarrow> msg option \<Rightarrow> ('a db_scheme) \<Rightarrow> ('a db_scheme)" where
  "insert_job_event t u st p stage m d =
     d\<lparr>job_events := job_events d @
        [\<lparr>ev_uuid = u, ev_status = st, ev_progress = p, ev_stage = stage, ev_message = m,
          ev_created_at = sql_now t\<rparr>]\<rparr>"

definition RECONCILIATION_EVENT_STAGE :: string where
  "RECONCILIATION_EVENT_STAGE = ''experiment_state_reconciled''"

definition reconciliation_recorded :: "('a db_scheme) \<Rightarrow> string \<Rightarrow> bool" where
  "reconciliation_recorded d u =
     list_ex (\<lambda>ev. ev_uuid ev = u \<and> ev_stage ev = Some RECONCILIATION_EVENT_STAGE) (job_events d)"

definition record_reconciliation_event ::
  "int \<Rightarrow> string \<Rightarrow> string \<Rightarrow> string \<Rightarrow> string \<Rightarrow> ('a db_scheme) \<Rightarrow> ('a db_scheme)" where
  "record_reconciliation_event t job_uuid status previous_experiment_status source d =
     (if \<not> table_exists d ''job_events'' then d
      else if reconciliation_recorded d job_uuid then d
      else insert_job_event t job_uuid status 1 (Some RECONCILIATION_EVENT_STAGE)
             (Some (State_reconciled source previous_experiment_status)) d)"

definition final_experiment_status :: "string \<Rightarrow> bool" where
  "final_experiment_status s = (s = ''completed'' \<or> s = ''failed'' \<or> s = ''cancelled'')"

text \<open>\<open>SELECT COUNT(*) FROM sweep_experiments se JOIN experiments e ..\<close> of a sweep.\<close>

definition sweep_done :: "(experiment_rec \<Rightarrow> bool) \<Rightarrow> ('a db_scheme) \<Rightarrow> int \<Rightarrow> int" where
  "sweep_done owned d w =
     int (length [e. (s, x) \<leftarrow> sweep_experiments d, s = w, e \<leftarrow> experiments d,
                     e_id e = x \<and> owned e \<and> final_experiment_status (e_status e)])"

definition refresh_sweep :: "(experiment_rec \<Rightarrow> bool) \<Rightarrow> ('a db_scheme) \<Rightarrow> param_sweep \<Rightarrow> param_sweep" where
  "refresh_sweep owned d w =
     (let done = sweep_done owned d (w_id w) in
      w\<lparr>w_completed_experiments := done,
        w_status := (if w_total_experiments w \<le> done then ''completed'' else ''running'')\<rparr>)"

definition refresh_related_sweeps :: "string \<Rightarrow> ('a db_scheme) \<Rightarrow> ('a db_scheme)" where
  "refresh_related_sweeps experiment_id d =
     (if \<not> list_all (\<lambda>c. c \<in> set (table_columns d ''param_sweeps''))
             [''id'', ''total_experiments'', ''completed_experiments'', ''status'']
         \<or> \<not> table_exists d ''sweep_experiments''
      then d
      else d\<lparr>param_sweeps :=
             sql_update
               (\<lambda>w. list_ex (\<lambda>(s, x). s = w_id w \<and> str_of_int x = experiment_id) (sweep_experiments d))
               (refresh_sweep (\<lambda>e. True) d) (param_sweeps d)\<rparr>)"

definition experiment_row :: "string \<Rightarrow> ('a db_scheme) \<Rightarrow> experiment_rec option" where
  "experiment_row rid d = find (\<lambda>e. str_of_int (e_id e) = rid) (experiments d)"

definition reconciled_experiment ::
  "int \<Rightarrow> string list \<Rightarrow> string \<Rightarrow> msg \<Rightarrow> experiment_rec \<Rightarrow> experiment_rec" where
  "reconciled_experiment t cols status message e =
     (let e = e\<lparr>e_status := status\<rparr>;
          e = (if ''progress_message'' \<in> set cols then e\<lparr>e_progress_message := Some message\<rparr> else e);
          e = (if ''progress_pct'' \<in> set cols
               then e\<lparr>e_progress_pct := (if status = ''pending'' then 0 else 100)\<rparr> else e);
          e = (if ''completed_at'' \<in> set cols
               then e\<lparr>e_completed_at := (if status = ''pending'' then None else Some (sql_now t))\<rparr> else e)
      in if ''error_log'' \<in> set cols then e\<lparr>e_error_log := None\<rparr> else e)"

definition reconcile_backtest_experiment ::
  "int \<Rightarrow> job \<Rightarrow> job_status \<Rightarrow> msg \<Rightarrow> ('a db_scheme) \<Rightarrow> ('a db_scheme)" where
  "reconcile_backtest_experiment t j st message d =
     (case j_resource_id j of
        None \<Rightarrow> d
      | Some rid \<Rightarrow>
          if j_type j \<noteq> ''backtest'' \<or> j_resource_type j \<noteq> Some ''experiment'' then d
          else
            let cols = table_columns d ''experiments''; status = status_str st in
            if \<not> (''id'' \<in> set cols \<and> ''status'' \<in> set cols) then d
            else
              let previous = experiment_row rid d;
                  hit = (\<lambda>e. str_of_int (e_id e) = rid \<and> e_status e \<noteq> ''completed'');
                  d1 = d\<lparr>experiments := sql_update hit (reconciled_experiment t cols status message) (experiments d)\<rparr>;
                  state_changed =
                    (sql_count hit (experiments d) = 1 \<and>
                     (case previous of None \<Rightarrow> False | Some e \<Rightarrow> e_status e \<noteq> status));
                  d2 = (if state_changed \<and> (st = Failed \<or> st = Cancelled) \<and> j_uuid j \<noteq> ''''
                        then record_reconciliation_event t (j_uuid j) status
                               (case previous of None \<Rightarrow> '''' | Some e \<Rightarrow> e_status e) ''runtime'' d1
                        else d1)
              in if state_changed then refresh_related_sweeps rid d2 else d2)"

subsection \<open>What a job needs to run\<close>

record dispatch =
  dispatch_pool :: "string option"
  dispatch_exclusive :: bool
  dispatch_slots :: nat
  dispatch_heavy :: bool

definition dict_params :: "pyval \<Rightarrow> pyval" where
  "dict_params v = (case v of PDict kvs \<Rightarrow> v | _ \<Rightarrow> PDict [])"

definition parsed_codes :: "('a env_scheme) \<Rightarrow> pyval \<Rightarrow> pyval list" where
  "parsed_codes E custom_codes =
     (let split = (\<lambda>s. PSeq (map PStr (str_split CHR '','' [] s)));
          parsed =
            (case custom_codes of
               PStr s \<Rightarrow>
                 (case json_loads E s of
                    None \<Rightarrow> split s
                  | Some v \<Rightarrow> (case v of PStr s' \<Rightarrow> split s' | _ \<Rightarrow> v))
             | v \<Rightarrow> v)
      in case parsed of PSeq vs \<Rightarrow> vs | v \<Rightarrow> [v])"

definition canonical_items :: "('a env_scheme) \<Rightarrow> pyval \<Rightarrow> string list" where
  "canonical_items E custom_codes =
     sort (remdups (filter (\<lambda>s. s \<noteq> []) (map (\<lambda>v. str_strip (py_str E v)) (parsed_codes E custom_codes))))"

definition backtest_inputs ::
  "('a env_scheme) \<Rightarrow> ('b db_scheme) \<Rightarrow> job \<Rightarrow> pyval \<Rightarrow> pyval \<times> pyval \<times> pyval" where
  "backtest_inputs E d j params =
     (let pool = pget params ''pool_preset'';
          custom_codes = pget params ''pool_custom_codes'';
          requires_training = pget params ''requires_training'';
          experiment_id =
            (if truthy (pget params ''experiment_id'') then pget params ''experiment_id''
             else case j_resource_id j of None \<Rightarrow> PNone | Some s \<Rightarrow> PStr s);
          cols = (if experiment_id \<noteq> PNone then table_columns d ''experiments'' else []);
          sel_pool = (''pool_preset'' \<in> set cols \<and> (pool = PNone \<or> pool = PStr ''''));
          sel_codes = (sel_pool \<and> ''pool_custom_codes'' \<in> set cols);
          sel_training = (''requires_training'' \<in> set cols \<and> requires_training = PNone)
      in if \<not> (sel_pool \<or> sel_training) then (pool, custom_codes, requires_training)
         else case experiment_row (py_str E experiment_id) d of
             None \<Rightarrow> (pool, custom_codes, requires_training)
           | Some row \<Rightarrow>
               (if sel_pool then e_pool_preset row else pool,
                if sel_codes then e_pool_custom_codes row else custom_codes,
                if sel_training then PBool (truthy (e_requires_training row)) else requires_training))"

definition hydrate_backtest :: "('a env_scheme) \<Rightarrow> ('b db_scheme) \<Rightarrow> job \<Rightarrow> pyval \<Rightarrow> dispatch" where
  "hydrate_backtest E d j params =
     (case backtest_inputs E d j params of
        (pool0, custom_codes, requires_training) \<Rightarrow>
          let pool1 = (if pool0 = PNone \<or> pool0 = PStr '''' then PStr ''csi300'' else pool0);
              custom = (py_str E pool1 = ''custom'' \<and> truthy custom_codes);
              items = (if custom then canonical_items E custom_codes else []);
              pool = (if custom then ''custom_'' @ take 16 (sha256_hex E (str_join '','' items))
                      else py_str E pool1);
              dpool = pool_alias (str_lower (str_strip pool));
              light_limit = max (JOB_SCHEDULER_LIGHT_BACKTEST_MAX_CODES E) 1;
              exclusive =
                (truthy requires_training \<or> \<not> startswith dpool ''custom_'' \<or>
                 int (length items) \<le> 0 \<or> int (length items) > light_limit)
          in \<lparr>dispatch_pool = Some dpool, dispatch_exclusive = exclusive,
              dispatch_slots = (if exclusive then 2 else 1), dispatch_heavy = exclusive\<rparr>)"

definition hydrate_dispatch_resource :: "('a env_scheme) \<Rightarrow> ('b db_scheme) \<Rightarrow> job \<Rightarrow> dispatch" where
  "hydrate_dispatch_resource E d j =
     (let params = dict_params (j_params j) in
      if j_type j \<in> set EXCLUSIVE_JOB_TYPES
      then \<lparr>dispatch_pool = None, dispatch_exclusive = True, dispatch_slots = 2, dispatch_heavy = True\<rparr>
      else if j_type j \<in> set [''data_update'', ''pit_governance_refresh'', ''pit_durable_update'',
                               ''candidate_data_preflight'', ''research_data_refresh'']
      then \<lparr>dispatch_pool = Some (data_resource E params), dispatch_exclusive = False,
            dispatch_slots = 1, dispatch_heavy = True\<rparr>
      else if j_type j = ''daily_simulation''
      then \<lparr>dispatch_pool = Some ''*'', dispatch_exclusive = False, dispatch_slots = 1, dispatch_heavy = False\<rparr>
      else if j_type j \<noteq> ''backtest''
      then \<lparr>dispatch_pool = None, dispatch_exclusive = False, dispatch_slots = 1, dispatch_heavy = False\<rparr>
      else hydrate_backtest E d j params)"

subsection \<open>Validation of a submission\<close>

definition validated_job_params :: "('a env_scheme) \<Rightarrow> pyval \<Rightarrow> (pyval \<times> string) result" where
  "validated_job_params E params =
     (case params of
        PDict kvs \<Rightarrow>
          rbind (canonical_json_for_storage E
                   \<lparr>max_bytes = 512 * 1024, max_depth = 12, max_nodes = 25000, forbid_sensitive_keys = True\<rparr>
                   ''params'' params)
            (\<lambda>encoded. Inr (params, encoded))
      | _ \<Rightarrow> Inl (UnsafePayloadError ''job_params_must_be_object'' ''params''))"

definition is_hex_digit :: "char \<Rightarrow> bool" where
  "is_hex_digit c = (c \<in> set ''0123456789abcdef'')"

definition validate_submission_identity ::
  "string \<Rightarrow> int option \<Rightarrow> int \<Rightarrow> string option \<Rightarrow> string option \<Rightarrow> unit result" where
  "validate_submission_identity job_type user_id attempt display_name parent_job_uuid =
     (if map_of JOB_TYPE_METADATA job_type = None
      then Inl (UnsafePayloadError ''job_type_unsupported'' ''job_type'')
      else if (case user_id of None \<Rightarrow> False | Some i \<Rightarrow> i < 1)
      then Inl (UnsafePayloadError ''job_user_invalid'' ''user_id'')
      else if \<not> (1 \<le> attempt \<and> attempt \<le> 100)
      then Inl (UnsafePayloadError ''job_attempt_invalid'' ''attempt'')
      else if (case display_name of None \<Rightarrow> False | Some s \<Rightarrow> length s > 200)
      then Inl (UnsafePayloadError ''job_display_name_too_long'' ''display_name'')
      else if (case parent_job_uuid of None \<Rightarrow> False
               | Some s \<Rightarrow> \<not> (length s = 32 \<and> list_all is_hex_digit s))
      then Inl (UnsafePayloadError ''parent_job_uuid_invalid'' ''parent_job_uuid'')
      else Inr ())"

definition metadata ::
  "('a env_scheme) \<Rightarrow> string \<Rightarrow> pyval \<Rightarrow> string option \<Rightarrow> string option \<Rightarrow> pyval \<Rightarrow>
   label \<times> string option \<times> string option" where
  "metadata E job_type params display_name resource_type resource_id =
     (let entry = map_of JOB_TYPE_METADATA job_type;
          inferred_id = (case entry of None \<Rightarrow> PNone | Some (rt, key) \<Rightarrow> pget params key);
          resolved_id = (if resource_id \<noteq> PNone then resource_id else inferred_id)
      in (case display_name of
            None \<Rightarrow> Default_label job_type
          | Some s \<Rightarrow> if s = '''' then Default_label job_type else Label s,
          case resource_type of
            None \<Rightarrow> map_option fst entry
          | Some s \<Rightarrow> if s = '''' then map_option fst entry else Some s,
          if resolved_id \<noteq> PNone then Some (py_str E resolved_id) else None))"

subsection \<open>Operational events\<close>

definition OPERATIONAL_EVENT_NAMES :: "string list" where
  "OPERATIONAL_EVENT_NAMES =
     [''service_start'', ''service_stop'', ''scheduler_restart'', ''sqlite_contention'',
      ''websocket_connected'', ''websocket_disconnected'', ''job_terminal'',
      ''data_refresh_progress'', ''cache_quality'']"

definition OPERATIONAL_CATEGORIES :: "string list" where
  "OPERATIONAL_CATEGORIES =
     [''service'', ''scheduler'', ''storage'', ''websocket'', ''job'', ''data'', ''cache'']"

definition BOUNDED_STAGES :: "string list" where
  "BOUNDED_STAGES =
     [''queued'', ''starting'', ''loading_data'', ''updating_data'', ''fetching'',
      ''market_data_primary'', ''market_data_reference'', ''market_data_validation'',
      ''market_data_execution_binding'', ''provider_collection'', ''research_import'',
      ''research_import_prepare'', ''research_import_spool'', ''research_import_verify_existing'',
      ''research_import_write'', ''research_import_write_market'', ''research_import_integrity'',
      ''research_import_binding'', ''research_import_hash'', ''research_import_activate'',
      ''pit_governance_collection'', ''validating'', ''persisting'', ''training'', ''backtesting'',
      ''simulation_backfill'', ''jobs'', ''realtime'', ''notifications'', ''completed'',
      ''failed'', ''cancelled'', ''other'']"

definition bounded_label :: "string \<Rightarrow> string list \<Rightarrow> string \<Rightarrow> string" where
  "bounded_label v allowed fallback =
     (let lbl = str_lower (str_strip v) in if lbl \<in> set allowed then lbl else fallback)"

definition bounded_option :: "string list \<Rightarrow> string option \<Rightarrow> string option" where
  "bounded_option allowed v =
     (case v of None \<Rightarrow> None | Some s \<Rightarrow> if s = '''' then None else Some (bounded_label s allowed ''other''))"

definition insert_operational_event ::
  "int \<Rightarrow> string \<Rightarrow> string \<Rightarrow> string option \<Rightarrow> string option \<Rightarrow> string option \<Rightarrow> rat \<Rightarrow>
   ('a db_scheme) \<Rightarrow> ('a db_scheme) result" where
  "insert_operational_event t event_name category job_type outcome stage v d =
     (if event_name \<notin> set OPERATIONAL_EVENT_NAMES then Inl (ValueError ''unsupported operational event'')
      else if category \<notin> set OPERATIONAL_CATEGORIES then Inl (ValueError ''unsupported operational category'')
      else Inr (d\<lparr>operational_events := operational_events d @
        [\<lparr>o_name = event_name, o_category = category,
          o_job_type =
            (case job_type of None \<Rightarrow> None
             | Some s \<Rightarrow> if map_of JOB_TYPE_METADATA s \<noteq> None then Some s
                         else if s \<noteq> '''' then Some ''other'' else None),
          o_outcome = bounded_option [''completed'', ''failed'', ''cancelled'', ''connected'', ''disconnected''] outcome,
          o_stage = bounded_option BOUNDED_STAGES stage,
          o_value = v, o_created_at = sql_now t\<rparr>]\<rparr>))"

end
