(* ===== verification/Reconciler.thy ===== *)
theory Reconciler
  imports Job_Store
begin

text \<open>
  \<open>backend/jobs/state_reconciler.py\<close>: the bounded maintenance pass that brings an experiment still
  marked active to the status of its latest backtest job, when that job failed or was cancelled.
  The caller owns the transaction, so the pass is a function on the database.
\<close>

subsection \<open>The pass\<close>

definition active_experiment_status :: "string \<Rightarrow> bool" where
  "active_experiment_status s = (s = ''pending'' \<or> s = ''running'' \<or> s = ''cancel_requested'')"

definition repairable_job_status :: "job_status \<Rightarrow> bool" where
  "repairable_job_status st = (st = Failed \<or> st = Cancelled)"

definition same_backtest :: "job \<Rightarrow> job \<Rightarrow> bool" where
  "same_backtest j k =
     (j_type k = ''backtest'' \<and> j_resource_type k = Some ''experiment'' \<and>
      j_resource_id k = j_resource_id j \<and> j_user_id k = j_user_id j)"

definition repair_candidate :: "('a db_scheme) \<Rightarrow> job \<Rightarrow> experiment_rec \<Rightarrow> bool" where
  "repair_candidate d j e =
     (j_resource_id j = Some (str_of_int (e_id e)) \<and> e_user_id e = j_user_id j \<and> j_user_id j \<noteq> None \<and>
      j_type j = ''backtest'' \<and> j_resource_type j = Some ''experiment'' \<and>
      repairable_job_status (j_status j) \<and> active_experiment_status (e_status e) \<and>
      \<not> list_ex (\<lambda>k. same_backtest j k \<and> j_id k > j_id j) (jobs d) \<and>
      \<not> list_ex (\<lambda>k. same_backtest j k \<and> j_status k = Completed) (jobs d) \<and>
      \<not> reconciliation_recorded d (j_uuid j))"

definition repair_rows :: "('a db_scheme) \<Rightarrow> (job \<times> experiment_rec) list" where
  "repair_rows d = [(j, e). j \<leftarrow> sort_key j_id (jobs d), e \<leftarrow> experiments d, repair_candidate d j e]"

definition refresh_owned_sweeps :: "int \<Rightarrow> int \<Rightarrow> ('a db_scheme) \<Rightarrow> ('a db_scheme)" where
  "refresh_owned_sweeps experiment_id user_id d =
     (if \<not> list_all (\<lambda>c. c \<in> set (table_columns d ''param_sweeps''))
             [''id'', ''user_id'', ''total_experiments'', ''completed_experiments'', ''status'']
         \<or> \<not> table_exists d ''sweep_experiments''
      then d
      else d\<lparr>param_sweeps :=
             sql_update
               (\<lambda>w. w_user_id w = Some user_id \<and> (w_id w, experiment_id) \<in> set (sweep_experiments d))
               (refresh_sweep (\<lambda>e. e_user_id e = Some user_id) d) (param_sweeps d)\<rparr>)"

definition repaired_experiment :: "int \<Rightarrow> string list \<Rightarrow> job_status \<Rightarrow> experiment_rec \<Rightarrow> experiment_rec" where
  "repaired_experiment t cols st e =
     (let e = e\<lparr>e_status := status_str st,
               e_progress_message := Some (if st = Failed then Job_failed_reconciled else Job_cancelled_reconciled)\<rparr>;
          e = (if ''progress_pct'' \<in> set cols then e\<lparr>e_progress_pct := 100\<rparr> else e);
          e = (if ''completed_at'' \<in> set cols
               then e\<lparr>e_completed_at := (case e_completed_at e of None \<Rightarrow> Some (sql_now t) | Some x \<Rightarrow> Some x)\<rparr> else e)
      in if ''error_log'' \<in> set cols
         then e\<lparr>e_error_log := (if st = Failed then Some Job_failed_see_audit else None)\<rparr> else e)"

definition repair_one ::
  "int \<Rightarrow> string list \<Rightarrow> string \<Rightarrow> job \<times> experiment_rec \<Rightarrow> ('a db_scheme) \<times> nat \<Rightarrow> ('a db_scheme) \<times> nat" where
  "repair_one t cols source row acc =
     (case row of (j, e0) \<Rightarrow> case acc of (d, repaired) \<Rightarrow>
        let user = (case j_user_id j of None \<Rightarrow> 0 | Some u \<Rightarrow> u);
            hit = (\<lambda>e. e_id e = e_id e0 \<and> e_user_id e = j_user_id j \<and> e_status e = e_status e0 \<and>
                       e_status e \<noteq> ''completed'');
            d1 = d\<lparr>experiments := sql_update hit (repaired_experiment t cols (j_status j)) (experiments d)\<rparr>
        in if sql_count hit (experiments d) \<noteq> 1 then (d1, repaired)
           else (refresh_owned_sweeps (e_id e0) user
                   (record_reconciliation_event t (j_uuid j) (status_str (j_status j)) (e_status e0) source d1),
                 repaired + 1))"

definition MAX_RECONCILIATION_LIMIT :: int where "MAX_RECONCILIATION_LIMIT = 500"

definition reconciliation_schema :: "('a db_scheme) \<Rightarrow> bool" where
  "reconciliation_schema d =
     (list_all (\<lambda>c. c \<in> set (table_columns d ''jobs''))
        [''id'', ''job_uuid'', ''job_type'', ''resource_type'', ''resource_id'', ''status'', ''user_id''] \<and>
      list_all (\<lambda>c. c \<in> set (table_columns d ''experiments'')) [''id'', ''user_id'', ''status''] \<and>
      table_exists d ''job_events'')"

definition reconcile_terminal_backtest_state ::
  "int \<Rightarrow> int \<Rightarrow> string \<Rightarrow> ('a db_scheme) \<Rightarrow> ('a db_scheme) \<times> nat \<times> nat" where
  "reconcile_terminal_backtest_state t limit source d =
     (if \<not> reconciliation_schema d then (d, 0, 0)
      else
        let rows = take (nat (min (max limit 1) MAX_RECONCILIATION_LIMIT)) (repair_rows d);
            (d1, repaired) =
              fold (repair_one t (table_columns d ''experiments'') source) rows (d, 0)
        in (d1, length rows, repaired))"

end
