(* ===== verification/Broker.thy ===== *)
theory Broker
  imports Reconciler "HOL-Library.Product_Lexorder"
begin

text \<open>
  The operations of \<open>JobBroker\<close> (\<open>backend/jobs/broker.py\<close>). A \<open>broker\<close> is the database together
  with the process-local state of one \<open>JobBroker\<close> object. A transaction that raises is rolled
  back: the operation returns the exception and the caller keeps the old state. An operation that
  can only return is a function to the new state and the returned value. Fresh UUIDs are arguments
  (\<open>jobs.job_uuid\<close> is \<open>UNIQUE\<close>, so a repeated one is an \<open>IntegrityError\<close>), \<open>t\<close> is the clock, and
  the WebSocket notification that follows a commit is outside the model.
\<close>

record broker = db +
  wake_event :: bool
  pending_sqlite_contention :: nat
  scheduler_desired_capacity :: int
  scheduler_running_slots :: int
  scheduler_degraded :: bool
  scheduler_reasons :: "string list"
  scheduler_leader :: bool
  scheduler_pause_heavy :: bool
  worker_started_at :: "int option"
  worker_heartbeat_at :: "int option"
  worker_heartbeat_monotonic :: "rat option"

definition find_job :: "('a db_scheme) \<Rightarrow> string \<Rightarrow> job option" where
  "find_job s u = find (\<lambda>j. j_uuid j = u) (jobs s)"

definition update_jobs :: "(job \<Rightarrow> bool) \<Rightarrow> (job \<Rightarrow> job) \<Rightarrow> ('a db_scheme) \<Rightarrow> ('a db_scheme)" where
  "update_jobs p f s = s\<lparr>jobs := sql_update p f (jobs s)\<rparr>"

definition lease_ttl :: "('a env_scheme) \<Rightarrow> int option \<Rightarrow> int" where
  "lease_ttl E lease_seconds =
     max (case lease_seconds of
            None \<Rightarrow> JOB_SCHEDULER_LEASE_SECONDS E
          | Some n \<Rightarrow> if n = 0 then JOB_SCHEDULER_LEASE_SECONDS E else n) 10"

subsection \<open>Submission\<close>

record submission =
  sub_job_type :: string
  sub_params :: pyval
  sub_user_id :: "int option"
  sub_display_name :: "string option"
  sub_resource_type :: "string option"
  sub_resource_id :: pyval
  sub_parent_job_uuid :: "string option"
  sub_attempt :: int

record prepared =
  pr_job_type :: string
  pr_params :: pyval
  pr_user_id :: "int option"
  pr_display_name :: label
  pr_resource_type :: "string option"
  pr_resource_id :: "string option"
  pr_parent_job_uuid :: "string option"
  pr_attempt :: int
  pr_priority :: int
  pr_job_uuid :: string
  pr_queue_group :: string

definition prepare :: "('a env_scheme) \<Rightarrow> string \<Rightarrow> submission \<Rightarrow> pyval \<Rightarrow> prepared result" where
  "prepare E u sub raw_params =
     rbind (validated_job_params E raw_params) (\<lambda>(params, encoded).
     rbind (validate_submission_identity (sub_job_type sub) (sub_user_id sub) (sub_attempt sub)
              (sub_display_name sub) (sub_parent_job_uuid sub)) (\<lambda>_.
     case metadata E (sub_job_type sub) params (sub_display_name sub) (sub_resource_type sub) (sub_resource_id sub) of
       (name, rtype, rid) \<Rightarrow>
         Inr \<lparr>pr_job_type = sub_job_type sub, pr_params = params, pr_user_id = sub_user_id sub,
              pr_display_name = name, pr_resource_type = rtype, pr_resource_id = rid,
              pr_parent_job_uuid = sub_parent_job_uuid sub, pr_attempt = sub_attempt sub,
              pr_priority = job_priority (sub_job_type sub) params, pr_job_uuid = u,
              pr_queue_group = queue_group E (sub_job_type sub) params u\<rparr>))"

definition new_job :: "('a env_scheme) \<Rightarrow> int \<Rightarrow> int \<Rightarrow> prepared \<Rightarrow> job" where
  "new_job E t i p =
     \<lparr>j_id = i, j_type = pr_job_type p, j_display_name = pr_display_name p, j_params = pr_params p,
      j_status = Pending, j_progress = 0, j_progress_message = Some Waiting, j_stage = Some ''queued'',
      j_result = None, j_error = None, j_resource_type = pr_resource_type p,
      j_resource_id = pr_resource_id p, j_parent = pr_parent_job_uuid p, j_attempt = pr_attempt p,
      j_worker_id = None, j_priority = pr_priority p, j_queue_group = pr_queue_group p,
      j_generation = 0, j_lease_expires_at = None, j_cancel_requested_at = None,
      j_heartbeat_at = None, j_created_at = sql_now t, j_updated_at = sql_now t,
      j_started_at = None, j_completed_at = None, j_user_id = pr_user_id p, j_uuid = pr_job_uuid p,
      j_runtime_identity = runtime_code_evidence_json E\<rparr>"

definition insert_job :: "('a env_scheme) \<Rightarrow> int \<Rightarrow> prepared \<Rightarrow> ('b db_scheme) \<Rightarrow> ('b db_scheme) result" where
  "insert_job E t p s =
     (if find_job s (pr_job_uuid p) \<noteq> None then Inl IntegrityError
      else Inr (s\<lparr>jobs := jobs s @ [new_job E t (next_job_id s) p], next_job_id := next_job_id s + 1\<rparr>))"

definition active_count :: "('a db_scheme) \<Rightarrow> int" where
  "active_count s = int (sql_count (\<lambda>j. active (j_status j)) (jobs s))"

definition user_active :: "('a db_scheme) \<Rightarrow> int \<Rightarrow> int" where
  "user_active s u = int (sql_count (\<lambda>j. j_user_id j = Some u \<and> active (j_status j)) (jobs s))"

definition max_active_per_user :: "('a env_scheme) \<Rightarrow> int" where
  "max_active_per_user E = max (JOB_SCHEDULER_MAX_ACTIVE_PER_USER E) 1"

definition max_pending_jobs :: "('a env_scheme) \<Rightarrow> int" where
  "max_pending_jobs E = max (JOB_SCHEDULER_MAX_PENDING_JOBS E) 1"

definition existing_duplicate :: "bool \<Rightarrow> prepared \<Rightarrow> ('a db_scheme) \<Rightarrow> job option" where
  "existing_duplicate any_status p s =
     (case (pr_resource_type p, pr_resource_id p) of
        (Some rt, Some ri) \<Rightarrow>
          find (\<lambda>j. j_type j = pr_job_type p \<and> j_resource_type j = Some rt \<and> j_resource_id j = Some ri \<and>
                    (any_status \<or> active (j_status j)))
            (rev (sort_key j_id (jobs s)))
      | _ \<Rightarrow> None)"

definition submit_job ::
  "('a env_scheme) \<Rightarrow> int \<Rightarrow> string \<Rightarrow> submission \<Rightarrow> bool \<Rightarrow> bool \<Rightarrow> broker \<Rightarrow> (broker \<times> string) result" where
  "submit_job E t u sub deduplicate_active deduplicate_existing s =
     rbind (prepare E u sub (if truthy (sub_params sub) then sub_params sub else PDict [])) (\<lambda>p.
       case (if deduplicate_active \<or> deduplicate_existing
             then existing_duplicate deduplicate_existing p s else None) of
         Some j \<Rightarrow> Inr (s, j_uuid j)
       | None \<Rightarrow>
           if (case pr_user_id p of None \<Rightarrow> False | Some i \<Rightarrow> user_active s i \<ge> max_active_per_user E)
           then Inl JobQueueFullError
           else if active_count s \<ge> max_pending_jobs E \<and> pr_priority p < 100
           then Inl JobQueueFullError
           else rbind (insert_job E t p s) (\<lambda>s1.
             Inr ((insert_job_event t u ''pending'' 0 (Some ''queued'') (Some Submitted) s1)\<lparr>wake_event := True\<rparr>,
                  u)))"

subsection \<open>Batch submission\<close>

text \<open>The loop that prepares every submission, with one fresh UUID each, before the transaction.\<close>

definition prepare_batch ::
  "('a env_scheme) \<Rightarrow> (nat \<Rightarrow> string) \<Rightarrow> submission list \<Rightarrow> prepared list result" where
  "prepare_batch E uuids submissions =
     rmap (\<lambda>(i, sub).
        let raw = sub_params sub in
        case (if truthy raw then raw else PDict []) of
          PDict kvs \<Rightarrow> prepare E (uuids i) sub (PDict kvs)
        | _ \<Rightarrow> Inl TypeError)
       (enumerate 0 submissions)"

definition incoming_by_user :: "prepared list \<Rightarrow> (int, int) dict" where
  "incoming_by_user ps =
     fold (\<lambda>p d. case pr_user_id p of None \<Rightarrow> d | Some u \<Rightarrow> AList.update u (dict_get d u 0 + 1) d) ps []"

definition batch_admission :: "('a env_scheme) \<Rightarrow> prepared list \<Rightarrow> ('b db_scheme) \<Rightarrow> unit result" where
  "batch_admission E ps s =
     (let pending_count = active_count s;
          noncritical_count = int (sql_count (\<lambda>p. pr_priority p < 100) ps)
      in if list_ex (\<lambda>(u, incoming). user_active s u + incoming > max_active_per_user E) (incoming_by_user ps)
         then Inl JobQueueFullError
         else if noncritical_count \<noteq> 0 \<and> pending_count + noncritical_count > max_pending_jobs E
         then Inl JobQueueFullError
         else Inr ())"

definition recovery_busy :: "int list \<Rightarrow> ('a db_scheme) \<Rightarrow> bool" where
  "recovery_busy ids s =
     list_ex (\<lambda>j. j_resource_type j = Some ''experiment'' \<and>
                  (case j_resource_id j of None \<Rightarrow> False | Some r \<Rightarrow> sql_cast_int r \<in> set ids) \<and>
                  active (j_status j))
       (jobs s)"

definition recovery_copy :: "int \<Rightarrow> experiment_rec \<Rightarrow> experiment_rec" where
  "recovery_copy i e =
     e\<lparr>e_id := i, e_name := Recovery_label (e_name e), e_status := ''pending'', e_progress_pct := 0,
       e_progress_message := Some Waiting_recovery_copy, e_error_log := None, e_started_at := None,
       e_completed_at := None\<rparr>"

definition replace_experiment ::
  "int \<Rightarrow> int \<Rightarrow> ('a db_scheme) \<times> (int, int) dict \<Rightarrow> (('a db_scheme) \<times> (int, int) dict) result" where
  "replace_experiment sweep_id old_id sm =
     (case sm of (s, replacement_map) \<Rightarrow>
        case find (\<lambda>e. e_id e = old_id \<and> e_status e = ''failed'' \<and>
                       (sweep_id, old_id) \<in> set (sweep_experiments s) \<and>
                       old_id \<in> set (research_run_manifests s)) (experiments s) of
          None \<Rightarrow> Inl (RuntimeError ''replacement source changed'')
        | Some source \<Rightarrow>
            let new_id = next_experiment_id s;
                s1 = s\<lparr>experiments := experiments s @ [recovery_copy new_id source],
                        next_experiment_id := new_id + 1,
                        sweep_experiments :=
                          sql_update (\<lambda>m. m = (sweep_id, old_id)) (\<lambda>m. (sweep_id, new_id)) (sweep_experiments s)\<rparr>
            in if sql_count (\<lambda>m. m = (sweep_id, old_id)) (sweep_experiments s) \<noteq> 1
               then Inl (RuntimeError ''sweep member replacement failed'')
               else Inr (s1, AList.update old_id new_id replacement_map))"

definition redirect_item :: "(int, int) dict \<Rightarrow> prepared \<Rightarrow> prepared result" where
  "redirect_item replacement_map p =
     rbind (case pr_params p of
              PDict kvs \<Rightarrow> py_int (dict_get kvs (PStr ''experiment_id'') (PInt 0))
            | _ \<Rightarrow> Inr 0) (\<lambda>old_id.
       case map_of replacement_map old_id of
         None \<Rightarrow> Inr p
       | Some new_id \<Rightarrow>
           Inr (p\<lparr>pr_params := pset (pr_params p) ''experiment_id'' (PInt new_id),
                  pr_resource_id := Some (str_of_int new_id),
                  pr_display_name := Copy_label (pr_display_name p) new_id\<rparr>))"

definition reset_experiments :: "int list \<Rightarrow> ('a db_scheme) \<Rightarrow> ('a db_scheme) result" where
  "reset_experiments reset_ids s =
     (if reset_ids = [] then Inr s
      else
        let hit = (\<lambda>e. e_id e \<in> set reset_ids \<and> e_status e = ''failed'') in
        if sql_count hit (experiments s) \<noteq> length reset_ids
        then Inl (RuntimeError ''experiments to recover changed'')
        else Inr (s\<lparr>experiments := sql_update hit
                     (\<lambda>e. e\<lparr>e_status := ''pending'', e_progress_pct := 0, e_progress_message := Some Waiting_recovery,
                            e_error_log := None, e_started_at := None, e_completed_at := None\<rparr>)
                     (experiments s)\<rparr>))"

definition insert_item ::
  "('a env_scheme) \<Rightarrow> int \<Rightarrow> prepared \<Rightarrow> ('b db_scheme) \<Rightarrow> ('b db_scheme) result" where
  "insert_item E t p s =
     rbind (validated_job_params E (pr_params p)) (\<lambda>_.
     rbind (insert_job E t p s) (\<lambda>s1.
       Inr (insert_job_event t (pr_job_uuid p) ''pending'' 0 (Some ''queued'') (Some Batch_submitted) s1)))"

definition restart_sweep :: "int option \<Rightarrow> ('a db_scheme) \<Rightarrow> ('a db_scheme)" where
  "restart_sweep sweep_id s =
     (case sweep_id of
        None \<Rightarrow> s
      | Some w \<Rightarrow>
          s\<lparr>param_sweeps := sql_update (\<lambda>r. w_id r = w)
              (\<lambda>r. r\<lparr>w_status := ''running'', w_completed_experiments := sweep_done (\<lambda>e. True) s w\<rparr>)
              (param_sweeps s)\<rparr>)"

definition submit_jobs_batch ::
  "('a env_scheme) \<Rightarrow> int \<Rightarrow> (nat \<Rightarrow> string) \<Rightarrow> submission list \<Rightarrow> int option \<Rightarrow> int list \<Rightarrow> int list \<Rightarrow>
   broker \<Rightarrow> (broker \<times> string list) result" where
  "submit_jobs_batch E t uuids submissions sweep_id reset_ids replace_ids s =
     (if submissions = [] then Inr (s, [])
      else if \<not> distinct reset_ids then Inl (ValueError ''reset_experiment_ids contains duplicates'')
      else if \<not> distinct replace_ids then Inl (ValueError ''replace_experiment_ids contains duplicates'')
      else if list_ex (\<lambda>i. i \<in> set replace_ids) reset_ids
      then Inl (ValueError ''reset and replace experiment IDs overlap'')
      else if replace_ids \<noteq> [] \<and> sweep_id = None
      then Inl (ValueError ''replacing sweep members requires sweep_id'')
      else
        rbind (prepare_batch E uuids submissions) (\<lambda>ps.
        rbind (batch_admission E ps s) (\<lambda>_.
        if recovery_busy (reset_ids @ replace_ids) s
        then Inl (RuntimeError ''experiments to recover still have active jobs'')
        else
          rbind (rfold (replace_experiment (case sweep_id of None \<Rightarrow> 0 | Some w \<Rightarrow> w)) replace_ids (s, []))
            (\<lambda>(s1, replacement_map).
          rbind (if replacement_map \<noteq> [] then rmap (redirect_item replacement_map) ps else Inr ps) (\<lambda>ps'.
          rbind (reset_experiments reset_ids s1) (\<lambda>s2.
          rbind (rfold (insert_item E t) ps' s2) (\<lambda>s3.
            Inr ((restart_sweep sweep_id s3)\<lparr>wake_event := True\<rparr>, map pr_job_uuid ps'))))))))"

subsection \<open>Cancellation\<close>

definition cancel_row :: "int \<Rightarrow> job_status \<Rightarrow> job \<Rightarrow> job" where
  "cancel_row t next_status j =
     (let j = j\<lparr>j_status := next_status, j_cancel_requested_at := Some (sql_now t),
                j_progress_message := Some (if next_status = Cancelled then Cancel_done else Cancel_stopping),
                j_updated_at := sql_now t\<rparr>
      in if next_status = Cancelled then j\<lparr>j_completed_at := Some (sql_now t)\<rparr> else j)"

definition request_cancel :: "int \<Rightarrow> string \<Rightarrow> broker \<Rightarrow> broker \<times> job_status option" where
  "request_cancel t u s =
     (case find_job s u of
        None \<Rightarrow> (s, None)
      | Some row \<Rightarrow>
          if \<not> active (j_status row) then (s, None)
          else if j_type row = ''research_data_refresh'' \<and> j_stage row = Some ''research_import_activate''
          then (s, None)
          else
            let next_status = (if j_status row = Pending then Cancelled else Cancel_requested);
                s1 = update_jobs (\<lambda>j. j_uuid j = u) (cancel_row t next_status) s;
                s2 = (if next_status = Cancelled
                      then reconcile_backtest_experiment t row Cancelled Cancelled_in_queue s1 else s1)
            in (insert_job_event t u (status_str next_status) (j_progress row) (Some ''cancelling'')
                  (Some (if next_status = Cancelled then Task_cancelled else Cancel_asked)) s2,
                Some next_status))"

definition cancel_job :: "int \<Rightarrow> string \<Rightarrow> broker \<Rightarrow> broker \<times> bool" where
  "cancel_job t u s = (case request_cancel t u s of (s', r) \<Rightarrow> (s', r \<noteq> None))"

definition is_cancel_requested :: "('a db_scheme) \<Rightarrow> string \<Rightarrow> bool" where
  "is_cancel_requested s u =
     (case find_job s u of None \<Rightarrow> False | Some j \<Rightarrow> j_status j = Cancel_requested \<or> j_status j = Cancelled)"

subsection \<open>Progress\<close>

text \<open>The worker's execution claim (a context variable): job, worker and lease generation.\<close>

type_synonym claim = "string \<times> string \<times> int"

fun allowed_transitions :: "job_status \<Rightarrow> job_status list" where
  "allowed_transitions Pending = [Pending, Running, Cancel_requested, Completed, Failed, Cancelled]"
| "allowed_transitions Running = [Running, Cancel_requested, Completed, Failed, Cancelled]"
| "allowed_transitions Cancel_requested = [Cancel_requested, Cancelled]"
| "allowed_transitions _ = []"

record progress_update =
  up_progress :: "rat option"
  up_status :: "string option"
  up_result :: "string option"
  up_error :: "string option"
  up_message :: "msg option"
  up_stage :: "string option"

definition forced_cancel :: "job \<Rightarrow> progress_update \<Rightarrow> progress_update" where
  "forced_cancel current u =
     (if j_status current = Cancel_requested \<and>
         (up_status u = Some ''completed'' \<or> up_status u = Some ''failed'')
      then u\<lparr>up_status := Some ''cancelled'', up_result := None, up_error := None,
             up_message := Some Cancel_safely_stopped, up_stage := Some ''cancelled''\<rparr>
      else u)"

definition clip_progress :: "rat \<Rightarrow> rat" where
  "clip_progress p = max 0 (min p 1)"

definition resolved_progress :: "job \<Rightarrow> progress_update \<Rightarrow> rat" where
  "resolved_progress current u =
     (case up_progress u of None \<Rightarrow> j_progress current | Some p \<Rightarrow> clip_progress p)"

definition progress_status_row :: "int \<Rightarrow> job_status option \<Rightarrow> job \<Rightarrow> job" where
  "progress_status_row t next_status j =
     (case next_status of
        None \<Rightarrow> j
      | Some st \<Rightarrow>
          let j = j\<lparr>j_status := st\<rparr> in
          if st = Running
          then j\<lparr>j_started_at := (case j_started_at j of None \<Rightarrow> Some (sql_now t) | Some x \<Rightarrow> Some x)\<rparr>
          else if terminal st then j\<lparr>j_completed_at := Some (sql_now t)\<rparr> else j)"

definition progress_row :: "int \<Rightarrow> job_status option \<Rightarrow> rat \<Rightarrow> progress_update \<Rightarrow> job \<Rightarrow> job" where
  "progress_row t next_status progress u j =
     (let j = j\<lparr>j_updated_at := sql_now t, j_heartbeat_at := Some (sql_now t), j_progress := progress\<rparr>;
          j = progress_status_row t next_status j
      in j\<lparr>j_result := (case up_result u of None \<Rightarrow> j_result j | Some r \<Rightarrow> Some r),
           j_error := (case up_error u of None \<Rightarrow> j_error j | Some e \<Rightarrow> Some e),
           j_progress_message := (case up_message u of None \<Rightarrow> j_progress_message j | Some m \<Rightarrow> Some m),
           j_stage := (case up_stage u of None \<Rightarrow> j_stage j | Some x \<Rightarrow> Some x)\<rparr>)"

definition lease_lost :: "claim option \<Rightarrow> string \<Rightarrow> job option \<Rightarrow> bool" where
  "lease_lost execution_claim job_uuid current =
     (case execution_claim of
        None \<Rightarrow> False
      | Some (cu, worker_id, generation) \<Rightarrow>
          cu = job_uuid \<and>
          (case current of
             None \<Rightarrow> True
           | Some j \<Rightarrow> j_worker_id j \<noteq> Some worker_id \<or> j_generation j \<noteq> generation))"

definition progress_events ::
  "int \<Rightarrow> job \<Rightarrow> job_status option \<Rightarrow> progress_update \<Rightarrow> ('a db_scheme) \<Rightarrow> ('a db_scheme) result" where
  "progress_events t current next_status u s =
     (if (case next_status of None \<Rightarrow> False | Some st \<Rightarrow> terminal st)
      then let outcome = (case next_status of None \<Rightarrow> '''' | Some st \<Rightarrow> status_str st)
           in insert_operational_event t ''job_terminal'' ''job'' (Some (j_type current)) (Some outcome)
                (case up_stage u of None \<Rightarrow> Some outcome | Some x \<Rightarrow> Some (if x = '''' then outcome else x)) 1 s
      else if j_type current = ''data_update'' \<and> (up_progress u \<noteq> None \<or> up_stage u \<noteq> None)
      then insert_operational_event t ''data_refresh_progress'' ''data'' (Some (j_type current)) None
             (up_stage u) (resolved_progress current u) s
      else Inr s)"

definition transition_allowed :: "job \<Rightarrow> progress_update \<Rightarrow> bool" where
  "transition_allowed current u =
     (case up_status u of
        None \<Rightarrow> True
      | Some x \<Rightarrow>
          (case parse_status x of
             None \<Rightarrow> False
           | Some st \<Rightarrow> st \<in> set (allowed_transitions (j_status current))))"

definition update_job_progress_once ::
  "int \<Rightarrow> claim option \<Rightarrow> string \<Rightarrow> progress_update \<Rightarrow> broker \<Rightarrow> broker result" where
  "update_job_progress_once t execution_claim job_uuid u0 s =
     (if lease_lost execution_claim job_uuid (find_job s job_uuid) then Inl JobLeaseLostError
      else case find_job s job_uuid of
        None \<Rightarrow> Inr s
      | Some current \<Rightarrow>
          if terminal (j_status current) then Inr s
          else
            let u = forced_cancel current u0;
                next_status = Option.bind (up_status u) parse_status;
                progress = resolved_progress current u
            in if \<not> transition_allowed current u
               then Inl (UnsafePayloadError ''job_status_transition_invalid'' ''status'')
               else progress_events t current next_status u
                      (insert_job_event t job_uuid
                         (status_str (case next_status of None \<Rightarrow> j_status current | Some st \<Rightarrow> st))
                         progress (up_stage u) (up_message u)
                         (update_jobs (\<lambda>j. j_uuid j = job_uuid) (progress_row t next_status progress u) s)))"

definition valid_stage :: "string \<Rightarrow> bool" where
  "valid_stage x =
     (1 \<le> length x \<and> length x \<le> 80 \<and>
      list_all (\<lambda>c. c \<in> set ''abcdefghijklmnopqrstuvwxyz0123456789_-'') x)"

definition sanitize_msg :: "('a env_scheme) \<Rightarrow> nat \<Rightarrow> msg \<Rightarrow> msg" where
  "sanitize_msg E n m = (case m of Text x \<Rightarrow> Text (sanitize_diagnostic E n (PStr x)) | _ \<Rightarrow> m)"

text \<open>
  The retry loop: attempt \<open>i\<close> meets a locked database when \<open>busy i\<close>, which changes nothing; the
  fifth such attempt raises.
\<close>

fun progress_attempts :: "(nat \<Rightarrow> bool) \<Rightarrow> nat \<Rightarrow> nat \<Rightarrow> 'a result \<Rightarrow> 'a result" where
  "progress_attempts busy attempt 0 r = Inl OperationalError"
| "progress_attempts busy attempt (Suc left) r =
     (if \<not> busy attempt then r else progress_attempts busy (attempt + 1) left r)"

definition PROGRESS_BUSY_RETRY_ATTEMPTS :: nat where "PROGRESS_BUSY_RETRY_ATTEMPTS = 5"

record progress_args =
  arg_progress :: "pyfloat option"
  arg_status :: "string option"
  arg_result :: "pyval option"
  arg_error :: "string option"
  arg_message :: "msg option"
  arg_stage :: "string option"

definition checked_update :: "('a env_scheme) \<Rightarrow> progress_args \<Rightarrow> progress_update result" where
  "checked_update E a =
     (if (case arg_status a of None \<Rightarrow> False | Some x \<Rightarrow> x \<noteq> '''' \<and> parse_status x = None)
      then Inl (ValueError ''invalid status'')
      else if (case arg_progress a of None \<Rightarrow> False | Some x \<Rightarrow> \<not> isfinite x)
      then Inl (UnsafePayloadError ''job_progress_non_finite'' ''progress'')
      else
        rbind (case arg_result a of
                 None \<Rightarrow> Inr None
               | Some v \<Rightarrow>
                   rbind (canonical_json_for_storage E
                            \<lparr>max_bytes = 2 * 1024 * 1024, max_depth = 16, max_nodes = 100000,
                             forbid_sensitive_keys = False\<rparr> ''result'' v) (\<lambda>x. Inr (Some x))) (\<lambda>result_json.
        let safe_stage = map_option (\<lambda>x. str_lower (str_strip x)) (arg_stage a) in
        if (case safe_stage of None \<Rightarrow> False | Some x \<Rightarrow> \<not> valid_stage x)
        then Inl (UnsafePayloadError ''job_stage_invalid'' ''stage'')
        else Inr \<lparr>up_progress = (case arg_progress a of Some (Fin x) \<Rightarrow> Some x | _ \<Rightarrow> None),
                  up_status = arg_status a, up_result = result_json,
                  up_error = map_option (\<lambda>x. sanitize_diagnostic E 16384 (PStr x)) (arg_error a),
                  up_message = map_option (sanitize_msg E 500) (arg_message a),
                  up_stage = safe_stage\<rparr>))"

definition update_job_progress ::
  "('a env_scheme) \<Rightarrow> int \<Rightarrow> (nat \<Rightarrow> bool) \<Rightarrow> claim option \<Rightarrow> string \<Rightarrow> progress_args \<Rightarrow> broker \<Rightarrow> broker result" where
  "update_job_progress E t busy execution_claim job_uuid a s =
     rbind (checked_update E a) (\<lambda>u.
       progress_attempts busy 0 PROGRESS_BUSY_RETRY_ATTEMPTS
         (update_job_progress_once t execution_claim job_uuid u s))"

definition raise_if_cancelled ::
  "('a env_scheme) \<Rightarrow> int \<Rightarrow> (nat \<Rightarrow> bool) \<Rightarrow> claim option \<Rightarrow> string \<Rightarrow> broker \<Rightarrow> broker \<times> unit result" where
  "raise_if_cancelled E t busy execution_claim job_uuid s =
     (if is_cancel_requested s job_uuid
      then case update_job_progress E t busy execution_claim job_uuid
             \<lparr>arg_progress = None, arg_status = Some ''cancelled'', arg_result = None, arg_error = None,
              arg_message = Some Cancel_safely_stopped, arg_stage = Some ''cancelled''\<rparr> s of
          Inl e \<Rightarrow> (s, Inl e)
        | Inr s' \<Rightarrow> (s', Inl JobCancelledError)
      else (s, Inr ()))"

subsection \<open>Claims\<close>

definition lease_expired :: "int \<Rightarrow> job \<Rightarrow> bool" where
  "lease_expired t j =
     (claimed_status (j_status j) \<and>
      (case j_lease_expires_at j of None \<Rightarrow> True | Some x \<Rightarrow> x \<le> sql_now t))"

definition requeue_row :: "int \<Rightarrow> job \<Rightarrow> job" where
  "requeue_row t j =
     j\<lparr>j_status := Pending, j_started_at := None, j_worker_id := None, j_heartbeat_at := None,
       j_lease_expires_at := None, j_generation := j_generation j + 1,
       j_progress_message := Some Lease_expired_waiting, j_stage := Some ''queued'',
       j_updated_at := sql_now t,
       j_error := (case j_error j of None \<Rightarrow> Some ''worker lease expired before completion'' | Some e \<Rightarrow> Some e)\<rparr>"

definition cancel_expired_row :: "int \<Rightarrow> job \<Rightarrow> job" where
  "cancel_expired_row t j =
     j\<lparr>j_status := Cancelled, j_worker_id := None, j_heartbeat_at := None, j_lease_expires_at := None,
       j_generation := j_generation j + 1, j_completed_at := Some (sql_now t),
       j_progress_message := Some Lease_expired_cancelled, j_stage := Some ''cancelled'',
       j_updated_at := sql_now t\<rparr>"

definition LEASE_RECOVERY_EVENT_STAGE :: string where
  "LEASE_RECOVERY_EVENT_STAGE = ''lease_expired_recovered''"

definition recovery_fence :: "int \<Rightarrow> job \<Rightarrow> job \<Rightarrow> bool" where
  "recovery_fence t job j =
     (j_uuid j = j_uuid job \<and> j_worker_id j = j_worker_id job \<and> j_generation j = j_generation job \<and>
      j_status j = (if j_status job = Running then Running else Cancel_requested) \<and> lease_expired t j)"

definition recover_one :: "int \<Rightarrow> job \<Rightarrow> ('a db_scheme) \<times> nat \<times> nat \<Rightarrow> ('a db_scheme) \<times> nat \<times> nat" where
  "recover_one t job acc =
     (case acc of (s, recovered_running, recovered_cancel_requested) \<Rightarrow>
        let running = (j_status job = Running);
            message = (if running then Lease_expired_waiting else Lease_expired_cancelled);
            next_status = (if running then Pending else Cancelled);
            s1 = update_jobs (recovery_fence t job) (if running then requeue_row t else cancel_expired_row t) s
        in if sql_count (recovery_fence t job) (jobs s) \<noteq> 1
           then (s1, recovered_running, recovered_cancel_requested)
           else
             let s2 = insert_job_event t (j_uuid job) (status_str next_status) (j_progress job)
                        (Some LEASE_RECOVERY_EVENT_STAGE) (Some message) s1;
                 s3 = reconcile_backtest_experiment t job next_status message s2
             in (s3, recovered_running + (if running then 1 else 0),
                 recovered_cancel_requested + (if running then 0 else 1)))"

definition expired_claims :: "int \<Rightarrow> ('a db_scheme) \<Rightarrow> job list" where
  "expired_claims t s = sort_key j_id (filter (lease_expired t) (jobs s))"

definition recover_expired_claims :: "int \<Rightarrow> int \<Rightarrow> broker \<Rightarrow> broker \<times> nat \<times> nat" where
  "recover_expired_claims t limit s =
     (let bounded_limit = nat (min (max limit 1) 500);
          expired = take bounded_limit (expired_claims t s);
          (s1, recovered_running, recovered_cancel_requested) = fold (recover_one t) expired (s, 0, 0)
      in (if recovered_running > 0 then s1\<lparr>wake_event := True\<rparr> else s1,
          recovered_running, recovered_cancel_requested))"

definition expired_claim_health_snapshot ::
  "('a env_scheme) \<Rightarrow> int \<Rightarrow> ('b db_scheme) \<Rightarrow> bool \<times> nat \<times> (string \<times> string) list" where
  "expired_claim_health_snapshot E t s =
     (let rows = expired_claims t s; expired_count = length rows
      in (expired_count = 0, expired_count,
          map (\<lambda>j. (take 12 (sha256_hex E (j_uuid j)), status_str (j_status j))) (take 5 rows)))"

text \<open>\<open>0.01\<close> is the double below.\<close>

definition started_progress :: rat where
  "started_progress = 5764607523034235 / 576460752303423488"

definition claim_row :: "int \<Rightarrow> int \<Rightarrow> string \<Rightarrow> job \<Rightarrow> job" where
  "claim_row t ttl worker_id j =
     j\<lparr>j_status := Running, j_progress := max (j_progress j) started_progress,
       j_progress_message := Some Started, j_stage := Some ''starting'',
       j_worker_id := Some worker_id, j_heartbeat_at := Some (sql_now t),
       j_generation := j_generation j + 1, j_lease_expires_at := Some (sql_now t + ttl),
       j_updated_at := sql_now t,
       j_started_at := (case j_started_at j of None \<Rightarrow> Some (sql_now t) | Some x \<Rightarrow> Some x)\<rparr>"

definition claimable :: "string \<Rightarrow> job \<Rightarrow> bool" where
  "claimable u j = (j_uuid j = u \<and> j_status j = Pending)"

definition claim_job ::
  "('a env_scheme) \<Rightarrow> int \<Rightarrow> string \<Rightarrow> string \<Rightarrow> int option \<Rightarrow> broker \<Rightarrow> broker \<times> bool" where
  "claim_job E t job_uuid worker_id lease_seconds s =
     (let s1 = update_jobs (claimable job_uuid) (claim_row t (lease_ttl E lease_seconds) worker_id) s;
          claimed = (sql_count (claimable job_uuid) (jobs s) = 1)
      in (if claimed
          then insert_job_event t job_uuid ''running'' started_progress (Some ''starting'') (Some Started) s1
          else s1, claimed))"

definition refresh_job_types :: "string list" where
  "refresh_job_types = [''data_update'', ''pit_governance_refresh'']"

definition pools_overlap :: "string option \<Rightarrow> string option \<Rightarrow> bool" where
  "pools_overlap target active_target =
     (target = Some ''*'' \<or> active_target = Some ''*'' \<or> target = active_target)"

definition candidate_compatible ::
  "('a env_scheme) \<Rightarrow> job \<times> dispatch \<Rightarrow> (job \<times> dispatch) list \<Rightarrow> string option \<Rightarrow> bool" where
  "candidate_compatible E candidate running dependency_status =
     (case candidate of (j, h) \<Rightarrow>
        let params = dict_params (j_params j) in
        if j_type j = ''daily_simulation'' \<and> truthy (pget params ''required_data_job_uuid'') \<and>
           dependency_status \<in> {Some ''pending'', Some ''running'', Some ''cancel_requested''}
        then False
        else if running \<noteq> [] \<and> (dispatch_exclusive h \<or> list_ex (\<lambda>(i, hi). dispatch_exclusive hi) running)
        then False
        else if startswith (j_queue_group j) ''sweep:'' \<and>
                int (sql_count (\<lambda>(i, hi). j_queue_group i = j_queue_group j) running)
                  \<ge> max (JOB_SCHEDULER_SWEEP_MAX_RUNNING E) 1
        then False
        else if j_type j \<in> set refresh_job_types
        then
          (let target = (case dispatch_pool h of
                           None \<Rightarrow> Some (data_resource E params)
                         | Some p \<Rightarrow> if p = '''' then Some (data_resource E params) else Some p)
           in \<not> list_ex (\<lambda>(i, hi).
                 j_type i \<in> set refresh_job_types \<or>
                 (j_type i \<in> set CACHE_READER_JOB_TYPES \<and> pools_overlap target (dispatch_pool hi))) running)
        else if j_type j \<in> set CACHE_READER_JOB_TYPES
        then \<not> list_ex (\<lambda>(i, hi). j_type i \<in> set refresh_job_types \<and>
                                   pools_overlap (dispatch_pool h) (dispatch_pool hi)) running
        else True)"

definition hydrated :: "('a env_scheme) \<Rightarrow> ('b db_scheme) \<Rightarrow> job \<Rightarrow> job \<times> dispatch" where
  "hydrated E s j = (j, hydrate_dispatch_resource E s j)"

definition running_jobs :: "('a env_scheme) \<Rightarrow> ('b db_scheme) \<Rightarrow> (job \<times> dispatch) list" where
  "running_jobs E s =
     map (hydrated E s) (sort_key j_id (filter (\<lambda>j. claimed_status (j_status j)) (jobs s)))"

definition queue_key :: "('a env_scheme) \<Rightarrow> int \<Rightarrow> job \<Rightarrow> int \<times> int \<times> int" where
  "queue_key E t j = (- effective_priority E t j, - j_priority j, j_id j)"

definition candidates :: "('a env_scheme) \<Rightarrow> int \<Rightarrow> ('b db_scheme) \<Rightarrow> job list" where
  "candidates E t s = sort_key (queue_key E t) (filter (\<lambda>j. j_status j = Pending) (jobs s))"

definition dependency_status :: "('a env_scheme) \<Rightarrow> ('b db_scheme) \<Rightarrow> job \<Rightarrow> string option" where
  "dependency_status E s j =
     (let required = pget (dict_params (j_params j)) ''required_data_job_uuid'' in
      if truthy required
      then Some (case find_job s (py_str E required) of
                   None \<Rightarrow> ''missing'' | Some d \<Rightarrow> status_str (j_status d))
      else None)"

fun select_candidate ::
  "('a env_scheme) \<Rightarrow> broker \<Rightarrow> (job \<times> dispatch) list \<Rightarrow> job list \<Rightarrow> (job \<times> dispatch) option" where
  "select_candidate E s running [] = None"
| "select_candidate E s running (row # rows) =
     (let candidate = hydrated E s row in
      if scheduler_pause_heavy s \<and> dispatch_heavy (snd candidate)
      then select_candidate E s running rows
      else if candidate_compatible E candidate running (dependency_status E s row)
      then Some candidate
      else if dispatch_exclusive (snd candidate) then None
      else select_candidate E s running rows)"

definition claim_next_job ::
  "('a env_scheme) \<Rightarrow> int \<Rightarrow> string \<Rightarrow> int option \<Rightarrow> broker \<Rightarrow> broker \<times> (job \<times> dispatch) option" where
  "claim_next_job E t worker_id lease_seconds s =
     (if \<not> list_ex (\<lambda>j. j_status j = Pending) (jobs s) then (s, None)
      else case select_candidate E s (running_jobs E s) (candidates E t s) of
        None \<Rightarrow> (s, None)
      | Some (selected, h) \<Rightarrow>
          if sql_count (claimable (j_uuid selected)) (jobs s) \<noteq> 1 then (s, None)
          else
            let s1 = update_jobs (claimable (j_uuid selected))
                       (claim_row t (lease_ttl E lease_seconds) worker_id) s;
                s2 = insert_job_event t (j_uuid selected) ''running'' started_progress (Some ''starting'')
                       (Some Started) s1
            in (s2, map_option (\<lambda>j. (j, h)) (find_job s2 (j_uuid selected))))"

definition holds_claim :: "claim \<Rightarrow> job \<Rightarrow> bool" where
  "holds_claim c j =
     (case c of (u, worker_id, generation) \<Rightarrow>
        j_uuid j = u \<and> j_worker_id j = Some worker_id \<and> j_generation j = generation \<and>
        claimed_status (j_status j))"

definition heartbeat_row :: "int \<Rightarrow> int \<Rightarrow> job \<Rightarrow> job" where
  "heartbeat_row t ttl j =
     j\<lparr>j_heartbeat_at := Some (sql_now t), j_lease_expires_at := Some (sql_now t + ttl),
       j_updated_at := sql_now t\<rparr>"

definition heartbeat_claims ::
  "('a env_scheme) \<Rightarrow> int \<Rightarrow> claim list \<Rightarrow> int option \<Rightarrow> broker \<Rightarrow> broker" where
  "heartbeat_claims E t claims lease_seconds s =
     fold (\<lambda>c. update_jobs (holds_claim c) (heartbeat_row t (lease_ttl E lease_seconds))) claims s"

definition release_cancelled_row :: "int \<Rightarrow> job \<Rightarrow> job" where
  "release_cancelled_row t j =
     j\<lparr>j_status := Cancelled, j_lease_expires_at := None, j_completed_at := Some (sql_now t),
       j_progress_message := Some Cancelled_at_shutdown, j_stage := Some ''cancelled'',
       j_updated_at := sql_now t\<rparr>"

definition release_running_row :: "int \<Rightarrow> string \<Rightarrow> job \<Rightarrow> job" where
  "release_running_row t reason j =
     j\<lparr>j_status := Pending, j_worker_id := None, j_lease_expires_at := None, j_started_at := None,
       j_progress_message := Some (Text reason), j_stage := Some ''queued'', j_updated_at := sql_now t\<rparr>"

definition release_one :: "int \<Rightarrow> string \<Rightarrow> claim \<Rightarrow> broker \<times> nat \<Rightarrow> broker \<times> nat" where
  "release_one t reason c acc =
     (case acc of (s, released) \<Rightarrow>
        case find (holds_claim c) (jobs s) of
          None \<Rightarrow> (s, released)
        | Some row \<Rightarrow>
            let hit = (\<lambda>j. holds_claim c j \<and> j_status j = j_status row);
                rowcount = sql_count hit (jobs s)
            in if j_status row = Cancel_requested
               then (reconcile_backtest_experiment t row Cancelled Cancelled_at_shutdown
                       (update_jobs hit (release_cancelled_row t) s),
                     released + rowcount)
               else
                 let s1 = update_jobs hit (release_running_row t reason) s
                 in (if rowcount > 0 then reconcile_backtest_experiment t row Pending (Text reason) s1 else s1,
                     released + rowcount))"

definition release_claims :: "int \<Rightarrow> claim list \<Rightarrow> string \<Rightarrow> broker \<Rightarrow> broker \<times> nat" where
  "release_claims t claims reason s =
     (case fold (release_one t reason) claims (s, 0) of
        (s1, released) \<Rightarrow> (if released > 0 then s1\<lparr>wake_event := True\<rparr> else s1, released))"

subsection \<open>The scheduler lease\<close>

text \<open>
  What a process sees of its host: its name, its own process id, whether a process id is alive,
  and the start identity of a process id when the platform can tell it.
\<close>

record process_env =
  p_hostname :: string
  p_pid :: int
  p_alive :: "int \<Rightarrow> bool"
  p_start_identity :: "int \<Rightarrow> string option"

definition same_host_process :: "process_env \<Rightarrow> scheduler_lease \<Rightarrow> bool" where
  "same_host_process P row = (l_owner_host row = Some (p_hostname P) \<and> l_owner_pid row \<noteq> None)"

definition same_live_process :: "process_env \<Rightarrow> scheduler_lease \<Rightarrow> bool" where
  "same_live_process P row =
     (case l_owner_pid row of
        None \<Rightarrow> False
      | Some pid \<Rightarrow>
          l_owner_host row = Some (p_hostname P) \<and> p_alive P pid \<and>
          (case l_owner_process_start row of
             None \<Rightarrow> True
           | Some start \<Rightarrow>
               if start = '''' then True
               else (case p_start_identity P pid of None \<Rightarrow> True | Some x \<Rightarrow> x = start)))"

definition lease_held :: "process_env \<Rightarrow> int \<Rightarrow> string \<Rightarrow> scheduler_lease option \<Rightarrow> bool" where
  "lease_held P t owner_id lease =
     (case lease of
        None \<Rightarrow> False
      | Some row \<Rightarrow>
          l_owner_id row \<noteq> owner_id \<and>
          (same_live_process P row \<or> (\<not> same_host_process P row \<and> l_expires_at row > sql_now t)))"

definition acquire_scheduler_lease ::
  "('a env_scheme) \<Rightarrow> process_env \<Rightarrow> int \<Rightarrow> string \<Rightarrow> int option \<Rightarrow> broker \<Rightarrow> broker \<times> bool" where
  "acquire_scheduler_lease E P t owner_id lease_seconds s =
     (if lease_held P t owner_id (job_scheduler_lease s) then (s, False)
      else (s\<lparr>job_scheduler_lease := Some
               \<lparr>l_owner_id = owner_id, l_owner_host = Some (p_hostname P), l_owner_pid = Some (p_pid P),
                l_owner_process_start = p_start_identity P (p_pid P), l_heartbeat_at = sql_now t,
                l_expires_at = sql_now t + lease_ttl E lease_seconds\<rparr>\<rparr>, True))"

definition renew_scheduler_lease ::
  "('a env_scheme) \<Rightarrow> int \<Rightarrow> string \<Rightarrow> int option \<Rightarrow> broker \<Rightarrow> broker \<times> bool" where
  "renew_scheduler_lease E t owner_id lease_seconds s =
     (case job_scheduler_lease s of
        None \<Rightarrow> (s, False)
      | Some row \<Rightarrow>
          if l_owner_id row = owner_id
          then (s\<lparr>job_scheduler_lease := Some (row\<lparr>l_heartbeat_at := sql_now t,
                    l_expires_at := sql_now t + lease_ttl E lease_seconds\<rparr>)\<rparr>, True)
          else (s, False))"

definition release_scheduler_lease :: "string \<Rightarrow> broker \<Rightarrow> broker" where
  "release_scheduler_lease owner_id s =
     (case job_scheduler_lease s of
        None \<Rightarrow> s
      | Some row \<Rightarrow> if l_owner_id row = owner_id then s\<lparr>job_scheduler_lease := None\<rparr> else s)"

subsection \<open>Retry\<close>

definition retry_prepared :: "('a env_scheme) \<Rightarrow> string \<Rightarrow> int option \<Rightarrow> job \<Rightarrow> prepared" where
  "retry_prepared E new_job_uuid user_id source =
     (let params = (if truthy (j_params source) then j_params source else PDict []) in
      \<lparr>pr_job_type = j_type source, pr_params = params,
       pr_user_id = (case user_id of None \<Rightarrow> j_user_id source | Some i \<Rightarrow> Some i),
       pr_display_name = j_display_name source, pr_resource_type = j_resource_type source,
       pr_resource_id = j_resource_id source, pr_parent_job_uuid = Some (j_uuid source),
       pr_attempt = (if j_attempt source = 0 then 1 else j_attempt source) + 1,
       pr_priority = job_priority (j_type source) params, pr_job_uuid = new_job_uuid,
       pr_queue_group = queue_group E (j_type source) params new_job_uuid\<rparr>)"

definition retry_job ::
  "('a env_scheme) \<Rightarrow> int \<Rightarrow> string \<Rightarrow> string \<Rightarrow> int option \<Rightarrow> broker \<Rightarrow> (broker \<times> string option) result" where
  "retry_job E t new_job_uuid job_uuid user_id s =
     (case find_job s job_uuid of
        None \<Rightarrow> Inr (s, None)
      | Some source \<Rightarrow>
          if \<not> (j_status source = Failed \<or> j_status source = Cancelled) then Inr (s, None)
          else if list_ex (\<lambda>j. j_parent j = Some job_uuid) (jobs s) then Inr (s, None)
          else
            let p = retry_prepared E new_job_uuid user_id source in
            if active_count s \<ge> max_pending_jobs E \<and> pr_priority p < 100 then Inl JobQueueFullError
            else rbind (insert_job E t p s) (\<lambda>s1.
              let s2 = reconcile_backtest_experiment t source Pending Retry_queued s1;
                  s3 = insert_job_event t new_job_uuid ''pending'' 0 (Some ''queued'') (Some Retry_submitted) s2
              in Inr (s3\<lparr>wake_event := True\<rparr>, Some new_job_uuid)))"

definition require_completed_job :: "string \<Rightarrow> string option \<Rightarrow> ('a db_scheme) \<Rightarrow> job result" where
  "require_completed_job job_uuid expected_type s =
     (case find_job s job_uuid of
        None \<Rightarrow> Inl (RuntimeError ''required job does not exist'')
      | Some j \<Rightarrow>
          if (case expected_type of None \<Rightarrow> False | Some ty \<Rightarrow> j_type j \<noteq> ty)
          then Inl (RuntimeError ''required job has another type'')
          else if j_status j \<noteq> Completed then Inl (RuntimeError ''required job is not completed'')
          else Inr j)"

subsection \<open>Maintenance passes\<close>

definition reconcile_terminal_backtest_jobs :: "int \<Rightarrow> int \<Rightarrow> broker \<Rightarrow> broker \<times> nat" where
  "reconcile_terminal_backtest_jobs t limit s =
     (case reconcile_terminal_backtest_state t limit ''periodic'' s of (s1, scanned, repaired) \<Rightarrow> (s1, repaired))"

text \<open>The expired-claim recovery at start-up uses its default limit of 100, as does the reconciliation.\<close>

definition recover_pending_jobs :: "int \<Rightarrow> broker \<Rightarrow> broker \<times> nat" where
  "recover_pending_jobs t s =
     (let s1 = fst (recover_expired_claims t 100 s);
          s2 = fst (reconcile_terminal_backtest_state t 100 ''startup'' s1);
          rows = sql_count (\<lambda>j. j_status j = Pending) (jobs s2)
      in (if rows > 0 then s2\<lparr>wake_event := True\<rparr> else s2, rows))"

text \<open>\<open>busy\<close>: the short busy timeout expired before the write.\<close>

definition record_operational_event ::
  "('a env_scheme) \<Rightarrow> int \<Rightarrow> bool \<Rightarrow> string \<Rightarrow> string \<Rightarrow> string option \<Rightarrow> string option \<Rightarrow> string option \<Rightarrow> rat \<Rightarrow>
   broker \<Rightarrow> broker result" where
  "record_operational_event E t busy event_name category job_type outcome stage v s =
     rbind (insert_operational_event t event_name category job_type outcome stage v s) (\<lambda>s1.
       if busy then Inr (s\<lparr>pending_sqlite_contention := pending_sqlite_contention s + 1\<rparr>)
       else
         let retention = max (min (JOB_OBSERVABILITY_RETENTION_HOURS E) (24 * 31)) 1 in
         Inr (s1\<lparr>operational_events :=
                sql_delete (\<lambda>ev. julianday (o_created_at ev * 1000) < julianday (t - retention * 3600000))
                  (operational_events s1)\<rparr>))"

definition note_sqlite_contention :: "broker \<Rightarrow> broker" where
  "note_sqlite_contention s = s\<lparr>pending_sqlite_contention := pending_sqlite_contention s + 1\<rparr>"

definition flush_operational_counters :: "int \<Rightarrow> bool \<Rightarrow> broker \<Rightarrow> broker result" where
  "flush_operational_counters t busy s =
     (let pending = pending_sqlite_contention s in
      if pending = 0 then Inr s
      else
        rbind (insert_operational_event t ''sqlite_contention'' ''storage'' None None None
                 (float_of_int (int pending)) s) (\<lambda>s1.
          if busy then Inr s
          else Inr (s1\<lparr>pending_sqlite_contention := pending_sqlite_contention s1 - pending\<rparr>)))"

subsection \<open>Queries\<close>

definition queue_position :: "('a env_scheme) \<Rightarrow> int \<Rightarrow> ('b db_scheme) \<Rightarrow> job \<Rightarrow> nat option" where
  "queue_position E t s j =
     (if j_status j = Pending
      then Some (1 + sql_count (\<lambda>q. j_status q = Pending \<and>
              (effective_priority E t q > effective_priority E t j \<or>
               (effective_priority E t q = effective_priority E t j \<and>
                (j_priority q > j_priority j \<or> (j_priority q = j_priority j \<and> j_id q < j_id j)))))
            (jobs s))
      else None)"

definition decorate_queue_reason :: "broker \<Rightarrow> job \<times> dispatch \<Rightarrow> string option" where
  "decorate_queue_reason s jh =
     (case jh of (j, h) \<Rightarrow>
        if j_status j \<noteq> Pending then None
        else if scheduler_pause_heavy s \<and> dispatch_heavy h then Some ''resource_pressure_heavy_jobs_paused''
        else if \<not> scheduler_leader s
        then Some (case scheduler_reasons s of [] \<Rightarrow> ''scheduler_not_leader'' | r # rs \<Rightarrow> r)
        else (case scheduler_reasons s of
                [] \<Rightarrow> Some ''waiting_for_capacity''
              | r # rs \<Rightarrow> if scheduler_desired_capacity s \<le> 1 then Some r else Some ''waiting_for_capacity''))"

record job_view =
  v_job :: job
  v_queue_position :: "nat option"
  v_queue_reason :: "string option"

definition query_clause ::
  "int option \<Rightarrow> bool \<Rightarrow> bool \<Rightarrow> string option \<Rightarrow> string option \<Rightarrow> job \<Rightarrow> bool" where
  "query_clause user_id include_all include_system status job_type j =
     ((if \<not> include_all then user_id \<noteq> None \<and> j_user_id j = user_id
       else if \<not> include_system then j_user_id j \<noteq> None else True) \<and>
      (case status of None \<Rightarrow> True | Some x \<Rightarrow> x = '''' \<or> status_str (j_status j) = x) \<and>
      (case job_type of None \<Rightarrow> True | Some x \<Rightarrow> x = '''' \<or> j_type j = x))"

definition query_jobs ::
  "('a env_scheme) \<Rightarrow> int \<Rightarrow> int option \<Rightarrow> bool \<Rightarrow> bool \<Rightarrow> string option \<Rightarrow> string option \<Rightarrow> nat \<Rightarrow> nat \<Rightarrow>
   broker \<Rightarrow> job_view list \<times> nat" where
  "query_jobs E t user_id include_all include_system status job_type page page_size s =
     (let clause = query_clause user_id include_all include_system status job_type;
          rows = take page_size (drop ((page - 1) * page_size) (rev (sort_key j_id (filter clause (jobs s)))))
      in (map (\<lambda>j. \<lparr>v_job = j, v_queue_position = queue_position E t s j,
                    v_queue_reason = decorate_queue_reason s (hydrated E s j)\<rparr>) rows,
          sql_count clause (jobs s)))"

definition list_jobs :: "('a env_scheme) \<Rightarrow> int \<Rightarrow> broker \<Rightarrow> job_view list" where
  "list_jobs E t s = fst (query_jobs E t None True True None None 1 10000 s)"

definition get_job_status :: "('a env_scheme) \<Rightarrow> string \<Rightarrow> broker \<Rightarrow> (job \<times> string option) option" where
  "get_job_status E job_uuid s =
     map_option (\<lambda>j. (j, decorate_queue_reason s (hydrated E s j))) (find_job s job_uuid)"

definition list_job_events :: "string \<Rightarrow> nat \<Rightarrow> ('a db_scheme) \<Rightarrow> job_event list" where
  "list_job_events job_uuid limit s =
     take limit (rev (filter (\<lambda>ev. ev_uuid ev = job_uuid) (job_events s)))"

definition get_latest_job :: "string \<Rightarrow> int option \<Rightarrow> ('a db_scheme) \<Rightarrow> job option" where
  "get_latest_job job_type user_id s =
     find (\<lambda>j. j_type j = job_type \<and> (user_id = None \<or> j_user_id j = user_id))
       (rev (sort_key j_id (jobs s)))"

definition get_latest_system_job :: "string \<Rightarrow> ('a db_scheme) \<Rightarrow> job option" where
  "get_latest_system_job job_type s =
     find (\<lambda>j. j_type j = job_type \<and> j_user_id j = None) (rev (sort_key j_id (jobs s)))"

definition get_summary :: "int option \<Rightarrow> bool \<Rightarrow> ('a db_scheme) \<Rightarrow> (job_status \<times> nat) list \<times> nat" where
  "get_summary user_id include_all s =
     (let rows = filter (\<lambda>j. include_all \<or> (user_id \<noteq> None \<and> j_user_id j = user_id)) (jobs s);
          counts = map (\<lambda>st. (st, sql_count (\<lambda>j. j_status j = st) rows)) VALID_STATUSES;
          n = (\<lambda>st. dict_get counts st 0)
      in (counts, n Pending + n Running + n Cancel_requested))"

subsection \<open>Worker status of the process\<close>

definition worker_online :: "('a env_scheme) \<Rightarrow> rat \<Rightarrow> broker \<Rightarrow> bool" where
  "worker_online E monotonic s =
     (case worker_heartbeat_monotonic s of
        None \<Rightarrow> False
      | Some h \<Rightarrow> fsub monotonic h < max (float_of_int (JOB_SCHEDULER_LEASE_SECONDS E)) 15)"

definition mark_worker_heartbeat :: "int \<Rightarrow> rat \<Rightarrow> broker \<Rightarrow> broker" where
  "mark_worker_heartbeat t monotonic s =
     s\<lparr>worker_heartbeat_at := Some (sql_now t), worker_heartbeat_monotonic := Some monotonic\<rparr>"

definition mark_worker_started :: "int \<Rightarrow> rat \<Rightarrow> broker \<Rightarrow> broker" where
  "mark_worker_started t monotonic s =
     mark_worker_heartbeat t monotonic (s\<lparr>worker_started_at := Some (sql_now t)\<rparr>)"

definition mark_worker_stopped :: "broker \<Rightarrow> broker" where
  "mark_worker_stopped s =
     s\<lparr>worker_heartbeat_monotonic := None, scheduler_desired_capacity := 0, scheduler_leader := False,
       scheduler_running_slots := 0, scheduler_degraded := True, scheduler_reasons := [''worker_stopped'']\<rparr>"

definition shutdown :: "broker \<Rightarrow> broker" where
  "shutdown s = (mark_worker_stopped s)\<lparr>wake_event := False\<rparr>"

end
