(* ===== verification/Job_Lifecycle.thy ===== *)
theory Job_Lifecycle
  imports Broker
begin

text \<open>
  The life of a job, abstractly: \<open>row_step\<close> is the state machine of one row of \<open>jobs\<close>, and
  \<open>evolves s s'\<close> says that between two databases every row only took steps of that machine and
  that new rows were appended with fresh ids and UUIDs. Every operation of the broker refines this
  contract. The locales \<open>row_relation\<close> and \<open>row_invariant\<close> carry a property of the machine to all
  the databases the broker can produce.
\<close>

named_theorems frame "tables an operation does not touch"

subsection \<open>Frames\<close>

lemma insert_job_event_frame [frame]:
  "jobs (insert_job_event t u st p sg m d) = jobs d"
  "next_job_id (insert_job_event t u st p sg m d) = next_job_id d"
  "experiments (insert_job_event t u st p sg m d) = experiments d"
  "job_scheduler_lease (insert_job_event t u st p sg m d) = job_scheduler_lease d"
  by (simp_all add: insert_job_event_def)

lemma record_reconciliation_event_frame [frame]:
  "jobs (record_reconciliation_event t u st p src d) = jobs d"
  "next_job_id (record_reconciliation_event t u st p src d) = next_job_id d"
  "experiments (record_reconciliation_event t u st p src d) = experiments d"
  "job_scheduler_lease (record_reconciliation_event t u st p src d) = job_scheduler_lease d"
  by (simp_all add: record_reconciliation_event_def frame)

lemma refresh_related_sweeps_frame [frame]:
  "jobs (refresh_related_sweeps x d) = jobs d"
  "next_job_id (refresh_related_sweeps x d) = next_job_id d"
  "experiments (refresh_related_sweeps x d) = experiments d"
  "job_scheduler_lease (refresh_related_sweeps x d) = job_scheduler_lease d"
  by (simp_all add: refresh_related_sweeps_def)

lemma refresh_owned_sweeps_frame [frame]:
  "jobs (refresh_owned_sweeps x u d) = jobs d"
  "next_job_id (refresh_owned_sweeps x u d) = next_job_id d"
  "experiments (refresh_owned_sweeps x u d) = experiments d"
  "job_scheduler_lease (refresh_owned_sweeps x u d) = job_scheduler_lease d"
  by (simp_all add: refresh_owned_sweeps_def)

lemma reconcile_backtest_experiment_frame [frame]:
  "jobs (reconcile_backtest_experiment t j st m d) = jobs d"
  "next_job_id (reconcile_backtest_experiment t j st m d) = next_job_id d"
  "job_scheduler_lease (reconcile_backtest_experiment t j st m d) = job_scheduler_lease d"
  by (simp_all add: reconcile_backtest_experiment_def Let_def frame split: option.splits)

lemma insert_operational_event_frame [frame]:
  assumes "insert_operational_event t n c jt oc sg v d = Inr d'"
  shows "jobs d' = jobs d" and "next_job_id d' = next_job_id d"
    and "experiments d' = experiments d" and "job_scheduler_lease d' = job_scheduler_lease d"
  using assms by (auto simp: insert_operational_event_def split: if_splits)

lemma progress_events_frame [frame]:
  assumes "progress_events t j ns u d = Inr d'"
  shows "jobs d' = jobs d" and "next_job_id d' = next_job_id d"
    and "job_scheduler_lease d' = job_scheduler_lease d"
  using assms by (auto simp: progress_events_def Let_def frame split: if_splits)

lemma update_jobs_frame [frame]:
  "jobs (update_jobs p f d) = sql_update p f (jobs d)"
  "next_job_id (update_jobs p f d) = next_job_id d"
  "experiments (update_jobs p f d) = experiments d"
  "job_scheduler_lease (update_jobs p f d) = job_scheduler_lease d"
  by (simp_all add: update_jobs_def)

lemma repair_one_frame [frame]:
  "jobs (fst (repair_one t cols src r acc)) = jobs (fst acc)"
  "next_job_id (fst (repair_one t cols src r acc)) = next_job_id (fst acc)"
  "job_scheduler_lease (fst (repair_one t cols src r acc)) = job_scheduler_lease (fst acc)"
  by (simp_all add: repair_one_def Let_def frame split: prod.splits)

lemma reconcile_terminal_backtest_state_frame [frame]:
  "jobs (fst (reconcile_terminal_backtest_state t l src d)) = jobs d"
  "next_job_id (fst (reconcile_terminal_backtest_state t l src d)) = next_job_id d"
  "job_scheduler_lease (fst (reconcile_terminal_backtest_state t l src d)) = job_scheduler_lease d"
proof -
  define P where "P = (\<lambda>a :: 'a db_scheme \<times> nat.
     jobs (fst a) = jobs d \<and> next_job_id (fst a) = next_job_id d \<and>
     job_scheduler_lease (fst a) = job_scheduler_lease d)"
  have "P (fold (repair_one t cols src) rows (d, 0))" for cols rows
    by (rule fold_invariant_list) (simp_all add: P_def frame)
  then show "jobs (fst (reconcile_terminal_backtest_state t l src d)) = jobs d"
    and "next_job_id (fst (reconcile_terminal_backtest_state t l src d)) = next_job_id d"
    and "job_scheduler_lease (fst (reconcile_terminal_backtest_state t l src d)) = job_scheduler_lease d"
    by (simp_all add: reconcile_terminal_backtest_state_def P_def Let_def split: prod.splits)
      (metis fst_conv)+
qed

lemma find_job_cong: "jobs s = jobs s' \<Longrightarrow> find_job s u = find_job s' u"
  by (simp add: find_job_def)

subsection \<open>The machine of one row\<close>

inductive row_step :: "job \<Rightarrow> job \<Rightarrow> bool" where
  row_idle: "row_step j j"
| row_claim: "j_status j = Pending \<Longrightarrow> row_step j (claim_row t ttl w j)"
| row_heartbeat: "claimed_status (j_status j) \<Longrightarrow> row_step j (heartbeat_row t ttl j)"
| row_cancel: "active (j_status j) \<Longrightarrow>
    row_step j (cancel_row t (if j_status j = Pending then Cancelled else Cancel_requested) j)"
| row_progress: "\<not> terminal (j_status j) \<Longrightarrow> p = j_progress j \<or> 0 \<le> p \<and> p \<le> 1 \<Longrightarrow>
    ns = None \<or> (\<exists>st. ns = Some st \<and> st \<in> set (allowed_transitions (j_status j))) \<Longrightarrow>
    row_step j (progress_row t ns p u j)"
| row_requeue: "j_status j = Running \<Longrightarrow> lease_expired t j \<Longrightarrow> row_step j (requeue_row t j)"
| row_cancel_expired: "j_status j = Cancel_requested \<Longrightarrow> lease_expired t j \<Longrightarrow> row_step j (cancel_expired_row t j)"
| row_release_cancelled: "j_status j = Cancel_requested \<Longrightarrow> row_step j (release_cancelled_row t j)"
| row_release_running: "j_status j = Running \<Longrightarrow> row_step j (release_running_row t r j)"

inductive_cases row_stepE: "row_step j j'"

lemmas row_defs =
  claim_row_def heartbeat_row_def cancel_row_def progress_row_def progress_status_row_def requeue_row_def
  cancel_expired_row_def release_cancelled_row_def release_running_row_def Let_def

definition initial_job :: "job \<Rightarrow> bool" where
  "initial_job j =
     (j_status j = Pending \<and> j_progress j = 0 \<and> j_worker_id j = None \<and> j_generation j = 0 \<and>
      j_lease_expires_at j = None \<and> j_completed_at j = None \<and> j_result j = None)"

lemma initial_new_job [simp, intro]: "initial_job (new_job E t i p)"
  by (simp add: initial_job_def new_job_def)

definition spawned :: "job \<Rightarrow> bool" where
  "spawned j = (\<exists>f. initial_job f \<and> row_step\<^sup>*\<^sup>* f j)"

text \<open>What never changes in a row.\<close>

definition same_identity :: "job \<Rightarrow> job \<Rightarrow> bool" where
  "same_identity j j' =
     (j_id j' = j_id j \<and> j_uuid j' = j_uuid j \<and> j_type j' = j_type j \<and> j_params j' = j_params j \<and>
      j_priority j' = j_priority j \<and> j_queue_group j' = j_queue_group j \<and> j_user_id j' = j_user_id j \<and>
      j_parent j' = j_parent j \<and> j_attempt j' = j_attempt j \<and> j_created_at j' = j_created_at j \<and>
      j_resource_type j' = j_resource_type j \<and> j_resource_id j' = j_resource_id j \<and>
      j_runtime_identity j' = j_runtime_identity j)"

lemma row_step_identity: "row_step j j' \<Longrightarrow> same_identity j j'"
  by (induction rule: row_step.induct) (auto simp: same_identity_def row_defs split: option.splits)

lemma row_steps_identity: "row_step\<^sup>*\<^sup>* j j' \<Longrightarrow> same_identity j j'"
  by (induction rule: rtranclp_induct)
    (auto simp: same_identity_def dest!: row_step_identity)

subsection \<open>Evolution of the job table\<close>

definition store_wf :: "('a db_scheme) \<Rightarrow> bool" where
  "store_wf s =
     (distinct (map j_uuid (jobs s)) \<and> sorted_wrt (<) (map j_id (jobs s)) \<and>
      (\<forall>j\<in>set (jobs s). j_id j < next_job_id s))"

definition evolves :: "('a db_scheme) \<Rightarrow> ('b db_scheme) \<Rightarrow> bool" where
  "evolves s s' =
     (\<exists>old new. jobs s' = old @ new \<and> list_all2 row_step\<^sup>*\<^sup>* (jobs s) old \<and>
        (\<forall>j\<in>set new. spawned j) \<and>
        map j_id new = map (\<lambda>i. next_job_id s + int i) [0..<length new] \<and>
        next_job_id s' = next_job_id s + int (length new) \<and>
        distinct (map j_uuid new) \<and> set (map j_uuid new) \<inter> set (map j_uuid (jobs s)) = {})"

lemma list_all2_row_keys:
  assumes "list_all2 row_step\<^sup>*\<^sup>* xs ys"
  shows "map j_uuid ys = map j_uuid xs" and "map j_id ys = map j_id xs"
  using assms by (induction rule: list_all2_induct)
    (auto dest!: row_steps_identity simp: same_identity_def)

lemma evolves_same:
  assumes "jobs s' = jobs s" and "next_job_id s' = next_job_id s"
  shows "evolves s s'"
  unfolding evolves_def
  by (rule exI [of _ "jobs s"], rule exI [of _ "[]"]) (simp add: assms list_all2_refl)

lemma evolves_refl [simp]: "evolves s s"
  by (rule evolves_same) simp_all

text \<open>The evolutions that insert nothing.\<close>

definition quiet :: "('a db_scheme) \<Rightarrow> ('b db_scheme) \<Rightarrow> bool" where
  "quiet s s' = (list_all2 row_step\<^sup>*\<^sup>* (jobs s) (jobs s') \<and> next_job_id s' = next_job_id s)"

lemma quiet_evolves: "quiet s s' \<Longrightarrow> evolves s s'"
  unfolding evolves_def quiet_def
  by (rule exI [of _ "jobs s'"], rule exI [of _ "[]"]) simp

lemma quiet_same: "jobs s' = jobs s \<Longrightarrow> next_job_id s' = next_job_id s \<Longrightarrow> quiet s s'"
  by (simp add: quiet_def list_all2_refl)

lemma quiet_refl [simp]: "quiet s s"
  by (rule quiet_same) simp_all

lemma quiet_trans: "quiet s s' \<Longrightarrow> quiet s' s'' \<Longrightarrow> quiet s s''"
  by (auto simp: quiet_def elim: list_all2_trans [rotated] intro: rtranclp_trans)

lemma quiet_update:
  assumes "\<And>j. j \<in> set (jobs s) \<Longrightarrow> p j \<Longrightarrow> row_step j (f j)"
    and "jobs s' = sql_update p f (jobs s)" and "next_job_id s' = next_job_id s"
  shows "quiet s s'"
  using assms by (auto simp: quiet_def sql_update_def list_all2_map2 intro!: list.rel_refl_strong)

lemma spawned_steps: "spawned j \<Longrightarrow> row_step\<^sup>*\<^sup>* j j' \<Longrightarrow> spawned j'"
  by (auto simp: spawned_def intro: rtranclp_trans)

lemma upt_ids_append:
  "map (\<lambda>i. (a :: int) + int i) [0..<m + n] =
   map (\<lambda>i. a + int i) [0..<m] @ map (\<lambda>i. a + int m + int i) [0..<n]"
  by (rule nth_equalityI) (auto simp: nth_append)

lemma evolves_trans:
  assumes "evolves s s'" and "evolves s' s''"
  shows "evolves s s''"
proof -
  obtain old new where 1: "jobs s' = old @ new" "list_all2 row_step\<^sup>*\<^sup>* (jobs s) old"
      "\<forall>j\<in>set new. spawned j" "map j_id new = map (\<lambda>i. next_job_id s + int i) [0..<length new]"
      "next_job_id s' = next_job_id s + int (length new)"
      "distinct (map j_uuid new)" "set (map j_uuid new) \<inter> set (map j_uuid (jobs s)) = {}"
    using assms(1) by (auto simp: evolves_def)
  obtain old' new' where 2: "jobs s'' = old' @ new'" "list_all2 row_step\<^sup>*\<^sup>* (jobs s') old'"
      "\<forall>j\<in>set new'. spawned j" "map j_id new' = map (\<lambda>i. next_job_id s' + int i) [0..<length new']"
      "next_job_id s'' = next_job_id s' + int (length new')"
      "distinct (map j_uuid new')" "set (map j_uuid new') \<inter> set (map j_uuid (jobs s')) = {}"
    using assms(2) by (auto simp: evolves_def)
  obtain a b where ab: "old' = a @ b" "list_all2 row_step\<^sup>*\<^sup>* old a" "list_all2 row_step\<^sup>*\<^sup>* new b"
    using 2(2) 1(1) by (auto simp: list_all2_append1)
  have len: "length b = length new"
    using ab(3) by (simp add: list_all2_lengthD)
  have spawn: "\<forall>j\<in>set b. spawned j"
    using ab(3) 1(3) by (metis in_set_conv_nth list_all2_conv_all_nth spawned_steps)
  have "list_all2 row_step\<^sup>*\<^sup>* (jobs s) a"
    by (rule list_all2_trans [OF _ 1(2) ab(2)]) (auto intro: rtranclp_trans)
  moreover have "map j_id (b @ new') = map (\<lambda>i. next_job_id s + int i) [0..<length (b @ new')]"
    using list_all2_row_keys(2) [OF ab(3)] 1(4,5) 2(4) len by (simp add: upt_ids_append)
  moreover have "distinct (map j_uuid (b @ new'))"
    "set (map j_uuid (b @ new')) \<inter> set (map j_uuid (jobs s)) = {}"
    using 1(1,6,7) 2(6,7) list_all2_row_keys(1) [OF ab(3)] list_all2_row_keys(1) [OF 1(2)]
    by (simp_all flip: set_map add: Int_Un_distrib Int_Un_distrib2) (auto simp flip: set_map)
  ultimately show ?thesis
    unfolding evolves_def
    by (intro exI [of _ a] exI [of _ "b @ new'"])
      (use 1(5) 2(1,3,5) ab(1) len spawn in \<open>simp add: ball_Un\<close>)
qed

lemma evolves_wf:
  assumes "evolves s s'" and "store_wf s"
  shows "store_wf s'"
proof -
  obtain old new where 1: "jobs s' = old @ new" "list_all2 row_step\<^sup>*\<^sup>* (jobs s) old"
      "map j_id new = map (\<lambda>i. next_job_id s + int i) [0..<length new]"
      "next_job_id s' = next_job_id s + int (length new)"
      "distinct (map j_uuid new)" "set (map j_uuid new) \<inter> set (map j_uuid (jobs s)) = {}"
    using assms(1) by (auto simp: evolves_def)
  note keys = list_all2_row_keys [OF 1(2)]
  have wf: "distinct (map j_uuid (jobs s))" "sorted_wrt (<) (map j_id (jobs s))"
    "\<And>i. i \<in> set (map j_id (jobs s)) \<Longrightarrow> i < next_job_id s"
    using assms(2) by (auto simp: store_wf_def)
  have new: "sorted_wrt (<) (map j_id new)"
    "\<And>i. i \<in> set (map j_id new) \<Longrightarrow> next_job_id s \<le> i \<and> i < next_job_id s + int (length new)"
    unfolding 1(3) by (auto simp: sorted_wrt_iff_nth_less)
  have "distinct (map j_uuid (old @ new))"
    using wf(1) keys(1) 1(5,6) by (auto simp flip: set_map)
  moreover have "sorted_wrt (<) (map j_id (old @ new))"
    using wf(2,3) new keys(2) by (fastforce simp: sorted_wrt_append simp flip: set_map)
  moreover have "i < next_job_id s'" if "i \<in> set (map j_id (old @ new))" for i
  proof -
    from that have "i \<in> set (map j_id (jobs s)) \<or> i \<in> set (map j_id new)"
      using keys(2) by (metis Un_iff map_append set_append)
    then show ?thesis
      using wf(3) [of i] new(2) [of i] 1(4) by linarith
  qed
  ultimately show ?thesis
    using 1(1) by (auto simp: store_wf_def)
qed

lemma find_job_eq:
  assumes "store_wf s" and "find_job s u = Some row" and "j \<in> set (jobs s)" and "j_uuid j = u"
  shows "j = row"
  using assms find_key_conv [of j_uuid "jobs s" u]
  by (auto simp: store_wf_def find_job_def) (metis find_key_eq option.inject)

lemma find_job_mem: "find_job s u = Some j \<Longrightarrow> j \<in> set (jobs s) \<and> j_uuid j = u"
  by (auto simp: find_job_def dest: find_Some_mem)

lemma find_list_all2:
  assumes "list_all2 R xs ys" and "\<And>x y. R x y \<Longrightarrow> p y = p x"
    and "find p xs = Some x"
  shows "\<exists>y. find p ys = Some y \<and> R x y"
  using assms by (induction rule: list_all2_induct) auto

lemma find_append_Some: "find p xs = Some x \<Longrightarrow> find p (xs @ ys) = Some x"
  by (induction xs) auto

lemma evolves_find:
  assumes "evolves s s'" and "find_job s u = Some j"
  shows "\<exists>j'. find_job s' u = Some j' \<and> row_step\<^sup>*\<^sup>* j j'"
proof -
  obtain old new where 1: "jobs s' = old @ new" "list_all2 row_step\<^sup>*\<^sup>* (jobs s) old"
    using assms(1) by (auto simp: evolves_def)
  have "\<exists>j'. find (\<lambda>j. j_uuid j = u) old = Some j' \<and> row_step\<^sup>*\<^sup>* j j'"
    by (rule find_list_all2 [OF 1(2)])
      (use assms(2) in \<open>auto simp: find_job_def same_identity_def dest: row_steps_identity\<close>)
  then show ?thesis
    using 1(1) by (auto simp: find_job_def intro: find_append_Some)
qed

subsection \<open>Properties of rows, carried to the database\<close>

locale row_relation =
  fixes R :: "job \<Rightarrow> job \<Rightarrow> bool"
  assumes R_refl: "R j j"
    and R_trans: "R j j' \<Longrightarrow> R j' j'' \<Longrightarrow> R j j''"
    and R_step: "row_step j j' \<Longrightarrow> R j j'"
begin

lemma R_steps: "row_step\<^sup>*\<^sup>* j j' \<Longrightarrow> R j j'"
  by (induction rule: rtranclp_induct) (auto intro: R_refl R_trans R_step)

lemma R_evolves:
  assumes "evolves s s'" and "find_job s u = Some j"
  shows "\<exists>j'. find_job s' u = Some j' \<and> R j j'"
  using evolves_find [OF assms] R_steps by blast

end

locale row_invariant =
  fixes I :: "job \<Rightarrow> bool"
  assumes I_initial: "initial_job j \<Longrightarrow> I j"
    and I_step: "I j \<Longrightarrow> row_step j j' \<Longrightarrow> I j'"
begin

lemma I_steps: "row_step\<^sup>*\<^sup>* j j' \<Longrightarrow> I j \<Longrightarrow> I j'"
  by (induction rule: rtranclp_induct) (auto intro: I_step)

lemma I_spawned: "spawned j \<Longrightarrow> I j"
  by (auto simp: spawned_def intro: I_steps I_initial)

lemma I_evolves:
  assumes "evolves s s'" and "\<forall>j\<in>set (jobs s). I j"
  shows "\<forall>j\<in>set (jobs s'). I j"
proof -
  obtain old new where 1: "jobs s' = old @ new" "list_all2 row_step\<^sup>*\<^sup>* (jobs s) old"
      "\<forall>j\<in>set new. spawned j"
    using assms(1) by (auto simp: evolves_def)
  have "\<forall>j\<in>set old. I j"
    using 1(2) assms(2) by (metis I_steps in_set_conv_nth list_all2_conv_all_nth)
  then show ?thesis
    using 1(1,3) I_spawned by auto
qed

end

sublocale row_invariant \<subseteq> kept: row_relation "\<lambda>j j'. I j \<longrightarrow> I j'"
  by unfold_locales (auto intro: I_step)

subsection \<open>Every operation refines the machine\<close>

lemma insert_job_evolves:
  assumes "insert_job E t p s = Inr s'"
  shows "evolves s s'"
  unfolding evolves_def
  by (rule exI [of _ "jobs s"], rule exI [of _ "[new_job E t (next_job_id s) p]"])
    (use assms in \<open>auto simp: insert_job_def new_job_def find_job_def find_None_iff_all list_all2_refl
       spawned_def split: if_splits intro!: exI [of _ "new_job E t (next_job_id s) p"] rtranclp.rtrancl_refl
       initial_new_job [unfolded new_job_def]\<close>)

lemma submit_job_evolves:
  assumes "submit_job E t u sub da de s = Inr (s', r)"
  shows "evolves s s'"
proof -
  obtain p where p: "prepare E u sub (if truthy (sub_params sub) then sub_params sub else PDict []) = Inr p"
    using assms by (auto simp: submit_job_def rbind_Inr_conv)
  from assms p consider "s' = s" | s1 where "insert_job E t p s = Inr s1"
      "s' = (insert_job_event t u ''pending'' 0 (Some ''queued'') (Some Submitted) s1)\<lparr>wake_event := True\<rparr>"
    by (auto simp: submit_job_def rbind_Inr_conv split: option.splits if_splits)
  then show ?thesis
  proof cases
    case 2
    then show ?thesis
      by (intro evolves_trans [OF insert_job_evolves evolves_same]) (simp_all add: frame)
  qed simp
qed

lemma replace_experiment_jobs:
  assumes "replace_experiment w i a = Inr a'"
  shows "jobs (fst a') = jobs (fst a) \<and> next_job_id (fst a') = next_job_id (fst a)"
  using assms by (auto simp: replace_experiment_def Let_def split: prod.splits option.splits if_splits)

lemma reset_experiments_jobs:
  assumes "reset_experiments ids s = Inr s'"
  shows "jobs s' = jobs s" and "next_job_id s' = next_job_id s"
  using assms by (auto simp: reset_experiments_def Let_def split: if_splits)

lemma restart_sweep_jobs [frame]:
  "jobs (restart_sweep w s) = jobs s" "next_job_id (restart_sweep w s) = next_job_id s"
  by (simp_all add: restart_sweep_def split: option.splits)

lemma insert_item_evolves:
  assumes "insert_item E t p s = Inr s'"
  shows "evolves s s'"
proof -
  obtain s1 where 1: "insert_job E t p s = Inr s1"
      "s' = insert_job_event t (pr_job_uuid p) ''pending'' 0 (Some ''queued'') (Some Batch_submitted) s1"
    using assms by (auto simp: insert_item_def rbind_Inr_conv)
  show ?thesis
    unfolding 1(2) by (rule evolves_trans [OF insert_job_evolves [OF 1(1)] evolves_same]) (simp_all add: frame)
qed

text \<open>The four stages of a batch that passes admission.\<close>

lemma submit_jobs_batch_InrE:
  assumes "submit_jobs_batch E t us subs w rs xs s = Inr (s', r)" and "subs \<noteq> []"
  obtains ps m s1 s2 s3 ps' where "prepare_batch E us subs = Inr ps" "batch_admission E ps s = Inr ()"
    "\<not> recovery_busy (rs @ xs) s"
    "rfold (replace_experiment (case w of None \<Rightarrow> 0 | Some w \<Rightarrow> w)) xs (s, []) = Inr (s1, m)"
    "(if m \<noteq> [] then rmap (redirect_item m) ps else Inr ps) = Inr ps'"
    "reset_experiments rs s1 = Inr s2" "rfold (insert_item E t) ps' s2 = Inr s3"
    "s' = (restart_sweep w s3)\<lparr>wake_event := True\<rparr>" "r = map pr_job_uuid ps'"
  using assms
  by (auto simp: submit_jobs_batch_def rbind_Inr_conv simp del: rfold.simps rmap.simps split: if_splits prod.splits)

lemma submit_jobs_batch_evolves:
  assumes "submit_jobs_batch E t us subs w rs xs s = Inr (s', r)"
  shows "evolves s s'"
proof (cases "subs = []")
  case True
  then show ?thesis using assms by (simp add: submit_jobs_batch_def)
next
  case False
  from assms False show ?thesis
  proof (rule submit_jobs_batch_InrE)
    fix ps m s1 s2 s3 ps'
    assume 1: "rfold (replace_experiment (case w of None \<Rightarrow> 0 | Some w \<Rightarrow> w)) xs (s, []) = Inr (s1, m)"
      "reset_experiments rs s1 = Inr s2" "rfold (insert_item E t) ps' s2 = Inr s3"
      "s' = (restart_sweep w s3)\<lparr>wake_event := True\<rparr>"
    have "jobs (fst (s1, m)) = jobs s \<and> next_job_id (fst (s1, m)) = next_job_id s"
      by (rule rfold_invariant [OF 1(1)]) (use replace_experiment_jobs in \<open>auto, force+\<close>)
    then have "evolves s s2"
      using reset_experiments_jobs [OF 1(2)] by (intro evolves_same) auto
    moreover have "evolves s2 s3"
      by (rule rfold_invariant [OF 1(3)]) (auto intro: evolves_trans insert_item_evolves)
    moreover have "evolves s3 s'"
      by (rule evolves_same) (simp_all add: 1(4) frame)
    ultimately show ?thesis by (blast intro: evolves_trans)
  qed
qed

lemma request_cancel_quiet:
  assumes "store_wf s"
  shows "quiet s (fst (request_cancel t u s))"
proof (cases "find_job s u")
  case None
  then show ?thesis by (simp add: request_cancel_def)
next
  case (Some row)
  have "quiet s (fst (request_cancel t u s))" if "active (j_status row)"
    "\<not> (j_type row = ''research_data_refresh'' \<and> j_stage row = Some ''research_import_activate'')"
  proof (rule quiet_update [where p = "\<lambda>j. j_uuid j = u"
        and f = "cancel_row t (if j_status row = Pending then Cancelled else Cancel_requested)"])
    fix j assume "j \<in> set (jobs s)" "j_uuid j = u"
    then have "j = row" using find_job_eq [OF assms Some] by simp
    then show "row_step j (cancel_row t (if j_status row = Pending then Cancelled else Cancel_requested) j)"
      using that(1) row_cancel by blast
  qed (use that Some in \<open>auto simp: request_cancel_def Let_def frame\<close>)
  then show ?thesis
    using Some by (auto simp: request_cancel_def)
qed

lemma progress_row_step:
  assumes "\<not> terminal (j_status j)" and "transition_allowed j u"
  shows "row_step j (progress_row t (Option.bind (up_status u) parse_status) (resolved_progress j u) u j)"
  using assms
  by (intro row_progress)
    (auto simp: transition_allowed_def resolved_progress_def clip_progress_def split: option.splits)

lemma update_job_progress_once_InrE:
  assumes "update_job_progress_once t c u up0 s = Inr s'"
  obtains (same) "s' = s"
  | (changed) j up where "find_job s u = Some j" "\<not> terminal (j_status j)" "up = forced_cancel j up0"
      "transition_allowed j up" "\<not> lease_lost c u (Some j)"
      "jobs s' = sql_update (\<lambda>j. j_uuid j = u)
         (progress_row t (Option.bind (up_status up) parse_status) (resolved_progress j up) up) (jobs s)"
      "next_job_id s' = next_job_id s" "job_scheduler_lease s' = job_scheduler_lease s"
  using assms
  by (auto simp: update_job_progress_once_def Let_def progress_events_frame frame split: if_splits option.splits)

lemma update_job_progress_once_quiet:
  assumes "update_job_progress_once t c u up0 s = Inr s'" and "store_wf s"
  shows "quiet s s'"
  using assms(1)
proof (cases rule: update_job_progress_once_InrE)
  case (changed j up)
  have "i = j" if "i \<in> set (jobs s)" "j_uuid i = u" for i
    using find_job_eq [OF assms(2) changed(1) that] .
  with changed(2,4) show ?thesis
    by (intro quiet_update [OF _ changed(6,7)]) (auto intro: progress_row_step)
qed simp

lemma progress_attempts_Inr: "progress_attempts busy a n r = Inr x \<Longrightarrow> r = Inr x"
  by (induction busy a n r rule: progress_attempts.induct) (auto split: if_splits)

lemma update_job_progress_quiet:
  assumes "update_job_progress E t busy c u a s = Inr s'" and "store_wf s"
  shows "quiet s s'"
  using assms
  by (auto simp: update_job_progress_def rbind_Inr_conv dest!: progress_attempts_Inr
      intro: update_job_progress_once_quiet)

lemma raise_if_cancelled_quiet:
  assumes "store_wf s"
  shows "quiet s (fst (raise_if_cancelled E t busy c u s))"
  using assms by (auto simp: raise_if_cancelled_def split: sum.splits intro: update_job_progress_quiet)

lemma claim_quiet:
  assumes "jobs s' = sql_update (claimable u) (claim_row t ttl w) (jobs s)" and "next_job_id s' = next_job_id s"
  shows "quiet s s'"
  by (rule quiet_update [OF _ assms]) (simp add: claimable_def row_claim)

lemma claim_job_quiet: "quiet s (fst (claim_job E t u w ls s))"
  by (rule claim_quiet [of _ u t "lease_ttl E ls" w]) (simp_all add: claim_job_def Let_def frame)

lemma claim_next_job_cases:
  obtains (none) "claim_next_job E t w ls s = (s, None)"
  | (claimed) j h s' where "select_candidate E s (running_jobs E s) (candidates E t s) = Some (j, h)"
      "claim_next_job E t w ls s = (s', map_option (\<lambda>i. (i, h)) (find_job s' (j_uuid j)))"
      "jobs s' = sql_update (claimable (j_uuid j)) (claim_row t (lease_ttl E ls) w) (jobs s)"
      "next_job_id s' = next_job_id s" "job_scheduler_lease s' = job_scheduler_lease s"
  by (atomize_elim) (auto simp: claim_next_job_def Let_def frame split: option.splits)

lemma claim_next_job_quiet: "quiet s (fst (claim_next_job E t w ls s))"
  by (rule claim_next_job_cases [of E t w ls s]) (auto intro: claim_quiet)

lemma heartbeat_claims_quiet: "quiet s (heartbeat_claims E t cs ls s)"
  unfolding heartbeat_claims_def
proof (rule fold_invariant_list)
  fix c s' assume "quiet s s'"
  moreover have "quiet s' (update_jobs (holds_claim c) (heartbeat_row t (lease_ttl E ls)) s')"
    by (rule quiet_update [where p = "holds_claim c" and f = "heartbeat_row t (lease_ttl E ls)"])
      (auto simp: holds_claim_def frame intro: row_heartbeat split: prod.splits)
  ultimately show "quiet s (update_jobs (holds_claim c) (heartbeat_row t (lease_ttl E ls)) s')"
    by (rule quiet_trans)
qed simp

lemma release_one_quiet: "quiet (fst acc) (fst (release_one t r c acc))"
proof (cases acc, cases "find (holds_claim c) (jobs (fst acc))")
  case (Pair s n)
  case None
  with Pair show ?thesis by (simp add: release_one_def)
next
  case (Pair s n)
  case (Some row)
  have row: "j_status row = Running \<or> j_status row = Cancel_requested"
    using find_Some_mem [OF Some] by (auto simp: holds_claim_def claimed_status_def)
  show ?thesis
    by (rule quiet_update [where p = "\<lambda>j. holds_claim c j \<and> j_status j = j_status row" and
          f = "if j_status row = Cancel_requested then release_cancelled_row t else release_running_row t r"])
      (use Pair Some row in
        \<open>auto simp: release_one_def Let_def frame intro: row_release_cancelled row_release_running\<close>)
qed

lemma release_claims_quiet: "quiet s (fst (release_claims t cs r s))"
proof -
  have "quiet s (fst (fold (release_one t r) cs (s, 0)))"
    by (rule fold_invariant_list [where P = "\<lambda>a. quiet s (fst a)"])
      (auto intro: quiet_trans [OF _ release_one_quiet])
  then show ?thesis
    unfolding release_claims_def
    by (auto split: prod.splits intro: quiet_trans [OF _ quiet_same])
qed

lemma recover_one_jobs [frame]:
  "jobs (fst (recover_one t job acc)) =
     sql_update (recovery_fence t job)
       (if j_status job = Running then requeue_row t else cancel_expired_row t) (jobs (fst acc))"
  "next_job_id (fst (recover_one t job acc)) = next_job_id (fst acc)"
  "job_scheduler_lease (fst (recover_one t job acc)) = job_scheduler_lease (fst acc)"
  by (simp_all add: recover_one_def Let_def frame split: prod.splits)

lemma recover_one_quiet: "quiet (fst acc) (fst (recover_one t job acc))"
  by (rule quiet_update [OF _ recover_one_jobs(1,2)])
    (auto simp: recovery_fence_def intro: row_requeue row_cancel_expired)

lemma recover_fold_quiet: "quiet s (fst (fold (recover_one t) js (s, n)))"
  by (rule fold_invariant_list [where P = "\<lambda>a. quiet s (fst a)"])
    (auto intro: quiet_trans [OF _ recover_one_quiet])

lemma recover_expired_claims_jobs:
  "jobs (fst (recover_expired_claims t l s)) =
     jobs (fst (fold (recover_one t) (take (nat (min (max l 1) 500)) (expired_claims t s)) (s, 0, 0)))"
  "next_job_id (fst (recover_expired_claims t l s)) =
     next_job_id (fst (fold (recover_one t) (take (nat (min (max l 1) 500)) (expired_claims t s)) (s, 0, 0)))"
  by (simp_all add: recover_expired_claims_def Let_def split: prod.splits)

lemma recover_expired_claims_quiet: "quiet s (fst (recover_expired_claims t l s))"
  by (rule quiet_trans [OF recover_fold_quiet quiet_same]) (rule recover_expired_claims_jobs)+

lemma retry_job_cases:
  assumes "retry_job E t u' u uid s = Inr (s', r)"
  obtains (none) "s' = s" "r = None"
  | (queued) source s1 where "find_job s u = Some source" "j_status source = Failed \<or> j_status source = Cancelled"
      "\<not> list_ex (\<lambda>j. j_parent j = Some u) (jobs s)"
      "\<not> (active_count s \<ge> max_pending_jobs E \<and> job_priority (j_type source)
            (if truthy (j_params source) then j_params source else PDict []) < 100)"
      "insert_job E t (retry_prepared E u' uid source) s = Inr s1" "r = Some u'"
      "jobs s' = jobs s1" "next_job_id s' = next_job_id s1"
  using assms
  by (auto simp: retry_job_def rbind_Inr_conv Let_def frame retry_prepared_def split: option.splits if_splits)

lemma retry_job_evolves:
  assumes "retry_job E t u' u uid s = Inr (s', r)"
  shows "evolves s s'"
  using assms by (cases rule: retry_job_cases) (auto intro: evolves_trans [OF insert_job_evolves evolves_same])

lemma recover_pending_jobs_quiet: "quiet s (fst (recover_pending_jobs t s))"
  by (rule quiet_trans [OF recover_expired_claims_quiet [of s t 100] quiet_same])
    (simp_all add: recover_pending_jobs_def Let_def frame)

subsection \<open>The broker as a transition system\<close>

text \<open>
  One rule per operation that writes, with arbitrary arguments, clock readings and UUIDs.
  \<open>other_process\<close> is a change of the process-local state (another process sharing the database has
  its own); \<open>other_tables\<close> is a write of another component to the experiment tables, which the
  broker shares.
\<close>

inductive broker_step :: "'a env_scheme \<Rightarrow> broker \<Rightarrow> broker \<Rightarrow> bool" for E where
  step_submit: "submit_job E t u sub da de s = Inr (s', r) \<Longrightarrow> broker_step E s s'"
| step_batch: "submit_jobs_batch E t us subs w rs xs s = Inr (s', rs') \<Longrightarrow> broker_step E s s'"
| step_cancel: "broker_step E s (fst (request_cancel t u s))"
| step_progress: "update_job_progress E t busy c u a s = Inr s' \<Longrightarrow> broker_step E s s'"
| step_checkpoint: "broker_step E s (fst (raise_if_cancelled E t busy c u s))"
| step_recover: "broker_step E s (fst (recover_expired_claims t l s))"
| step_recover_pending: "broker_step E s (fst (recover_pending_jobs t s))"
| step_reconcile: "broker_step E s (fst (reconcile_terminal_backtest_jobs t l s))"
| step_claim: "broker_step E s (fst (claim_job E t u w ls s))"
| step_claim_next: "broker_step E s (fst (claim_next_job E t w ls s))"
| step_heartbeat: "broker_step E s (heartbeat_claims E t cs ls s)"
| step_release: "broker_step E s (fst (release_claims t cs r s))"
| step_retry: "retry_job E t u' u uid s = Inr (s', r) \<Longrightarrow> broker_step E s s'"
| step_acquire: "broker_step E s (fst (acquire_scheduler_lease E P t o_id ls s))"
| step_renew: "broker_step E s (fst (renew_scheduler_lease E t o_id ls s))"
| step_release_lease: "broker_step E s (release_scheduler_lease o_id s)"
| step_operational: "record_operational_event E t b n c jt oc sg v s = Inr s' \<Longrightarrow> broker_step E s s'"
| step_flush: "flush_operational_counters t b s = Inr s' \<Longrightarrow> broker_step E s s'"
| step_other_process: "db.truncate s' = db.truncate s \<Longrightarrow> broker_step E s s'"
| step_other_tables: "broker_step E s (s\<lparr>experiments := es, param_sweeps := ws, sweep_experiments := ms,
    research_run_manifests := rms, next_experiment_id := n\<rparr>)"

abbreviation broker_run :: "'a env_scheme \<Rightarrow> broker \<Rightarrow> broker \<Rightarrow> bool" where
  "broker_run E \<equiv> (broker_step E)\<^sup>*\<^sup>*"

lemma lease_ops_jobs [frame]:
  "jobs (fst (acquire_scheduler_lease E P t o_id ls s)) = jobs s"
  "next_job_id (fst (acquire_scheduler_lease E P t o_id ls s)) = next_job_id s"
  "jobs (fst (renew_scheduler_lease E t o_id ls s)) = jobs s"
  "next_job_id (fst (renew_scheduler_lease E t o_id ls s)) = next_job_id s"
  "jobs (release_scheduler_lease o_id s) = jobs s"
  "next_job_id (release_scheduler_lease o_id s) = next_job_id s"
  by (simp_all add: acquire_scheduler_lease_def renew_scheduler_lease_def release_scheduler_lease_def
      split: option.splits)

lemma reconcile_jobs_frame [frame]:
  "jobs (fst (reconcile_terminal_backtest_jobs t l s)) = jobs s"
  "next_job_id (fst (reconcile_terminal_backtest_jobs t l s)) = next_job_id s"
  using reconcile_terminal_backtest_state_frame(1,2) [of t l "''periodic''" s]
  by (auto simp: reconcile_terminal_backtest_jobs_def split: prod.splits)

lemma record_operational_event_jobs:
  assumes "record_operational_event E t b n c jt oc sg v s = Inr s'"
  shows "jobs s' = jobs s" and "next_job_id s' = next_job_id s"
  using assms
  by (auto simp: record_operational_event_def rbind_Inr_conv Let_def dest: insert_operational_event_frame
      split: if_splits)

lemma flush_operational_counters_jobs:
  assumes "flush_operational_counters t b s = Inr s'"
  shows "jobs s' = jobs s" and "next_job_id s' = next_job_id s"
  using assms
  by (auto simp: flush_operational_counters_def rbind_Inr_conv Let_def dest: insert_operational_event_frame
      split: if_splits)

lemma truncate_jobs:
  "db.truncate s' = db.truncate s \<Longrightarrow> jobs s' = jobs s"
  "db.truncate s' = db.truncate s \<Longrightarrow> next_job_id s' = next_job_id s"
  by (simp_all add: db.truncate_def)

lemma broker_step_evolves: "broker_step E s s' \<Longrightarrow> store_wf s \<Longrightarrow> evolves s s'"
proof (induction rule: broker_step.induct)
  case step_submit
  then show ?case by (blast intro: submit_job_evolves)
next
  case step_batch
  then show ?case by (blast intro: submit_jobs_batch_evolves)
next
  case step_progress
  then show ?case by (blast intro: quiet_evolves update_job_progress_quiet)
next
  case step_retry
  then show ?case by (blast intro: retry_job_evolves)
next
  case step_operational
  then show ?case by (intro evolves_same record_operational_event_jobs)
next
  case step_flush
  then show ?case by (intro evolves_same flush_operational_counters_jobs)
next
  case step_other_process
  then show ?case by (intro evolves_same truncate_jobs)
qed (simp_all add: quiet_evolves request_cancel_quiet raise_if_cancelled_quiet recover_expired_claims_quiet
    recover_pending_jobs_quiet claim_job_quiet claim_next_job_quiet heartbeat_claims_quiet
    release_claims_quiet evolves_same frame)

lemma broker_run_evolves:
  assumes "broker_run E s s'" and "store_wf s"
  shows "evolves s s'"
  using assms(1)
  by (induction rule: rtranclp_induct)
    (use assms(2) in \<open>auto intro: evolves_trans broker_step_evolves evolves_wf\<close>)

end
