(* ===== verification/Broker_Props.thy ===== *)
theory Broker_Props
  imports Job_Lifecycle
begin

text \<open>
  What the durable queue guarantees: which states a job can reach, that a worker whose lease was
  taken over cannot write any more, which job is claimed next, and how much work is admitted.
  Most of them are facts of the row machine of \<open>Job_Lifecycle\<close>, interpreted on its step relation
  and read off the runs of the broker.
\<close>

subsection \<open>A small configuration for the concrete instances\<close>

definition demo_env :: env where
  "demo_env =
     \<lparr>py_repr = (\<lambda>v. ''''), re_sub = (\<lambda>r s. s), JOB_SCHEDULER_LEASE_SECONDS = 45,
      JOB_SCHEDULER_SWEEP_MAX_RUNNING = 1, JOB_SCHEDULER_MAX_PENDING_JOBS = 500,
      JOB_SCHEDULER_AGING_SECONDS = 300, JOB_SCHEDULER_LIGHT_BACKTEST_MAX_CODES = 50,
      JOB_SCHEDULER_MAX_ACTIVE_PER_USER = 1, JOB_OBSERVABILITY_RETENTION_HOURS = 168,
      sha256_hex = (\<lambda>s. s), json_loads = (\<lambda>s. None), runtime_code_evidence_json = ''''\<rparr>"

definition demo_job :: "int \<Rightarrow> string \<Rightarrow> string \<Rightarrow> job_status \<Rightarrow> job" where
  "demo_job i u ty st =
     \<lparr>j_id = i, j_type = ty, j_display_name = Default_label ty, j_params = PDict [], j_status = st,
      j_progress = 0, j_progress_message = None, j_stage = None, j_result = None, j_error = None,
      j_resource_type = None, j_resource_id = None, j_parent = None, j_attempt = 1, j_worker_id = None,
      j_priority = 100, j_queue_group = ''job:'' @ u, j_generation = 0, j_lease_expires_at = None,
      j_cancel_requested_at = None, j_heartbeat_at = None, j_created_at = 0, j_updated_at = 0,
      j_started_at = None, j_completed_at = None, j_user_id = Some 7, j_uuid = u, j_runtime_identity = ''''\<rparr>"

definition demo_broker :: "job list \<Rightarrow> broker" where
  "demo_broker js =
     \<lparr>jobs = js, job_events = [], operational_events = [], experiments = [], param_sweeps = [],
      sweep_experiments = [], research_run_manifests = [], job_scheduler_lease = None,
      next_job_id = 10, next_experiment_id = 1, columns = (\<lambda>t. []), wake_event = False,
      pending_sqlite_contention = 0, scheduler_desired_capacity = 1, scheduler_running_slots = 0,
      scheduler_degraded = False, scheduler_reasons = [], scheduler_leader = True,
      scheduler_pause_heavy = False, worker_started_at = None, worker_heartbeat_at = None,
      worker_heartbeat_monotonic = None\<rparr>"

lemmas demo_simps = demo_env_def demo_job_def demo_broker_def store_wf_def find_job_def

subsection \<open>States a row can reach\<close>

definition row_ok :: "job \<Rightarrow> bool" where
  "row_ok j =
     ((j_completed_at j \<noteq> None \<longleftrightarrow> terminal (j_status j)) \<and>
      (j_status j = Pending \<longrightarrow> j_worker_id j = None \<and> j_lease_expires_at j = None) \<and>
      0 \<le> j_progress j \<and> j_progress j \<le> 1 \<and> 0 \<le> j_generation j \<and>
      (j_worker_id j \<noteq> None \<longrightarrow> 0 < j_generation j))"

lemma started_progress_bounds: "0 \<le> started_progress" "started_progress \<le> 1"
  by (simp_all add: started_progress_def)

lemma allowed_pending: "Pending \<in> set (allowed_transitions st) \<Longrightarrow> st = Pending"
  by (cases st) auto

lemma row_ok_step: "row_step j j' \<Longrightarrow> row_ok j \<Longrightarrow> row_ok j'"
proof (induction rule: row_step.induct)
  case (row_progress j p ns t u)
  then show ?case
    by (cases ns) (auto simp: row_ok_def row_defs allowed_pending split: option.splits)
qed (use started_progress_bounds in
    \<open>auto simp: row_ok_def row_defs claimed_status_def active_def lease_expired_def\<close>)

interpretation life: row_invariant row_ok
  by unfold_locales (auto simp: initial_job_def row_ok_def dest: row_ok_step)

interpretation final: row_relation "\<lambda>j j'. terminal (j_status j) \<longrightarrow> j' = j"
proof unfold_locales
  fix j j' assume "row_step j j'"
  then show "terminal (j_status j) \<longrightarrow> j' = j"
    by (induction rule: row_step.induct) (auto simp: claimed_status_def active_def)
qed auto

interpretation fence: row_relation
  "\<lambda>j j'. j_generation j \<le> j_generation j' \<and>
     (j_generation j' = j_generation j \<longrightarrow> j_worker_id j' = j_worker_id j \<or> j_worker_id j' = None)"
proof unfold_locales
  fix j j' assume "row_step j j'"
  then show "j_generation j \<le> j_generation j' \<and>
     (j_generation j' = j_generation j \<longrightarrow> j_worker_id j' = j_worker_id j \<or> j_worker_id j' = None)"
    by (induction rule: row_step.induct) (auto simp: row_defs split: option.splits)
qed auto

interpretation cancelling: row_relation
  "\<lambda>j j'. j_status j = Cancel_requested \<or> j_status j = Cancelled \<longrightarrow>
     j_status j' = Cancelled \<or> (j_status j = Cancel_requested \<and> j_status j' = Cancel_requested)"
proof unfold_locales
  fix j j' assume "row_step j j'"
  then show "j_status j = Cancel_requested \<or> j_status j = Cancelled \<longrightarrow>
     j_status j' = Cancelled \<or> (j_status j = Cancel_requested \<and> j_status j' = Cancel_requested)"
    by (induction rule: row_step.induct) (auto simp: row_defs active_def split: option.splits)
qed auto

interpretation identity: row_relation same_identity
  by unfold_locales (auto simp: same_identity_def dest: row_step_identity)

text \<open>
  C2. A terminal job is final: whatever happens to the queue later, its row is still there and no
  field of it has changed.
\<close>

theorem terminal_jobs_are_final:
  assumes "store_wf s" and "broker_run E s s'" and "find_job s u = Some j" and "terminal (j_status j)"
  shows "find_job s' u = Some j"
  using final.R_evolves [OF broker_run_evolves [OF assms(2,1)] assms(3)] assms(4) by auto

theorem terminal_jobs_are_final_witness:
  "find_job (fst (request_cancel 5000 ''a'' (demo_broker [demo_job 1 ''a'' ''retrain'' Failed]))) ''a'' =
     Some (demo_job 1 ''a'' ''retrain'' Failed)"
  by (rule terminal_jobs_are_final [of "demo_broker [demo_job 1 ''a'' ''retrain'' Failed]" demo_env])
    (auto simp: demo_simps intro: step_cancel)

text \<open>
  C3. A cancellation that was accepted is never lost: from the moment a job is \<open>cancel_requested\<close> it
  stays so until it becomes \<open>cancelled\<close>; no worker result, recovery, release or retry makes it
  completed, failed, pending or running again.
\<close>

theorem accepted_cancellation_persists:
  assumes "store_wf s" and "broker_run E s s'" and "find_job s u = Some j" and "j_status j = Cancel_requested"
  shows "\<exists>j'. find_job s' u = Some j' \<and> (j_status j' = Cancel_requested \<or> j_status j' = Cancelled)"
  using cancelling.R_evolves [OF broker_run_evolves [OF assms(2,1)] assms(3)] assms(4) by auto

theorem accepted_cancellation_persists_witness:
  "\<exists>j'. find_job (fst (recover_expired_claims 5000 10 (demo_broker [demo_job 1 ''a'' ''retrain'' Cancel_requested]))) ''a'' =
     Some j' \<and> (j_status j' = Cancel_requested \<or> j_status j' = Cancelled)"
  by (rule accepted_cancellation_persists [of "demo_broker [demo_job 1 ''a'' ''retrain'' Cancel_requested]" demo_env])
    (auto simp: demo_simps intro: step_recover)

subsection \<open>Leases\<close>

lemma select_candidate_mem:
  "select_candidate E s running rows = Some (j, h) \<Longrightarrow> j \<in> set rows \<and> h = hydrate_dispatch_resource E s j"
  by (induction rows) (auto simp: Let_def hydrated_def split: if_splits)

lemma candidates_set: "set (candidates E t s) = {j \<in> set (jobs s). j_status j = Pending}"
  by (auto simp: candidates_def)

text \<open>A successful claim, seen as a change of one row.\<close>

lemma claim_next_job_claims:
  assumes "claim_next_job E t w ls s = (s', Some (j, h))" and "store_wf s"
  obtains j0 where "find_job s (j_uuid j) = Some j0" "j_status j0 = Pending"
    "j = claim_row t (lease_ttl E ls) w j0" "find_job s' (j_uuid j) = Some j"
    "h = hydrate_dispatch_resource E s j0"
    "select_candidate E s (running_jobs E s) (candidates E t s) = Some (j0, h)"
proof (cases rule: claim_next_job_cases [of E t w ls s])
  case none
  then show thesis using assms(1) by simp
next
  case (claimed i hi s1)
  have i: "i \<in> set (jobs s)" "j_status i = Pending" "hi = hydrate_dispatch_resource E s i"
    using select_candidate_mem [OF claimed(1)] by (auto simp: candidates_set)
  have fi: "find_job s (j_uuid i) = Some i"
    using assms(2) i(1) by (simp add: find_job_def store_wf_def find_key_eq)
  have "evolves s s1" using quiet_evolves [OF claim_quiet [OF claimed(3,4)]] .
  then have wf: "store_wf s1" using assms(2) by (rule evolves_wf)
  have "claim_row t (lease_ttl E ls) w i \<in> set (jobs s1)"
    using i by (auto simp: claimed(3) in_sql_update claimable_def)
  then have "find_job s1 (j_uuid i) = Some (claim_row t (lease_ttl E ls) w i)"
    using wf find_key_eq [of j_uuid "jobs s1" "claim_row t (lease_ttl E ls) w i"]
    by (simp add: find_job_def store_wf_def claim_row_def)
  with claimed(2) assms(1) have "j = claim_row t (lease_ttl E ls) w i" "s1 = s'" "h = hi" by auto
  with fi i claimed(1) \<open>find_job s1 (j_uuid i) = _\<close> show thesis
    by (intro that [of i]) (auto simp: claim_row_def)
qed

lemma stale_claim_inert:
  assumes "find_job s u = Some j" and "store_wf s" and "j_generation j \<noteq> g \<or> j_worker_id j \<noteq> Some w"
  shows "update_job_progress_once t (Some (u, w, g)) u up s = Inl JobLeaseLostError"
    and "jobs (heartbeat_claims E t [(u, w, g)] ls s) = jobs s"
    and "release_claims t [(u, w, g)] r s = (s, 0)"
proof -
  have no: "\<not> holds_claim (u, w, g) i" if "i \<in> set (jobs s)" for i
    using find_job_eq [OF assms(2,1) that] assms(3) by (auto simp: holds_claim_def)
  show "update_job_progress_once t (Some (u, w, g)) u up s = Inl JobLeaseLostError"
    using assms(1,3) by (auto simp: update_job_progress_once_def lease_lost_def)
  show "jobs (heartbeat_claims E t [(u, w, g)] ls s) = jobs s"
    using no by (simp add: heartbeat_claims_def frame sql_update_def map_idI)
  have "find (holds_claim (u, w, g)) (jobs s) = None"
    using no by (simp add: find_None_iff_all)
  then show "release_claims t [(u, w, g)] r s = (s, 0)"
    by (simp add: release_claims_def release_one_def)
qed

text \<open>
  C1. Lease fencing. A worker claimed a job in some state; later the job carries another lease
  generation (its lease was recovered, or it was claimed again). Then in every state after that the
  old worker's claim is dead: its progress updates raise \<open>JobLeaseLostError\<close>, its heartbeat changes no
  row, and its release does nothing.
\<close>

theorem stale_worker_is_fenced:
  assumes "store_wf s" and "claim_next_job E t w ls s = (s1, Some (j, h))"
    and "broker_run E s1 s2" and "find_job s2 (j_uuid j) = Some j2" and "j_generation j2 \<noteq> j_generation j"
    and "broker_run E s2 s3"
  shows "update_job_progress_once t' (Some (j_uuid j, w, j_generation j)) (j_uuid j) up s3 = Inl JobLeaseLostError \<and>
         jobs (heartbeat_claims E t' [(j_uuid j, w, j_generation j)] ls' s3) = jobs s3 \<and>
         release_claims t' [(j_uuid j, w, j_generation j)] r s3 = (s3, 0)"
proof -
  have wf1: "store_wf s1"
    using quiet_evolves [OF claim_next_job_quiet [of s E t w ls]] assms(1,2) by (auto intro: evolves_wf)
  have f1: "find_job s1 (j_uuid j) = Some j"
    by (rule claim_next_job_claims [OF assms(2,1)])
  have ev12: "evolves s1 s2" using broker_run_evolves [OF assms(3) wf1] .
  have wf2: "store_wf s2" using evolves_wf [OF ev12 wf1] .
  have ev23: "evolves s2 s3" using broker_run_evolves [OF assms(6) wf2] .
  have "j_generation j < j_generation j2"
    using fence.R_evolves [OF ev12 f1] assms(4,5) by auto
  moreover obtain j3 where "find_job s3 (j_uuid j) = Some j3" "j_generation j2 \<le> j_generation j3"
    using fence.R_evolves [OF ev23 assms(4)] by auto
  ultimately show ?thesis
    using stale_claim_inert [OF _ evolves_wf [OF ev23 wf2], of "j_uuid j" j3 "j_generation j" w] by auto
qed

text \<open>
  Claims are exclusive: two successful claims of the same job, in whatever order of operations
  between them, carry strictly increasing lease generations, so a claim token (job, worker,
  generation) is never issued twice.
\<close>

theorem claim_generations_increase:
  assumes "store_wf s" and "claim_next_job E t w ls s = (s1, Some (j, h))" and "broker_run E s1 s2"
    and "claim_next_job E t' w' ls' s2 = (s3, Some (j', h'))" and "j_uuid j' = j_uuid j"
  shows "j_generation j < j_generation j'"
proof -
  have wf1: "store_wf s1"
    using quiet_evolves [OF claim_next_job_quiet [of s E t w ls]] assms(1,2) by (auto intro: evolves_wf)
  have f1: "find_job s1 (j_uuid j) = Some j"
    by (rule claim_next_job_claims [OF assms(2,1)])
  have ev: "evolves s1 s2" using broker_run_evolves [OF assms(3) wf1] .
  obtain i where i: "find_job s2 (j_uuid j') = Some i" "j' = claim_row t' (lease_ttl E ls') w' i"
    by (rule claim_next_job_claims [OF assms(4) evolves_wf [OF ev wf1]])
  have "j_generation j \<le> j_generation i"
    using fence.R_evolves [OF ev f1] i(1) assms(5) by auto
  then show ?thesis by (simp add: i(2) claim_row_def)
qed

text \<open>
  Concretely: worker \<open>w\<close> claims job \<open>a\<close> at time 0, its lease of 45 seconds runs out, and the recovery
  pass at second 60 requeues the job.
\<close>

definition demo_claimed :: job where
  "demo_claimed = claim_row 0 45 ''w'' (demo_job 1 ''a'' ''daily_simulation'' Pending)"

lemma demo_claim:
  "snd (claim_next_job demo_env 0 ''w'' None (demo_broker [demo_job 1 ''a'' ''daily_simulation'' Pending])) =
     Some (demo_claimed, \<lparr>dispatch_pool = Some ''*'', dispatch_exclusive = False, dispatch_slots = 1, dispatch_heavy = False\<rparr>)"
  "jobs (fst (claim_next_job demo_env 0 ''w'' None (demo_broker [demo_job 1 ''a'' ''daily_simulation'' Pending]))) = [demo_claimed]"
  by (simp_all add: claim_next_job_def candidates_def running_jobs_def demo_simps hydrated_def
      hydrate_dispatch_resource_def candidate_compatible_def dependency_status_def dict_params_def
      EXCLUSIVE_JOB_TYPES_def CACHE_READER_JOB_TYPES_def refresh_job_types_def startswith_def
      claimed_status_def claimable_def lease_ttl_def demo_claimed_def claim_row_def frame table_simps Let_def)

lemma demo_recover:
  "jobs s = [demo_claimed] \<Longrightarrow> jobs (fst (recover_expired_claims 60000 10 s)) = [requeue_row 60000 demo_claimed]"
  by (simp add: recover_expired_claims_jobs expired_claims_def frame table_simps recovery_fence_def lease_expired_def
      demo_claimed_def demo_job_def claim_row_def claimed_status_def sql_now_def)

definition demo_done :: progress_update where
  "demo_done = \<lparr>up_progress = Some 1, up_status = Some (status_str Completed), up_result = None, up_error = None,
     up_message = None, up_stage = None\<rparr>"

definition demo_after :: broker where
  "demo_after =
     fst (recover_expired_claims 60000 10
       (fst (claim_next_job demo_env 0 ''w'' None (demo_broker [demo_job 1 ''a'' ''daily_simulation'' Pending]))))"

definition demo_dispatch :: dispatch where
  "demo_dispatch =
     \<lparr>dispatch_pool = Some ''*'', dispatch_exclusive = False, dispatch_slots = 1, dispatch_heavy = False\<rparr>"

lemma demo_claim_run:
  "store_wf (demo_broker [demo_job 1 ''a'' ''daily_simulation'' Pending])"
  "claim_next_job demo_env 0 ''w'' None (demo_broker [demo_job 1 ''a'' ''daily_simulation'' Pending]) =
     (fst (claim_next_job demo_env 0 ''w'' None (demo_broker [demo_job 1 ''a'' ''daily_simulation'' Pending])),
      Some (demo_claimed, demo_dispatch))"
  "broker_run demo_env
     (fst (claim_next_job demo_env 0 ''w'' None (demo_broker [demo_job 1 ''a'' ''daily_simulation'' Pending]))) demo_after"
  "jobs demo_after = [requeue_row 60000 demo_claimed]"
proof -
  show "claim_next_job demo_env 0 ''w'' None (demo_broker [demo_job 1 ''a'' ''daily_simulation'' Pending]) =
     (fst (claim_next_job demo_env 0 ''w'' None (demo_broker [demo_job 1 ''a'' ''daily_simulation'' Pending])),
      Some (demo_claimed, demo_dispatch))"
    by (metis demo_claim(1) demo_dispatch_def prod.collapse)
  show "broker_run demo_env
     (fst (claim_next_job demo_env 0 ''w'' None (demo_broker [demo_job 1 ''a'' ''daily_simulation'' Pending]))) demo_after"
    unfolding demo_after_def by (rule r_into_rtranclp) (rule step_recover)
  show "jobs demo_after = [requeue_row 60000 demo_claimed]"
    unfolding demo_after_def by (rule demo_recover) (rule demo_claim)
qed (simp add: demo_simps)

theorem stale_worker_is_fenced_witness:
  "update_job_progress_once 61000 (Some (''a'', ''w'', 1)) ''a'' demo_done demo_after = Inl JobLeaseLostError"
  using stale_worker_is_fenced [OF demo_claim_run(1-3) _ _ rtranclp.rtrancl_refl,
      of "requeue_row 60000 demo_claimed" 61000 demo_done] demo_claim_run(4)
  by (simp add: demo_claimed_def requeue_row_def claim_row_def demo_job_def find_job_def)

lemma demo_reclaim:
  assumes "jobs s = [requeue_row 60000 demo_claimed]"
  shows "snd (claim_next_job demo_env 61000 ''v'' None s) =
     Some (claim_row 61000 45 ''v'' (requeue_row 60000 demo_claimed), demo_dispatch)"
  using assms
  by (simp add: claim_next_job_def candidates_def running_jobs_def demo_simps hydrated_def demo_dispatch_def
      hydrate_dispatch_resource_def candidate_compatible_def dependency_status_def dict_params_def
      EXCLUSIVE_JOB_TYPES_def CACHE_READER_JOB_TYPES_def refresh_job_types_def startswith_def
      claimed_status_def claimable_def lease_ttl_def demo_claimed_def claim_row_def requeue_row_def frame table_simps Let_def)

theorem claim_generations_increase_witness:
  "(1 :: int) < j_generation (claim_row 61000 45 ''v'' (requeue_row 60000 demo_claimed))"
proof -
  have "claim_next_job demo_env 61000 ''v'' None demo_after =
     (fst (claim_next_job demo_env 61000 ''v'' None demo_after),
      Some (claim_row 61000 45 ''v'' (requeue_row 60000 demo_claimed), demo_dispatch))"
    by (metis demo_reclaim demo_claim_run(4) prod.collapse)
  from claim_generations_increase [OF demo_claim_run(1-3) this]
  show ?thesis by (simp add: demo_claimed_def requeue_row_def claim_row_def demo_job_def)
qed

subsection \<open>Which job is claimed\<close>

text \<open>A pending job the scheduler passes over: paused as heavy, or in conflict with running work.\<close>

definition held_back :: "('a env_scheme) \<Rightarrow> broker \<Rightarrow> job \<Rightarrow> bool" where
  "held_back E s j = (scheduler_pause_heavy s \<and> dispatch_heavy (hydrate_dispatch_resource E s j))"

definition fits :: "('a env_scheme) \<Rightarrow> broker \<Rightarrow> job \<Rightarrow> bool" where
  "fits E s j = candidate_compatible E (hydrated E s j) (running_jobs E s) (dependency_status E s j)"

definition blocks_queue :: "('a env_scheme) \<Rightarrow> broker \<Rightarrow> job \<Rightarrow> bool" where
  "blocks_queue E s j =
     (\<not> held_back E s j \<and> \<not> fits E s j \<and> dispatch_exclusive (hydrate_dispatch_resource E s j))"

lemma select_candidate_Some:
  "select_candidate E s (running_jobs E s) rows = Some (j, h) \<Longrightarrow>
   \<exists>xs ys. rows = xs @ j # ys \<and> fits E s j \<and> \<not> held_back E s j \<and>
     (\<forall>i\<in>set xs. (held_back E s i \<or> \<not> fits E s i) \<and> \<not> blocks_queue E s i)"
proof (induction rows)
  case (Cons r rows)
  show ?case
  proof (cases "\<not> held_back E s r \<and> fits E s r")
    case True
    with Cons.prems have "j = r"
      by (auto simp: Let_def hydrated_def held_back_def fits_def)
    with True show ?thesis by (intro exI [of _ "[]"] exI [of _ rows]) auto
  next
    case False
    with Cons.prems have "\<not> blocks_queue E s r"
      and "select_candidate E s (running_jobs E s) rows = Some (j, h)"
      by (auto simp: Let_def hydrated_def held_back_def fits_def blocks_queue_def split: if_splits)
    moreover from Cons.IH [OF this(2)] obtain xs ys where "rows = xs @ j # ys" "fits E s j" "\<not> held_back E s j"
      "\<forall>i\<in>set xs. (held_back E s i \<or> \<not> fits E s i) \<and> \<not> blocks_queue E s i" by blast
    ultimately show ?thesis using False by (intro exI [of _ "r # xs"] exI [of _ ys]) auto
  qed
qed simp

lemma select_candidate_None:
  "select_candidate E s (running_jobs E s) rows = None \<Longrightarrow> i \<in> set rows \<Longrightarrow> fits E s i \<Longrightarrow> \<not> held_back E s i \<Longrightarrow>
   \<exists>xs k ys. rows = xs @ k # ys \<and> blocks_queue E s k \<and> i \<in> set ys"
proof (induction rows)
  case (Cons r rows)
  have r: "held_back E s r \<or> \<not> fits E s r"
    using Cons.prems(1) by (auto simp: Let_def hydrated_def held_back_def fits_def split: if_splits)
  with Cons.prems have i: "i \<in> set rows" by auto
  show ?case
  proof (cases "blocks_queue E s r")
    case True
    then show ?thesis using i by (intro exI [of _ "[]"] exI [of _ r] exI [of _ rows]) auto
  next
    case False
    with Cons.prems(1) r have "select_candidate E s (running_jobs E s) rows = None"
      by (auto simp: Let_def hydrated_def held_back_def fits_def blocks_queue_def split: if_splits)
    from Cons.IH [OF this i Cons.prems(3,4)] show ?thesis by (metis append_Cons)
  qed
qed simp

lemma insert_job_event_neq: "insert_job_event t u st p sg m (update_jobs q f s) \<noteq> s"
proof
  assume "insert_job_event t u st p sg m (update_jobs q f s) = s"
  then have "length (job_events (insert_job_event t u st p sg m (update_jobs q f s))) = length (job_events s)" by simp
  then show False by (simp add: insert_job_event_def update_jobs_def)
qed

lemma candidates_sorted: "sorted (map (queue_key E t) (candidates E t s))"
  by (simp add: candidates_def)

lemma candidates_before:
  assumes "candidates E t s = xs @ j # ys" and "i \<in> set (jobs s)" and "j_status i = Pending"
    and "queue_key E t i < queue_key E t j"
  shows "i \<in> set xs"
proof -
  have "i \<in> set (xs @ j # ys)" using assms(1-3) candidates_set [of E t s] by auto
  moreover have "queue_key E t j \<le> queue_key E t k" if "k \<in> set (j # ys)" for k
    using candidates_sorted [of E t s] that by (auto simp: assms(1) sorted_append)
  ultimately show ?thesis using assms(4) by fastforce
qed

text \<open>
  C21. The job a scheduler claims was pending, fits beside the work that is running, and is the first
  such job of the queue: every pending job of strictly better rank (effective priority, then
  priority, then age by id) was paused as heavy or does not fit, and none of those is an exclusive
  job waiting for the running work to drain.
\<close>

theorem claim_takes_best_compatible:
  assumes "store_wf s" and "claim_next_job E t w ls s = (s', Some (j, h))"
  shows "\<exists>j0. find_job s (j_uuid j) = Some j0 \<and> j_status j0 = Pending \<and> fits E s j0 \<and> \<not> held_back E s j0 \<and>
     (\<forall>i\<in>set (jobs s). j_status i = Pending \<and> queue_key E t i < queue_key E t j0 \<longrightarrow>
        (held_back E s i \<or> \<not> fits E s i) \<and> \<not> blocks_queue E s i)"
proof (rule claim_next_job_claims [OF assms(2,1)])
  fix j0 assume j0: "find_job s (j_uuid j) = Some j0" "j_status j0 = Pending"
    "select_candidate E s (running_jobs E s) (candidates E t s) = Some (j0, h)"
  from select_candidate_Some [OF j0(3)] obtain xs ys where "candidates E t s = xs @ j0 # ys" "fits E s j0"
    "\<not> held_back E s j0" "\<forall>i\<in>set xs. (held_back E s i \<or> \<not> fits E s i) \<and> \<not> blocks_queue E s i" by blast
  with j0 candidates_before show ?thesis by fast
qed

theorem claim_takes_best_compatible_witness:
  "find_job (demo_broker [demo_job 1 ''a'' ''daily_simulation'' Pending]) ''a'' = Some (demo_job 1 ''a'' ''daily_simulation'' Pending) \<and>
   fits demo_env (demo_broker [demo_job 1 ''a'' ''daily_simulation'' Pending]) (demo_job 1 ''a'' ''daily_simulation'' Pending)"
  using claim_takes_best_compatible [OF demo_claim_run(1,2)]
  by (auto simp: demo_claimed_def claim_row_def demo_job_def demo_broker_def find_job_def)

text \<open>
  C23. The scheduler does not idle: when \<open>claim_next_job\<close> finds nothing, every pending job that fits
  and is not paused waits behind an exclusive job of better rank that needs the running work to
  drain first.
\<close>

theorem claim_is_work_conserving:
  assumes "store_wf s" and "claim_next_job E t w ls s = (s', None)"
    and "i \<in> set (jobs s)" and "j_status i = Pending" and "fits E s i" and "\<not> held_back E s i"
  shows "s' = s \<and> (\<exists>k\<in>set (jobs s). j_status k = Pending \<and> blocks_queue E s k \<and> queue_key E t k \<le> queue_key E t i)"
proof (cases rule: claim_next_job_cases [of E t w ls s])
  case (claimed j h s1)
  have j: "j \<in> set (jobs s)" "j_status j = Pending"
    using select_candidate_mem [OF claimed(1)] by (auto simp: candidates_set)
  have "find_job s (j_uuid j) = Some j"
    using assms(1) j(1) by (simp add: find_job_def store_wf_def find_key_eq)
  with quiet_evolves [OF claim_quiet [OF claimed(3,4)]] have "find_job s1 (j_uuid j) \<noteq> None"
    using evolves_find by fastforce
  with claimed(2) assms(2) show ?thesis by auto
next
  case none
  have pend: "list_ex (\<lambda>j. j_status j = Pending) (jobs s)"
    using assms(3,4) by (auto simp: list_ex_iff)
  have "select_candidate E s (running_jobs E s) (candidates E t s) = None"
  proof (rule ccontr)
    assume "select_candidate E s (running_jobs E s) (candidates E t s) \<noteq> None"
    then obtain j h where sel: "select_candidate E s (running_jobs E s) (candidates E t s) = Some (j, h)" by auto
    have j: "j \<in> set (jobs s)" "j_status j = Pending"
      using select_candidate_mem [OF sel] by (auto simp: candidates_set)
    have "sql_count (claimable (j_uuid j)) (jobs s) = 1"
      using assms(1) j sql_count_key_one [of j_uuid "jobs s" j "\<lambda>i. j_status i = Pending"]
      unfolding store_wf_def claimable_def by simp
    with none sel pend show False by (auto simp: claim_next_job_def Let_def insert_job_event_neq)
  qed
  from select_candidate_None [OF this _ assms(5,6)] assms(3,4)
  obtain xs k ys where "candidates E t s = xs @ k # ys" "blocks_queue E s k" "i \<in> set ys"
    by (auto simp: candidates_set)
  moreover have "k \<in> set (jobs s) \<and> j_status k = Pending"
    using candidates_set [of E t s] calculation(1) by auto
  moreover have "queue_key E t k \<le> queue_key E t i"
    using candidates_sorted [of E t s] calculation(1,3) by (auto simp: sorted_append)
  ultimately show ?thesis using none assms(2) by auto
qed

definition demo_blocked :: broker where
  "demo_blocked =
     demo_broker [demo_job 1 ''a'' ''daily_simulation'' Running, demo_job 2 ''b'' ''retrain'' Pending,
                  demo_job 3 ''c'' ''daily_simulation'' Pending]"

lemmas dispatch_simps =
  hydrated_def hydrate_dispatch_resource_def candidate_compatible_def dependency_status_def dict_params_def
  EXCLUSIVE_JOB_TYPES_def CACHE_READER_JOB_TYPES_def refresh_job_types_def startswith_def claimed_status_def

lemma demo_blocked_fits:
  "claim_next_job demo_env 0 ''w'' None demo_blocked = (demo_blocked, None)"
  "fits demo_env demo_blocked (demo_job 3 ''c'' ''daily_simulation'' Pending)"
  "\<not> held_back demo_env demo_blocked (demo_job 3 ''c'' ''daily_simulation'' Pending)"
  by (simp_all add: claim_next_job_def candidates_def queue_key_def effective_priority_def running_jobs_def
      demo_blocked_def demo_simps dispatch_simps fits_def held_back_def sql_count_def Let_def)

theorem claim_is_work_conserving_witness:
  "list_ex (\<lambda>k. j_status k = Pending \<and> blocks_queue demo_env demo_blocked k) (jobs demo_blocked)"
  using claim_is_work_conserving [OF _ demo_blocked_fits(1) _ _ demo_blocked_fits(2,3)]
  by (fastforce simp: demo_blocked_def demo_simps)

text \<open>Two jobs that may not run at the same time.\<close>

definition conflict :: "job \<times> dispatch \<Rightarrow> job \<times> dispatch \<Rightarrow> bool" where
  "conflict a b =
     (case a of (j, h) \<Rightarrow> case b of (i, hi) \<Rightarrow>
        dispatch_exclusive h \<or> dispatch_exclusive hi \<or>
        (j_type j \<in> set refresh_job_types \<and> j_type i \<in> set refresh_job_types) \<or>
        ((j_type j \<in> set refresh_job_types \<and> j_type i \<in> set CACHE_READER_JOB_TYPES \<or>
          j_type j \<in> set CACHE_READER_JOB_TYPES \<and> j_type i \<in> set refresh_job_types) \<and>
         pools_overlap (dispatch_pool h) (dispatch_pool hi)))"

lemma pool_alias_nonempty: "p \<noteq> [] \<Longrightarrow> pool_alias p \<noteq> []"
  by (auto simp: pool_alias_def dict_get_def POOL_ALIASES_def split: option.splits if_splits)

lemma data_resource_nonempty: "data_resource E params \<noteq> []"
  by (simp add: data_resource_def Let_def pool_alias_nonempty)

lemma hydrate_refresh:
  "j_type j \<in> set refresh_job_types \<Longrightarrow>
   dispatch_pool (hydrate_dispatch_resource E s j) = Some (data_resource E (dict_params (j_params j)))"
  by (auto simp: hydrate_dispatch_resource_def refresh_job_types_def EXCLUSIVE_JOB_TYPES_def Let_def)

lemma compatible_no_conflict:
  assumes "candidate_compatible E (hydrated E s j) running dep" and "b \<in> set running"
  shows "\<not> conflict (hydrated E s j) b"
proof -
  obtain i hi where b: "b = (i, hi)" by (cases b)
  have "j_type j \<in> set refresh_job_types \<Longrightarrow> j_type j \<notin> set CACHE_READER_JOB_TYPES"
    by (auto simp: refresh_job_types_def CACHE_READER_JOB_TYPES_def)
  with assms show ?thesis
    using hydrate_refresh [of j E s] data_resource_nonempty [of E "dict_params (j_params j)"]
    by (auto simp: b conflict_def hydrated_def candidate_compatible_def Let_def list_ex_iff split: if_splits)
qed

text \<open>
  C22. Dispatch safety: a claimed job does not conflict with any job that is running (or stopping) at
  that moment: exclusive work runs alone, at most one cache refresh runs, and a refresh never
  overlaps a reader of the same cache pool.
\<close>

theorem claimed_job_has_no_conflict:
  assumes "store_wf s" and "claim_next_job E t w ls s = (s', Some (j, h))"
    and "i \<in> set (jobs s)" and "claimed_status (j_status i)"
  shows "\<not> conflict (j, h) (hydrated E s i)"
proof (rule claim_next_job_claims [OF assms(2,1)])
  fix j0 assume j0: "j = claim_row t (lease_ttl E ls) w j0" "h = hydrate_dispatch_resource E s j0"
    "select_candidate E s (running_jobs E s) (candidates E t s) = Some (j0, h)"
  have "fits E s j0" using select_candidate_Some [OF j0(3)] by blast
  moreover have "hydrated E s i \<in> set (running_jobs E s)"
    using assms(3,4) by (auto simp: running_jobs_def)
  ultimately have "\<not> conflict (hydrated E s j0) (hydrated E s i)"
    unfolding fits_def by (rule compatible_no_conflict)
  then show ?thesis by (simp add: j0(1,2) conflict_def hydrated_def claim_row_def)
qed

definition demo_two :: broker where
  "demo_two = demo_broker [demo_job 1 ''a'' ''daily_simulation'' Running, demo_job 3 ''c'' ''daily_simulation'' Pending]"

lemma demo_two_claim:
  "snd (claim_next_job demo_env 0 ''w'' None demo_two) =
     Some (claim_row 0 45 ''w'' (demo_job 3 ''c'' ''daily_simulation'' Pending), demo_dispatch)"
  by (simp add: claim_next_job_def candidates_def running_jobs_def demo_two_def demo_simps dispatch_simps
      sql_count_def claimable_def lease_ttl_def claim_row_def demo_dispatch_def frame table_simps Let_def)

theorem claimed_job_has_no_conflict_witness:
  "\<not> conflict (claim_row 0 45 ''w'' (demo_job 3 ''c'' ''daily_simulation'' Pending), demo_dispatch)
      (hydrated demo_env demo_two (demo_job 1 ''a'' ''daily_simulation'' Running))"
proof -
  have "claim_next_job demo_env 0 ''w'' None demo_two =
     (fst (claim_next_job demo_env 0 ''w'' None demo_two),
      Some (claim_row 0 45 ''w'' (demo_job 3 ''c'' ''daily_simulation'' Pending), demo_dispatch))"
    by (metis demo_two_claim prod.collapse)
  from claimed_job_has_no_conflict [OF _ this] show ?thesis
    by (simp add: demo_two_def demo_simps claimed_status_def)
qed

subsection \<open>Admission\<close>

definition noncritical_active :: "('a db_scheme) \<Rightarrow> int" where
  "noncritical_active s = int (sql_count (\<lambda>j. active (j_status j) \<and> j_priority j < 100) (jobs s))"

lemma sql_count_list_all2:
  assumes "list_all2 (\<lambda>x y. q y \<longrightarrow> p x) xs ys"
  shows "sql_count q ys \<le> sql_count p xs"
  using assms by (induction rule: list_all2_induct) (auto simp: table_simps)

lemma quiet_count_le:
  assumes "quiet s s'" and "\<And>j j'. same_identity j j' \<Longrightarrow> q j' = q j"
  shows "sql_count (\<lambda>j. active (j_status j) \<and> q j) (jobs s') \<le> sql_count (\<lambda>j. active (j_status j) \<and> q j) (jobs s)"
proof (rule sql_count_list_all2, rule list_all2_mono)
  show "list_all2 row_step\<^sup>*\<^sup>* (jobs s) (jobs s')" using assms(1) by (simp add: quiet_def)
next
  fix j j' assume "row_step\<^sup>*\<^sup>* j j'"
  then show "active (j_status j') \<and> q j' \<longrightarrow> active (j_status j) \<and> q j"
    using final.R_steps [of j j'] identity.R_steps [of j j'] assms(2) [of j j'] by (auto simp: active_iff)
qed

lemma insert_job_rows:
  "insert_job E t p s = Inr s' \<Longrightarrow> jobs s' = jobs s @ [new_job E t (next_job_id s) p]"
  by (auto simp: insert_job_def split: if_splits)

lemma insert_items_rows:
  "rfold (insert_item E t) ps s = Inr s' \<Longrightarrow>
   \<exists>rows. jobs s' = jobs s @ rows \<and> list_all2 (\<lambda>p j. \<exists>i. j = new_job E t i p) ps rows"
proof (induction ps arbitrary: s)
  case (Cons p ps)
  then obtain s1 where s1: "insert_item E t p s = Inr s1" "rfold (insert_item E t) ps s1 = Inr s'"
    by (auto simp: rbind_Inr_conv)
  then obtain rows where rows: "jobs s' = jobs s1 @ rows" "list_all2 (\<lambda>p j. \<exists>i. j = new_job E t i p) ps rows"
    using Cons.IH by blast
  have "jobs s1 = jobs s @ [new_job E t (next_job_id s) p]"
    using s1(1) by (auto simp: insert_item_def rbind_Inr_conv frame dest: insert_job_rows)
  with rows show ?case
    by (intro exI [of _ "new_job E t (next_job_id s) p # rows"]) auto
qed simp

lemma redirect_item_fields:
  "redirect_item m p = Inr p' \<Longrightarrow>
   pr_priority p' = pr_priority p \<and> pr_user_id p' = pr_user_id p \<and> pr_job_uuid p' = pr_job_uuid p \<and>
   pr_job_type p' = pr_job_type p \<and> pr_attempt p' = pr_attempt p"
  by (auto simp: redirect_item_def rbind_Inr_conv split: option.splits)

text \<open>The rows a batch appends, and what admission knows about them.\<close>

lemma submit_jobs_batch_rows:
  assumes "submit_jobs_batch E t us subs w rs xs s = Inr (s', r)" and "subs \<noteq> []"
  obtains ps ps' rows where "prepare_batch E us subs = Inr ps" "batch_admission E ps s = Inr ()"
    "jobs s' = jobs s @ rows" "list_all2 (\<lambda>p j. \<exists>i. j = new_job E t i p) ps' rows"
    "list_all2 (\<lambda>p p'. pr_priority p' = pr_priority p \<and> pr_user_id p' = pr_user_id p \<and>
        pr_job_uuid p' = pr_job_uuid p \<and> pr_job_type p' = pr_job_type p \<and> pr_attempt p' = pr_attempt p) ps ps'"
    "r = map pr_job_uuid ps'"
proof (rule submit_jobs_batch_InrE [OF assms])
  fix ps m s1 s2 s3 ps'
  assume 1: "prepare_batch E us subs = Inr ps" "batch_admission E ps s = Inr ()"
    "rfold (replace_experiment (case w of None \<Rightarrow> 0 | Some w \<Rightarrow> w)) xs (s, []) = Inr (s1, m)"
    "(if m \<noteq> [] then rmap (redirect_item m) ps else Inr ps) = Inr ps'"
    "reset_experiments rs s1 = Inr s2" "rfold (insert_item E t) ps' s2 = Inr s3"
    "s' = (restart_sweep w s3)\<lparr>wake_event := True\<rparr>" "r = map pr_job_uuid ps'"
  have "jobs (fst (s1, m)) = jobs s"
    by (rule rfold_invariant [OF 1(3)]) (use replace_experiment_jobs in \<open>auto, force+\<close>)
  then have "jobs s2 = jobs s" using reset_experiments_jobs [OF 1(5)] by simp
  moreover obtain rows where "jobs s3 = jobs s2 @ rows" "list_all2 (\<lambda>p j. \<exists>i. j = new_job E t i p) ps' rows"
    using insert_items_rows [OF 1(6)] by blast
  moreover have "list_all2 (\<lambda>p p'. pr_priority p' = pr_priority p \<and> pr_user_id p' = pr_user_id p \<and>
      pr_job_uuid p' = pr_job_uuid p \<and> pr_job_type p' = pr_job_type p \<and> pr_attempt p' = pr_attempt p) ps ps'"
    using 1(4) by (auto simp: rmap_Inr_iff list_all2_refl split: if_splits elim!: list_all2_mono dest: redirect_item_fields)
  ultimately show thesis using 1(1,2,7,8) by (intro that) (auto simp: frame)
qed

lemma noncritical_le_active: "noncritical_active s \<le> active_count s"
  unfolding noncritical_active_def active_count_def of_nat_le_iff by (rule sql_count_mono) simp

lemma list_all2_count:
  "list_all2 (\<lambda>x y. p x = q y) xs ys \<Longrightarrow> sql_count p xs = sql_count q ys"
  by (induction rule: list_all2_induct) (auto simp: table_simps)

lemma submit_job_cases:
  assumes "submit_job E t u sub da de s = Inr (s', r)"
  obtains (duplicate) p j where "s' = s" "r = j_uuid j" "da \<or> de" "existing_duplicate de p s = Some j"
      "prepare E u sub (if truthy (sub_params sub) then sub_params sub else PDict []) = Inr p"
  | (queued) p s1 where
      "prepare E u sub (if truthy (sub_params sub) then sub_params sub else PDict []) = Inr p" "r = u"
      "da \<or> de \<Longrightarrow> existing_duplicate de p s = None"
      "\<And>i. pr_user_id p = Some i \<Longrightarrow> user_active s i < max_active_per_user E"
      "\<not> (active_count s \<ge> max_pending_jobs E \<and> pr_priority p < 100)"
      "insert_job E t p s = Inr s1"
      "s' = (insert_job_event t u ''pending'' 0 (Some ''queued'') (Some Submitted) s1)\<lparr>wake_event := True\<rparr>"
proof -
  let ?params = "if truthy (sub_params sub) then sub_params sub else PDict []"
  obtain p where p: "prepare E u sub ?params = Inr p"
    using assms by (auto simp: submit_job_def rbind_Inr_conv)
  show thesis
  proof (cases "if da \<or> de then existing_duplicate de p s else None")
    case (Some j)
    with assms p show thesis by (intro duplicate [of j p]) (auto simp: submit_job_def split: if_splits)
  next
    case None
    from assms p None have user: "\<not> (case pr_user_id p of None \<Rightarrow> False | Some i \<Rightarrow> user_active s i \<ge> max_active_per_user E)"
      and full: "\<not> (active_count s \<ge> max_pending_jobs E \<and> pr_priority p < 100)"
      unfolding submit_job_def by (simp_all split: if_splits)
    from assms p None user full obtain s1 where "insert_job E t p s = Inr s1" "r = u"
      "s' = (insert_job_event t u ''pending'' 0 (Some ''queued'') (Some Submitted) s1)\<lparr>wake_event := True\<rparr>"
      unfolding submit_job_def by (auto simp: rbind_Inr_conv)
    with p None user full show thesis
      by (intro queued [of p s1]) (auto split: if_splits)
  qed
qed

lemma noncritical_insert:
  assumes "insert_job E t p s = Inr s'" and "\<not> (active_count s \<ge> max_pending_jobs E \<and> pr_priority p < 100)"
    and "noncritical_active s \<le> max_pending_jobs E"
  shows "noncritical_active s' \<le> max_pending_jobs E"
proof -
  have "noncritical_active s' = noncritical_active s + (if pr_priority p < 100 then 1 else 0)"
    by (simp add: noncritical_active_def insert_job_rows [OF assms(1)] table_simps new_job_def active_def)
  then show ?thesis using assms(2,3) noncritical_le_active [of s] by (auto split: if_splits)
qed

lemma noncritical_batch:
  assumes "submit_jobs_batch E t us subs w rs xs s = Inr (s', r)" and "noncritical_active s \<le> max_pending_jobs E"
  shows "noncritical_active s' \<le> max_pending_jobs E"
proof (cases "subs = []")
  case True
  then show ?thesis using assms by (simp add: submit_jobs_batch_def)
next
  case False
  with assms(1) show ?thesis
  proof (rule submit_jobs_batch_rows)
    fix ps ps' rows
    assume b: "batch_admission E ps s = Inr ()" "jobs s' = jobs s @ rows"
      "list_all2 (\<lambda>p j. \<exists>i. j = new_job E t i p) ps' rows"
      "list_all2 (\<lambda>p p'. pr_priority p' = pr_priority p \<and> pr_user_id p' = pr_user_id p \<and>
         pr_job_uuid p' = pr_job_uuid p \<and> pr_job_type p' = pr_job_type p \<and> pr_attempt p' = pr_attempt p) ps ps'"
    have "sql_count (\<lambda>p. pr_priority p < 100) ps = sql_count (\<lambda>p. pr_priority p < 100) ps'"
      by (rule list_all2_count) (use b(4) in \<open>auto elim: list_all2_mono\<close>)
    moreover have "sql_count (\<lambda>p. pr_priority p < 100) ps' =
        sql_count (\<lambda>j. active (j_status j) \<and> j_priority j < 100) rows"
      by (rule list_all2_count) (use b(3) in \<open>auto elim!: list_all2_mono simp: new_job_def active_def\<close>)
    moreover have "noncritical_active s' = noncritical_active s +
        int (sql_count (\<lambda>j. active (j_status j) \<and> j_priority j < 100) rows)"
      by (simp add: noncritical_active_def b(2) table_simps)
    ultimately show ?thesis
      using b(1) assms(2) noncritical_le_active [of s]
      by (auto simp: batch_admission_def Let_def simp del: sql_count_0 split: if_splits)
  qed
qed

text \<open>A step that inserts no job is quiet.\<close>

lemma broker_step_kind:
  "broker_step E s s' \<Longrightarrow> store_wf s \<Longrightarrow>
   quiet s s' \<or> (\<exists>t u sub da de r. submit_job E t u sub da de s = Inr (s', r)) \<or>
   (\<exists>t us subs w rs xs r. submit_jobs_batch E t us subs w rs xs s = Inr (s', r)) \<or>
   (\<exists>t u' u uid r. retry_job E t u' u uid s = Inr (s', r))"
proof (induction rule: broker_step.induct)
  case step_submit
  then show ?case by blast
next
  case step_batch
  then show ?case by blast
next
  case step_retry
  then show ?case by blast
next
  case step_progress
  then show ?case by (intro disjI1 update_job_progress_quiet)
next
  case step_operational
  then show ?case by (intro disjI1 quiet_same record_operational_event_jobs)
next
  case step_flush
  then show ?case by (intro disjI1 quiet_same flush_operational_counters_jobs)
next
  case step_other_process
  then show ?case by (intro disjI1 quiet_same truncate_jobs)
qed (rule disjI1, simp add: request_cancel_quiet raise_if_cancelled_quiet recover_expired_claims_quiet
    recover_pending_jobs_quiet claim_job_quiet claim_next_job_quiet heartbeat_claims_quiet
    release_claims_quiet quiet_same frame)+

lemma broker_step_cases:
  assumes "broker_step E s s'" and "store_wf s"
  obtains (quiet) "quiet s s'"
  | (submit) t u sub da de r where "submit_job E t u sub da de s = Inr (s', r)"
  | (batch) t us subs w rs xs r where "submit_jobs_batch E t us subs w rs xs s = Inr (s', r)"
  | (retry) t u' u uid r where "retry_job E t u' u uid s = Inr (s', r)"
  using broker_step_kind [OF assms] by blast

text \<open>
  C24. Backpressure: along any run of the queue under fixed settings, the number of active jobs of
  non-critical priority never exceeds the configured maximum of pending jobs, whatever mix of
  single submissions, batches and retries produced them.
\<close>

theorem backpressure_bounds_noncritical_work:
  assumes "store_wf s" and "broker_run E s s'" and "noncritical_active s \<le> max_pending_jobs E"
  shows "noncritical_active s' \<le> max_pending_jobs E"
  using assms(2)
proof (induction rule: rtranclp_induct)
  case base
  then show ?case by (rule assms(3))
next
  case (step s1 s2)
  have wf: "store_wf s1" using evolves_wf [OF broker_run_evolves [OF step.hyps(1) assms(1)] assms(1)] .
  from step.hyps(2) wf show ?case
  proof (cases rule: broker_step_cases)
    case quiet
    then show ?thesis
      using quiet_count_le [OF quiet, of "\<lambda>j. j_priority j < 100"] step.IH
      by (simp add: noncritical_active_def same_identity_def)
  next
    case submit
    then show ?thesis
    proof (cases rule: submit_job_cases)
      case (queued p s1')
      from noncritical_insert [OF queued(6,5) step.IH] show ?thesis
        by (simp add: noncritical_active_def queued(7) frame)
    qed (use step.IH in simp)
  next
    case batch
    then show ?thesis using step.IH by (rule noncritical_batch)
  next
    case retry
    then show ?thesis
    proof (cases rule: retry_job_cases)
      case (queued source s1')
      have "noncritical_active s1' \<le> max_pending_jobs E"
        by (rule noncritical_insert [OF queued(5) _ step.IH])
          (use queued(4) in \<open>simp add: retry_prepared_def Let_def\<close>)
      then show ?thesis by (simp add: noncritical_active_def queued(7))
    qed (use step.IH in simp)
  qed
qed

theorem backpressure_bounds_noncritical_work_witness:
  "noncritical_active (fst (claim_next_job demo_env 0 ''w'' None demo_two)) \<le> 500"
  using backpressure_bounds_noncritical_work [of demo_two demo_env "fst (claim_next_job demo_env 0 ''w'' None demo_two)"]
    step_claim_next [of demo_env demo_two 0 "''w''" None]
  by (simp add: demo_two_def demo_simps noncritical_active_def sql_count_def max_pending_jobs_def r_into_rtranclp)

end
