(* ===== verification/Queue_Props.thy ===== *)
theory Queue_Props
  imports Broker_Props
begin

text \<open>
  Functional behaviour of the queue's operations: submission, deduplication and the per-user limit,
  batches, retries, recovery of expired claims, the scheduler's own lease, effective priorities and
  queue positions.
\<close>

subsection \<open>Submission\<close>

lemma validated_job_params_Inr: "validated_job_params E v = Inr (v', x) \<Longrightarrow> v' = v"
  by (cases v) (auto simp: validated_job_params_def rbind_Inr_conv)

lemma prepare_fields:
  assumes "prepare E u sub raw = Inr p"
  shows "pr_job_type p = sub_job_type sub" "pr_user_id p = sub_user_id sub" "pr_job_uuid p = u"
    "pr_parent_job_uuid p = sub_parent_job_uuid sub" "pr_params p = raw" "pr_priority p = job_priority (sub_job_type sub) raw"
    "pr_attempt p = sub_attempt sub"
    "validate_submission_identity (sub_job_type sub) (sub_user_id sub) (sub_attempt sub) (sub_display_name sub)
       (sub_parent_job_uuid sub) = Inr ()"
proof -
  obtain x where v: "validated_job_params E raw = Inr (raw, x)"
    using assms by (auto simp: prepare_def rbind_Inr_conv dest: validated_job_params_Inr)
  obtain n rt ri where "metadata E (sub_job_type sub) raw (sub_display_name sub) (sub_resource_type sub) (sub_resource_id sub) = (n, rt, ri)"
    by (metis surj_pair)
  with assms v show "pr_job_type p = sub_job_type sub" "pr_user_id p = sub_user_id sub" "pr_job_uuid p = u"
    "pr_parent_job_uuid p = sub_parent_job_uuid sub" "pr_params p = raw" "pr_priority p = job_priority (sub_job_type sub) raw"
    "pr_attempt p = sub_attempt sub"
    "validate_submission_identity (sub_job_type sub) (sub_user_id sub) (sub_attempt sub) (sub_display_name sub)
       (sub_parent_job_uuid sub) = Inr ()"
    by (auto simp: prepare_def rbind_Inr_conv)
qed


definition demo_submission :: submission where
  "demo_submission =
     \<lparr>sub_job_type = ''daily_simulation'', sub_params = PDict [], sub_user_id = Some 7, sub_display_name = None,
      sub_resource_type = None, sub_resource_id = PInt 3, sub_parent_job_uuid = None, sub_attempt = 1\<rparr>"

definition demo_prepared :: prepared where
  "demo_prepared =
     \<lparr>pr_job_type = ''daily_simulation'', pr_params = PDict [], pr_user_id = Some 7,
      pr_display_name = Default_label ''daily_simulation'', pr_resource_type = Some ''portfolio'',
      pr_resource_id = Some ''3'', pr_parent_job_uuid = None, pr_attempt = 1, pr_priority = 100,
      pr_job_uuid = ''u1'', pr_queue_group = ''job:u1''\<rparr>"

lemma str_of_int_3: "str_of_int 3 = ''3''"
  by code_simp

lemma demo_prepare: "prepare demo_env ''u1'' demo_submission (PDict []) = Inr demo_prepared"
proof -
  have "validated_job_params demo_env (PDict []) = Inr (PDict [], ''{}'')"
    by (simp add: validated_job_params_def canonical_json_for_storage_def inspect.simps visit_def utf8_length_def)
  then show ?thesis
    by (simp add: prepare_def demo_submission_def validate_submission_identity_def JOB_TYPE_METADATA_def metadata_def
        job_priority_def queue_group_def demo_prepared_def str_of_int_3)
qed

definition demo_submitted :: broker where
  "demo_submitted =
     (insert_job_event 1000 ''u1'' ''pending'' 0 (Some ''queued'') (Some Submitted)
       ((demo_broker [])\<lparr>jobs := [new_job demo_env 1000 10 demo_prepared], next_job_id := 11\<rparr>))\<lparr>wake_event := True\<rparr>"

lemma demo_submit: "submit_job demo_env 1000 ''u1'' demo_submission True False (demo_broker []) = Inr (demo_submitted, ''u1'')"
proof -
  have "sub_params demo_submission = PDict []" by (simp add: demo_submission_def)
  then have p: "prepare demo_env ''u1'' demo_submission
      (if truthy (sub_params demo_submission) then sub_params demo_submission else PDict []) = Inr demo_prepared"
    using demo_prepare by simp
  show ?thesis
    unfolding submit_job_def p rbind_simps
    by (simp add: demo_prepared_def existing_duplicate_def user_active_def active_count_def sql_count_def
      max_active_per_user_def max_pending_jobs_def insert_job_def find_job_def demo_submitted_def demo_broker_def demo_env_def)
qed


text \<open>
  C4. In every state the broker can reach from an empty queue, UUIDs and ids identify a job, ids
  grow with insertion, and every row is consistent: \<open>completed_at\<close> is set exactly on terminal
  jobs, a pending job has neither a worker nor a lease, progress stays between 0 and 1, and a job
  that has a worker has been claimed at least once.
\<close>

theorem reachable_queue_consistent:
  assumes "jobs s0 = []" and "broker_run E s0 s"
  shows "store_wf s \<and> (\<forall>j\<in>set (jobs s). row_ok j)"
proof -
  have wf: "store_wf s0" using assms(1) by (simp add: store_wf_def)
  have ev: "evolves s0 s" using broker_run_evolves [OF assms(2) wf] .
  show ?thesis
    using evolves_wf [OF ev wf] life.I_evolves [OF ev] assms(1) by simp
qed

theorem reachable_queue_consistent_witness:
  "store_wf (fst (claim_next_job demo_env 2000 ''w'' None demo_submitted)) \<and>
   list_all row_ok (jobs (fst (claim_next_job demo_env 2000 ''w'' None demo_submitted)))"
proof -
  have "broker_run demo_env (demo_broker []) (fst (claim_next_job demo_env 2000 ''w'' None demo_submitted))"
    using step_submit [OF demo_submit] step_claim_next by (rule converse_rtranclp_into_rtranclp [OF _ r_into_rtranclp])
  from reachable_queue_consistent [OF _ this] show ?thesis
    by (simp add: demo_broker_def list_all_iff)
qed

subsection \<open>Batches\<close>

lemma incoming_by_user_fold:
  "dict_get (fold (\<lambda>p d. case pr_user_id p of None \<Rightarrow> d | Some u \<Rightarrow> AList.update u (dict_get d u 0 + 1) d) ps d) u 0 =
     dict_get d u (0 :: int) + int (sql_count (\<lambda>p. pr_user_id p = Some u) ps)"
  by (induction ps arbitrary: d) (auto simp: table_simps dict_simps split: option.splits)

lemma incoming_by_user_count:
  "dict_get (incoming_by_user ps) u 0 = int (sql_count (\<lambda>p. pr_user_id p = Some u) ps)"
  by (simp add: incoming_by_user_def incoming_by_user_fold)

lemma batch_admission_user:
  assumes "batch_admission E ps s = Inr ()" and "p \<in> set ps" and "pr_user_id p = Some u"
  shows "user_active s u + int (sql_count (\<lambda>p. pr_user_id p = Some u) ps) \<le> max_active_per_user E"
proof -
  let ?n = "int (sql_count (\<lambda>p. pr_user_id p = Some u) ps)"
  have "dict_get (incoming_by_user ps) u 0 \<noteq> 0"
    using assms(2,3) by (auto simp: incoming_by_user_count)
  then have "(u, ?n) \<in> set (incoming_by_user ps)"
    using dict_get_mem [of "incoming_by_user ps" u 0] by (simp add: incoming_by_user_count)
  with assms(1) show ?thesis
    by (fastforce simp: batch_admission_def Let_def list_ex_iff split: if_splits)
qed

lemma prepare_batch_users:
  "prepare_batch E us subs = Inr ps \<Longrightarrow>
   list_all2 (\<lambda>sub p. pr_user_id p = sub_user_id sub \<and> pr_job_type p = sub_job_type sub) subs ps"
proof -
  assume "prepare_batch E us subs = Inr ps"
  then have "list_all2 (\<lambda>(i, sub) p. pr_user_id p = sub_user_id sub \<and> pr_job_type p = sub_job_type sub)
      (enumerate 0 subs) ps"
    unfolding prepare_batch_def rmap_Inr_iff
    by (rule list_all2_mono) (auto simp: Let_def split: pyval.splits dest: prepare_fields(1,2))
  then show ?thesis
    by (simp add: list_all2_conv_all_nth nth_enumerate_eq)
qed

text \<open>
  A batch is all or nothing: either it raises and the database is as it was, or it has appended one
  pending row per submission, in order, with consecutive ids, whose UUIDs it returns; and then every
  user of the batch is within the per-user limit.
\<close>

theorem submit_jobs_batch_behaviour:
  assumes "submit_jobs_batch E t us subs w rs xs s = Inr (s', r)" and "subs \<noteq> []"
  shows "\<exists>rows. jobs s' = jobs s @ rows \<and> length rows = length subs \<and> map j_uuid rows = r \<and>
     map j_type rows = map sub_job_type subs \<and> map j_user_id rows = map sub_user_id subs \<and>
     (\<forall>j\<in>set rows. j_status j = Pending) \<and> wake_event s' \<and>
     (\<forall>i. Some i \<in> set (map sub_user_id subs) \<longrightarrow> user_active s' i \<le> max_active_per_user E)"
proof -
  have wake: "wake_event s'"
    using assms by (rule submit_jobs_batch_InrE) simp
  from assms show ?thesis
  proof (rule submit_jobs_batch_rows)
    fix ps ps' rows
    assume b: "prepare_batch E us subs = Inr ps" "batch_admission E ps s = Inr ()" "jobs s' = jobs s @ rows"
      "list_all2 (\<lambda>p j. \<exists>i. j = new_job E t i p) ps' rows"
      "list_all2 (\<lambda>p p'. pr_priority p' = pr_priority p \<and> pr_user_id p' = pr_user_id p \<and>
         pr_job_uuid p' = pr_job_uuid p \<and> pr_job_type p' = pr_job_type p \<and> pr_attempt p' = pr_attempt p) ps ps'"
      "r = map pr_job_uuid ps'"
    note sub = prepare_batch_users [OF b(1)]
    have rows: "map j_uuid rows = map pr_job_uuid ps'" "map j_type rows = map pr_job_type ps'"
        "map j_user_id rows = map pr_user_id ps'" "\<forall>j\<in>set rows. j_status j = Pending"
      using b(4) by (induction rule: list_all2_induct) (auto simp: new_job_def)
    have ps': "map pr_job_type ps' = map pr_job_type ps" "map pr_user_id ps' = map pr_user_id ps"
      using b(5) by (induction rule: list_all2_induct) auto
    have ps: "map pr_job_type ps = map sub_job_type subs" "map pr_user_id ps = map sub_user_id subs"
      using sub by (induction rule: list_all2_induct) auto
    have count: "sql_count (\<lambda>j. j_user_id j = Some i \<and> active (j_status j)) rows = sql_count (\<lambda>p. pr_user_id p = Some i) ps" for i
    proof -
      have "sql_count (\<lambda>j. j_user_id j = Some i \<and> active (j_status j)) rows = length (filter (\<lambda>x. x = Some i) (map j_user_id rows))"
        using rows(4) by (simp add: sql_count_def filter_map comp_def active_def cong: filter_cong)
      also have "\<dots> = sql_count (\<lambda>p. pr_user_id p = Some i) ps"
        by (simp add: rows(3) ps'(2) sql_count_def filter_map comp_def)
      finally show ?thesis .
    qed
    have "user_active s' i \<le> max_active_per_user E" if "Some i \<in> set (map sub_user_id subs)" for i
    proof -
      from that obtain p where "p \<in> set ps" "pr_user_id p = Some i"
        using ps(2) by (metis (no_types, lifting) in_set_conv_nth length_map nth_map)
      with b(2) batch_admission_user have "user_active s i + int (sql_count (\<lambda>p. pr_user_id p = Some i) ps) \<le> max_active_per_user E"
        by blast
      then show ?thesis by (simp add: user_active_def b(3) table_simps count)
    qed
    then show ?thesis
      using rows ps ps' b(3,6) wake list_all2_lengthD [OF sub] list_all2_lengthD [OF b(4)] list_all2_lengthD [OF b(5)]
      by (intro exI [of _ rows]) simp
  qed
qed

lemma demo_batch:
  "\<exists>s'. submit_jobs_batch demo_env 1000 (\<lambda>i. ''u1'') [demo_submission] None [] [] (demo_broker []) = Inr (s', [''u1''])"
proof -
  have "sub_params demo_submission = PDict []" by (simp add: demo_submission_def)
  then have p: "prepare_batch demo_env (\<lambda>i. ''u1'') [demo_submission] = Inr [demo_prepared]"
    by (simp add: prepare_batch_def demo_prepare)
  have v: "validated_job_params demo_env (PDict []) = Inr (PDict [], ''{}'')"
    by (simp add: validated_job_params_def canonical_json_for_storage_def inspect.simps visit_def utf8_length_def)
  have a: "batch_admission demo_env [demo_prepared] (demo_broker []) = Inr ()"
    by (simp add: batch_admission_def incoming_by_user_def demo_prepared_def user_active_def active_count_def
        sql_count_def max_active_per_user_def max_pending_jobs_def demo_broker_def demo_env_def)
  have "pr_params demo_prepared = PDict []" "pr_job_uuid demo_prepared = ''u1''" "jobs (demo_broker []) = []"
    by (simp_all add: demo_prepared_def demo_broker_def)
  then show ?thesis
    by (simp add: submit_jobs_batch_def p a recovery_busy_def reset_experiments_def insert_item_def v insert_job_def
        find_job_def)
qed

theorem submit_jobs_batch_behaviour_witness:
  "\<exists>s' rows. submit_jobs_batch demo_env 1000 (\<lambda>i. ''u1'') [demo_submission] None [] [] (demo_broker []) = Inr (s', [''u1'']) \<and>
     jobs s' = rows \<and> map j_uuid rows = [''u1''] \<and> user_active s' 7 \<le> 1"
proof -
  obtain s' where s': "submit_jobs_batch demo_env 1000 (\<lambda>i. ''u1'') [demo_submission] None [] [] (demo_broker []) = Inr (s', [''u1''])"
    using demo_batch by blast
  from submit_jobs_batch_behaviour [OF this] have "map j_uuid (jobs s') = [''u1''] \<and> user_active s' 7 \<le> 1"
    by (auto simp: demo_broker_def demo_submission_def max_active_per_user_def demo_env_def)
  with s' show ?thesis by (intro exI [of _ s'] exI [of _ "jobs s'"] conjI) simp_all
qed

subsection \<open>Retries\<close>

text \<open>
  A job is retried at most once: after a retry was queued, every later retry of the same job, in
  whatever state the queue has reached, is answered with nothing and changes nothing.
\<close>

theorem retry_at_most_once:
  assumes "store_wf s" and "retry_job E t u' u uid s = Inr (s1, Some c)" and "broker_run E s1 s2"
  shows "retry_job E' t' v u uid' s2 = Inr (s2, None)"
  using assms(2)
proof (cases rule: retry_job_cases)
  case (queued source s0)
  have wf: "store_wf s1" using evolves_wf [OF retry_job_evolves [OF assms(2)] assms(1)] .
  note ev = broker_run_evolves [OF assms(3) wf]
  have rows: "jobs s1 = jobs s @ [new_job E t (next_job_id s) (retry_prepared E u' uid source)]"
    using insert_job_rows [OF queued(5)] queued(7) by simp
  have u: "j_uuid source = u" using find_job_mem [OF queued(1)] by simp
  let ?child = "new_job E t (next_job_id s) (retry_prepared E u' uid source)"
  have "find_job s1 (j_uuid ?child) = Some ?child"
    using wf find_key_eq [of j_uuid "jobs s1" ?child] by (simp add: rows find_job_def store_wf_def)
  from identity.R_evolves [OF ev this] obtain k where "k \<in> set (jobs s2)" "j_parent k = Some u"
    using find_job_mem by (fastforce simp: same_identity_def new_job_def retry_prepared_def u Let_def)
  then have "list_ex (\<lambda>j. j_parent j = Some u) (jobs s2)" by (auto simp: list_ex_iff)
  then show ?thesis by (auto simp: retry_job_def split: option.splits)
qed simp

definition demo_failed :: broker where
  "demo_failed = demo_broker [demo_job 1 ''a'' ''daily_simulation'' Failed, demo_job 2 ''b'' ''daily_simulation'' Running]"

lemma demo_retry:
  obtains s1 where "retry_job demo_env 1000 ''c'' ''a'' (Some 7) demo_failed = Inr (s1, Some ''c'')"
    "jobs s1 = jobs demo_failed @ [new_job demo_env 1000 10 (retry_prepared demo_env ''c'' (Some 7) (demo_job 1 ''a'' ''daily_simulation'' Failed))]"
proof -
  have "\<exists>s1. retry_job demo_env 1000 ''c'' ''a'' (Some 7) demo_failed = Inr (s1, Some ''c'') \<and>
    jobs s1 = jobs demo_failed @ [new_job demo_env 1000 10 (retry_prepared demo_env ''c'' (Some 7) (demo_job 1 ''a'' ''daily_simulation'' Failed))]"
    by (simp add: retry_job_def demo_failed_def find_job_def demo_broker_def demo_job_def retry_prepared_def active_count_def
        sql_count_def active_def max_pending_jobs_def demo_env_def insert_job_def job_priority_def frame Let_def)
  then show thesis using that by blast
qed

theorem retry_at_most_once_witness:
  "\<exists>s1. retry_job demo_env 1000 ''c'' ''a'' (Some 7) demo_failed = Inr (s1, Some ''c'') \<and>
     retry_job demo_env 2000 ''d'' ''a'' None s1 = Inr (s1, None)"
proof -
  have wf: "store_wf demo_failed" by (simp add: demo_failed_def demo_simps)
  obtain s1 where s1: "retry_job demo_env 1000 ''c'' ''a'' (Some 7) demo_failed = Inr (s1, Some ''c'')"
    by (rule demo_retry)
  from retry_at_most_once [OF wf s1 rtranclp.rtrancl_refl] s1 show ?thesis by blast
qed

text \<open>
  Retries are outside the per-user limit: user 7 may have one active job and has one, so a
  submission of theirs is refused; a retry of their failed job is nevertheless queued and leaves
  them with two active jobs.
\<close>

theorem retry_ignores_user_limit:
  "submit_job demo_env 1000 ''u1'' demo_submission False False demo_failed = Inl JobQueueFullError \<and>
   (\<exists>s1. retry_job demo_env 1000 ''c'' ''a'' (Some 7) demo_failed = Inr (s1, Some ''c'') \<and>
      user_active s1 7 = 2 \<and> max_active_per_user demo_env = 1)"
proof -
  obtain s1 where s1: "retry_job demo_env 1000 ''c'' ''a'' (Some 7) demo_failed = Inr (s1, Some ''c'')"
    "jobs s1 = jobs demo_failed @ [new_job demo_env 1000 10 (retry_prepared demo_env ''c'' (Some 7) (demo_job 1 ''a'' ''daily_simulation'' Failed))]"
    by (rule demo_retry)
  have "sub_params demo_submission = PDict []" by (simp add: demo_submission_def)
  then have p: "prepare demo_env ''u1'' demo_submission
      (if truthy (sub_params demo_submission) then sub_params demo_submission else PDict []) = Inr demo_prepared"
    using demo_prepare by simp
  have "user_active s1 7 = 2" "max_active_per_user demo_env = 1" "user_active demo_failed 7 = 1"
    by (simp_all add: s1(2) user_active_def table_simps demo_failed_def demo_broker_def demo_job_def new_job_def
        retry_prepared_def active_def max_active_per_user_def demo_env_def Let_def)
  then show ?thesis
    using s1(1) unfolding submit_job_def p rbind_simps by (auto simp: demo_prepared_def)
qed

subsection \<open>Recovery of expired claims\<close>

definition recovered_row :: "int \<Rightarrow> job \<Rightarrow> job" where
  "recovered_row t j = (if j_status j = Running then requeue_row t j else cancel_expired_row t j)"

lemma recovered_not_expired: "lease_expired t j \<Longrightarrow> \<not> lease_expired t' (recovered_row t j)"
  by (simp add: recovered_row_def lease_expired_def requeue_row_def cancel_expired_row_def claimed_status_def)

lemma recovered_uuid [simp]: "j_uuid (recovered_row t j) = j_uuid j"
  by (simp add: recovered_row_def requeue_row_def cancel_expired_row_def)

lemma recovery_fence_iff:
  assumes "distinct (map j_uuid js)" and "job \<in> set js" and "j \<in> set js" and "lease_expired t job"
  shows "recovery_fence t job j \<longleftrightarrow> j = job"
proof -
  have "j_uuid j = j_uuid job \<Longrightarrow> j = job"
    using assms(1-3) by (simp add: distinct_map inj_on_def)
  moreover have "j_status job = Running \<or> j_status job = Cancel_requested"
    using assms(4) by (auto simp: lease_expired_def claimed_status_def)
  ultimately show ?thesis using assms(4) by (auto simp: recovery_fence_def)
qed

lemma recover_one_exact:
  assumes "distinct (map j_uuid (jobs s))" and "job \<in> set (jobs s)" and "lease_expired t job"
  shows "jobs (fst (recover_one t job (s, r, c))) = map (\<lambda>j. if j = job then recovered_row t j else j) (jobs s)"
    and "snd (recover_one t job (s, r, c)) =
      (r + (if j_status job = Running then 1 else 0), c + (if j_status job = Running then 0 else 1))"
proof -
  note fence = recovery_fence_iff [OF assms(1,2) _ assms(3)]
  show "jobs (fst (recover_one t job (s, r, c))) = map (\<lambda>j. if j = job then recovered_row t j else j) (jobs s)"
    by (simp add: frame sql_update_def recovered_row_def fence)
  have "sql_count (recovery_fence t job) (jobs s) = 1"
    using fence [OF assms(2)] sql_count_key_one [OF assms(1,2), of "\<lambda>j. j_worker_id j = j_worker_id job \<and>
       j_generation j = j_generation job \<and> j_status j = (if j_status job = Running then Running else Cancel_requested) \<and>
       lease_expired t j"]
    unfolding recovery_fence_def by simp
  then show "snd (recover_one t job (s, r, c)) =
      (r + (if j_status job = Running then 1 else 0), c + (if j_status job = Running then 0 else 1))"
    by (simp add: recover_one_def Let_def)
qed

lemma recover_fold_exact:
  assumes "distinct (map j_uuid (jobs s))" and "set xs \<subseteq> set (jobs s)" and "distinct xs"
    and "\<forall>j\<in>set xs. lease_expired t j"
  shows "jobs (fst (fold (recover_one t) xs (s, r, c))) = map (\<lambda>j. if j \<in> set xs then recovered_row t j else j) (jobs s) \<and>
     snd (fold (recover_one t) xs (s, r, c)) =
       (r + sql_count (\<lambda>j. j_status j = Running) xs, c + sql_count (\<lambda>j. j_status j \<noteq> Running) xs)"
  using assms
proof (induction xs arbitrary: s r c)
  case (Cons x xs)
  obtain s1 r1 c1 where s1: "recover_one t x (s, r, c) = (s1, r1, c1)" by (cases "recover_one t x (s, r, c)") auto
  have x: "x \<in> set (jobs s)" "lease_expired t x" using Cons.prems by auto
  have jobs1: "jobs s1 = map (\<lambda>j. if j = x then recovered_row t j else j) (jobs s)"
    using recover_one_exact(1) [OF Cons.prems(1) x, of r c] by (simp add: s1)
  have uu: "map j_uuid (jobs s1) = map j_uuid (jobs s)"
    by (simp add: jobs1)
  have sub: "set xs \<subseteq> set (jobs s1)"
    using Cons.prems(2,3) by (force simp: jobs1)
  have "recovered_row t x \<notin> set xs"
    using recovered_not_expired [OF x(2), of t] Cons.prems(4) by auto
  then have m: "map (\<lambda>j. if j \<in> set xs then recovered_row t j else j) (jobs s1) =
      map (\<lambda>j. if j \<in> set (x # xs) then recovered_row t j else j) (jobs s)"
    by (auto simp: jobs1)
  have "distinct (map j_uuid (jobs s1))" using Cons.prems(1) uu by simp
  with Cons.IH [of s1 r1 c1] Cons.prems(3,4) sub
  have "jobs (fst (fold (recover_one t) xs (s1, r1, c1))) = map (\<lambda>j. if j \<in> set xs then recovered_row t j else j) (jobs s1) \<and>
     snd (fold (recover_one t) xs (s1, r1, c1)) =
       (r1 + sql_count (\<lambda>j. j_status j = Running) xs, c1 + sql_count (\<lambda>j. j_status j \<noteq> Running) xs)"
    by simp
  moreover have "r1 = r + (if j_status x = Running then 1 else 0)" "c1 = c + (if j_status x = Running then 0 else 1)"
    using recover_one_exact(2) [OF Cons.prems(1) x, of r c] by (simp_all add: s1)
  ultimately show ?case unfolding m by (simp add: s1 table_simps)
qed (simp add: table_simps)

lemma recover_expired_claims_counts:
  "snd (recover_expired_claims t l s) =
     snd (fold (recover_one t) (take (nat (min (max l 1) 500)) (expired_claims t s)) (s, 0, 0))"
  unfolding recover_expired_claims_def Let_def by (simp add: case_prod_beta)

text \<open>
  C26. The recovery pass does exactly this: of the expired claims it takes the oldest ones, up to the
  limit (between 1 and 500); a running one goes back to pending with a new lease generation and no
  worker, a stopping one becomes cancelled; every other row keeps its contents, and the two counters
  count the rows. When the limit covers all expired claims, none is left.
\<close>

theorem recover_expired_claims_exact:
  assumes "store_wf s" and "recover_expired_claims t l s = (s', r, c)"
  shows "jobs s' = map (\<lambda>j. if j \<in> set (take (nat (min (max l 1) 500)) (expired_claims t s)) then recovered_row t j else j) (jobs s) \<and>
     r = sql_count (\<lambda>j. j_status j = Running) (take (nat (min (max l 1) 500)) (expired_claims t s)) \<and>
     c = sql_count (\<lambda>j. j_status j \<noteq> Running) (take (nat (min (max l 1) 500)) (expired_claims t s)) \<and>
     (length (expired_claims t s) \<le> nat (min (max l 1) 500) \<longrightarrow> expired_claims t s' = [])"
proof -
  define n where "n = nat (min (max l 1) 500)"
  let ?xs = "take n (expired_claims t s)"
  have d: "distinct (map j_uuid (jobs s))" using assms(1) by (simp add: store_wf_def)
  have "distinct ?xs" using d by (simp add: expired_claims_def distinct_map)
  moreover have "set ?xs \<subseteq> set (jobs s)" "\<forall>j\<in>set ?xs. lease_expired t j"
    by (auto simp: expired_claims_def dest!: in_set_takeD)
  ultimately have f: "jobs (fst (fold (recover_one t) ?xs (s, 0, 0))) =
        map (\<lambda>j. if j \<in> set ?xs then recovered_row t j else j) (jobs s) \<and>
      snd (fold (recover_one t) ?xs (s, 0, 0)) =
        (sql_count (\<lambda>j. j_status j = Running) ?xs, sql_count (\<lambda>j. j_status j \<noteq> Running) ?xs)"
    using recover_fold_exact [OF d, of ?xs t 0 0] by simp
  have jobs': "jobs s' = map (\<lambda>j. if j \<in> set ?xs then recovered_row t j else j) (jobs s)"
    using f recover_expired_claims_jobs(1) [of t l s, folded n_def] assms(2) by simp
  have "\<not> lease_expired t j'" if "length (expired_claims t s) \<le> n" "j' \<in> set (jobs s')" for j'
  proof -
    have "?xs = expired_claims t s" using that(1) by simp
    then show ?thesis
      using that(2) recovered_not_expired by (auto simp: jobs' expired_claims_def)
  qed
  then have "length (expired_claims t s) \<le> n \<longrightarrow> expired_claims t s' = []"
    unfolding expired_claims_def [of t s'] by (auto simp: filter_empty_conv)
  moreover have "(r, c) = snd (fold (recover_one t) ?xs (s, 0, 0))"
    using recover_expired_claims_counts [of t l s, folded n_def] assms(2) by simp
  ultimately show ?thesis unfolding n_def [symmetric] using jobs' f by simp
qed

theorem recover_expired_claims_exact_witness:
  "map j_status (jobs (fst (recover_expired_claims 60000 10 (demo_broker [demo_job 1 ''a'' ''retrain'' Running])))) = [Pending] \<and>
   expired_claims 60000 (fst (recover_expired_claims 60000 10 (demo_broker [demo_job 1 ''a'' ''retrain'' Running]))) = []"
proof -
  let ?s = "demo_broker [demo_job 1 ''a'' ''retrain'' Running]"
  obtain s' r c where s': "recover_expired_claims 60000 10 ?s = (s', r, c)"
    by (cases "recover_expired_claims 60000 10 ?s") auto
  have wf: "store_wf ?s" by (simp add: demo_simps)
  have e: "expired_claims 60000 ?s = [demo_job 1 ''a'' ''retrain'' Running]"
    by (simp add: expired_claims_def lease_expired_def demo_broker_def demo_job_def claimed_status_def)
  from recover_expired_claims_exact [OF wf s'] show ?thesis
    by (simp add: e s') (simp add: demo_broker_def recovered_row_def requeue_row_def demo_job_def)
qed

subsection \<open>The scheduler's lease\<close>

text \<open>The three lease operations as a process issues them, in any order and at any time.\<close>

datatype lease_op =
    Acquire process_env int string "int option"
  | Renew int string "int option"
  | Release string

fun op_owner :: "lease_op \<Rightarrow> string" where
  "op_owner (Acquire P t o_id ls) = o_id"
| "op_owner (Renew t o_id ls) = o_id"
| "op_owner (Release o_id) = o_id"

fun lease_apply :: "('a env_scheme) \<Rightarrow> lease_op \<Rightarrow> broker \<Rightarrow> broker \<times> bool" where
  "lease_apply E (Acquire P t o_id ls) s = acquire_scheduler_lease E P t o_id ls s"
| "lease_apply E (Renew t o_id ls) s = renew_scheduler_lease E t o_id ls s"
| "lease_apply E (Release o_id) s = (release_scheduler_lease o_id s, False)"

fun lease_run :: "('a env_scheme) \<Rightarrow> lease_op list \<Rightarrow> broker \<Rightarrow> broker \<times> bool list" where
  "lease_run E [] s = (s, [])"
| "lease_run E (x # xs) s =
     (let (s1, b) = lease_apply E x s; (s2, bs) = lease_run E xs s1 in (s2, b # bs))"

text \<open>
  The moments at which a competing attempt is made while the row still protects its owner: the
  owner's process is alive on the competitor's host, or the row belongs to another host and has not
  expired.
\<close>

definition lease_protects :: "scheduler_lease \<Rightarrow> lease_op \<Rightarrow> bool" where
  "lease_protects row x =
     (case x of
        Acquire P t o_id ls \<Rightarrow>
          same_live_process P row \<or> (\<not> same_host_process P row \<and> sql_now t < l_expires_at row)
      | _ \<Rightarrow> True)"

lemma lease_apply_foreign:
  assumes "job_scheduler_lease s = Some row" and "op_owner x \<noteq> l_owner_id row" and "lease_protects row x"
  shows "lease_apply E x s = (s, False)"
  using assms
  by (cases x) (auto simp: acquire_scheduler_lease_def lease_held_def renew_scheduler_lease_def
      release_scheduler_lease_def lease_protects_def)

text \<open>
  The scheduler lease excludes: while an owner's lease protects it, no sequence of acquisitions,
  renewals and releases by other owners succeeds at anything, and the lease row is untouched.
\<close>

theorem scheduler_lease_excludes:
  assumes "job_scheduler_lease s = Some row"
    and "list_all (\<lambda>x. op_owner x \<noteq> l_owner_id row \<and> lease_protects row x) xs"
  shows "lease_run E xs s = (s, replicate (length xs) False)"
  using assms(2) by (induction xs) (simp_all add: lease_apply_foreign [OF assms(1)])

definition demo_process :: process_env where
  "demo_process = \<lparr>p_hostname = ''h1'', p_pid = 41, p_alive = (\<lambda>p. p = 41), p_start_identity = (\<lambda>p. None)\<rparr>"

definition demo_remote :: process_env where
  "demo_remote = \<lparr>p_hostname = ''h2'', p_pid = 7, p_alive = (\<lambda>p. True), p_start_identity = (\<lambda>p. None)\<rparr>"

definition demo_owned :: broker where
  "demo_owned = fst (acquire_scheduler_lease demo_env demo_process 0 ''a'' None (demo_broker []))"

lemma demo_owned_lease:
  "job_scheduler_lease demo_owned =
     Some \<lparr>l_owner_id = ''a'', l_owner_host = Some ''h1'', l_owner_pid = Some 41, l_owner_process_start = None,
       l_heartbeat_at = 0, l_expires_at = 45\<rparr>"
  by (simp add: demo_owned_def acquire_scheduler_lease_def lease_held_def demo_broker_def demo_process_def demo_env_def
      lease_ttl_def sql_now_def)

theorem scheduler_lease_excludes_witness:
  "snd (lease_run demo_env
     [Acquire demo_remote 44000 ''b'' None, Release ''b'', Acquire demo_process 99000 ''c'' None] demo_owned) =
   [False, False, False]"
  using scheduler_lease_excludes [OF demo_owned_lease, where E = demo_env and
      xs = "[Acquire demo_remote 44000 ''b'' None, Release ''b'', Acquire demo_process 99000 ''c'' None]"]
  by (simp add: lease_protects_def same_live_process_def same_host_process_def demo_remote_def demo_process_def
      sql_now_def del: lease_run.simps)

text \<open>
  A lease is not lost for ever: when the row belongs to another host and has expired, or its
  process is gone from this host (dead, or its process id now runs another process), the next
  acquisition succeeds and installs the new owner with a fresh expiry.
\<close>

theorem scheduler_lease_takeover:
  assumes "case job_scheduler_lease s of None \<Rightarrow> True
    | Some row \<Rightarrow> l_owner_id row = a \<or> (if same_host_process P row then \<not> same_live_process P row else l_expires_at row \<le> sql_now t)"
  shows "\<exists>s' row. acquire_scheduler_lease E P t a ls s = (s', True) \<and> job_scheduler_lease s' = Some row \<and>
     l_owner_id row = a \<and> l_expires_at row = sql_now t + lease_ttl E ls \<and> sql_now t + 10 \<le> l_expires_at row \<and>
     jobs s' = jobs s"
  using assms
  by (auto simp: acquire_scheduler_lease_def lease_held_def lease_ttl_def same_host_process_def same_live_process_def
      split: option.splits if_splits)

theorem scheduler_lease_takeover_witness:
  "snd (acquire_scheduler_lease demo_env demo_remote 50000 ''b'' None demo_owned) = True"
  using scheduler_lease_takeover [where s = demo_owned and a = "''b''" and P = demo_remote and t = 50000
      and E = demo_env and ls = None]
  by (auto simp: demo_owned_lease demo_remote_def sql_now_def same_host_process_def)

subsection \<open>Ageing and queue positions\<close>

lemma julianday_mono: "x \<le> y \<Longrightarrow> julianday x \<le> julianday y"
  by (simp add: julianday_def float_of_int_def fdiv_def fl_mono divide_right_mono)

lemma age_seconds_mono: "t \<le> t' \<Longrightarrow> age_seconds t c \<le> age_seconds t' c"
  by (simp add: age_seconds_def fmul_def fsub_def fl_mono julianday_mono)

lemma int_of_float_mono: "0 \<le> x \<Longrightarrow> x \<le> y \<Longrightarrow> int_of_float x \<le> int_of_float y"
  by (simp add: int_of_float_def floor_mono)

text \<open>
  Ageing is bounded and monotone: critical work (base priority 100 or more) keeps its priority;
  any other job starts at no less than its own priority, never goes backwards while it waits, and
  never reaches critical work.
\<close>

theorem effective_priority_ageing:
  "(100 \<le> j_priority j \<longrightarrow> effective_priority E t j = j_priority j) \<and>
   (j_priority j < 100 \<longrightarrow> j_priority j \<le> effective_priority E t j \<and> effective_priority E t j \<le> 99) \<and>
   (t \<le> t' \<longrightarrow> effective_priority E t j \<le> effective_priority E t' j)"
proof -
  let ?q = "float_of_int (max (JOB_SCHEDULER_AGING_SECONDS E) 1)"
  let ?steps = "\<lambda>t. int_of_float (fdiv (max (age_seconds t (j_created_at j)) 0) ?q)"
  have q: "0 \<le> ?q" by (rule float_of_int_nonneg) simp
  then have "0 \<le> ?steps t" by (intro int_of_float_nonneg fdiv_nonneg) simp_all
  moreover have "?steps t \<le> ?steps t'" if "t \<le> t'"
    by (intro int_of_float_mono fdiv_nonneg)
      (use q that age_seconds_mono [of t t' "j_created_at j"] in
        \<open>auto simp: fdiv_def intro!: fl_mono divide_right_mono\<close>)
  ultimately show ?thesis by (auto simp: effective_priority_def Let_def min_def)
qed

theorem effective_priority_ageing_witness:
  "effective_priority demo_env 5000 (demo_job 1 ''a'' ''daily_simulation'' Pending) = 100 \<and>
   60 \<le> effective_priority demo_env 5000 ((demo_job 1 ''a'' ''backtest'' Pending)\<lparr>j_priority := 60\<rparr>) \<and>
   effective_priority demo_env 5000 ((demo_job 1 ''a'' ''backtest'' Pending)\<lparr>j_priority := 60\<rparr>) \<le> 99"
  using effective_priority_ageing [of "demo_job 1 ''a'' ''daily_simulation'' Pending" demo_env 5000 5000]
    effective_priority_ageing [of "(demo_job 1 ''a'' ''backtest'' Pending)\<lparr>j_priority := 60\<rparr>" demo_env 5000 5000]
  by (simp add: demo_job_def)

lemma queue_key_less:
  "queue_key E t q < queue_key E t j \<longleftrightarrow>
     effective_priority E t q > effective_priority E t j \<or>
     (effective_priority E t q = effective_priority E t j \<and>
      (j_priority q > j_priority j \<or> (j_priority q = j_priority j \<and> j_id q < j_id j)))"
  by (auto simp: queue_key_def less_prod_def)

lemma sorted_index:
  assumes "sorted (map k xs)" and "distinct (map k xs)" and "i < length xs"
  shows "length (filter (\<lambda>x. k x < k (xs ! i)) xs) = i"
proof -
  have less: "k (xs ! a) < k (xs ! b) \<longleftrightarrow> a < b" if "a < length xs" "b < length xs" for a b
    using assms(1,2) that sorted_wrt_nth_less [of "(<)" "map k xs"]
    by (metis length_map linorder_neqE_nat nth_map order_less_irrefl order_less_not_sym strict_sorted_iff)
  have "length (filter (\<lambda>x. k x < k (xs ! i)) xs) = card {a. a < length xs \<and> k (xs ! a) < k (xs ! i)}"
    by (rule length_filter_conv_card)
  also have "{a. a < length xs \<and> k (xs ! a) < k (xs ! i)} = {..<i}"
    using less assms(3) by auto
  finally show ?thesis by simp
qed

text \<open>
  The queue position shown to users is the dispatch order: the \<open>n\<close>-th candidate of
  \<open>claim_next_job\<close> is displayed with position \<open>n + 1\<close>.
\<close>

theorem queue_position_is_dispatch_order:
  assumes "store_wf s" and "n < length (candidates E t s)"
  shows "queue_position E t s (candidates E t s ! n) = Some (n + 1)"
proof -
  let ?c = "candidates E t s" and ?j = "candidates E t s ! n"
  have j: "j_status ?j = Pending"
    using candidates_set [of E t s] nth_mem [OF assms(2)] by auto
  have "distinct (map j_id (jobs s))"
    using assms(1) by (auto simp: store_wf_def strict_sorted_iff)
  then have "distinct (map j_id ?c)"
    unfolding candidates_def by (simp add: distinct_map inj_on_def)
  then have d: "distinct (map (queue_key E t) ?c)"
    by (auto simp: distinct_map inj_on_def queue_key_def)
  have "sql_count (\<lambda>q. j_status q = Pending \<and> queue_key E t q < queue_key E t ?j) (jobs s) =
      length (filter (\<lambda>q. queue_key E t q < queue_key E t ?j) ?c)"
    unfolding candidates_def sql_count_def
    by (simp add: filter_sort conj_commute flip: filter_filter)
  also have "\<dots> = n"
    by (rule sorted_index [OF candidates_sorted d assms(2)])
  finally show ?thesis
    by (simp add: queue_position_def j queue_key_less)
qed

theorem queue_position_is_dispatch_order_witness:
  "queue_position demo_env 0 demo_blocked (candidates demo_env 0 demo_blocked ! 1) = Some 2"
  using queue_position_is_dispatch_order [of demo_blocked 1 demo_env 0]
  by (simp add: demo_blocked_def demo_simps candidates_def numeral_2_eq_2)

subsection \<open>Progress\<close>

lemma progress_events_defined: "\<exists>s'. progress_events t j ns u s = Inr s'"
  by (auto simp: progress_events_def insert_operational_event_def OPERATIONAL_EVENT_NAMES_def
      OPERATIONAL_CATEGORIES_def Let_def)

lemma update_find_job:
  assumes "find_job s u = Some j" and "\<And>j. j_uuid (f j) = j_uuid j"
    and "jobs s' = sql_update (\<lambda>j. j_uuid j = u) f (jobs s)"
  shows "find_job s' u = Some (f j)"
proof -
  have "find (\<lambda>j. j_uuid j = u) (sql_update (\<lambda>j. j_uuid j = u) f js) = map_option f (find (\<lambda>j. j_uuid j = u) js)" for js
    by (induction js) (auto simp: table_simps assms(2))
  then show ?thesis using assms(1,3) by (simp add: find_job_def)
qed

lemma progress_row_fields [simp]:
  "j_uuid (progress_row t ns p u j) = j_uuid j"
  "j_status (progress_row t ns p u j) = (case ns of None \<Rightarrow> j_status j | Some st \<Rightarrow> st)"
  "j_progress (progress_row t ns p u j) = p"
  "j_heartbeat_at (progress_row t ns p u j) = Some (sql_now t)"
  "j_result (progress_row t ns p u j) = (case up_result u of None \<Rightarrow> j_result j | Some r \<Rightarrow> Some r)"
  "j_error (progress_row t ns p u j) = (case up_error u of None \<Rightarrow> j_error j | Some r \<Rightarrow> Some r)"
  by (auto simp: progress_row_def progress_status_row_def Let_def split: option.splits)

lemma progress_report:
  assumes "find_job s u = Some j" and "\<not> terminal (j_status j)" and "\<not> lease_lost c u (Some j)"
    and "transition_allowed j (forced_cancel j up)"
  obtains s' where "update_job_progress_once t c u up s = Inr s'"
    "find_job s' u = Some (progress_row t (Option.bind (up_status (forced_cancel j up)) parse_status)
       (resolved_progress j (forced_cancel j up)) (forced_cancel j up) j)"
proof -
  let ?up = "forced_cancel j up"
  let ?ns = "Option.bind (up_status ?up) parse_status"
  let ?f = "progress_row t ?ns (resolved_progress j ?up) ?up"
  let ?s1 = "insert_job_event t u (status_str (case ?ns of None \<Rightarrow> j_status j | Some st \<Rightarrow> st)) (resolved_progress j ?up)
      (up_stage ?up) (up_message ?up) (update_jobs (\<lambda>j. j_uuid j = u) ?f s)"
  obtain s' where s': "progress_events t j ?ns ?up ?s1 = Inr s'"
    using progress_events_defined by blast
  have "jobs s' = sql_update (\<lambda>j. j_uuid j = u) ?f (jobs s)"
    using progress_events_frame(1) [OF s'] by (simp add: frame)
  then have "find_job s' u = Some (?f j)"
    by (rule update_find_job [OF assms(1) progress_row_fields(1)])
  moreover have "update_job_progress_once t c u up s = Inr s'"
    using assms s' by (simp add: update_job_progress_once_def Let_def)
  ultimately show thesis by (rule that [rotated])
qed

text \<open>
  A worker that holds its lease gets its report recorded: an update of a live job with an allowed
  status returns, and the row then carries the reported status, the progress clipped to the unit
  interval and a heartbeat. A worker that reports completion or failure of a job whose cancellation
  was requested finds it cancelled, and the result and the error it reported are discarded.
\<close>

theorem progress_report_recorded:
  assumes "find_job s u = Some j" and "\<not> terminal (j_status j)" and "\<not> lease_lost c u (Some j)"
    and "up_status up = Some (status_str st)" and "up_progress up = Some x"
    and "if j_status j = Cancel_requested then st = Completed \<or> st = Failed else st \<in> set (allowed_transitions (j_status j))"
  shows "\<exists>s' j'. update_job_progress_once t c u up s = Inr s' \<and> find_job s' u = Some j' \<and>
     j_heartbeat_at j' = Some (sql_now t) \<and> j_progress j' = max 0 (min x 1) \<and>
     (if j_status j = Cancel_requested
      then j_status j' = Cancelled \<and> j_result j' = j_result j \<and> j_error j' = j_error j
      else j_status j' = st)"
proof (cases "j_status j = Cancel_requested")
  case True
  then have fc: "forced_cancel j up = up\<lparr>up_status := Some ''cancelled'', up_result := None, up_error := None,
      up_message := Some Cancel_safely_stopped, up_stage := Some ''cancelled''\<rparr>"
    using assms(4,6) by (auto simp: forced_cancel_def)
  have p: "parse_status ''cancelled'' = Some Cancelled"
    using parse_status_str [of Cancelled] by simp
  have "transition_allowed j (forced_cancel j up)"
    using True by (simp add: fc transition_allowed_def p)
  then obtain s' where "update_job_progress_once t c u up s = Inr s'"
    "find_job s' u = Some (progress_row t (Some Cancelled) (resolved_progress j (forced_cancel j up)) (forced_cancel j up) j)"
    by (rule progress_report [OF assms(1-3)]) (simp add: fc p)
  then show ?thesis
    using True assms(5) by (simp add: fc resolved_progress_def clip_progress_def)
next
  case False
  then have fc: "forced_cancel j up = up" by (simp add: forced_cancel_def)
  have "transition_allowed j (forced_cancel j up)"
    using False assms(4,6) by (simp add: fc transition_allowed_def)
  then obtain s' where "update_job_progress_once t c u up s = Inr s'"
    "find_job s' u = Some (progress_row t (Some st) (resolved_progress j up) up j)"
    by (rule progress_report [OF assms(1-3)]) (simp add: fc assms(4))
  then show ?thesis
    using False assms(5) by (simp add: resolved_progress_def clip_progress_def)
qed

theorem progress_report_recorded_witness:
  "\<exists>s'. update_job_progress_once 61000 None ''a'' demo_done (demo_broker [demo_job 1 ''a'' ''retrain'' Cancel_requested]) = Inr s' \<and>
     map_option j_status (find_job s' ''a'') = Some Cancelled"
  using progress_report_recorded [of "demo_broker [demo_job 1 ''a'' ''retrain'' Cancel_requested]" "''a''"
      "demo_job 1 ''a'' ''retrain'' Cancel_requested" None demo_done Completed 1 61000]
  by (auto simp: find_job_def demo_broker_def demo_job_def lease_lost_def demo_done_def)

end
