(* ===== verification/Reconciler_Props.thy ===== *)
theory Reconciler_Props
  imports Job_Lifecycle
begin

text \<open>
  Correctness of the reconciliation pass: it changes exactly the experiments whose latest owned job
  failed or was cancelled, gives them that status, and a second pass has nothing left to do.
\<close>

lemma reconciliation_recorded_mono:
  "set (job_events d) \<subseteq> set (job_events d') \<Longrightarrow> reconciliation_recorded d u \<Longrightarrow> reconciliation_recorded d' u"
  by (auto simp: reconciliation_recorded_def list_ex_iff)

lemma refresh_owned_sweeps_frame2:
  "job_events (refresh_owned_sweeps x u d) = job_events d" "columns (refresh_owned_sweeps x u d) = columns d"
  by (simp_all add: refresh_owned_sweeps_def)

lemma record_reconciliation_event_frame2:
  "set (job_events d) \<subseteq> set (job_events (record_reconciliation_event t u st p src d))"
  "columns (record_reconciliation_event t u st p src d) = columns d"
  by (auto simp: record_reconciliation_event_def insert_job_event_def)

text \<open>One row of the pass, on an experiment that is still as it was selected.\<close>

lemma repair_one_exact:
  assumes "distinct (map e_id (experiments d))" and "e0 \<in> set (experiments d)"
    and "e_user_id e0 = j_user_id j" and "active_experiment_status (e_status e0)"
  shows "experiments (fst (repair_one t cols src (j, e0) (d, n))) =
      map (\<lambda>e. if e_id e = e_id e0 then repaired_experiment t cols (j_status j) e else e) (experiments d)"
    and "snd (repair_one t cols src (j, e0) (d, n)) = n + 1"
    and "set (job_events d) \<subseteq> set (job_events (fst (repair_one t cols src (j, e0) (d, n))))"
    and "columns (fst (repair_one t cols src (j, e0) (d, n))) = columns d"
proof -
  define hit where "hit = (\<lambda>e :: experiment_rec. e_id e = e_id e0 \<and> e_user_id e = j_user_id j \<and> e_status e = e_status e0 \<and> e_status e \<noteq> ''completed'')"
  have eq: "e = e0" if "e \<in> set (experiments d)" "e_id e = e_id e0" for e
    using assms(1,2) that by (simp add: distinct_map inj_on_def)
  have nc: "e_status e0 \<noteq> ''completed''"
    using assms(4) by (auto simp: active_experiment_status_def)
  have hit: "hit e \<longleftrightarrow> e_id e = e_id e0" if "e \<in> set (experiments d)" for e
    using eq [OF that] assms(3) nc by (auto simp: hit_def)
  have one: "sql_count hit (experiments d) = 1"
    using sql_count_key_one [OF assms(1,2), of "\<lambda>e. e_user_id e = j_user_id j \<and> e_status e = e_status e0 \<and> e_status e \<noteq> ''completed''"]
      assms(3) nc by (simp add: hit_def)
  have "sql_update hit (repaired_experiment t cols (j_status j)) (experiments d) =
      map (\<lambda>e. if e_id e = e_id e0 then repaired_experiment t cols (j_status j) e else e) (experiments d)"
    unfolding sql_update_def by (rule map_cong) (simp_all add: hit)
  then show "experiments (fst (repair_one t cols src (j, e0) (d, n))) =
      map (\<lambda>e. if e_id e = e_id e0 then repaired_experiment t cols (j_status j) e else e) (experiments d)"
    and "snd (repair_one t cols src (j, e0) (d, n)) = n + 1"
    and "set (job_events d) \<subseteq> set (job_events (fst (repair_one t cols src (j, e0) (d, n))))"
    and "columns (fst (repair_one t cols src (j, e0) (d, n))) = columns d"
    using one record_reconciliation_event_frame2
    by (simp_all add: repair_one_def Let_def frame refresh_owned_sweeps_frame2 record_reconciliation_event_frame2
        flip: hit_def) (rule order_trans [OF _ record_reconciliation_event_frame2(1)], simp)
qed

definition repaired_by :: "(job \<times> experiment_rec) list \<Rightarrow> experiment_rec \<Rightarrow> job option" where
  "repaired_by rows e = map_of (map (\<lambda>(j, e0). (e_id e0, j)) rows) (e_id e)"

definition repair_row :: "int \<Rightarrow> string list \<Rightarrow> (job \<times> experiment_rec) list \<Rightarrow> experiment_rec \<Rightarrow> experiment_rec" where
  "repair_row t cols rows e =
     (case repaired_by rows e of None \<Rightarrow> e | Some j \<Rightarrow> repaired_experiment t cols (j_status j) e)"

lemma repaired_experiment_fields [simp]:
  "e_id (repaired_experiment t cols st e) = e_id e"
  "e_user_id (repaired_experiment t cols st e) = e_user_id e"
  "e_status (repaired_experiment t cols st e) = status_str st"
  by (simp_all add: repaired_experiment_def Let_def)

lemma repair_fold_exact:
  assumes "distinct (map e_id (experiments d))" and "distinct (map (\<lambda>(j, e). e_id e) rows)"
    and "\<forall>(j, e)\<in>set rows. e \<in> set (experiments d) \<and> e_user_id e = j_user_id j \<and> active_experiment_status (e_status e)"
  shows "experiments (fst (fold (repair_one t cols src) rows (d, n))) = map (repair_row t cols rows) (experiments d) \<and>
     snd (fold (repair_one t cols src) rows (d, n)) = n + length rows \<and>
     set (job_events d) \<subseteq> set (job_events (fst (fold (repair_one t cols src) rows (d, n)))) \<and>
     columns (fst (fold (repair_one t cols src) rows (d, n))) = columns d"
  using assms
proof (induction rows arbitrary: d n)
  case (Cons r rows)
  obtain j e0 where r: "r = (j, e0)" by (cases r)
  obtain d1 n1 where d1: "repair_one t cols src (j, e0) (d, n) = (d1, n1)" by (cases "repair_one t cols src (j, e0) (d, n)")
  have "e0 \<in> set (experiments d)" "e_user_id e0 = j_user_id j" "active_experiment_status (e_status e0)"
    using Cons.prems(3) by (auto simp: r)
  note one = repair_one_exact [OF Cons.prems(1) this, of t cols src n, unfolded d1 fst_conv snd_conv]
  have ids: "map e_id (experiments d1) = map e_id (experiments d)"
    by (simp add: one(1))
  have keep: "e \<in> set (experiments d1)" if "(i, e) \<in> set rows" for i e
  proof -
    have "e \<in> set (experiments d)" using that Cons.prems(3) by auto
    moreover have "e_id e \<noteq> e_id e0" using that Cons.prems(2) by (force simp: r)
    ultimately show ?thesis by (force simp: one(1))
  qed
  have IH: "experiments (fst (fold (repair_one t cols src) rows (d1, n1))) = map (repair_row t cols rows) (experiments d1) \<and>
     snd (fold (repair_one t cols src) rows (d1, n1)) = n1 + length rows \<and>
     set (job_events d1) \<subseteq> set (job_events (fst (fold (repair_one t cols src) rows (d1, n1)))) \<and>
     columns (fst (fold (repair_one t cols src) rows (d1, n1))) = columns d1"
    using Cons.prems keep ids by (intro Cons.IH) (auto simp: r)
  have none: "repaired_by rows e = None" if "e_id e = e_id e0" for e
    using Cons.prems(2) that by (auto simp: r repaired_by_def map_of_eq_None_iff image_iff split: prod.splits) 
  have "map (repair_row t cols rows) (experiments d1) = map (repair_row t cols (r # rows)) (experiments d)"
    unfolding one(1) map_map comp_def
    by (rule map_cong) (auto simp: r repair_row_def repaired_by_def none [unfolded repaired_by_def])
  with IH one show ?case by (auto simp: r d1)
qed (simp add: repair_row_def repaired_by_def map_idI)

subsection \<open>The rows of a pass\<close>

lemma repair_rows_product:
  "repair_rows d = filter (\<lambda>(j, e). repair_candidate d j e) (List.product (sort_key j_id (jobs d)) (experiments d))"
proof -
  have row: "concat (map (\<lambda>e. if P j e then [(j, e)] else []) es) = filter (\<lambda>(j, e). P j e) (map (Pair j) es)"
    for P :: "job \<Rightarrow> experiment_rec \<Rightarrow> bool" and j es
    by (induction es) auto
  have "concat (map (\<lambda>j. concat (map (\<lambda>e. if P j e then [(j, e)] else []) es)) js) = filter (\<lambda>(j, e). P j e) (List.product js es)"
    for P :: "job \<Rightarrow> experiment_rec \<Rightarrow> bool" and js es
    by (induction js) (simp_all add: row)
  then show ?thesis by (simp add: repair_rows_def)
qed

lemma repair_rows_set: "(j, e) \<in> set (repair_rows d) \<longleftrightarrow> j \<in> set (jobs d) \<and> e \<in> set (experiments d) \<and> repair_candidate d j e"
  by (auto simp: repair_rows_product)

lemma repair_candidate_unique:
  assumes "repair_candidate d j e" and "repair_candidate d j' e" and "j \<in> set (jobs d)" and "j' \<in> set (jobs d)"
  shows "j_id j = j_id j'"
proof -
  have "same_backtest j j'" "same_backtest j' j"
    using assms(1,2) by (auto simp: repair_candidate_def same_backtest_def)
  then show ?thesis
    using assms by (metis (mono_tags, lifting) list_ex_iff linorder_neqE repair_candidate_def)
qed

lemma repair_rows_distinct:
  assumes "store_wf d" and "distinct (map e_id (experiments d))"
  shows "distinct (map (\<lambda>(j, e). e_id e) (repair_rows d))"
proof -
  have jid: "distinct (map j_id (jobs d))"
    using assms(1) by (auto simp: store_wf_def strict_sorted_iff)
  have "distinct (repair_rows d)"
    unfolding repair_rows_product
    by (intro distinct_filter distinct_product) (use jid assms(2) in \<open>simp_all add: distinct_map\<close>)
  moreover have "inj_on (\<lambda>(j, e). e_id e) (set (repair_rows d))"
  proof (rule inj_onI, clarify)
    fix j e j' e' assume "(j, e) \<in> set (repair_rows d)" "(j', e') \<in> set (repair_rows d)" "e_id e = e_id e'"
    moreover from this have "e = e'"
      using assms(2) by (auto simp: repair_rows_set distinct_map inj_on_def)
    ultimately show "j = j' \<and> e = e'"
      using jid repair_candidate_unique [of d j e j'] by (auto simp: repair_rows_set distinct_map inj_on_def)
  qed
  ultimately show ?thesis by (simp add: distinct_map)
qed

abbreviation pass_limit :: "int \<Rightarrow> nat" where
  "pass_limit l \<equiv> nat (min (max l 1) MAX_RECONCILIATION_LIMIT)"

lemma reconcile_pass:
  assumes "store_wf d" and "distinct (map e_id (experiments d))" and "reconciliation_schema d"
    and "reconcile_terminal_backtest_state t l src d = (d', scanned, repaired)"
  defines "rows \<equiv> take (pass_limit l) (repair_rows d)"
  shows "experiments d' = map (repair_row t (table_columns d ''experiments'') rows) (experiments d)"
    and "scanned = length rows" and "repaired = length rows" and "columns d' = columns d"
    and "set (job_events d) \<subseteq> set (job_events d')" and "jobs d' = jobs d"
proof -
  have "distinct (map (\<lambda>(j, e). e_id e) rows)"
    using repair_rows_distinct [OF assms(1,2)] by (simp add: rows_def take_map [symmetric])
  moreover have "\<forall>(j, e)\<in>set rows. e \<in> set (experiments d) \<and> e_user_id e = j_user_id j \<and> active_experiment_status (e_status e)"
    using repair_rows_set [of _ _ d] by (fastforce simp: rows_def repair_candidate_def dest: in_set_takeD)
  ultimately have f: "experiments (fst (fold (repair_one t (table_columns d ''experiments'') src) rows (d, 0))) =
        map (repair_row t (table_columns d ''experiments'') rows) (experiments d) \<and>
     snd (fold (repair_one t (table_columns d ''experiments'') src) rows (d, 0)) = 0 + length rows \<and>
     set (job_events d) \<subseteq> set (job_events (fst (fold (repair_one t (table_columns d ''experiments'') src) rows (d, 0)))) \<and>
     columns (fst (fold (repair_one t (table_columns d ''experiments'') src) rows (d, 0))) = columns d"
    by (rule repair_fold_exact [OF assms(2)])
  have "(d', scanned, repaired) =
      (fst (fold (repair_one t (table_columns d ''experiments'') src) rows (d, 0)), length rows,
       snd (fold (repair_one t (table_columns d ''experiments'') src) rows (d, 0)))"
    using assms(3,4) unfolding reconcile_terminal_backtest_state_def rows_def Let_def by (simp add: case_prod_beta)
  with f show "experiments d' = map (repair_row t (table_columns d ''experiments'') rows) (experiments d)"
    and "scanned = length rows" and "repaired = length rows" and "columns d' = columns d"
    and "set (job_events d) \<subseteq> set (job_events d')" by simp_all
  show "jobs d' = jobs d"
    using reconcile_terminal_backtest_state_frame(1) [of t l src d] assms(4) by simp
qed

text \<open>
  C27. A reconciliation pass scans at most its limit of rows and repairs every row it scans; it touches
  no job, and an experiment changes only if its latest backtest job, owned by the same user, failed
  or was cancelled while the experiment was still marked active and no job for it completed; it then
  has that job's status. In particular completed experiments are never touched.
\<close>

theorem reconcile_repairs_only_stale:
  assumes "store_wf d" and "distinct (map e_id (experiments d))" and "reconciliation_schema d"
    and "reconcile_terminal_backtest_state t l src d = (d', scanned, repaired)"
  shows "jobs d' = jobs d \<and> repaired = scanned \<and> scanned \<le> pass_limit l \<and>
     list_all2 (\<lambda>e e'. e' = e \<or> (\<exists>j\<in>set (jobs d). repair_candidate d j e \<and>
         e' = repaired_experiment t (table_columns d ''experiments'') (j_status j) e)) (experiments d) (experiments d')"
proof -
  note pass = reconcile_pass [OF assms]
  define rows where "rows = take (pass_limit l) (repair_rows d)"
  have "e' = e \<or> (\<exists>j\<in>set (jobs d). repair_candidate d j e \<and> e' = repaired_experiment t cols (j_status j) e)"
    if "e \<in> set (experiments d)" "e' = repair_row t cols rows e" for e e' cols
  proof (cases "repaired_by rows e")
    case None
    then show ?thesis using that(2) by (simp add: repair_row_def)
  next
    case (Some j)
    then obtain e0 where "(j, e0) \<in> set rows" "e_id e0 = e_id e"
      unfolding repaired_by_def by (auto dest!: map_of_SomeD)
    moreover from this have "(j, e0) \<in> set (repair_rows d)" by (auto simp: rows_def dest: in_set_takeD)
    moreover from calculation have "e0 = e"
      using assms(2) that(1) by (auto simp: repair_rows_set distinct_map inj_on_def)
    ultimately show ?thesis
      using that(2) Some by (auto simp: repair_rows_set repair_row_def)
  qed
  then show ?thesis
    using pass(2,3,6) unfolding pass(1) rows_def [symmetric]
    by (auto simp: list_all2_map2 rows_def intro!: list.rel_refl_strong)
qed


subsection \<open>A concrete pass\<close>

definition demo_experiment :: experiment_rec where
  "demo_experiment =
     \<lparr>e_id = 3, e_user_id = Some 7, e_name = Label ''x'', e_strategy_id = PNone, e_strategy_category = PNone,
      e_is_starred = PNone, e_labels = PNone, e_pool_preset = PNone, e_pool_custom_codes = PNone,
      e_pool_industries = PNone, e_train_start = PNone, e_train_end = PNone, e_test_start = PNone,
      e_test_end = PNone, e_params = PNone, e_params_hash = PNone, e_mode = PNone, e_requires_training = PNone,
      e_retrain_frequency = PNone, e_status = ''running'', e_progress_pct = 40, e_progress_message = None,
      e_error_log = None, e_started_at = None, e_completed_at = None, e_source_experiment_id = PNone, e_run_spec = PNone\<rparr>"

definition demo_backtest :: job where
  "demo_backtest =
     \<lparr>j_id = 1, j_type = ''backtest'', j_display_name = Default_label ''backtest'', j_params = PDict [], j_status = Failed,
      j_progress = 0, j_progress_message = None, j_stage = None, j_result = None, j_error = None,
      j_resource_type = Some ''experiment'', j_resource_id = Some (str_of_int 3), j_parent = None, j_attempt = 1,
      j_worker_id = None, j_priority = 60, j_queue_group = ''job:a'', j_generation = 0, j_lease_expires_at = None,
      j_cancel_requested_at = None, j_heartbeat_at = None, j_created_at = 0, j_updated_at = 0,
      j_started_at = None, j_completed_at = Some 0, j_user_id = Some 7, j_uuid = ''a'', j_runtime_identity = ''''\<rparr>"

definition demo_stale :: db where
  "demo_stale =
     \<lparr>jobs = [demo_backtest], job_events = [], operational_events = [], experiments = [demo_experiment], param_sweeps = [],
      sweep_experiments = [], research_run_manifests = [], job_scheduler_lease = None,
      next_job_id = 2, next_experiment_id = 4,
      columns = (\<lambda>t. [''id'', ''job_uuid'', ''job_type'', ''resource_type'', ''resource_id'', ''status'', ''user_id''])\<rparr>"

lemma demo_stale_rows: "repair_rows demo_stale = [(demo_backtest, demo_experiment)]"
  by (simp add: repair_rows_def repair_candidate_def demo_stale_def demo_backtest_def demo_experiment_def
      repairable_job_status_def active_experiment_status_def same_backtest_def reconciliation_recorded_def)

lemma demo_stale_ok:
  "store_wf demo_stale" "distinct (map e_id (experiments demo_stale))" "reconciliation_schema demo_stale"
  by (simp_all add: store_wf_def demo_stale_def demo_backtest_def demo_experiment_def reconciliation_schema_def
      table_columns_def table_exists_def)

definition demo_reconciled :: db where
  "demo_reconciled = fst (reconcile_terminal_backtest_state 9000 100 ''periodic'' demo_stale)"

lemma demo_pass:
  "reconcile_terminal_backtest_state 9000 100 ''periodic'' demo_stale =
     (demo_reconciled, fst (snd (reconcile_terminal_backtest_state 9000 100 ''periodic'' demo_stale)),
      snd (snd (reconcile_terminal_backtest_state 9000 100 ''periodic'' demo_stale)))"
  by (simp add: demo_reconciled_def)

theorem reconcile_repairs_only_stale_witness:
  "jobs demo_reconciled = [demo_backtest] \<and> length (experiments demo_reconciled) = 1"
  using reconcile_repairs_only_stale [OF demo_stale_ok demo_pass]
  by (auto simp: demo_stale_def dest: list_all2_lengthD)


end
