(* ===== verification/Auth_Store.thy ===== *)
theory Auth_Store
  imports Payload "HOL-Library.Product_Lexorder"
begin

text \<open>
  Accounts, permissions and browser sessions: the tables of \<open>users.db\<close>, the timestamps stored in
  them, the permission vocabulary (\<open>backend/auth/permissions.py\<close>), the access token
  (\<open>backend/auth/jwt_handler.py\<close>), the throttle (\<open>backend/auth/rate_limit.py\<close>) and the session
  state (\<open>backend/auth/sessions.py\<close>).

  The wall clock is an argument in microseconds since the Unix epoch, the monotonic clock of the
  throttle one in seconds (a binary64 number). \<open>jwt.encode\<close>, \<open>jwt.decode\<close>, SHA-256 and bcrypt are the
  fields of \<open>auth_env\<close>; PyJWT encodes a \<open>datetime\<close> claim as its whole second, so the claims are built
  with that integer. Fresh UUIDs are arguments. Every table is the list of its rows.
\<close>

subsection \<open>Timestamps\<close>

text \<open>
  \<open>_timestamp\<close> renders a UTC instant as ISO text, \<open>2026-08-03T13:45:37.123456Z\<close>, and omits the
  fraction when the microseconds are zero. The rows are compared as text. The part up to the second
  has a fixed width, so that its order is that of the seconds; a stamp is the second with the rest
  of the text.
\<close>

type_synonym stamp = "int \<times> string"

definition pad6 :: "nat \<Rightarrow> string" where
  "pad6 n = replicate (6 - length (str_of_nat n)) (CHR ''0'') @ str_of_nat n"

definition timestamp :: "int \<Rightarrow> stamp" where
  "timestamp us =
     (us div 1000000,
      if us mod 1000000 = 0 then ''Z'' else ''.'' @ pad6 (nat (us mod 1000000)) @ ''Z'')"

lemma timestamp_less_seconds: "timestamp a < timestamp b \<Longrightarrow> a div 1000000 \<le> b div 1000000"
  by (auto simp: timestamp_def less_prod_def)

lemma timestamp_less_bound: "timestamp a < timestamp b \<Longrightarrow> a < b + 1000000"
  using timestamp_less_seconds [of a b] by linarith

lemma timestamp_lessI: "a + 1000000 \<le> b \<Longrightarrow> timestamp a < timestamp b"
proof -
  assume "a + 1000000 \<le> b"
  then have "a div 1000000 < b div 1000000" by linarith
  then show ?thesis by (simp add: timestamp_def less_prod_def)
qed

subsection \<open>Permissions\<close>

datatype permission =
    EXP_READ | EXP_CREATE | EXP_DELETE | EXP_SWEEP | EXP_PROMOTE
  | TRADE_READ | TRADE_DEPLOY | TRADE_EXECUTE | TRADE_REBALANCE
  | DATA_READ | DATA_UPDATE
  | STRATEGY_READ | STRATEGY_SCAN
  | AI_USE
  | ADMIN_USERS

fun permission_value :: "permission \<Rightarrow> string" where
  "permission_value EXP_READ = ''experiments:read''"
| "permission_value EXP_CREATE = ''experiments:create''"
| "permission_value EXP_DELETE = ''experiments:delete''"
| "permission_value EXP_SWEEP = ''experiments:sweep''"
| "permission_value EXP_PROMOTE = ''experiments:promote''"
| "permission_value TRADE_READ = ''trading:read''"
| "permission_value TRADE_DEPLOY = ''trading:deploy''"
| "permission_value TRADE_EXECUTE = ''trading:execute''"
| "permission_value TRADE_REBALANCE = ''trading:rebalance''"
| "permission_value DATA_READ = ''data:read''"
| "permission_value DATA_UPDATE = ''data:update''"
| "permission_value STRATEGY_READ = ''strategies:read''"
| "permission_value STRATEGY_SCAN = ''strategies:scan''"
| "permission_value AI_USE = ''ai:use''"
| "permission_value ADMIN_USERS = ''admin:users''"

definition all_permissions :: "permission list" where
  "all_permissions =
     [EXP_READ, EXP_CREATE, EXP_DELETE, EXP_SWEEP, EXP_PROMOTE, TRADE_READ, TRADE_DEPLOY,
      TRADE_EXECUTE, TRADE_REBALANCE, DATA_READ, DATA_UPDATE, STRATEGY_READ, STRATEGY_SCAN, AI_USE,
      ADMIN_USERS]"

definition get_role_permissions :: "string \<Rightarrow> string list" where
  "get_role_permissions role =
     (if role = ''admin'' then map permission_value all_permissions
      else if role = ''operator''
      then map permission_value
        [EXP_READ, EXP_CREATE, EXP_SWEEP, TRADE_READ, TRADE_DEPLOY, TRADE_EXECUTE, DATA_READ,
         DATA_UPDATE, STRATEGY_READ, STRATEGY_SCAN, AI_USE]
      else if role = ''viewer'' then map permission_value [EXP_READ, TRADE_READ, DATA_READ, STRATEGY_READ]
      else [])"

definition is_valid_permission :: "string \<Rightarrow> bool" where
  "is_valid_permission perm = (perm \<in> set (map permission_value all_permissions))"

definition has_permission :: "bool \<Rightarrow> string list \<Rightarrow> string \<Rightarrow> bool" where
  "has_permission is_admin user_perms perm = (is_admin \<or> perm \<in> set user_perms)"

definition merge_permissions :: "string list \<Rightarrow> string list \<Rightarrow> string set" where
  "merge_permissions role_perms extra_perms = set role_perms \<union> set extra_perms"

lemma all_permissions_UNIV: "set all_permissions = UNIV"
proof -
  have "p \<in> set all_permissions" for p by (cases p) (simp_all add: all_permissions_def)
  then show ?thesis by auto
qed

lemma permission_value_valid [simp]: "is_valid_permission (permission_value p)"
  using all_permissions_UNIV by (auto simp: is_valid_permission_def)

subsection \<open>Tables and settings\<close>

record user =
  u_id :: int
  u_username :: string
  u_password_hash :: string
  u_display_name :: "string option"
  u_email :: "string option"
  u_is_admin :: bool
  u_is_active :: bool
  u_created_at :: int
  u_last_login :: "int option"

record permission_row =
  pr_user_id :: int
  pr_permission :: string
  pr_granted_by :: int

record session_row =
  ss_id :: string
  ss_user_id :: int
  ss_family_id :: string
  ss_created_at :: stamp
  ss_last_seen_at :: stamp
  ss_expires_at :: stamp
  ss_revoked_at :: "stamp option"
  ss_revoke_reason :: "string option"

record token_row =
  tk_jti :: string
  tk_hash :: string
  tk_session_id :: string
  tk_family_id :: string
  tk_user_id :: int
  tk_issued_at :: stamp
  tk_expires_at :: stamp
  tk_used_at :: "stamp option"
  tk_revoked_at :: "stamp option"

record auth_db =
  users :: "user list"
  user_permissions :: "permission_row list"
  user_sessions :: "(int \<times> string) list"
  auth_sessions :: "session_row list"
  auth_refresh_tokens :: "token_row list"
  next_user_id :: int
  attempts :: "(string, rat list) dict"

record auth_env = outside +
  ENVIRONMENT :: string
  BOOTSTRAP_ADMIN_TOKEN :: string
  JWT_EXPIRE_MINUTES :: int
  AUTH_LOGIN_MAX_ATTEMPTS :: int
  AUTH_LOGIN_WINDOW_SECONDS :: int
  AUTH_REFRESH_MAX_ATTEMPTS :: int
  AUTH_REFRESH_WINDOW_SECONDS :: int
  AUTH_SENSITIVE_MAX_ATTEMPTS :: int
  AUTH_SENSITIVE_WINDOW_SECONDS :: int
  AUTH_SESSION_MAX_DAYS :: int
  jwt_encode :: "pyval \<Rightarrow> string"
  jwt_decode :: "string list \<Rightarrow> int \<Rightarrow> string \<Rightarrow> pyval option"
  sha256_digest :: "string \<Rightarrow> string"
  bcrypt_hashpw :: "string \<Rightarrow> string"
  bcrypt_checkpw :: "string \<Rightarrow> string \<Rightarrow> bool result"

definition find_user :: "auth_db \<Rightarrow> int \<Rightarrow> user option" where
  "find_user db i = find (\<lambda>u. u_id u = i) (users db)"

definition find_session :: "auth_db \<Rightarrow> string \<Rightarrow> session_row option" where
  "find_session db sid = find (\<lambda>s. ss_id s = sid) (auth_sessions db)"

definition find_token :: "auth_db \<Rightarrow> string \<Rightarrow> token_row option" where
  "find_token db jti = find (\<lambda>t. tk_jti t = jti) (auth_refresh_tokens db)"

definition permissions_of :: "auth_db \<Rightarrow> int \<Rightarrow> string list" where
  "permissions_of db i = map pr_permission (filter (\<lambda>r. pr_user_id r = i) (user_permissions db))"

subsection \<open>Access tokens\<close>

definition seconds_us :: "int \<Rightarrow> int" where "seconds_us n = n * 1000000"

definition days_us :: "int \<Rightarrow> int" where "days_us n = seconds_us (n * 86400)"

definition claim_time :: "int \<Rightarrow> pyval" where "claim_time us = PInt (us div 1000000)"

definition access_payload ::
  "('a auth_env_scheme) \<Rightarrow> int \<Rightarrow> string \<Rightarrow> int \<Rightarrow> string \<Rightarrow> string list \<Rightarrow> string option \<Rightarrow> pyval" where
  "access_payload E now jti user_id username permissions session_id =
     PDict ([(PStr ''sub'', PStr (str_of_int user_id)), (PStr ''username'', PStr username),
             (PStr ''jti'', PStr jti), (PStr ''type'', PStr ''access''), (PStr ''iat'', claim_time now),
             (PStr ''exp'', claim_time (now + seconds_us (JWT_EXPIRE_MINUTES E * 60))),
             (PStr ''permissions'', PSeq (map PStr permissions))] @
            (case session_id of
               None \<Rightarrow> []
             | Some sid \<Rightarrow> if sid = [] then [] else [(PStr ''sid'', PStr sid)]))"

definition create_access_token ::
  "('a auth_env_scheme) \<Rightarrow> int \<Rightarrow> string \<Rightarrow> int \<Rightarrow> string \<Rightarrow> string list \<Rightarrow> string option \<Rightarrow> string" where
  "create_access_token E now jti user_id username permissions session_id =
     jwt_encode E (access_payload E now jti user_id username permissions session_id)"

definition decode_token :: "('a auth_env_scheme) \<Rightarrow> int \<Rightarrow> string \<Rightarrow> pyval option" where
  "decode_token E now token = jwt_decode E [''sub'', ''jti'', ''type'', ''iat'', ''exp''] now token"

subsection \<open>The throttle\<close>

definition client_key :: "('a auth_env_scheme) \<Rightarrow> string option \<Rightarrow> string \<Rightarrow> string" where
  "client_key E host subject =
     (case host of None \<Rightarrow> ''unknown'' | Some h \<Rightarrow> h) @ '':'' @ take 16 (sha256_digest E subject)"

definition enforce_auth_rate_limit ::
  "rat \<Rightarrow> string \<Rightarrow> int \<Rightarrow> int \<Rightarrow> (string, rat list) dict \<Rightarrow> (string, rat list) dict \<times> unit result" where
  "enforce_auth_rate_limit now key limit window_seconds att =
     (let entries = dict_get att key [];
          cutoff = fsub now (of_int (max window_seconds 1));
          entries = dropWhile (\<lambda>e. e \<le> cutoff) entries
      in if int (length entries) \<ge> max limit 1
         then (AList.update key entries att, Inl (HTTPException 429))
         else (AList.update key (entries @ [now]) att, Inr ()))"

definition throttle ::
  "rat \<Rightarrow> string \<Rightarrow> int \<Rightarrow> int \<Rightarrow> auth_db \<Rightarrow> auth_db \<times> unit result" where
  "throttle now key limit window_seconds db =
     (case enforce_auth_rate_limit now key limit window_seconds (attempts db) of
        (att, r) \<Rightarrow> (db\<lparr>attempts := att\<rparr>, r))"

definition limit_login ::
  "('a auth_env_scheme) \<Rightarrow> rat \<Rightarrow> string option \<Rightarrow> string \<Rightarrow> auth_db \<Rightarrow> auth_db \<times> unit result" where
  "limit_login E now host username =
     throttle now (''login:'' @ client_key E host (str_lower username))
       (AUTH_LOGIN_MAX_ATTEMPTS E) (AUTH_LOGIN_WINDOW_SECONDS E)"

definition limit_refresh ::
  "('a auth_env_scheme) \<Rightarrow> rat \<Rightarrow> string option \<Rightarrow> auth_db \<Rightarrow> auth_db \<times> unit result" where
  "limit_refresh E now host =
     throttle now (''refresh:'' @ client_key E host [])
       (AUTH_REFRESH_MAX_ATTEMPTS E) (AUTH_REFRESH_WINDOW_SECONDS E)"

definition limit_sensitive ::
  "('a auth_env_scheme) \<Rightarrow> rat \<Rightarrow> string option \<Rightarrow> int \<Rightarrow> auth_db \<Rightarrow> auth_db \<times> unit result" where
  "limit_sensitive E now host user_id =
     throttle now (''sensitive:'' @ client_key E host (str_of_int user_id))
       (AUTH_SENSITIVE_MAX_ATTEMPTS E) (AUTH_SENSITIVE_WINDOW_SECONDS E)"

subsection \<open>Sessions\<close>

text \<open>
  The inserts fail on a duplicate primary key, on a duplicate token hash and on a missing row that a
  foreign key refers to.
\<close>

definition insert_auth_session :: "session_row \<Rightarrow> auth_db \<Rightarrow> auth_db result" where
  "insert_auth_session r db =
     (if find_session db (ss_id r) \<noteq> None \<or> find_user db (ss_user_id r) = None then Inl IntegrityError
      else Inr (db\<lparr>auth_sessions := auth_sessions db @ [r]\<rparr>))"

definition insert_refresh_token :: "token_row \<Rightarrow> auth_db \<Rightarrow> auth_db result" where
  "insert_refresh_token r db =
     (if find_token db (tk_jti r) \<noteq> None \<or> list_ex (\<lambda>t. tk_hash t = tk_hash r) (auth_refresh_tokens db) \<or>
         find_session db (tk_session_id r) = None \<or> find_user db (tk_user_id r) = None
      then Inl IntegrityError
      else Inr (db\<lparr>auth_refresh_tokens := auth_refresh_tokens db @ [r]\<rparr>))"

text \<open>The identifiers \<open>uuid4\<close> yields within one request.\<close>

record uuids =
  id_session :: string
  id_family :: string
  id_refresh :: string
  id_access :: string

definition refresh_payload ::
  "('a auth_env_scheme) \<Rightarrow> int \<Rightarrow> string \<Rightarrow> int \<Rightarrow> string \<Rightarrow> string \<Rightarrow> string \<Rightarrow> pyval" where
  "refresh_payload E now jti user_id username session_id family_id =
     PDict [(PStr ''sub'', PStr (str_of_int user_id)), (PStr ''username'', PStr username),
            (PStr ''type'', PStr ''refresh''), (PStr ''jti'', PStr jti), (PStr ''sid'', PStr session_id),
            (PStr ''family_id'', PStr family_id), (PStr ''iat'', claim_time now),
            (PStr ''exp'', claim_time (now + days_us (AUTH_SESSION_MAX_DAYS E)))]"

definition new_refresh_token ::
  "('a auth_env_scheme) \<Rightarrow> int \<Rightarrow> string \<Rightarrow> int \<Rightarrow> string \<Rightarrow> string \<Rightarrow> string \<Rightarrow> string" where
  "new_refresh_token E now jti user_id username session_id family_id =
     jwt_encode E (refresh_payload E now jti user_id username session_id family_id)"

definition new_token_row ::
  "('a auth_env_scheme) \<Rightarrow> int \<Rightarrow> string \<Rightarrow> string \<Rightarrow> int \<Rightarrow> string \<Rightarrow> string \<Rightarrow> token_row" where
  "new_token_row E now jti refresh_token user_id session_id family_id =
     \<lparr>tk_jti = jti, tk_hash = sha256_digest E refresh_token, tk_session_id = session_id,
      tk_family_id = family_id, tk_user_id = user_id, tk_issued_at = timestamp now,
      tk_expires_at = timestamp (now + days_us (AUTH_SESSION_MAX_DAYS E)), tk_used_at = None,
      tk_revoked_at = None\<rparr>"

text \<open>The returned pair is the access token with the refresh token.\<close>

definition issue_new_session ::
  "('a auth_env_scheme) \<Rightarrow> int \<Rightarrow> uuids \<Rightarrow> int \<Rightarrow> string \<Rightarrow> string list \<Rightarrow> auth_db \<Rightarrow>
   (auth_db \<times> string \<times> string) result" where
  "issue_new_session E now ids user_id username permissions db =
     (let refresh_token = new_refresh_token E now (id_refresh ids) user_id username (id_session ids) (id_family ids)
      in rbind (insert_auth_session
           \<lparr>ss_id = id_session ids, ss_user_id = user_id, ss_family_id = id_family ids,
            ss_created_at = timestamp now, ss_last_seen_at = timestamp now,
            ss_expires_at = timestamp (now + days_us (AUTH_SESSION_MAX_DAYS E)),
            ss_revoked_at = None, ss_revoke_reason = None\<rparr> db) (\<lambda>db1.
         rbind (insert_refresh_token
           (new_token_row E now (id_refresh ids) refresh_token user_id (id_session ids) (id_family ids)) db1) (\<lambda>db2.
         Inr (db2,
              create_access_token E now (id_access ids) user_id username permissions (Some (id_session ids)),
              refresh_token))))"

definition coalesce :: "'a option \<Rightarrow> 'a \<Rightarrow> 'a option" where
  "coalesce x y = (case x of None \<Rightarrow> Some y | Some v \<Rightarrow> Some v)"

definition revoke_session_row :: "stamp \<Rightarrow> string \<Rightarrow> session_row \<Rightarrow> session_row" where
  "revoke_session_row now_text reason s =
     s\<lparr>ss_revoked_at := coalesce (ss_revoked_at s) now_text, ss_revoke_reason := coalesce (ss_revoke_reason s) reason\<rparr>"

definition revoke_token_row :: "stamp \<Rightarrow> token_row \<Rightarrow> token_row" where
  "revoke_token_row now_text t = t\<lparr>tk_revoked_at := coalesce (tk_revoked_at t) now_text\<rparr>"

text \<open>The four claims \<open>rotate_refresh_token\<close> reads; \<open>None\<close> is its early return.\<close>

definition refresh_claims ::
  "('a auth_env_scheme) \<Rightarrow> pyval \<Rightarrow> (int \<times> string \<times> string \<times> string) option" where
  "refresh_claims E payload =
     (case payload of
        PDict kvs \<Rightarrow>
          (case (map_of kvs (PStr ''sub''), map_of kvs (PStr ''jti''), map_of kvs (PStr ''sid''),
                 map_of kvs (PStr ''family_id'')) of
             (Some sub, Some jti, Some sid, Some fam) \<Rightarrow>
               (case py_int sub of
                  Inl e \<Rightarrow> None
                | Inr user_id \<Rightarrow>
                    if py_str E jti = [] \<or> py_str E sid = [] \<or> py_str E fam = [] then None
                    else Some (user_id, py_str E jti, py_str E sid, py_str E fam))
           | _ \<Rightarrow> None)
      | _ \<Rightarrow> None)"

definition refresh_valid ::
  "('a auth_env_scheme) \<Rightarrow> stamp \<Rightarrow> string \<Rightarrow> int \<Rightarrow> string \<Rightarrow> session_row option \<Rightarrow> token_row option \<Rightarrow> bool" where
  "refresh_valid E now_text refresh_token user_id family_id session token =
     (case session of
        None \<Rightarrow> False
      | Some s \<Rightarrow>
          ss_user_id s = user_id \<and> ss_family_id s = family_id \<and>
          (case token of None \<Rightarrow> '''' | Some t \<Rightarrow> tk_hash t) = sha256_digest E refresh_token \<and>
          Option.bind token tk_used_at = None \<and> Option.bind token tk_revoked_at = None \<and>
          ss_revoked_at s = None \<and> ss_expires_at s > now_text)"

definition revoke_family :: "stamp \<Rightarrow> int \<Rightarrow> string \<Rightarrow> string \<Rightarrow> auth_db \<Rightarrow> auth_db" where
  "revoke_family now_text user_id session_id family_id db =
     db\<lparr>auth_sessions :=
          sql_update (\<lambda>s. ss_id s = session_id \<and> ss_user_id s = user_id \<and> ss_family_id s = family_id)
            (revoke_session_row now_text ''refresh_replay_or_invalid'') (auth_sessions db),
        auth_refresh_tokens :=
          sql_update (\<lambda>t. tk_user_id t = user_id \<and> tk_family_id t = family_id)
            (revoke_token_row now_text) (auth_refresh_tokens db)\<rparr>"

definition unused_token :: "string \<Rightarrow> token_row \<Rightarrow> bool" where
  "unused_token jti t = (tk_jti t = jti \<and> tk_used_at t = None \<and> tk_revoked_at t = None)"

definition use_token :: "stamp \<Rightarrow> token_row \<Rightarrow> token_row" where
  "use_token now_text t = t\<lparr>tk_used_at := Some now_text\<rparr>"

text \<open>A rotation; \<open>Inl\<close> is an exception, after which nothing of it is committed.\<close>

definition rotate_refresh_token ::
  "('a auth_env_scheme) \<Rightarrow> int \<Rightarrow> uuids \<Rightarrow> string \<Rightarrow> pyval \<Rightarrow> string \<Rightarrow> string list \<Rightarrow> auth_db \<Rightarrow>
   (auth_db \<times> (string \<times> string) option) result" where
  "rotate_refresh_token E now ids refresh_token payload username permissions db =
     (case refresh_claims E payload of
        None \<Rightarrow> Inr (db, None)
      | Some (user_id, token_jti, session_id, family_id) \<Rightarrow>
          if \<not> refresh_valid E (timestamp now) refresh_token user_id family_id
                (find_session db session_id) (find_token db token_jti)
          then Inr (revoke_family (timestamp now) user_id session_id family_id db, None)
          else if sql_count (unused_token token_jti) (auth_refresh_tokens db) \<noteq> 1 then Inr (db, None)
          else
            let db1 = db\<lparr>auth_refresh_tokens :=
                  sql_update (unused_token token_jti) (use_token (timestamp now)) (auth_refresh_tokens db)\<rparr>;
                next_refresh = new_refresh_token E now (id_refresh ids) user_id username session_id family_id
            in rbind (insert_refresh_token
                 (new_token_row E now (id_refresh ids) next_refresh user_id session_id family_id) db1) (\<lambda>db2.
               Inr (db2\<lparr>auth_sessions :=
                      sql_update (\<lambda>s. ss_id s = session_id) (\<lambda>s. s\<lparr>ss_last_seen_at := timestamp now\<rparr>)
                        (auth_sessions db2)\<rparr>,
                    Some (create_access_token E now (id_access ids) user_id username permissions (Some session_id),
                          next_refresh))))"

definition session_is_active :: "int \<Rightarrow> int \<Rightarrow> string \<Rightarrow> auth_db \<Rightarrow> bool" where
  "session_is_active now user_id session_id db =
     list_ex (\<lambda>s. ss_id s = session_id \<and> ss_user_id s = user_id \<and> ss_revoked_at s = None \<and>
        ss_expires_at s > timestamp now) (auth_sessions db)"

text \<open>The empty string is falsy, so it selects every session of the user, as \<open>None\<close> does.\<close>

definition revoke_session :: "int \<Rightarrow> int \<Rightarrow> string option \<Rightarrow> string \<Rightarrow> auth_db \<Rightarrow> auth_db \<times> nat" where
  "revoke_session now user_id session_id reason db =
     (let one = (session_id \<noteq> None \<and> session_id \<noteq> Some []);
          hit = (\<lambda>s. ss_user_id s = user_id \<and> (one \<longrightarrow> Some (ss_id s) = session_id) \<and> ss_revoked_at s = None)
      in (db\<lparr>auth_sessions := sql_update hit (revoke_session_row (timestamp now) reason) (auth_sessions db),
             auth_refresh_tokens :=
               sql_update (\<lambda>t. tk_user_id t = user_id \<and> (one \<longrightarrow> Some (tk_session_id t) = session_id))
                 (revoke_token_row (timestamp now)) (auth_refresh_tokens db)\<rparr>,
          sql_count hit (auth_sessions db)))"

definition list_sessions :: "int \<Rightarrow> auth_db \<Rightarrow> session_row list" where
  "list_sessions user_id db =
     rev (sort_key ss_last_seen_at (filter (\<lambda>s. ss_user_id s = user_id) (auth_sessions db)))"

end
