(* ===== verification/Auth_Service.thy ===== *)
theory Auth_Service
  imports Auth_Store
begin

text \<open>
  The requests on accounts and sessions: authentication of a bearer token and the permission check
  (\<open>backend/dependencies.py\<close>), registration, login, refresh, logout and session revocation
  (\<open>backend/api/auth.py\<close>), user administration (\<open>backend/api/admin.py\<close>) and the WebSocket handshake
  (\<open>backend/ws/auth.py\<close>).

  A handler maps the database to the database after it with the response, \<open>Inl\<close> being the exception
  it raises; what it committed before raising stays. A request reads each clock once. Bodies come in
  as records; the checks of their pydantic models answer 422. \<open>auth_request\<close> lists the requests and
  \<open>handle\<close> serves one, so that a history of the service is a list of requests.
\<close>

record request_ctx =
  rq_now :: int
  rq_monotonic :: rat
  rq_host :: "string option"
  rq_ids :: uuids

subsection \<open>The current user\<close>

record current_user =
  cu_id :: int
  cu_username :: string
  cu_is_admin :: bool
  cu_permissions :: "string list"
  cu_jti :: pyval
  cu_session_id :: "string option"

definition sid_of :: "pyval \<Rightarrow> string option" where
  "sid_of v = (case v of PStr sid \<Rightarrow> Some sid | _ \<Rightarrow> None)"

text \<open>A stateful token names a session; one without \<open>sid\<close> was issued before sessions existed.\<close>

definition session_refused :: "int \<Rightarrow> int \<Rightarrow> pyval \<Rightarrow> auth_db \<Rightarrow> bool" where
  "session_refused now user_id sid db =
     (truthy sid \<and>
      (case sid_of sid of None \<Rightarrow> True | Some session_id \<Rightarrow> \<not> session_is_active now user_id session_id db))"

definition get_current_user ::
  "('a auth_env_scheme) \<Rightarrow> int \<Rightarrow> string option \<Rightarrow> auth_db \<Rightarrow> current_user result" where
  "get_current_user E now credentials db =
     (case Option.bind credentials (decode_token E now) of
        None \<Rightarrow> Inl (HTTPException 401)
      | Some payload \<Rightarrow>
          if pget payload ''type'' \<noteq> PStr ''access'' then Inl (HTTPException 401)
          else if \<not> truthy (pget payload ''sub'') then Inl (HTTPException 401)
          else case py_int (pget payload ''sub'') of
            Inl e \<Rightarrow> Inl (HTTPException 500)
          | Inr user_id \<Rightarrow>
              (case find_user db user_id of
                 None \<Rightarrow> Inl (HTTPException 401)
               | Some row \<Rightarrow>
                   if \<not> u_is_active row then Inl (HTTPException 403)
                   else if session_refused now user_id (pget payload ''sid'') db then Inl (HTTPException 401)
                   else Inr \<lparr>cu_id = u_id row, cu_username = u_username row, cu_is_admin = u_is_admin row,
                             cu_permissions = permissions_of db user_id, cu_jti = pget payload ''jti'',
                             cu_session_id = sid_of (pget payload ''sid'')\<rparr>))"

definition require_permission :: "string \<Rightarrow> current_user \<Rightarrow> current_user result" where
  "require_permission permission user =
     (if cu_is_admin user \<or> permission \<in> set (cu_permissions user) then Inr user
      else Inl (HTTPException 403))"

subsection \<open>Accounts\<close>

record account_body =
  ab_username :: string
  ab_password :: string
  ab_display_name :: "string option"
  ab_email :: "string option"
  ab_is_admin :: bool

definition username_char :: "char \<Rightarrow> bool" where
  "username_char c =
     (let n = of_char c :: nat in
      65 \<le> n \<and> n \<le> 90 \<or> 97 \<le> n \<and> n \<le> 122 \<or> 48 \<le> n \<and> n \<le> 57 \<or> n = 95 \<or> n = 46 \<or> n = 45)"

definition credentials_ok :: "account_body \<Rightarrow> bool" where
  "credentials_ok body =
     (3 \<le> length (ab_username body) \<and> length (ab_username body) \<le> 64 \<and>
      list_all username_char (ab_username body) \<and>
      8 \<le> length (ab_password body) \<and> length (ab_password body) \<le> 72 \<and>
      (case ab_display_name body of None \<Rightarrow> True | Some d \<Rightarrow> length d \<le> 100))"

definition create_body_ok :: "account_body \<Rightarrow> bool" where
  "create_body_ok body =
     (credentials_ok body \<and> (case ab_email body of None \<Rightarrow> True | Some m \<Rightarrow> length m \<le> 254))"

definition insert_user :: "('a auth_env_scheme) \<Rightarrow> int \<Rightarrow> account_body \<Rightarrow> bool \<Rightarrow> auth_db \<Rightarrow> auth_db" where
  "insert_user E now body is_admin db =
     db\<lparr>users := users db @
          [\<lparr>u_id = next_user_id db, u_username = ab_username body,
            u_password_hash = bcrypt_hashpw E (ab_password body), u_display_name = ab_display_name body,
            u_email = ab_email body, u_is_admin = is_admin, u_is_active = True,
            u_created_at = now div 1000000, u_last_login = None\<rparr>],
        next_user_id := next_user_id db + 1\<rparr>"

definition insert_permission :: "int \<Rightarrow> int \<Rightarrow> string \<Rightarrow> auth_db \<Rightarrow> auth_db result" where
  "insert_permission user_id granted_by perm db =
     (if list_ex (\<lambda>r. pr_user_id r = user_id \<and> pr_permission r = perm) (user_permissions db) \<or>
         find_user db user_id = None
      then Inl IntegrityError
      else Inr (db\<lparr>user_permissions := user_permissions db @
                     [\<lparr>pr_user_id = user_id, pr_permission = perm, pr_granted_by = granted_by\<rparr>]\<rparr>))"

definition viewer_perms :: "string list" where
  "viewer_perms = [''experiments:read'', ''trading:read'', ''data:read'', ''strategies:read'']"

definition is_bootstrap_admin :: "('a auth_env_scheme) \<Rightarrow> string option \<Rightarrow> auth_db \<Rightarrow> bool" where
  "is_bootstrap_admin E bootstrap_token db =
     (users db = [] \<and>
      (ENVIRONMENT E \<noteq> ''production'' \<or>
       (BOOTSTRAP_ADMIN_TOKEN E \<noteq> [] \<and>
        (case bootstrap_token of None \<Rightarrow> [] | Some b \<Rightarrow> b) = BOOTSTRAP_ADMIN_TOKEN E)))"

definition add_account ::
  "('a auth_env_scheme) \<Rightarrow> int \<Rightarrow> account_body \<Rightarrow> bool \<Rightarrow> int \<Rightarrow> auth_db \<Rightarrow> auth_db \<times> unit result" where
  "add_account E now body is_admin granted_by db =
     (if list_ex (\<lambda>u. u_username u = ab_username body) (users db) then (db, Inl (HTTPException 409))
      else
        let db1 = insert_user E now body is_admin db
        in if is_admin then (db1, Inr ())
           else case rfold (insert_permission (next_user_id db) granted_by) viewer_perms db1 of
               Inl e \<Rightarrow> (db1, Inl (HTTPException 500))
             | Inr db2 \<Rightarrow> (db2, Inr ()))"

definition register ::
  "('a auth_env_scheme) \<Rightarrow> request_ctx \<Rightarrow> account_body \<Rightarrow> string option \<Rightarrow> auth_db \<Rightarrow>
   auth_db \<times> (int \<times> bool \<times> string \<times> string) result" where
  "register E rq body bootstrap_token db =
     (if \<not> credentials_ok body then (db, Inl (HTTPException 422))
      else
        let is_admin = is_bootstrap_admin E bootstrap_token db; user_id = next_user_id db
        in sbind (add_account E (rq_now rq) body is_admin user_id db) (\<lambda>_ db1.
             case issue_new_session E (rq_now rq) (rq_ids rq) user_id (ab_username body) [] db1 of
               Inl e \<Rightarrow> (db1, Inl (HTTPException 503))
             | Inr (db2, tokens) \<Rightarrow> (db2, Inr (user_id, is_admin, tokens))))"

definition login ::
  "('a auth_env_scheme) \<Rightarrow> request_ctx \<Rightarrow> string \<Rightarrow> string \<Rightarrow> auth_db \<Rightarrow>
   auth_db \<times> (int \<times> bool \<times> string \<times> string) result" where
  "login E rq username password db =
     sbind (limit_login E (rq_monotonic rq) (rq_host rq) username db) (\<lambda>_ db.
       case find (\<lambda>u. u_username u = username) (users db) of
         None \<Rightarrow> (db, Inl (HTTPException 401))
       | Some row \<Rightarrow>
           (case bcrypt_checkpw E password (u_password_hash row) of
              Inl e \<Rightarrow> (db, Inl (HTTPException 500))
            | Inr ok \<Rightarrow>
                if \<not> ok then (db, Inl (HTTPException 401))
                else if \<not> u_is_active row then (db, Inl (HTTPException 403))
                else
                  let db1 = db\<lparr>users := sql_update (\<lambda>u. u_id u = u_id row)
                              (\<lambda>u. u\<lparr>u_last_login := Some (rq_now rq div 1000000)\<rparr>) (users db)\<rparr>
                  in case issue_new_session E (rq_now rq) (rq_ids rq) (u_id row) (u_username row) [] db1 of
                       Inl e \<Rightarrow> (db, Inl (HTTPException 500))
                     | Inr (db2, tokens) \<Rightarrow> (db2, Inr (u_id row, u_is_admin row, tokens))))"

definition refresh_token ::
  "('a auth_env_scheme) \<Rightarrow> request_ctx \<Rightarrow> string \<Rightarrow> auth_db \<Rightarrow> auth_db \<times> (string \<times> string) result" where
  "refresh_token E rq token db =
     sbind (limit_refresh E (rq_monotonic rq) (rq_host rq) db) (\<lambda>_ db.
       case decode_token E (rq_now rq) token of
         None \<Rightarrow> (db, Inl (HTTPException 401))
       | Some payload \<Rightarrow>
           if pget payload ''type'' \<noteq> PStr ''refresh'' then (db, Inl (HTTPException 401))
           else case py_int (pget payload ''sub'') of
             Inl e \<Rightarrow> (db, Inl (HTTPException 401))
           | Inr user_id \<Rightarrow>
               (case find_user db user_id of
                  None \<Rightarrow> (db, Inl (HTTPException 401))
                | Some row \<Rightarrow>
                    if \<not> u_is_active row then (db, Inl (HTTPException 401))
                    else case rotate_refresh_token E (rq_now rq) (rq_ids rq) token payload (u_username row) [] db of
                        Inl e \<Rightarrow> (db, Inl (HTTPException 401))
                      | Inr (db1, tokens) \<Rightarrow>
                          (case tokens of
                             None \<Rightarrow> (db1, Inl (HTTPException 401))
                           | Some ts \<Rightarrow> (db1, Inr ts))))"

subsection \<open>Sessions of the caller\<close>

definition get_sessions ::
  "('a auth_env_scheme) \<Rightarrow> request_ctx \<Rightarrow> string option \<Rightarrow> auth_db \<Rightarrow> auth_db \<times> (session_row \<times> bool) list result" where
  "get_sessions E rq credentials db =
     sbind (db, get_current_user E (rq_now rq) credentials db) (\<lambda>user db.
     sbind (limit_sensitive E (rq_monotonic rq) (rq_host rq) (cu_id user) db) (\<lambda>_ db.
       (db, Inr (map (\<lambda>s. (s, Some (ss_id s) = cu_session_id user)) (list_sessions (cu_id user) db)))))"

definition logout ::
  "('a auth_env_scheme) \<Rightarrow> request_ctx \<Rightarrow> string option \<Rightarrow> bool \<Rightarrow> auth_db \<Rightarrow> auth_db \<times> nat result" where
  "logout E rq credentials all_sessions db =
     sbind (db, get_current_user E (rq_now rq) credentials db) (\<lambda>user db.
     sbind (limit_sensitive E (rq_monotonic rq) (rq_host rq) (cu_id user) db) (\<lambda>_ db.
       if \<not> all_sessions \<and> cu_session_id user = None then (db, Inl (HTTPException 409))
       else
         case revoke_session (rq_now rq) (cu_id user) (if all_sessions then None else cu_session_id user)
                (if all_sessions then ''user_logout_all'' else ''user_logout'') db of
           (db1, revoked) \<Rightarrow> (db1, Inr revoked)))"

definition delete_session ::
  "('a auth_env_scheme) \<Rightarrow> request_ctx \<Rightarrow> string option \<Rightarrow> string \<Rightarrow> auth_db \<Rightarrow> auth_db \<times> unit result" where
  "delete_session E rq credentials session_id db =
     sbind (db, get_current_user E (rq_now rq) credentials db) (\<lambda>user db.
       if length session_id \<noteq> 32 \<or> list_ex (\<lambda>c. c \<notin> set ''0123456789abcdef'') session_id
       then (db, Inl (HTTPException 404))
       else
         sbind (limit_sensitive E (rq_monotonic rq) (rq_host rq) (cu_id user) db) (\<lambda>_ db.
           case revoke_session (rq_now rq) (cu_id user) (Some session_id) ''user_session_revoke'' db of
             (db1, revoked) \<Rightarrow> (db1, if revoked = 0 then Inl (HTTPException 404) else Inr ())))"

subsection \<open>Administration\<close>

definition admin_guard ::
  "('a auth_env_scheme) \<Rightarrow> request_ctx \<Rightarrow> string option \<Rightarrow> auth_db \<Rightarrow> auth_db \<times> current_user result" where
  "admin_guard E rq credentials db =
     sbind (db, rbind (get_current_user E (rq_now rq) credentials db) (require_permission ''admin:users''))
       (\<lambda>user db.
     sbind (limit_sensitive E (rq_monotonic rq) (rq_host rq) (cu_id user) db) (\<lambda>_ db. (db, Inr user)))"

datatype role_label = Administrator | Operator | Read_only

definition role_of :: "user \<Rightarrow> nat \<Rightarrow> role_label" where
  "role_of row perm_count =
     (if u_is_admin row then Administrator else if perm_count > 5 then Operator else Read_only)"

definition list_users ::
  "('a auth_env_scheme) \<Rightarrow> request_ctx \<Rightarrow> string option \<Rightarrow> auth_db \<Rightarrow>
   auth_db \<times> (user \<times> role_label \<times> string list) list result" where
  "list_users E rq credentials db =
     sbind (admin_guard E rq credentials db) (\<lambda>user db.
       (db, Inr (map (\<lambda>row. let perms = sort (permissions_of db (u_id row))
                            in (row, role_of row (length perms), perms))
              (rev (sort_key u_created_at (users db))))))"

definition create_user ::
  "('a auth_env_scheme) \<Rightarrow> request_ctx \<Rightarrow> string option \<Rightarrow> account_body \<Rightarrow> auth_db \<Rightarrow> auth_db \<times> int result" where
  "create_user E rq credentials body db =
     sbind (admin_guard E rq credentials db) (\<lambda>user db.
       if \<not> create_body_ok body then (db, Inl (HTTPException 422))
       else sbind (add_account E (rq_now rq) body (ab_is_admin body) (cu_id user) db) (\<lambda>_ db1.
              (db1, Inr (next_user_id db))))"

definition ALL_PERMISSIONS :: "string list" where
  "ALL_PERMISSIONS =
     [''experiments:read'', ''experiments:create'', ''experiments:delete'', ''experiments:sweep'',
      ''experiments:promote'', ''trading:read'', ''trading:deploy'', ''trading:execute'',
      ''trading:rebalance'', ''data:read'', ''data:update'', ''strategies:read'', ''strategies:scan'',
      ''ai:use'', ''admin:users'']"

definition update_user_permissions ::
  "('a auth_env_scheme) \<Rightarrow> request_ctx \<Rightarrow> string option \<Rightarrow> int \<Rightarrow> string list \<Rightarrow> auth_db \<Rightarrow> auth_db \<times> unit result" where
  "update_user_permissions E rq credentials target permissions db =
     sbind (admin_guard E rq credentials db) (\<lambda>user db.
       let requested = sort (remdups permissions)
       in if list_ex (\<lambda>p. p \<notin> set ALL_PERMISSIONS) requested then (db, Inl (HTTPException 400))
          else case find_user db target of
              None \<Rightarrow> (db, Inl (HTTPException 404))
            | Some row \<Rightarrow>
                if u_is_admin row then (db, Inr ())
                else
                  (case rfold (insert_permission target (cu_id user)) requested
                     (db\<lparr>user_permissions := sql_delete (\<lambda>r. pr_user_id r = target) (user_permissions db)\<rparr>) of
                     Inl e \<Rightarrow> (db, Inl (HTTPException 500))
                   | Inr db1 \<Rightarrow> (db1, Inr ())))"

definition set_user_active :: "int \<Rightarrow> bool \<Rightarrow> auth_db \<Rightarrow> auth_db" where
  "set_user_active target is_active db =
     db\<lparr>users := sql_update (\<lambda>u. u_id u = target) (\<lambda>u. u\<lparr>u_is_active := is_active\<rparr>) (users db)\<rparr>"

definition drop_legacy_sessions :: "int \<Rightarrow> auth_db \<Rightarrow> auth_db" where
  "drop_legacy_sessions target db =
     db\<lparr>user_sessions := sql_delete (\<lambda>r. fst r = target) (user_sessions db)\<rparr>"

definition update_user_status ::
  "('a auth_env_scheme) \<Rightarrow> request_ctx \<Rightarrow> string option \<Rightarrow> int \<Rightarrow> bool \<Rightarrow> auth_db \<Rightarrow> auth_db \<times> unit result" where
  "update_user_status E rq credentials target is_active db =
     sbind (admin_guard E rq credentials db) (\<lambda>user db.
       if target = cu_id user then (db, Inl (HTTPException 400))
       else if sql_count (\<lambda>u. u_id u = target) (users db) = 0 then (db, Inl (HTTPException 404))
       else
         let db1 = set_user_active target is_active db
         in (if is_active then db1
             else fst (revoke_session (rq_now rq) target None ''admin_account_disabled''
                    (drop_legacy_sessions target db1)), Inr ()))"

definition delete_user ::
  "('a auth_env_scheme) \<Rightarrow> request_ctx \<Rightarrow> string option \<Rightarrow> int \<Rightarrow> auth_db \<Rightarrow> auth_db \<times> unit result" where
  "delete_user E rq credentials target db =
     sbind (admin_guard E rq credentials db) (\<lambda>user db.
       if target = cu_id user then (db, Inl (HTTPException 400))
       else if find_user db target = None then (db, Inl (HTTPException 404))
       else
         let db1 = set_user_active target False db;
             db2 = db1\<lparr>user_permissions := sql_delete (\<lambda>r. pr_user_id r = target) (user_permissions db1)\<rparr>
         in (fst (revoke_session (rq_now rq) target None ''admin_account_deactivated''
               (drop_legacy_sessions target db2)), Inr ()))"

subsection \<open>The WebSocket handshake\<close>

datatype first_frame = Frame_timeout | Frame_failed | Frame pyval

definition websocket_token :: "first_frame \<Rightarrow> string option" where
  "websocket_token frame =
     (case frame of
        Frame message \<Rightarrow>
          (case sid_of (pget message ''token'') of
             None \<Rightarrow> None
           | Some token \<Rightarrow>
               if pget message ''type'' = PStr ''authenticate'' \<and> token \<noteq> [] \<and> length token \<le> 4096
               then Some token else None)
      | _ \<Rightarrow> None)"

text \<open>
  \<open>Inl code\<close> is the close code sent to the peer. The owner of the resource is its \<open>user_id\<close> column,
  \<open>None\<close> when the row does not exist.
\<close>

definition resource_denied :: "pyval option option \<Rightarrow> int \<Rightarrow> bool result" where
  "resource_denied resource user_id =
     (case resource of
        None \<Rightarrow> Inr False
      | Some None \<Rightarrow> Inr True
      | Some (Some owner) \<Rightarrow> rbind (py_int owner) (\<lambda>i. Inr (i \<noteq> user_id)))"

definition authenticate_websocket ::
  "('a auth_env_scheme) \<Rightarrow> int \<Rightarrow> string list \<Rightarrow> first_frame \<Rightarrow> string option \<Rightarrow> pyval option option \<Rightarrow> auth_db \<Rightarrow>
   (int + int \<times> string \<times> bool) result" where
  "authenticate_websocket E now query_params frame permission resource db =
     (if list_ex (\<lambda>k. str_lower k \<in> {''token'', ''access_token'', ''authorization''}) query_params
      then Inr (Inl 4401)
      else case Option.bind (websocket_token frame) (decode_token E now) of
        None \<Rightarrow> Inr (Inl 4401)
      | Some payload \<Rightarrow>
          if pget payload ''type'' \<noteq> PStr ''access'' \<or> \<not> truthy (pget payload ''sub'') then Inr (Inl 4401)
          else case py_int (pget payload ''sub'') of
            Inl e \<Rightarrow> Inr (Inl 4401)
          | Inr user_id \<Rightarrow>
              (case find_user db user_id of
                 None \<Rightarrow> Inr (Inl 4401)
               | Some row \<Rightarrow>
                   if \<not> u_is_active row then Inr (Inl 4401)
                   else if session_refused now user_id (pget payload ''sid'') db then Inr (Inl 4401)
                   else if \<not> u_is_admin row \<and>
                      (case permission of None \<Rightarrow> False | Some p \<Rightarrow> p \<noteq> [] \<and> p \<notin> set (permissions_of db user_id))
                   then Inr (Inl 4403)
                   else if u_is_admin row then Inr (Inr (user_id, u_username row, True))
                   else rbind (resource_denied resource user_id) (\<lambda>denied.
                     Inr (if denied then Inl 4403 else Inr (user_id, u_username row, False)))))"

subsection \<open>Histories\<close>

datatype auth_request =
    Register account_body "string option"
  | Login string string
  | Refresh string
  | Get_sessions "string option"
  | Logout "string option" bool
  | Delete_session "string option" string
  | List_users "string option"
  | Create_user "string option" account_body
  | Update_user_permissions "string option" int "string list"
  | Update_user_status "string option" int bool
  | Delete_user "string option" int

fun handle :: "('a auth_env_scheme) \<Rightarrow> request_ctx \<times> auth_request \<Rightarrow> auth_db \<Rightarrow> auth_db" where
  "handle E (rq, Register body bt) db = fst (register E rq body bt db)"
| "handle E (rq, Login name pw) db = fst (login E rq name pw db)"
| "handle E (rq, Refresh tok) db = fst (refresh_token E rq tok db)"
| "handle E (rq, Get_sessions c) db = fst (get_sessions E rq c db)"
| "handle E (rq, Logout c al) db = fst (logout E rq c al db)"
| "handle E (rq, Delete_session c sid) db = fst (delete_session E rq c sid db)"
| "handle E (rq, List_users c) db = fst (list_users E rq c db)"
| "handle E (rq, Create_user c body) db = fst (create_user E rq c body db)"
| "handle E (rq, Update_user_permissions c i ps) db = fst (update_user_permissions E rq c i ps db)"
| "handle E (rq, Update_user_status c i a) db = fst (update_user_status E rq c i a db)"
| "handle E (rq, Delete_user c i) db = fst (delete_user E rq c i db)"

definition auth_run :: "('a auth_env_scheme) \<Rightarrow> (request_ctx \<times> auth_request) list \<Rightarrow> auth_db \<Rightarrow> auth_db" where
  "auth_run E reqs db = fold (handle E) reqs db"

definition empty_auth_db :: auth_db where
  "empty_auth_db =
     \<lparr>users = [], user_permissions = [], user_sessions = [], auth_sessions = [], auth_refresh_tokens = [],
      next_user_id = 1, attempts = []\<rparr>"

end
