(* ===== verification/Auth_History.thy ===== *)
theory Auth_History
  imports Auth_Service
begin

text \<open>
  How the session tables evolve. Rows are only ever appended, and a row keeps its identity, its
  expiry and every revocation or use recorded in it. The locale \<open>row_history\<close> is the contract of
  such a table; it is interpreted on the session rows and on the refresh tokens, and every handler
  is shown to respect both histories (\<open>auth_evolves\<close>) and to keep the keys of the tables consistent
  (\<open>auth_ok\<close>).
\<close>

named_theorems auth_frame "tables of the users database an operation leaves alone"

subsection \<open>Tables that only grow\<close>

definition grows :: "('r \<Rightarrow> 'r \<Rightarrow> bool) \<Rightarrow> 'r list \<Rightarrow> 'r list \<Rightarrow> bool" where
  "grows R xs ys = (\<exists>old new. ys = old @ new \<and> list_all2 R xs old)"

lemma grows_append:
  assumes "list_all2 R xs ys"
  shows "grows R xs (ys @ new)"
  using assms by (auto simp: grows_def)

lemma find_list_all2_key:
  assumes "list_all2 R xs ys" and "\<And>x y. R x y \<Longrightarrow> k y = k x" and "find (\<lambda>x. k x = a) xs = Some x"
  shows "\<exists>y. find (\<lambda>y. k y = a) ys = Some y \<and> R x y"
  using assms by (induction rule: list_all2_induct) auto

locale row_history =
  fixes keeps :: "'r \<Rightarrow> 'r \<Rightarrow> bool" and key :: "'r \<Rightarrow> 'k"
  assumes keeps_refl: "keeps r r"
    and keeps_trans: "keeps r s \<Longrightarrow> keeps s t \<Longrightarrow> keeps r t"
    and keeps_key: "keeps r s \<Longrightarrow> key s = key r"
begin

lemma grows_refl: "grows keeps xs xs"
  by (auto simp: grows_def intro!: list.rel_refl keeps_refl)

lemma grows_trans:
  assumes "grows keeps xs ys" and "grows keeps ys zs"
  shows "grows keeps xs zs"
proof -
  obtain o1 n1 o2 n2 where "ys = o1 @ n1" "list_all2 keeps xs o1" "zs = o2 @ n2" "list_all2 keeps ys o2"
    using assms by (auto simp: grows_def)
  moreover then obtain a b where "o2 = a @ b" "list_all2 keeps o1 a"
    by (auto simp: list_all2_append1)
  moreover have "list_all2 keeps xs a"
    using \<open>list_all2 keeps xs o1\<close> \<open>list_all2 keeps o1 a\<close> by (rule list_all2_trans [rotated]) (rule keeps_trans)
  ultimately show ?thesis by (auto simp: grows_def)
qed

lemma list_all2_update:
  assumes "\<And>r. p r \<Longrightarrow> keeps r (f r)"
  shows "list_all2 keeps xs (sql_update p f xs)"
  using assms by (auto simp: sql_update_def list_all2_map2 intro!: list.rel_refl_strong keeps_refl)

lemma grows_update:
  assumes "\<And>r. p r \<Longrightarrow> keeps r (f r)"
  shows "grows keeps xs (sql_update p f xs)"
  using grows_append [OF list_all2_update [OF assms], of p xs "[]"] by simp

lemma grows_snoc: "grows keeps xs (xs @ new)"
  by (rule grows_append) (auto intro!: list.rel_refl keeps_refl)

lemma grows_find:
  assumes "grows keeps xs ys" and "find (\<lambda>r. key r = a) xs = Some r"
  shows "\<exists>s. find (\<lambda>r. key r = a) ys = Some s \<and> keeps r s"
proof -
  obtain old new where 1: "ys = old @ new" "list_all2 keeps xs old"
    using assms(1) by (auto simp: grows_def)
  obtain s where "find (\<lambda>r. key r = a) old = Some s" "keeps r s"
    using find_list_all2_key [OF 1(2) keeps_key assms(2)] by blast
  moreover then have "find (\<lambda>r. key r = a) (old @ new) = Some s"
    by (induction old) auto
  ultimately show ?thesis using 1(1) by auto
qed

lemma keys_update:
  assumes "\<And>r. p r \<Longrightarrow> keeps r (f r)"
  shows "map key (sql_update p f xs) = map key xs"
  using assms by (simp add: map_sql_update keeps_key)

end

definition keeps_opt :: "'a option \<Rightarrow> 'a option \<Rightarrow> bool" where
  "keeps_opt x y = (x = None \<or> y = x)"

lemma keeps_opt_simps [simp, intro]: "keeps_opt x x" "keeps_opt None y" "keeps_opt x (coalesce x a)"
  by (auto simp: keeps_opt_def coalesce_def split: option.splits)

lemma keeps_optD: "keeps_opt x y \<Longrightarrow> x \<noteq> None \<Longrightarrow> y = x"
  by (simp add: keeps_opt_def)

definition session_keeps :: "session_row \<Rightarrow> session_row \<Rightarrow> bool" where
  "session_keeps s s' =
     (ss_id s' = ss_id s \<and> ss_user_id s' = ss_user_id s \<and> ss_family_id s' = ss_family_id s \<and>
      ss_expires_at s' = ss_expires_at s \<and> keeps_opt (ss_revoked_at s) (ss_revoked_at s'))"

definition token_keeps :: "token_row \<Rightarrow> token_row \<Rightarrow> bool" where
  "token_keeps t t' =
     (tk_jti t' = tk_jti t \<and> tk_hash t' = tk_hash t \<and> tk_session_id t' = tk_session_id t \<and>
      tk_family_id t' = tk_family_id t \<and> tk_user_id t' = tk_user_id t \<and>
      keeps_opt (tk_used_at t) (tk_used_at t') \<and> keeps_opt (tk_revoked_at t) (tk_revoked_at t'))"

interpretation sessions: row_history session_keeps ss_id
  by unfold_locales (auto simp: session_keeps_def keeps_opt_def)

interpretation tokens: row_history token_keeps tk_jti
  by unfold_locales (auto simp: token_keeps_def keeps_opt_def)

lemma session_keeps_rows [simp, intro]:
  "session_keeps s (revoke_session_row a r s)" "session_keeps s (s\<lparr>ss_last_seen_at := b\<rparr>)"
  by (simp_all add: session_keeps_def revoke_session_row_def)

lemma token_keeps_revoke [simp, intro]: "token_keeps t (revoke_token_row a t)"
  by (simp add: token_keeps_def revoke_token_row_def)

lemma token_keeps_use: "unused_token j t \<Longrightarrow> token_keeps t (use_token a t)"
  by (simp add: token_keeps_def use_token_def unused_token_def)

subsection \<open>The evolution of the database\<close>

definition auth_evolves :: "auth_db \<Rightarrow> auth_db \<Rightarrow> bool" where
  "auth_evolves db db' =
     (grows session_keeps (auth_sessions db) (auth_sessions db') \<and>
      grows token_keeps (auth_refresh_tokens db) (auth_refresh_tokens db'))"

lemma auth_evolves_refl [simp, intro]: "auth_evolves db db"
  by (simp add: auth_evolves_def sessions.grows_refl tokens.grows_refl)

lemma auth_evolves_trans: "auth_evolves db db' \<Longrightarrow> auth_evolves db' db'' \<Longrightarrow> auth_evolves db db''"
  unfolding auth_evolves_def using sessions.grows_trans tokens.grows_trans by blast

lemma auth_evolves_same:
  "auth_sessions db' = auth_sessions db \<Longrightarrow> auth_refresh_tokens db' = auth_refresh_tokens db \<Longrightarrow> auth_evolves db db'"
  by (simp add: auth_evolves_def sessions.grows_refl tokens.grows_refl)

lemma evolves_session:
  assumes "auth_evolves db db'" and "find_session db sid = Some s"
  shows "\<exists>s'. find_session db' sid = Some s' \<and> session_keeps s s'"
  using sessions.grows_find assms by (auto simp: auth_evolves_def find_session_def)

lemma evolves_token:
  assumes "auth_evolves db db'" and "find_token db jti = Some t"
  shows "\<exists>t'. find_token db' jti = Some t' \<and> token_keeps t t'"
  using tokens.grows_find assms by (auto simp: auth_evolves_def find_token_def)

subsection \<open>Consistent keys\<close>

definition token_of_session :: "session_row list \<Rightarrow> token_row \<Rightarrow> bool" where
  "token_of_session ss t =
     (\<exists>s\<in>set ss. ss_id s = tk_session_id t \<and> ss_user_id s = tk_user_id t \<and> ss_family_id s = tk_family_id t)"

definition sessions_ok :: "auth_db \<Rightarrow> bool" where
  "sessions_ok db =
     (distinct (map ss_id (auth_sessions db)) \<and> distinct (map tk_jti (auth_refresh_tokens db)) \<and>
      (\<forall>t\<in>set (auth_refresh_tokens db). token_of_session (auth_sessions db) t))"

definition accounts_ok :: "auth_db \<Rightarrow> bool" where
  "accounts_ok db =
     (distinct (map u_id (users db)) \<and> (\<forall>u\<in>set (users db). u_id u < next_user_id db) \<and>
      distinct (map u_username (users db)) \<and>
      distinct (map (\<lambda>r. (pr_user_id r, pr_permission r)) (user_permissions db)) \<and>
      (\<forall>r\<in>set (user_permissions db). is_valid_permission (pr_permission r) \<and> pr_user_id r \<in> u_id ` set (users db)))"

definition auth_ok :: "auth_db \<Rightarrow> bool" where
  "auth_ok db = (sessions_ok db \<and> accounts_ok db)"

lemma find_session_None: "find_session db sid = None \<longleftrightarrow> sid \<notin> ss_id ` set (auth_sessions db)"
  by (auto simp: find_session_def find_None_iff_all)

lemma find_token_None: "find_token db j = None \<longleftrightarrow> j \<notin> tk_jti ` set (auth_refresh_tokens db)"
  by (auto simp: find_token_def find_None_iff_all)

lemma find_user_None: "find_user db i = None \<longleftrightarrow> i \<notin> u_id ` set (users db)"
  by (auto simp: find_user_def find_None_iff_all)

lemma find_session_mem: "find_session db sid = Some s \<Longrightarrow> s \<in> set (auth_sessions db) \<and> ss_id s = sid"
  by (auto simp: find_session_def dest: find_Some_mem)

lemma find_token_mem: "find_token db j = Some t \<Longrightarrow> t \<in> set (auth_refresh_tokens db) \<and> tk_jti t = j"
  by (auto simp: find_token_def dest: find_Some_mem)

lemma find_user_mem: "find_user db i = Some u \<Longrightarrow> u \<in> set (users db) \<and> u_id u = i"
  by (auto simp: find_user_def dest: find_Some_mem)

lemma find_session_unique:
  assumes "sessions_ok db" and "s \<in> set (auth_sessions db)"
  shows "find_session db (ss_id s) = Some s"
  using assms by (simp add: sessions_ok_def find_session_def find_key_eq)

lemma find_token_unique:
  assumes "sessions_ok db" and "t \<in> set (auth_refresh_tokens db)"
  shows "find_token db (tk_jti t) = Some t"
  using assms by (simp add: sessions_ok_def find_token_def find_key_eq)

lemma token_of_session_keeps:
  assumes "grows session_keeps ss ss'" and "token_of_session ss t" and "token_keeps t t'"
  shows "token_of_session ss' t'"
proof -
  obtain old new where 1: "ss' = old @ new" "list_all2 session_keeps ss old"
    using assms(1) by (auto simp: grows_def)
  obtain s where "s \<in> set ss" "ss_id s = tk_session_id t" "ss_user_id s = tk_user_id t" "ss_family_id s = tk_family_id t"
    using assms(2) by (auto simp: token_of_session_def)
  moreover then obtain s' where "s' \<in> set old" "session_keeps s s'"
    using 1(2) by (metis in_set_conv_nth list_all2_conv_all_nth)
  ultimately show ?thesis
    using 1(1) assms(3) by (auto simp: token_of_session_def session_keeps_def token_keeps_def intro!: bexI [of _ s'])
qed

lemma sessions_ok_update:
  assumes "sessions_ok db" and "\<And>s. p s \<Longrightarrow> session_keeps s (f s)" and "\<And>t. q t \<Longrightarrow> token_keeps t (g t)"
    and "auth_sessions db' = sql_update p f (auth_sessions db)"
    and "auth_refresh_tokens db' = sql_update q g (auth_refresh_tokens db)"
  shows "sessions_ok db'"
proof -
  have "token_of_session (auth_sessions db') t'" if mem: "t' \<in> set (auth_refresh_tokens db')" for t'
  proof -
    obtain t where t: "t \<in> set (auth_refresh_tokens db)" "t' = (if q t then g t else t)"
      using mem by (auto simp: assms(5) in_sql_update)
    have "token_keeps t t'"
      using assms(3) tokens.keeps_refl by (simp add: t(2))
    moreover note t(1)
    moreover have "grows session_keeps (auth_sessions db) (auth_sessions db')"
      using sessions.grows_update [of p f] assms(2,4) by simp
    ultimately show ?thesis
      using token_of_session_keeps assms(1) by (auto simp: sessions_ok_def)
  qed
  moreover have "map ss_id (auth_sessions db') = map ss_id (auth_sessions db)"
    using sessions.keys_update [of p f] assms(2,4) by simp
  moreover have "map tk_jti (auth_refresh_tokens db') = map tk_jti (auth_refresh_tokens db)"
    using tokens.keys_update [of q g] assms(3,5) by simp
  ultimately show ?thesis using assms(1) by (simp add: sessions_ok_def)
qed

subsection \<open>The operations on sessions\<close>

lemma throttle_frame [auth_frame]:
  "users (fst (throttle m k l w db)) = users db"
  "user_permissions (fst (throttle m k l w db)) = user_permissions db"
  "auth_sessions (fst (throttle m k l w db)) = auth_sessions db"
  "auth_refresh_tokens (fst (throttle m k l w db)) = auth_refresh_tokens db"
  "next_user_id (fst (throttle m k l w db)) = next_user_id db"
  by (simp_all add: throttle_def split: prod.splits)

lemmas limit_defs = limit_login_def limit_refresh_def limit_sensitive_def

lemma insert_auth_session_Inr:
  assumes "insert_auth_session r db = Inr db'"
  shows "db' = db\<lparr>auth_sessions := auth_sessions db @ [r]\<rparr>" "ss_id r \<notin> ss_id ` set (auth_sessions db)"
    "ss_user_id r \<in> u_id ` set (users db)"
  using assms by (auto simp: insert_auth_session_def find_session_None find_user_None split: if_splits)

lemma insert_refresh_token_Inr:
  assumes "insert_refresh_token r db = Inr db'"
  shows "db' = db\<lparr>auth_refresh_tokens := auth_refresh_tokens db @ [r]\<rparr>"
    "tk_jti r \<notin> tk_jti ` set (auth_refresh_tokens db)" "tk_hash r \<notin> tk_hash ` set (auth_refresh_tokens db)"
  using assms by (auto simp: insert_refresh_token_def find_token_None list_ex_iff split: if_splits)

text \<open>A new session, seen as one appended session row with one appended token.\<close>

lemma issue_new_session_Inr:
  assumes "issue_new_session E now ids uid name perms db = Inr (db', tok)"
  obtains s where
    "db' = db\<lparr>auth_sessions := auth_sessions db @ [s],
              auth_refresh_tokens := auth_refresh_tokens db @
                [new_token_row E now (id_refresh ids)
                   (new_refresh_token E now (id_refresh ids) uid name (id_session ids) (id_family ids)) uid
                   (id_session ids) (id_family ids)]\<rparr>"
    "ss_id s = id_session ids" "ss_user_id s = uid" "ss_family_id s = id_family ids" "ss_revoked_at s = None"
    "ss_expires_at s = timestamp (now + days_us (AUTH_SESSION_MAX_DAYS E))"
    "id_session ids \<notin> ss_id ` set (auth_sessions db)" "id_refresh ids \<notin> tk_jti ` set (auth_refresh_tokens db)"
    "tok = (create_access_token E now (id_access ids) uid name perms (Some (id_session ids)),
            new_refresh_token E now (id_refresh ids) uid name (id_session ids) (id_family ids))"
    "uid \<in> u_id ` set (users db)"
proof -
  let ?s = "\<lparr>ss_id = id_session ids, ss_user_id = uid, ss_family_id = id_family ids,
            ss_created_at = timestamp now, ss_last_seen_at = timestamp now,
            ss_expires_at = timestamp (now + days_us (AUTH_SESSION_MAX_DAYS E)),
            ss_revoked_at = None, ss_revoke_reason = None\<rparr>"
  obtain db1 where 1: "insert_auth_session ?s db = Inr db1"
    and 2: "insert_refresh_token (new_token_row E now (id_refresh ids)
        (new_refresh_token E now (id_refresh ids) uid name (id_session ids) (id_family ids)) uid
        (id_session ids) (id_family ids)) db1 = Inr db'"
    and 3: "tok = (create_access_token E now (id_access ids) uid name perms (Some (id_session ids)),
        new_refresh_token E now (id_refresh ids) uid name (id_session ids) (id_family ids))"
    using assms by (auto simp: issue_new_session_def Let_def elim!: rbind_InrE)
  show thesis
    using insert_auth_session_Inr [OF 1] insert_refresh_token_Inr [OF 2] 3
    by (intro that [of ?s]) (simp_all add: new_token_row_def)
qed

lemma issue_evolves:
  assumes "issue_new_session E now ids uid name perms db = Inr (db', tok)"
  shows "auth_evolves db db'"
  by (rule issue_new_session_Inr [OF assms])
    (simp add: auth_evolves_def sessions.grows_snoc tokens.grows_snoc)

lemma issue_sessions_ok:
  assumes "issue_new_session E now ids uid name perms db = Inr (db', tok)" and "sessions_ok db"
  shows "sessions_ok db'"
proof (rule issue_new_session_Inr [OF assms(1)])
  fix s
  assume new: "db' = db\<lparr>auth_sessions := auth_sessions db @ [s],
              auth_refresh_tokens := auth_refresh_tokens db @
                [new_token_row E now (id_refresh ids)
                   (new_refresh_token E now (id_refresh ids) uid name (id_session ids) (id_family ids)) uid
                   (id_session ids) (id_family ids)]\<rparr>"
    "ss_id s = id_session ids" "ss_user_id s = uid" "ss_family_id s = id_family ids"
    "id_session ids \<notin> ss_id ` set (auth_sessions db)" "id_refresh ids \<notin> tk_jti ` set (auth_refresh_tokens db)"
  then show ?thesis
    using assms(2) by (auto simp: sessions_ok_def token_of_session_def new_token_row_def)
qed

lemma revoke_family_evolves [simp, intro]: "auth_evolves db (revoke_family a u sid fam db)"
  by (auto simp: auth_evolves_def revoke_family_def intro!: sessions.grows_update tokens.grows_update)

lemma revoke_family_ok: "sessions_ok db \<Longrightarrow> sessions_ok (revoke_family a u sid fam db)"
  by (rule sessions_ok_update) (auto simp: revoke_family_def)

lemma revoke_session_evolves [simp, intro]: "auth_evolves db (fst (revoke_session now u sid r db))"
  by (auto simp: auth_evolves_def revoke_session_def Let_def intro!: sessions.grows_update tokens.grows_update)

lemma revoke_session_ok: "sessions_ok db \<Longrightarrow> sessions_ok (fst (revoke_session now u sid r db))"
  by (rule sessions_ok_update) (auto simp: revoke_session_def Let_def)

text \<open>The three outcomes of a rotation that does not raise.\<close>

lemma rotate_cases:
  assumes "rotate_refresh_token E now ids tok payload name perms db = Inr (db', out)"
  obtains (refused) "out = None" "db' = db"
  | (revoked) u j sid fam where "refresh_claims E payload = Some (u, j, sid, fam)" "out = None"
      "db' = revoke_family (timestamp now) u sid fam db"
  | (rotated) u j sid fam where "refresh_claims E payload = Some (u, j, sid, fam)"
      "refresh_valid E (timestamp now) tok u fam (find_session db sid) (find_token db j)"
      "sql_count (unused_token j) (auth_refresh_tokens db) = 1"
      "id_refresh ids \<notin> tk_jti ` set (auth_refresh_tokens db)"
      "auth_refresh_tokens db' =
         sql_update (unused_token j) (use_token (timestamp now)) (auth_refresh_tokens db) @
         [new_token_row E now (id_refresh ids) (new_refresh_token E now (id_refresh ids) u name sid fam) u sid fam]"
      "auth_sessions db' =
         sql_update (\<lambda>s. ss_id s = sid) (\<lambda>s. s\<lparr>ss_last_seen_at := timestamp now\<rparr>) (auth_sessions db)"
      "out = Some (create_access_token E now (id_access ids) u name perms (Some sid),
                   new_refresh_token E now (id_refresh ids) u name sid fam)"
      "users db' = users db" "user_permissions db' = user_permissions db" "next_user_id db' = next_user_id db"
proof (cases "refresh_claims E payload")
  case None
  then show thesis using assms refused by (simp add: rotate_refresh_token_def)
next
  case (Some q)
  obtain u j sid fam where q: "q = (u, j, sid, fam)" by (cases q)
  let ?valid = "refresh_valid E (timestamp now) tok u fam (find_session db sid) (find_token db j)"
  have keys: "tk_jti (use_token a t) = tk_jti t" for a t by (simp add: use_token_def)
  consider "\<not> ?valid" | "?valid" "sql_count (unused_token j) (auth_refresh_tokens db) \<noteq> 1"
    | "?valid" "sql_count (unused_token j) (auth_refresh_tokens db) = 1" by blast
  then show thesis
  proof cases
    case 1
    then show thesis using assms Some q revoked by (auto simp: rotate_refresh_token_def)
  next
    case 2
    then show thesis using assms Some q refused by (auto simp: rotate_refresh_token_def)
  next
    case 3
    with assms Some q obtain db1 where
      ins: "insert_refresh_token
        (new_token_row E now (id_refresh ids) (new_refresh_token E now (id_refresh ids) u name sid fam) u sid fam)
        (db\<lparr>auth_refresh_tokens :=
              sql_update (unused_token j) (use_token (timestamp now)) (auth_refresh_tokens db)\<rparr>) = Inr db1"
      and out: "db' = db1\<lparr>auth_sessions :=
        sql_update (\<lambda>s. ss_id s = sid) (\<lambda>s. s\<lparr>ss_last_seen_at := timestamp now\<rparr>) (auth_sessions db1)\<rparr>"
      "out = Some (create_access_token E now (id_access ids) u name perms (Some sid),
                   new_refresh_token E now (id_refresh ids) u name sid fam)"
      by (auto simp: rotate_refresh_token_def Let_def elim!: rbind_InrE)
    have "id_refresh ids \<notin> tk_jti ` set (auth_refresh_tokens db)"
      using insert_refresh_token_Inr(2) [OF ins] map_sql_update [of "unused_token j" tk_jti "use_token (timestamp now)"]
      by (simp add: keys new_token_row_def flip: set_map)
    with 3 Some q out insert_refresh_token_Inr(1) [OF ins] show thesis
      by (intro rotated) simp_all
  qed
qed

lemma rotate_evolves:
  assumes "rotate_refresh_token E now ids tok payload name perms db = Inr (db', out)"
  shows "auth_evolves db db'"
  using assms
proof (cases rule: rotate_cases)
  case (rotated u j sid fam)
  show ?thesis
    unfolding auth_evolves_def rotated(5,6)
    by (intro conjI sessions.grows_update grows_append tokens.list_all2_update) (auto intro: token_keeps_use)
qed auto

lemma rotate_sessions_ok:
  assumes "rotate_refresh_token E now ids tok payload name perms db = Inr (db', out)" and "sessions_ok db"
  shows "sessions_ok db'"
  using assms(1)
proof (cases rule: rotate_cases)
  case refused
  then show ?thesis using assms(2) by simp
next
  case (revoked u j sid fam)
  then show ?thesis using assms(2) revoke_family_ok by simp
next
  case (rotated u j sid fam)
  let ?old = "db\<lparr>auth_refresh_tokens := sql_update (unused_token j) (use_token (timestamp now)) (auth_refresh_tokens db),
    auth_sessions := auth_sessions db'\<rparr>"
  have "sessions_ok ?old"
    by (rule sessions_ok_update [OF assms(2)]) (auto simp: rotated(6) intro: token_keeps_use)
  moreover obtain s where "s \<in> set (auth_sessions db)" "ss_id s = sid" "ss_user_id s = u" "ss_family_id s = fam"
    using rotated(2) by (auto simp: refresh_valid_def split: option.splits dest: find_session_mem)
  then have "\<exists>s\<in>set (auth_sessions db'). ss_id s = sid \<and> ss_user_id s = u \<and> ss_family_id s = fam"
    unfolding rotated(6) in_sql_update
    by (intro bexI [of _ "s\<lparr>ss_last_seen_at := timestamp now\<rparr>"]) (auto simp: in_sql_update)
  moreover have "map tk_jti (sql_update (unused_token j) (use_token (timestamp now)) (auth_refresh_tokens db)) =
      map tk_jti (auth_refresh_tokens db)"
    by (rule map_sql_update) (simp add: use_token_def)
  ultimately show ?thesis
    using rotated(4) unfolding sessions_ok_def rotated(5)
    by (auto simp: token_of_session_def new_token_row_def simp flip: set_map)
qed


subsection \<open>Every request respects the contract\<close>

text \<open>
  What the chain of refresh tokens rests on: SHA-256 tells issued tokens apart, and a token PyJWT
  encoded decodes to the payload it was made of or, once expired, not at all.
\<close>

definition token_crypto :: "('a auth_env_scheme) \<Rightarrow> bool" where
  "token_crypto E =
     (inj (sha256_digest E) \<and> (\<forall>req now p q. jwt_decode E req now (jwt_encode E p) = Some q \<longrightarrow> q = p))"

definition live_token :: "token_row \<Rightarrow> bool" where
  "live_token t = (tk_used_at t = None \<and> tk_revoked_at t = None)"

definition backed :: "('a auth_env_scheme) \<Rightarrow> token_row \<Rightarrow> bool" where
  "backed E t =
     (\<exists>now name. tk_hash t =
        sha256_digest E (new_refresh_token E now (tk_jti t) (tk_user_id t) name (tk_session_id t) (tk_family_id t)))"

definition token_chain :: "('a auth_env_scheme) \<Rightarrow> token_row list \<Rightarrow> bool" where
  "token_chain E ts =
     ((\<forall>t\<in>set ts. backed E t) \<and>
      (\<forall>t\<in>set ts. \<forall>t'\<in>set ts. live_token t \<and> live_token t' \<and> tk_session_id t = tk_session_id t' \<longrightarrow> t = t'))"

definition chain_ok :: "('a auth_env_scheme) \<Rightarrow> auth_db \<Rightarrow> bool" where
  "chain_ok E db = token_chain E (auth_refresh_tokens db)"

definition auth_safe :: "('a auth_env_scheme) \<Rightarrow> auth_db \<Rightarrow> auth_db \<Rightarrow> bool" where
  "auth_safe E db db' =
     (auth_evolves db db' \<and> (sessions_ok db \<longrightarrow> sessions_ok db') \<and> (accounts_ok db \<longrightarrow> accounts_ok db') \<and>
      (token_crypto E \<and> sessions_ok db \<and> chain_ok E db \<longrightarrow> chain_ok E db'))"

lemma auth_safe_refl [simp, intro]: "auth_safe E db db"
  by (simp add: auth_safe_def)

lemma auth_safe_trans [trans]: "auth_safe E db db' \<Longrightarrow> auth_safe E db' db'' \<Longrightarrow> auth_safe E db db''"
  by (auto simp: auth_safe_def intro: auth_evolves_trans)

lemma sessions_ok_cong:
  "auth_sessions db' = auth_sessions db \<Longrightarrow> auth_refresh_tokens db' = auth_refresh_tokens db \<Longrightarrow>
   sessions_ok db' = sessions_ok db"
  by (simp add: sessions_ok_def)

lemma accounts_ok_cong:
  "users db' = users db \<Longrightarrow> user_permissions db' = user_permissions db \<Longrightarrow> next_user_id db' = next_user_id db \<Longrightarrow>
   accounts_ok db' = accounts_ok db"
  by (simp add: accounts_ok_def)

lemma auth_safe_sessions:
  assumes "auth_evolves db db'" and "sessions_ok db \<Longrightarrow> sessions_ok db'"
    and "token_crypto E \<Longrightarrow> sessions_ok db \<Longrightarrow> chain_ok E db \<Longrightarrow> chain_ok E db'"
    and "users db' = users db" "user_permissions db' = user_permissions db" "next_user_id db' = next_user_id db"
  shows "auth_safe E db db'"
  using assms accounts_ok_cong [of db' db] by (auto simp: auth_safe_def auth_ok_def)

lemma auth_safe_accounts:
  assumes "auth_sessions db' = auth_sessions db" "auth_refresh_tokens db' = auth_refresh_tokens db"
    and "accounts_ok db \<Longrightarrow> accounts_ok db'"
  shows "auth_safe E db db'"
  using assms sessions_ok_cong [of db' db]
  by (auto simp: auth_safe_def auth_ok_def chain_ok_def intro: auth_evolves_same)

lemma throttle_safe [simp, intro]: "auth_safe E db (fst (throttle m k l w db))"
  by (rule auth_safe_accounts) (simp_all add: auth_frame accounts_ok_def)

lemma token_chain_update:
  assumes "token_chain E ts" and "\<And>t. backed E (f t) = backed E t" and "\<And>t. \<not> live_token (f t)"
  shows "token_chain E (sql_update p f ts)"
  using assms(1) unfolding token_chain_def
  by (auto simp: in_sql_update assms(2,3) split: if_splits)

lemma token_chain_snoc:
  assumes "token_chain E ts" and "backed E t" and "\<And>r. r \<in> set ts \<Longrightarrow> tk_session_id r = tk_session_id t \<Longrightarrow> \<not> live_token r"
  shows "token_chain E (ts @ [t])"
  using assms(1,2) assms(3) unfolding token_chain_def by (auto dest: sym)

lemma chain_ok_update:
  assumes "chain_ok E db" and "auth_refresh_tokens db' = sql_update p (revoke_token_row a) (auth_refresh_tokens db)"
  shows "chain_ok E db'"
  using assms(1) unfolding chain_ok_def assms(2)
  by (rule token_chain_update)
    (simp_all add: backed_def live_token_def revoke_token_row_def coalesce_def split: option.splits)

lemma backed_new_token_row [simp, intro]:
  "backed E (new_token_row E now j (new_refresh_token E now j u name sid fam) u sid fam)"
  by (auto simp: backed_def new_token_row_def)

lemma issue_chain_ok:
  assumes "issue_new_session E now ids uid name perms db = Inr (db', tok)" and "sessions_ok db" and "chain_ok E db"
  shows "chain_ok E db'"
proof (rule issue_new_session_Inr [OF assms(1)])
  fix s
  assume new: "db' = db\<lparr>auth_sessions := auth_sessions db @ [s],
              auth_refresh_tokens := auth_refresh_tokens db @
                [new_token_row E now (id_refresh ids)
                   (new_refresh_token E now (id_refresh ids) uid name (id_session ids) (id_family ids)) uid
                   (id_session ids) (id_family ids)]\<rparr>"
    "id_session ids \<notin> ss_id ` set (auth_sessions db)"
  have "tk_session_id t \<in> ss_id ` set (auth_sessions db)" if "t \<in> set (auth_refresh_tokens db)" for t
    using assms(2) that by (force simp: sessions_ok_def token_of_session_def)
  with new(2) have "tk_session_id t \<noteq> id_session ids" if "t \<in> set (auth_refresh_tokens db)" for t
    using that by metis
  then show ?thesis
    using assms(3) unfolding chain_ok_def new(1)
    by simp (rule token_chain_snoc, auto simp: new_token_row_def backed_def)
qed

text \<open>The claims of a refresh token are the columns of its row.\<close>

lemma refresh_claims_payload:
  "refresh_claims E (refresh_payload E now j u name sid fam) = Some (u', j', sid', fam') \<Longrightarrow>
   j' = j \<and> sid' = sid \<and> fam' = fam"
  by (auto simp: refresh_claims_def refresh_payload_def split: sum.splits if_splits)

lemma rotate_chain_ok:
  assumes rot: "rotate_refresh_token E now ids tok payload name perms db = Inr (db', out)"
    and dec: "decode_token E now' tok = Some payload" and crypto: "token_crypto E"
    and ok: "sessions_ok db" and chain: "chain_ok E db"
  shows "chain_ok E db'"
  using rot
proof (cases rule: rotate_cases)
  case refused
  then show ?thesis using chain by simp
next
  case (revoked u j sid fam)
  show ?thesis by (rule chain_ok_update [OF chain]) (simp add: revoked revoke_family_def)
next
  case (rotated u j sid fam)
  obtain t where t: "t \<in> set (auth_refresh_tokens db)" "unused_token j t"
    using rotated(3) sql_count_0 [of "unused_token j"] by (metis zero_neq_one)
  have "find_token db j = Some t"
    using find_token_unique [OF ok t(1)] t(2) by (simp add: unused_token_def)
  then have hash: "tk_hash t = sha256_digest E tok"
    using rotated(2) by (simp add: refresh_valid_def split: option.splits)
  obtain m n where "tk_hash t = sha256_digest E
      (new_refresh_token E m (tk_jti t) (tk_user_id t) n (tk_session_id t) (tk_family_id t))"
    using chain t(1) by (auto simp: chain_ok_def token_chain_def backed_def)
  with hash crypto have "tok = jwt_encode E
      (refresh_payload E m (tk_jti t) (tk_user_id t) n (tk_session_id t) (tk_family_id t))"
    by (simp add: token_crypto_def new_refresh_token_def inj_eq)
  with dec crypto have "payload = refresh_payload E m (tk_jti t) (tk_user_id t) n (tk_session_id t) (tk_family_id t)"
    by (auto simp: token_crypto_def decode_token_def)
  with rotated(1) have sid: "tk_session_id t = sid"
    using refresh_claims_payload by metis
  have "\<not> live_token r"
    if upd: "r \<in> set (sql_update (unused_token j) (use_token (timestamp now)) (auth_refresh_tokens db))"
      and ses: "tk_session_id r = sid" for r
  proof
    assume "live_token r"
    moreover obtain q where "q \<in> set (auth_refresh_tokens db)"
        "r = (if unused_token j q then use_token (timestamp now) q else q)"
      using upd by (auto simp: in_sql_update)
    ultimately have r: "r \<in> set (auth_refresh_tokens db)" "\<not> unused_token j r"
      by (auto simp: live_token_def use_token_def split: if_splits)
    with \<open>live_token r\<close> ses sid chain t have "r = t"
      by (auto simp: chain_ok_def token_chain_def live_token_def unused_token_def)
    with r(2) t(2) show False by simp
  qed
  moreover have "token_chain E (sql_update (unused_token j) (use_token (timestamp now)) (auth_refresh_tokens db))"
    using chain unfolding chain_ok_def
    by (rule token_chain_update) (simp_all add: backed_def live_token_def use_token_def)
  ultimately show ?thesis
    unfolding chain_ok_def rotated(5)
    by (intro token_chain_snoc backed_new_token_row) (simp_all add: new_token_row_def)
qed

lemma issue_safe:
  assumes "issue_new_session E now ids uid name perms db = Inr (db', tok)"
  shows "auth_safe E db db'"
proof (rule auth_safe_sessions [OF issue_evolves [OF assms] issue_sessions_ok [OF assms] issue_chain_ok [OF assms]])
  show "users db' = users db" "user_permissions db' = user_permissions db" "next_user_id db' = next_user_id db"
    by (rule issue_new_session_Inr [OF assms], simp)+
qed

lemma rotate_safe:
  assumes "rotate_refresh_token E now ids tok payload name perms db = Inr (db', out)"
    and "decode_token E now' tok = Some payload"
  shows "auth_safe E db db'"
proof (rule auth_safe_sessions
    [OF rotate_evolves [OF assms(1)] rotate_sessions_ok [OF assms(1)] rotate_chain_ok [OF assms]])
  show "users db' = users db" "user_permissions db' = user_permissions db" "next_user_id db' = next_user_id db"
    using assms(1) by (cases rule: rotate_cases; simp add: revoke_family_def)+
qed

lemma revoke_session_safe [simp, intro]: "auth_safe E db (fst (revoke_session now u sid r db))"
proof (rule auth_safe_sessions)
  assume "chain_ok E db"
  then show "chain_ok E (fst (revoke_session now u sid r db))"
    by (rule chain_ok_update) (simp add: revoke_session_def Let_def)
qed (simp_all add: revoke_session_ok, simp_all add: revoke_session_def Let_def)

lemma accounts_ok_users:
  assumes "accounts_ok db" and "\<And>u. u_id (f u) = u_id u" and "\<And>u. u_username (f u) = u_username u"
  shows "accounts_ok (db\<lparr>users := sql_update p f (users db)\<rparr>)"
proof -
  have "map u_id (sql_update p f us) = map u_id us" "map u_username (sql_update p f us) = map u_username us" for us
    using assms(2,3) by (simp_all add: map_sql_update)
  then show ?thesis
    using assms(1) unfolding accounts_ok_def
    by (auto simp flip: set_map simp: in_sql_update assms(2))
qed

lemma users_update_safe:
  assumes "\<And>u. u_id (f u) = u_id u" and "\<And>u. u_username (f u) = u_username u"
  shows "auth_safe E db (db\<lparr>users := sql_update p f (users db)\<rparr>)"
  by (rule auth_safe_accounts) (use assms in \<open>simp_all add: accounts_ok_users\<close>)

lemma set_user_active_safe [simp, intro]: "auth_safe E db (set_user_active i a db)"
  unfolding set_user_active_def by (rule users_update_safe) simp_all

lemma drop_legacy_sessions_safe [simp, intro]: "auth_safe E db (drop_legacy_sessions i db)"
  by (rule auth_safe_accounts) (simp_all add: drop_legacy_sessions_def accounts_ok_def)

lemma delete_permissions_safe [simp, intro]:
  "auth_safe E db (db\<lparr>user_permissions := sql_delete p (user_permissions db)\<rparr>)"
  by (rule auth_safe_accounts) (auto simp: accounts_ok_def sql_delete_def distinct_map_filter)

lemma insert_permission_safe:
  assumes "insert_permission i g perm db = Inr db'" and "is_valid_permission perm"
  shows "auth_safe E db db'"
proof (rule auth_safe_accounts)
  have db': "db' = db\<lparr>user_permissions := user_permissions db @
      [\<lparr>pr_user_id = i, pr_permission = perm, pr_granted_by = g\<rparr>]\<rparr>"
    and new: "\<not> list_ex (\<lambda>r. pr_user_id r = i \<and> pr_permission r = perm) (user_permissions db)"
    and usr: "i \<in> u_id ` set (users db)"
    using assms(1) by (auto simp: insert_permission_def find_user_None split: if_splits)
  then show "auth_sessions db' = auth_sessions db" "auth_refresh_tokens db' = auth_refresh_tokens db" by simp_all
  assume "accounts_ok db"
  then show "accounts_ok db'"
    using db' new usr assms(2) by (auto simp: accounts_ok_def list_ex_iff)
qed

lemma insert_permissions_safe:
  assumes "rfold (insert_permission i g) ps db = Inr db'" and "\<And>p. p \<in> set ps \<Longrightarrow> is_valid_permission p"
  shows "auth_safe E db db'"
  by (rule rfold_invariant [OF assms(1)]) (auto intro: auth_safe_trans insert_permission_safe assms(2))

lemma insert_user_safe:
  assumes "\<not> list_ex (\<lambda>u. u_username u = ab_username body) (users db)"
  shows "auth_safe E db (insert_user E now body a db)"
proof (rule auth_safe_accounts)
  assume "accounts_ok db"
  then show "accounts_ok (insert_user E now body a db)"
    using assms by (fastforce simp: accounts_ok_def insert_user_def list_ex_iff)
qed (simp_all add: insert_user_def)

lemma viewer_perms_valid: "p \<in> set viewer_perms \<Longrightarrow> is_valid_permission p"
  by (auto simp: viewer_perms_def is_valid_permission_def all_permissions_def)

lemma ALL_PERMISSIONS_valid: "set ALL_PERMISSIONS = {p. is_valid_permission p}"
proof -
  have "ALL_PERMISSIONS = map permission_value all_permissions"
    by (simp add: ALL_PERMISSIONS_def all_permissions_def)
  then show ?thesis by (simp only: is_valid_permission_def Collect_mem_eq)
qed

lemma add_account_safe [simp, intro]: "auth_safe E db (fst (add_account E now body a g db))"
proof (cases "list_ex (\<lambda>u. u_username u = ab_username body) (users db)")
  case True
  then show ?thesis by (simp add: add_account_def)
next
  case False
  note ins = insert_user_safe [OF False, of E now a]
  show ?thesis
  proof (cases "rfold (insert_permission (next_user_id db) g) viewer_perms (insert_user E now body a db)")
    case (Inl e)
    then show ?thesis using False ins by (cases a) (simp_all add: add_account_def Let_def)
  next
    case (Inr db2)
    have "auth_safe E db db2"
      using auth_safe_trans [OF ins insert_permissions_safe [OF Inr viewer_perms_valid]] .
    then show ?thesis using Inr False ins by (cases a) (simp_all add: add_account_def Let_def)
  qed
qed

text \<open>Composition along \<open>sbind\<close>.\<close>

lemma sbind_safe:
  assumes "auth_safe E db (fst p)" and "\<And>x. snd p = Inr x \<Longrightarrow> auth_safe E (fst p) (fst (k x (fst p)))"
  shows "auth_safe E db (fst (sbind p k))"
  using assms by (cases p; cases "snd p") (auto simp: sbind_def intro: auth_safe_trans)

lemma limits_safe [simp, intro]:
  "auth_safe E db (fst (limit_login E m h n db))"
  "auth_safe E db (fst (limit_refresh E m h db))"
  "auth_safe E db (fst (limit_sensitive E m h i db))"
  by (simp_all add: limit_defs)

lemma admin_guard_safe [simp, intro]: "auth_safe E db (fst (admin_guard E rq c db))"
  unfolding admin_guard_def by (auto intro!: sbind_safe)

lemma register_safe: "auth_safe E db (fst (register E rq body bt db))"
  unfolding register_def
  by (auto simp: Let_def intro!: sbind_safe split: sum.splits dest: issue_safe)

lemma login_update_safe:
  "issue_new_session E now ids uid name perms
     (d\<lparr>users := sql_update p (\<lambda>u. u\<lparr>u_last_login := l\<rparr>) (users d)\<rparr>) = Inr (d', tok) \<Longrightarrow> auth_safe E d d'"
  by (rule auth_safe_trans [OF users_update_safe issue_safe]) simp_all

lemma login_safe: "auth_safe E db (fst (login E rq name pw db))"
  unfolding login_def
  by (auto simp: Let_def intro!: sbind_safe split: sum.splits option.splits
      dest: login_update_safe)

lemma refresh_token_safe: "auth_safe E db (fst (refresh_token E rq tok db))"
  unfolding refresh_token_def
  by (auto intro!: sbind_safe split: sum.splits option.splits dest: rotate_safe)

lemma session_requests_safe:
  "auth_safe E db (fst (get_sessions E rq c db))"
  "auth_safe E db (fst (logout E rq c al db))"
  "auth_safe E db (fst (delete_session E rq c sid db))"
  unfolding get_sessions_def logout_def delete_session_def
  by (auto intro!: sbind_safe simp: case_prod_beta)

lemma admin_requests_safe:
  "auth_safe E db (fst (list_users E rq c db))"
  "auth_safe E db (fst (create_user E rq c body db))"
  "auth_safe E db (fst (update_user_status E rq c i a db))"
  "auth_safe E db (fst (delete_user E rq c i db))"
proof -
  have off: "auth_safe E d (fst (revoke_session now k None r (drop_legacy_sessions k d)))" for d now r k
    by (rule auth_safe_trans [OF drop_legacy_sessions_safe revoke_session_safe])
  show "auth_safe E db (fst (list_users E rq c db))" "auth_safe E db (fst (create_user E rq c body db))"
    unfolding list_users_def create_user_def by (auto intro!: sbind_safe)
  show "auth_safe E db (fst (update_user_status E rq c i a db))"
    unfolding update_user_status_def
    by (auto intro!: sbind_safe simp: Let_def intro: auth_safe_trans [OF set_user_active_safe off])
  show "auth_safe E db (fst (delete_user E rq c i db))"
    unfolding delete_user_def
    by (auto intro!: sbind_safe simp: Let_def
        intro: auth_safe_trans [OF set_user_active_safe auth_safe_trans [OF delete_permissions_safe off]])
qed

lemma update_user_permissions_safe: "auth_safe E db (fst (update_user_permissions E rq c i ps db))"
proof -
  have "auth_safe E d d'"
    if "rfold (insert_permission i g) (sort (remdups ps))
          (d\<lparr>user_permissions := sql_delete (\<lambda>r. pr_user_id r = i) (user_permissions d)\<rparr>) = Inr d'"
      and "\<not> list_ex (\<lambda>p. p \<notin> set ALL_PERMISSIONS) (sort (remdups ps))" for d d' g
    using that(2) ALL_PERMISSIONS_valid
    by (intro auth_safe_trans [OF delete_permissions_safe insert_permissions_safe [OF that(1)]])
      (auto simp: list_ex_iff)
  then show ?thesis
    unfolding update_user_permissions_def
    by (auto intro!: sbind_safe simp: Let_def split: sum.splits option.splits)
qed

lemma handle_safe: "auth_safe E db (handle E r db)"
  by (cases "(E, r, db)" rule: handle.cases)
    (simp_all add: register_safe login_safe refresh_token_safe session_requests_safe admin_requests_safe
      update_user_permissions_safe)

lemma auth_run_safe: "auth_safe E db (auth_run E reqs db)"
  unfolding auth_run_def
  by (rule fold_invariant_list) (auto intro: auth_safe_trans handle_safe)

lemma auth_run_evolves: "auth_evolves db (auth_run E reqs db)"
  and auth_run_sessions_ok: "sessions_ok db \<Longrightarrow> sessions_ok (auth_run E reqs db)"
  and auth_run_ok: "auth_ok db \<Longrightarrow> auth_ok (auth_run E reqs db)"
  using auth_run_safe [of E db reqs] by (simp_all add: auth_safe_def auth_ok_def)

lemma auth_run_append [simp]: "auth_run E (xs @ ys) db = auth_run E ys (auth_run E xs db)"
  by (simp add: auth_run_def)

lemma empty_auth_ok [simp, intro]: "auth_ok empty_auth_db"
  by (simp add: auth_ok_def sessions_ok_def accounts_ok_def empty_auth_db_def)

lemma auth_run_chain_ok:
  assumes "token_crypto E"
  shows "chain_ok E (auth_run E reqs empty_auth_db)"
proof -
  have "sessions_ok empty_auth_db" "chain_ok E empty_auth_db"
    by (simp_all add: sessions_ok_def chain_ok_def token_chain_def empty_auth_db_def)
  then show ?thesis using auth_run_safe [of E empty_auth_db reqs] assms by (simp add: auth_safe_def)
qed

end
