(* ===== verification/Auth_Props.thy ===== *)
theory Auth_Props
  imports Auth_History
begin

text \<open>
  What the account and session layer guarantees, for every history of requests: a refresh token is
  used once and its replay ends the session, a revoked or expired session serves nobody, a session
  has at most one usable refresh token, a login can be used as the user who logged in, the throttle
  bounds the attempts in its window, and registration makes at most one administrator.
\<close>

subsection \<open>A small service for the concrete instances\<close>

text \<open>
  Alice is the first user; her session \<open>s1\<close> was opened at time 0 with the refresh token \<open>R1\<close> and
  the access token \<open>A1\<close>. \<open>B1\<close> is the access token of Bob in session \<open>s2\<close>. Every other payload is encoded as \<open>X\<close>, which does not decode.
\<close>

definition demo_ids :: uuids where
  "demo_ids = \<lparr>id_session = ''s1'', id_family = ''f1'', id_refresh = ''r1'', id_access = ''a1''\<rparr>"

definition demo_ids2 :: uuids where
  "demo_ids2 = \<lparr>id_session = ''s2'', id_family = ''f2'', id_refresh = ''r2'', id_access = ''a2''\<rparr>"

definition demo_refresh_claims :: pyval where
  "demo_refresh_claims =
     PDict [(PStr ''sub'', PStr ''1''), (PStr ''username'', PStr ''alice''),
            (PStr ''type'', PStr ''refresh''), (PStr ''jti'', PStr ''r1''), (PStr ''sid'', PStr ''s1''),
            (PStr ''family_id'', PStr ''f1''), (PStr ''iat'', PInt 0), (PStr ''exp'', PInt 604800)]"

definition demo_access_claims :: pyval where
  "demo_access_claims =
     PDict [(PStr ''sub'', PStr ''1''), (PStr ''username'', PStr ''alice''), (PStr ''jti'', PStr ''a1''),
            (PStr ''type'', PStr ''access''), (PStr ''iat'', PInt 0), (PStr ''exp'', PInt 86400),
            (PStr ''permissions'', PSeq []), (PStr ''sid'', PStr ''s1'')]"

definition demo_bob_claims :: pyval where
  "demo_bob_claims =
     PDict [(PStr ''sub'', PStr ''2''), (PStr ''username'', PStr ''bob''), (PStr ''jti'', PStr ''b1''),
            (PStr ''type'', PStr ''access''), (PStr ''iat'', PInt 0), (PStr ''exp'', PInt 86400),
            (PStr ''permissions'', PSeq []), (PStr ''sid'', PStr ''s2'')]"

definition demo_encode :: "pyval \<Rightarrow> string" where
  "demo_encode p = (if p = demo_refresh_claims then ''R1'' else if p = demo_access_claims then ''A1''
      else if p = demo_bob_claims then ''B1'' else ''X'')"

definition demo_decode :: "string list \<Rightarrow> int \<Rightarrow> string \<Rightarrow> pyval option" where
  "demo_decode req now tok =
     (if tok = ''R1'' then Some demo_refresh_claims else if tok = ''A1'' then Some demo_access_claims
      else if tok = ''B1'' then Some demo_bob_claims else None)"

definition demo_auth_env :: auth_env where
  "demo_auth_env =
     \<lparr>py_repr = (\<lambda>v. []), re_sub = (\<lambda>r s. s), ENVIRONMENT = ''development'', BOOTSTRAP_ADMIN_TOKEN = [],
      JWT_EXPIRE_MINUTES = 1440, AUTH_LOGIN_MAX_ATTEMPTS = 8, AUTH_LOGIN_WINDOW_SECONDS = 300,
      AUTH_REFRESH_MAX_ATTEMPTS = 30, AUTH_REFRESH_WINDOW_SECONDS = 300, AUTH_SENSITIVE_MAX_ATTEMPTS = 60,
      AUTH_SENSITIVE_WINDOW_SECONDS = 60, AUTH_SESSION_MAX_DAYS = 7, jwt_encode = demo_encode,
      jwt_decode = demo_decode, sha256_digest = (\<lambda>s. s), bcrypt_hashpw = (\<lambda>s. s),
      bcrypt_checkpw = (\<lambda>p h. Inr (p = h))\<rparr>"

definition demo_alice :: user where
  "demo_alice =
     \<lparr>u_id = 1, u_username = ''alice'', u_password_hash = ''password'', u_display_name = None, u_email = None,
      u_is_admin = True, u_is_active = True, u_created_at = 0, u_last_login = None\<rparr>"

definition demo_open_session :: "stamp option \<Rightarrow> session_row" where
  "demo_open_session revoked =
     \<lparr>ss_id = ''s1'', ss_user_id = 1, ss_family_id = ''f1'', ss_created_at = timestamp 0,
      ss_last_seen_at = timestamp 0, ss_expires_at = timestamp 604800000000, ss_revoked_at = revoked,
      ss_revoke_reason = None\<rparr>"

definition demo_token :: token_row where
  "demo_token =
     \<lparr>tk_jti = ''r1'', tk_hash = ''R1'', tk_session_id = ''s1'', tk_family_id = ''f1'', tk_user_id = 1,
      tk_issued_at = timestamp 0, tk_expires_at = timestamp 604800000000, tk_used_at = None, tk_revoked_at = None\<rparr>"

definition demo_db :: "session_row list \<Rightarrow> token_row list \<Rightarrow> auth_db" where
  "demo_db ss ts =
     \<lparr>users = [demo_alice], user_permissions = [], user_sessions = [], auth_sessions = ss,
      auth_refresh_tokens = ts, next_user_id = 2, attempts = []\<rparr>"

definition demo_rq :: "int \<Rightarrow> uuids \<Rightarrow> request_ctx" where
  "demo_rq now ids = \<lparr>rq_now = now, rq_monotonic = 0, rq_host = None, rq_ids = ids\<rparr>"

definition demo_bob :: user where
  "demo_bob =
     \<lparr>u_id = 2, u_username = ''bob'', u_password_hash = ''password'', u_display_name = None, u_email = None,
      u_is_admin = False, u_is_active = True, u_created_at = 0, u_last_login = None\<rparr>"

definition demo_team :: auth_db where
  "demo_team =
     \<lparr>users = [demo_alice, demo_bob],
      user_permissions = [\<lparr>pr_user_id = 2, pr_permission = ''admin:users'', pr_granted_by = 1\<rparr>],
      user_sessions = [],
      auth_sessions = [demo_open_session None, (demo_open_session None)\<lparr>ss_id := ''s2'', ss_user_id := 2, ss_family_id := ''f2''\<rparr>],
      auth_refresh_tokens = [], next_user_id = 3, attempts = []\<rparr>"

lemmas demo_rows = demo_db_def demo_alice_def demo_open_session_def demo_token_def

lemma demo_auth_ok:
  "auth_ok (demo_db [] [])" "auth_ok (demo_db [demo_open_session r] [])" "auth_ok (demo_db [demo_open_session r] [demo_token])"
  by (simp_all add: auth_ok_def sessions_ok_def accounts_ok_def token_of_session_def demo_rows)

lemma demo_decode_token:
  "decode_token demo_auth_env now ''R1'' = Some demo_refresh_claims"
  "decode_token demo_auth_env now ''A1'' = Some demo_access_claims"
  "decode_token demo_auth_env now ''B1'' = Some demo_bob_claims"
  by (simp_all add: decode_token_def demo_auth_env_def demo_decode_def)

lemma demo_claims_sid:
  "pget demo_refresh_claims ''sid'' = PStr ''s1''" "pget demo_access_claims ''sid'' = PStr ''s1''"
  "pget demo_bob_claims ''sid'' = PStr ''s2''"
  by (simp_all add: demo_refresh_claims_def demo_access_claims_def demo_bob_claims_def dict_get_def)

lemma demo_token_crypto: "token_crypto demo_auth_env"
  by (auto simp: token_crypto_def demo_auth_env_def demo_encode_def demo_decode_def split: if_splits)

subsection \<open>Sessions that serve nobody\<close>

definition usable :: "int \<Rightarrow> session_row \<Rightarrow> bool" where
  "usable now s = (ss_revoked_at s = None \<and> ss_expires_at s > timestamp now)"

lemma inactive_session:
  assumes "sessions_ok db" and "find_session db sid = Some s" and "\<not> usable now s"
  shows "\<not> session_is_active now u sid db"
proof
  assume "session_is_active now u sid db"
  then obtain r where r: "r \<in> set (auth_sessions db)" "ss_id r = sid" "usable now r"
    by (auto simp: session_is_active_def list_ex_iff usable_def)
  then have "r = s" using find_session_unique [OF assms(1) r(1)] assms(2) by simp
  with r(3) assms(3) show False by simp
qed

lemma invalid_rotation:
  assumes "refresh_claims E payload = Some (u, j, sid, fam)"
    and "\<not> refresh_valid E (timestamp now) tok u fam (find_session db sid) (find_token db j)"
  shows "rotate_refresh_token E now ids tok payload name perms db =
     Inr (revoke_family (timestamp now) u sid fam db, None)"
  using assms by (simp add: rotate_refresh_token_def)

lemma unusable_rotation:
  assumes "find_session db sid = Some s" and "\<not> usable now s" and "pget payload ''sid'' = PStr sid"
  shows "\<exists>db'. rotate_refresh_token E now ids tok payload name perms db = Inr (db', None)"
proof (cases "refresh_claims E payload")
  case None
  then show ?thesis by (simp add: rotate_refresh_token_def)
next
  case (Some q)
  obtain u j sid' fam where q: "q = (u, j, sid', fam)" by (cases q)
  have "sid' = sid"
    using Some q assms(3)
    by (auto simp: refresh_claims_def dict_get_def split: pyval.splits option.splits sum.splits if_splits)
  then show ?thesis
    using invalid_rotation [of E payload u j sid fam now tok db] Some q assms(1,2)
    by (auto simp: refresh_valid_def usable_def)
qed

text \<open>No request with a token of a session that is not usable succeeds.\<close>

lemma unusable_session_refuses:
  assumes "sessions_ok db" and "find_session db sid = Some s" and "\<not> usable now s" and "sid \<noteq> []"
    and "decode_token E now tok = Some payload" and "pget payload ''sid'' = PStr sid" and "rq_now rq = now"
  shows "get_current_user E now (Some tok) db \<noteq> Inr cu"
    and "authenticate_websocket E now ks (Frame (PDict [(PStr ''type'', PStr ''authenticate''), (PStr ''token'', PStr tok)]))
           perm res db \<noteq> Inr (Inr w)"
    and "snd (refresh_token E rq tok db) \<noteq> Inr ts"
proof -
  have refused: "session_refused now u (PStr sid) db" for u
    using inactive_session [OF assms(1,2,3)] assms(4) by (simp add: session_refused_def sid_of_def)
  show "get_current_user E now (Some tok) db \<noteq> Inr cu"
    using assms(5,6) refused by (auto simp: get_current_user_def split: sum.splits option.splits)
  show "authenticate_websocket E now ks (Frame (PDict [(PStr ''type'', PStr ''authenticate''), (PStr ''token'', PStr tok)]))
           perm res db \<noteq> Inr (Inr w)"
    using assms(5,6) refused
    by (auto simp: authenticate_websocket_def websocket_token_def sid_of_def dict_get_def
        split: sum.splits option.splits if_splits)
  obtain db0 r where thr: "limit_refresh E (rq_monotonic rq) (rq_host rq) db = (db0, r)" by fastforce
  then have "find_session db0 sid = Some s"
    using assms(2) throttle_frame(3) by (metis find_session_def fst_conv limit_refresh_def)
  then have "\<exists>db'. rotate_refresh_token E now ids tok payload name perms db0 = Inr (db', None)" for ids name perms
    using unusable_rotation assms(3,6) by blast
  then show "snd (refresh_token E rq tok db) \<noteq> Inr ts"
    using thr assms(5,7)
    by (auto simp: refresh_token_def sbind_def split: sum.splits option.splits)
      (metis option.distinct(1) prod.inject sum.inject(2))
qed

lemma find_sql_update:
  assumes "\<And>r. key (f r) = key r" and "find (\<lambda>r. key r = a) xs = Some r"
  shows "find (\<lambda>r. key r = a) (sql_update p f xs) = Some (if p r then f r else r)"
  using assms(2) by (induction xs) (auto simp: table_simps assms(1) split: if_splits)

lemma revoke_family_find:
  assumes "find_session db sid = Some s" and "ss_user_id s = u" and "ss_family_id s = fam"
  shows "find_session (revoke_family a u sid fam db) sid =
     Some (revoke_session_row a ''refresh_replay_or_invalid'' s)"
  using find_sql_update [of ss_id "revoke_session_row a ''refresh_replay_or_invalid''" sid "auth_sessions db" s
      "\<lambda>s. ss_id s = sid \<and> ss_user_id s = u \<and> ss_family_id s = fam"] assms find_session_mem [OF assms(1)]
  by (simp add: find_session_def revoke_family_def revoke_session_row_def)

lemma revoked_not_usable: "\<not> usable now (revoke_session_row a r s)"
  by (simp add: usable_def revoke_session_row_def coalesce_def split: option.splits)

lemma session_keeps_usable: "session_keeps s s' \<Longrightarrow> \<not> usable now s \<Longrightarrow> \<not> usable now s'"
  by (auto simp: session_keeps_def usable_def keeps_opt_def)

text \<open>
  C8. A revoked session stays dead. Once a session carries a revocation, then after any history of
  further requests a token of that session is refused everywhere: it authenticates no HTTP request
  and no WebSocket, and it cannot be refreshed.
\<close>

theorem revoked_session_stays_dead:
  assumes "auth_ok db" and "find_session db sid = Some s" and "ss_revoked_at s \<noteq> None" and "sid \<noteq> []"
    and "decode_token E now tok = Some payload" and "pget payload ''sid'' = PStr sid" and "rq_now rq = now"
  shows "get_current_user E now (Some tok) (auth_run E reqs db) \<noteq> Inr cu \<and>
    authenticate_websocket E now ks (Frame (PDict [(PStr ''type'', PStr ''authenticate''), (PStr ''token'', PStr tok)]))
      perm res (auth_run E reqs db) \<noteq> Inr (Inr w) \<and>
    snd (refresh_token E rq tok (auth_run E reqs db)) \<noteq> Inr ts"
proof -
  have ok: "sessions_ok (auth_run E reqs db)"
    by (rule auth_run_sessions_ok) (use assms(1) in \<open>simp add: auth_ok_def\<close>)
  obtain s' where "find_session (auth_run E reqs db) sid = Some s'" "session_keeps s s'"
    using evolves_session [OF auth_run_evolves assms(2)] by blast
  moreover then have "\<not> usable now s'"
    using session_keeps_usable assms(3) by (auto simp: usable_def)
  ultimately show ?thesis
    using unusable_session_refuses [OF ok _ _ assms(4-7)] by blast
qed

theorem revoked_session_stays_dead_witness:
  "get_current_user demo_auth_env 5 (Some ''A1'')
     (auth_run demo_auth_env [(demo_rq 4 demo_ids2, Login ''alice'' ''password'')] (demo_db [demo_open_session (Some (timestamp 3))] []))
   \<noteq> Inr \<lparr>cu_id = 1, cu_username = ''alice'', cu_is_admin = True, cu_permissions = [], cu_jti = PStr ''a1'',
          cu_session_id = Some ''s1''\<rparr>"
  using revoked_session_stays_dead [OF demo_auth_ok(2), of "Some (timestamp 3)" "''s1''" "demo_open_session (Some (timestamp 3))"
      demo_auth_env 5 "''A1''" demo_access_claims "demo_rq 5 demo_ids2"]
  by (simp add: demo_decode_token demo_claims_sid) (simp add: find_session_def demo_rows demo_rq_def)

text \<open>
  A session has an absolute lifetime: whatever is refreshed in the meantime, from one second after
  the configured number of days since the login no token of the session is accepted any more.
\<close>

theorem session_lifetime_is_bounded:
  assumes "auth_ok db" and "issue_new_session E t0 ids uid name perms db = Inr (db1, toks)" and "id_session ids \<noteq> []"
    and "decode_token E now tok = Some payload" and "pget payload ''sid'' = PStr (id_session ids)" and "rq_now rq = now"
    and "t0 + days_us (AUTH_SESSION_MAX_DAYS E) + 1000000 \<le> now"
  shows "get_current_user E now (Some tok) (auth_run E reqs db1) \<noteq> Inr cu \<and>
    authenticate_websocket E now ks (Frame (PDict [(PStr ''type'', PStr ''authenticate''), (PStr ''token'', PStr tok)]))
      perm res (auth_run E reqs db1) \<noteq> Inr (Inr w) \<and>
    snd (refresh_token E rq tok (auth_run E reqs db1)) \<noteq> Inr ts"
proof -
  have ok1: "sessions_ok db1"
    using issue_sessions_ok [OF assms(2)] assms(1) by (simp add: auth_ok_def)
  have ok: "sessions_ok (auth_run E reqs db1)"
    using auth_run_sessions_ok [OF ok1] .
  obtain s where "s \<in> set (auth_sessions db1)" "ss_id s = id_session ids"
      "ss_expires_at s = timestamp (t0 + days_us (AUTH_SESSION_MAX_DAYS E))"
    by (rule issue_new_session_Inr [OF assms(2)]) auto
  moreover then have "find_session db1 (id_session ids) = Some s"
    using find_session_unique [OF ok1] by metis
  moreover then obtain s' where "find_session (auth_run E reqs db1) (id_session ids) = Some s'" "session_keeps s s'"
    using evolves_session [OF auth_run_evolves] by blast
  moreover have "\<not> timestamp now < timestamp (t0 + days_us (AUTH_SESSION_MAX_DAYS E))"
    using timestamp_lessI [OF assms(7)] by auto
  ultimately show ?thesis
    using unusable_session_refuses [OF ok _ _ assms(3-6)] session_keeps_usable by (auto simp: usable_def)
qed

lemma demo_str_1: "str_of_int 1 = ''1''"
  by code_simp

lemma demo_issue:
  "issue_new_session demo_auth_env 0 demo_ids 1 ''alice'' [] (demo_db [] []) =
     Inr (demo_db [demo_open_session None] [demo_token], ''A1'', ''R1'')"
  by (simp add: issue_new_session_def insert_auth_session_def insert_refresh_token_def new_token_row_def
      new_refresh_token_def create_access_token_def refresh_payload_def access_payload_def claim_time_def
      find_session_def find_user_def find_token_def demo_rows demo_ids_def demo_auth_env_def demo_encode_def
      demo_refresh_claims_def demo_access_claims_def demo_bob_claims_def demo_str_1 days_us_def seconds_us_def Let_def)

theorem session_lifetime_is_bounded_witness:
  "snd (refresh_token demo_auth_env (demo_rq 604801000000 demo_ids2) ''R1''
     (auth_run demo_auth_env [(demo_rq 604800000000 demo_ids2, Refresh ''R1'')] (demo_db [demo_open_session None] [demo_token])))
   \<noteq> Inr (''A1'', ''R1'')"
proof (rule session_lifetime_is_bounded [OF demo_auth_ok(1) demo_issue, THEN conjunct2, THEN conjunct2])
  show "decode_token demo_auth_env 604801000000 ''R1'' = Some demo_refresh_claims"
    by (rule demo_decode_token)
  show "pget demo_refresh_claims ''sid'' = PStr (id_session demo_ids)"
    by (simp add: demo_claims_sid demo_ids_def)
  show "0 + days_us (AUTH_SESSION_MAX_DAYS demo_auth_env) + 1000000 \<le> (604801000000 :: int)"
    by (simp add: demo_auth_env_def days_us_def seconds_us_def)
qed (simp_all add: demo_ids_def demo_rq_def)

text \<open>
  The expiry is compared as text, and \<open>_timestamp\<close> leaves out a fraction of zero: a session that
  expires on a full second is still active half a second later.
\<close>

theorem session_outlives_its_expiry:
  "session_is_active 604800500000 1 ''s1'' (demo_db [demo_open_session None] []) \<and>
   ss_expires_at (demo_open_session None) = timestamp 604800000000"
  by (simp add: session_is_active_def demo_rows timestamp_def less_prod_def less_char_def)

text \<open>
  C7. A refresh token works once. After a successful rotation, presenting the same token again, after
  any history of requests, yields no tokens; and this replay ends the session: afterwards the session
  is inactive for good.
\<close>

theorem refresh_token_single_use:
  assumes "auth_ok db" and "rotate_refresh_token E now ids tok payload name perms db = Inr (db1, Some toks)"
    and "refresh_claims E payload = Some (u, j, sid, fam)"
  shows "\<exists>db2. rotate_refresh_token E now' ids' tok payload name' perms' (auth_run E reqs db1) = Inr (db2, None) \<and>
    \<not> session_is_active now'' u' sid (auth_run E reqs' db2)"
proof -
  have ok: "sessions_ok db" using assms(1) by (simp add: auth_ok_def)
  have ok1: "sessions_ok db1" using rotate_sessions_ok [OF assms(2) ok] .
  from assms(2) obtain t s where t: "t \<in> set (auth_refresh_tokens db1)" "tk_jti t = j" "tk_used_at t \<noteq> None"
    and s: "find_session db sid = Some s" "ss_user_id s = u" "ss_family_id s = fam"
  proof (cases rule: rotate_cases)
    case (rotated u2 j2 sid2 fam2)
    have eq: "u2 = u" "j2 = j" "sid2 = sid" "fam2 = fam" using rotated(1) assms(3) by auto
    obtain t where "t \<in> set (auth_refresh_tokens db)" "unused_token j t"
      using rotated(3) eq sql_count_0 [of "unused_token j"] by (metis zero_neq_one)
    then have "use_token (timestamp now) t \<in> set (auth_refresh_tokens db1)" "tk_jti (use_token (timestamp now) t) = j"
        "tk_used_at (use_token (timestamp now) t) \<noteq> None"
      unfolding rotated(5) eq by (auto simp: in_sql_update unused_token_def use_token_def)
    moreover obtain s where "find_session db sid = Some s" "ss_user_id s = u" "ss_family_id s = fam"
      using rotated(2) eq by (auto simp: refresh_valid_def split: option.splits)
    ultimately show thesis using that by blast
  qed simp_all
  let ?db = "auth_run E reqs db1"
  have ev: "auth_evolves db ?db"
    using auth_evolves_trans [OF rotate_evolves [OF assms(2)] auth_run_evolves] .
  obtain t' where "find_token ?db j = Some t'" "token_keeps t t'"
    using evolves_token [OF auth_run_evolves] find_token_unique [OF ok1 t(1)] t(2) by metis
  then have "\<not> refresh_valid E (timestamp now') tok u fam (find_session ?db sid) (find_token ?db j)"
    using t(3) by (auto simp: refresh_valid_def token_keeps_def keeps_opt_def split: option.splits)
  then have rot: "rotate_refresh_token E now' ids' tok payload name' perms' ?db =
      Inr (revoke_family (timestamp now') u sid fam ?db, None)"
    using invalid_rotation [OF assms(3)] by simp
  let ?db2 = "revoke_family (timestamp now') u sid fam ?db"
  have "sessions_ok ?db2"
    by (rule revoke_family_ok [OF auth_run_sessions_ok [OF ok1]])
  then have ok3: "sessions_ok (auth_run E reqs' ?db2)"
    by (rule auth_run_sessions_ok)
  obtain s1 where s1: "find_session ?db sid = Some s1" "session_keeps s s1"
    using evolves_session [OF ev s(1)] by blast
  moreover have "find_session ?db2 sid = Some (revoke_session_row (timestamp now') ''refresh_replay_or_invalid'' s1)"
    using revoke_family_find [OF s1(1)] s1(2) s(2,3) by (simp add: session_keeps_def)
  then obtain s3 where "find_session (auth_run E reqs' ?db2) sid = Some s3"
      "session_keeps (revoke_session_row (timestamp now') ''refresh_replay_or_invalid'' s1) s3"
    using evolves_session [OF auth_run_evolves] by blast
  ultimately have "\<not> session_is_active now'' u' sid (auth_run E reqs' ?db2)"
    using inactive_session [OF ok3] session_keeps_usable revoked_not_usable by blast
  with rot show ?thesis by blast
qed

definition demo_rotated :: auth_db where
  "demo_rotated =
     demo_db [(demo_open_session None)\<lparr>ss_last_seen_at := timestamp 1000000\<rparr>]
       [demo_token\<lparr>tk_used_at := Some (timestamp 1000000)\<rparr>,
        new_token_row demo_auth_env 1000000 ''r2'' ''X'' 1 ''s1'' ''f1'']"

lemma demo_rotate:
  "rotate_refresh_token demo_auth_env 1000000 demo_ids2 ''R1'' demo_refresh_claims ''alice'' [] (demo_db [demo_open_session None] [demo_token]) =
     Inr (demo_rotated, Some (''X'', ''X''))"
  "refresh_claims demo_auth_env demo_refresh_claims = Some (1, ''r1'', ''s1'', ''f1'')"
proof -
  show claims: "refresh_claims demo_auth_env demo_refresh_claims = Some (1, ''r1'', ''s1'', ''f1'')"
    by (simp add: refresh_claims_def demo_refresh_claims_def py_int_of_str_def str_strip_def is_space_def is_digit_def)
  have enc: "new_refresh_token demo_auth_env 1000000 ''r2'' 1 ''alice'' ''s1'' ''f1'' = ''X''"
    "create_access_token demo_auth_env 1000000 ''a2'' 1 ''alice'' [] (Some ''s1'') = ''X''"
    by (simp_all add: new_refresh_token_def refresh_payload_def create_access_token_def access_payload_def
        demo_auth_env_def demo_encode_def demo_refresh_claims_def demo_access_claims_def demo_bob_claims_def)
  have valid: "refresh_valid demo_auth_env (timestamp 1000000) ''R1'' 1 ''f1'' (Some (demo_open_session None)) (Some demo_token)"
    using timestamp_lessI [of 1000000 604800000000]
    by (simp add: refresh_valid_def demo_open_session_def demo_token_def demo_auth_env_def)
  show "rotate_refresh_token demo_auth_env 1000000 demo_ids2 ''R1'' demo_refresh_claims ''alice'' [] (demo_db [demo_open_session None] [demo_token]) =
     Inr (demo_rotated, Some (''X'', ''X''))"
    using valid
    by (simp add: rotate_refresh_token_def claims enc find_session_def find_token_def demo_db_def demo_ids2_def)
      (simp add: demo_rotated_def demo_db_def demo_open_session_def demo_token_def unused_token_def use_token_def
        insert_refresh_token_def find_session_def find_token_def find_user_def demo_alice_def new_token_row_def
        table_simps Let_def, simp add: demo_auth_env_def)
qed

theorem refresh_token_single_use_witness:
  "\<exists>db2. rotate_refresh_token demo_auth_env 2000000 demo_ids2 ''R1'' demo_refresh_claims ''alice'' []
      (auth_run demo_auth_env [] demo_rotated) = Inr (db2, None) \<and>
    \<not> session_is_active 3000000 1 ''s1'' (auth_run demo_auth_env [(demo_rq 3 demo_ids2, Login ''alice'' ''password'')] db2)"
  using refresh_token_single_use [OF demo_auth_ok(3) demo_rotate] by blast

subsection \<open>The chain of refresh tokens\<close>


definition demo_body :: account_body where
  "demo_body =
     \<lparr>ab_username = ''alice'', ab_password = ''password'', ab_display_name = None, ab_email = None, ab_is_admin = False\<rparr>"

lemma demo_register:
  "auth_run demo_auth_env [(demo_rq 0 demo_ids, Register demo_body None)] empty_auth_db =
     demo_db [demo_open_session None] [demo_token]"
proof -
  have ok: "credentials_ok demo_body"
    by (simp add: credentials_ok_def demo_body_def username_char_def)
  have boot: "is_bootstrap_admin demo_auth_env None empty_auth_db"
    by (simp add: is_bootstrap_admin_def demo_auth_env_def empty_auth_db_def)
  have ins: "insert_user demo_auth_env 0 demo_body True empty_auth_db = demo_db [] []"
    by (simp add: insert_user_def empty_auth_db_def demo_body_def demo_auth_env_def demo_db_def demo_alice_def)
  have fields: "users empty_auth_db = []" "next_user_id empty_auth_db = 1" "ab_username demo_body = ''alice''"
    by (simp_all add: empty_auth_db_def demo_body_def)
  have acc: "add_account demo_auth_env 0 demo_body True 1 empty_auth_db = (demo_db [] [], Inr ())"
    by (simp add: add_account_def ins fields)
  have "register demo_auth_env (demo_rq 0 demo_ids) demo_body None empty_auth_db =
      (demo_db [demo_open_session None] [demo_token], Inr (1, True, ''A1'', ''R1''))"
    unfolding register_def sbind_def Let_def by (simp add: ok boot acc demo_issue fields demo_rq_def)
  then show ?thesis by (simp add: auth_run_def)
qed


text \<open>
  C35. Accounts stay consistent in every reachable state: user ids and names are unique, no permission
  is granted twice, every granted permission is one of the fifteen permissions of the vocabulary and
  belongs to an existing user, and every refresh token belongs to a session of the same user and family.
\<close>

theorem reachable_accounts_consistent:
  "accounts_ok (auth_run E reqs empty_auth_db) \<and> sessions_ok (auth_run E reqs empty_auth_db)"
  using auth_run_ok [OF empty_auth_ok, of E reqs] by (simp add: auth_ok_def)

subsection \<open>Using a login\<close>

text \<open>A successful login, seen as a stamp on one user row and a new session.\<close>

lemma login_Inr:
  assumes "login E rq name pw db = (db1, Inr (uid, adm, access, refresh))"
  obtains row db0 where "find (\<lambda>u. u_username u = name) (users db) = Some row" "u_is_active row"
    "uid = u_id row" "adm = u_is_admin row"
    "users db0 = sql_update (\<lambda>u. u_id u = u_id row) (\<lambda>u. u\<lparr>u_last_login := Some (rq_now rq div 1000000)\<rparr>) (users db)"
    "user_permissions db0 = user_permissions db"
    "issue_new_session E (rq_now rq) (rq_ids rq) uid name [] db0 = Inr (db1, access, refresh)"
proof -
  obtain d r where thr: "limit_login E (rq_monotonic rq) (rq_host rq) name db = (d, r)" by fastforce
  then have d: "users d = users db" "user_permissions d = user_permissions db"
    using throttle_frame(1,2) by (metis fst_conv limit_login_def)+
  obtain row where row: "find (\<lambda>u. u_username u = name) (users db) = Some row"
    using assms thr d by (cases "find (\<lambda>u. u_username u = name) (users db)")
      (auto simp: login_def sbind_def split: sum.splits)
  then have "u_username row = name" by (auto dest: find_Some_mem)
  with assms thr d row show thesis
    by (intro that [of row "d\<lparr>users := sql_update (\<lambda>u. u_id u = u_id row)
          (\<lambda>u. u\<lparr>u_last_login := Some (rq_now rq div 1000000)\<rparr>) (users d)\<rparr>"])
      (auto simp: login_def sbind_def Let_def split: sum.splits if_splits)
qed

text \<open>
  C32. A login can be used: the access token a login returns authenticates, in the state the login left
  behind and while PyJWT decodes it and the session lasts, as exactly the user who logged in, with
  that user's role and current permissions, bound to the new session.
\<close>

theorem login_access_roundtrip:
  assumes "auth_ok db" and "login E rq name pw db = (db1, Inr (uid, adm, access, refresh))"
    and "id_session (rq_ids rq) \<noteq> []"
    and "decode_token E now access =
      Some (access_payload E (rq_now rq) (id_access (rq_ids rq)) uid name [] (Some (id_session (rq_ids rq))))"
    and "now + 1000000 \<le> rq_now rq + days_us (AUTH_SESSION_MAX_DAYS E)"
  shows "get_current_user E now (Some access) db1 =
    Inr \<lparr>cu_id = uid, cu_username = name, cu_is_admin = adm, cu_permissions = permissions_of db uid,
         cu_jti = PStr (id_access (rq_ids rq)), cu_session_id = Some (id_session (rq_ids rq))\<rparr>"
proof (rule login_Inr [OF assms(2)])
  fix row db0
  assume row: "find (\<lambda>u. u_username u = name) (users db) = Some row" "u_is_active row"
      "uid = u_id row" "adm = u_is_admin row"
    and db0: "users db0 = sql_update (\<lambda>u. u_id u = u_id row) (\<lambda>u. u\<lparr>u_last_login := Some (rq_now rq div 1000000)\<rparr>) (users db)"
      "user_permissions db0 = user_permissions db"
    and iss: "issue_new_session E (rq_now rq) (rq_ids rq) uid name [] db0 = Inr (db1, access, refresh)"
  have mem: "row \<in> set (users db)" "u_username row = name"
    using find_Some_mem [OF row(1)] by auto
  have "find (\<lambda>u. u_id u = uid) (users db) = Some row"
    using assms(1) mem(1) row(3) by (simp add: auth_ok_def accounts_ok_def find_key_eq)
  then have usr: "find_user db0 uid = Some (row\<lparr>u_last_login := Some (rq_now rq div 1000000)\<rparr>)"
    using find_sql_update [of u_id "\<lambda>u. u\<lparr>u_last_login := Some (rq_now rq div 1000000)\<rparr>" uid "users db" row] row(3)
    by (simp add: find_user_def db0)
  obtain s where s: "s \<in> set (auth_sessions db1)" "ss_id s = id_session (rq_ids rq)" "ss_user_id s = uid"
      "ss_revoked_at s = None" "ss_expires_at s = timestamp (rq_now rq + days_us (AUTH_SESSION_MAX_DAYS E))"
    and frame: "users db1 = users db0" "user_permissions db1 = user_permissions db0"
    by (rule issue_new_session_Inr [OF iss]) auto
  have "session_is_active now uid (id_session (rq_ids rq)) db1"
    using s timestamp_lessI [OF assms(5)] by (auto simp: session_is_active_def list_ex_iff)
  moreover have "find_user db1 uid = find_user db0 uid" "permissions_of db1 uid = permissions_of db uid"
    using frame db0(2) by (simp_all add: find_user_def permissions_of_def)
  moreover have "str_of_int uid \<noteq> []"
    using str_of_nat_digits by (auto simp: str_of_int_def)
  ultimately show ?thesis
    using usr row mem assms(3,4)
    by (simp add: get_current_user_def access_payload_def dict_get_def session_refused_def sid_of_def)
qed

lemma demo_login:
  "login demo_auth_env (demo_rq 0 demo_ids) ''alice'' ''password'' (demo_db [] []) =
     (fst (login demo_auth_env (demo_rq 0 demo_ids) ''alice'' ''password'' (demo_db [] [])), Inr (1, True, ''A1'', ''R1''))"
  by (simp add: login_def sbind_def limit_login_def throttle_def enforce_auth_rate_limit_def demo_rq_def
      demo_db_def demo_alice_def demo_auth_env_def Let_def issue_new_session_def insert_auth_session_def
      insert_refresh_token_def new_token_row_def new_refresh_token_def create_access_token_def refresh_payload_def
      access_payload_def claim_time_def find_session_def find_user_def find_token_def table_simps demo_ids_def
      demo_encode_def demo_refresh_claims_def demo_access_claims_def demo_bob_claims_def demo_str_1 days_us_def seconds_us_def)

theorem login_access_roundtrip_witness:
  "get_current_user demo_auth_env 5 (Some ''A1'')
     (fst (login demo_auth_env (demo_rq 0 demo_ids) ''alice'' ''password'' (demo_db [] []))) =
   Inr \<lparr>cu_id = 1, cu_username = ''alice'', cu_is_admin = True, cu_permissions = [], cu_jti = PStr ''a1'',
        cu_session_id = Some ''s1''\<rparr>"
proof -
  have "decode_token demo_auth_env 5 ''A1'' =
      Some (access_payload demo_auth_env (rq_now (demo_rq 0 demo_ids)) (id_access (rq_ids (demo_rq 0 demo_ids))) 1
        ''alice'' [] (Some (id_session (rq_ids (demo_rq 0 demo_ids)))))"
    unfolding demo_decode_token
    by (simp add: demo_rq_def demo_ids_def access_payload_def demo_access_claims_def demo_str_1
        claim_time_def demo_auth_env_def seconds_us_def)
  from login_access_roundtrip [OF demo_auth_ok(1) demo_login _ this]
  show ?thesis
    by (simp add: demo_rq_def demo_ids_def demo_auth_env_def days_us_def seconds_us_def permissions_of_def demo_db_def)
qed

subsection \<open>The throttle\<close>

text \<open>
  A history of attempts on one bucket: calls \<open>(time, key)\<close> in the order of the monotonic clock, and
  the log of those that were let through.
\<close>

definition window_start :: "int \<Rightarrow> rat \<Rightarrow> rat" where
  "window_start window_seconds now = fsub now (of_int (max window_seconds 1))"

definition throttle_call ::
  "int \<Rightarrow> int \<Rightarrow> rat \<times> string \<Rightarrow> (string, rat list) dict \<times> (rat \<times> string) list \<Rightarrow>
   (string, rat list) dict \<times> (rat \<times> string) list" where
  "throttle_call limit w c st =
     (case enforce_auth_rate_limit (fst c) (snd c) limit w (fst st) of
        (att, r) \<Rightarrow> (att, if r = Inr () then snd st @ [c] else snd st))"

definition accepted_attempts :: "int \<Rightarrow> int \<Rightarrow> (rat \<times> string) list \<Rightarrow> (rat \<times> string) list" where
  "accepted_attempts limit w calls = snd (fold (throttle_call limit w) calls ([], []))"

definition within_window :: "int \<Rightarrow> rat \<times> string \<Rightarrow> (rat \<times> string) list \<Rightarrow> nat" where
  "within_window w c hist =
     length (filter (\<lambda>d. snd d = snd c \<and> window_start w (fst c) < fst d \<and> fst d \<le> fst c) hist)"

definition times_of :: "string \<Rightarrow> (rat \<times> string) list \<Rightarrow> rat list" where
  "times_of k hist = map fst (filter (\<lambda>d. snd d = k) hist)"

lemma within_window_times:
  "within_window w c hist = length (filter (\<lambda>e. window_start w (fst c) < e \<and> e \<le> fst c) (times_of (snd c) hist))"
  by (simp add: within_window_def times_of_def filter_map comp_def conj_commute)

lemma window_start_mono: "t \<le> t' \<Longrightarrow> window_start w t \<le> window_start w t'"
  by (simp add: window_start_def fsub_def fl_mono)

text \<open>
  The invariant of the log up to the clock value \<open>now\<close>: the entries kept for a key are the latest
  accepted times of that key, and those no longer kept have left the window.
\<close>

definition throttle_inv ::
  "int \<Rightarrow> int \<Rightarrow> rat \<Rightarrow> (string, rat list) dict \<times> (rat \<times> string) list \<Rightarrow> bool" where
  "throttle_inv limit w now st =
     ((\<forall>d\<in>set (snd st). fst d \<le> now) \<and>
      (\<forall>k. sorted (times_of k (snd st)) \<and>
           (\<exists>gone. times_of k (snd st) = gone @ dict_get (fst st) k [] \<and> (\<forall>e\<in>set gone. e \<le> window_start w now))) \<and>
      (\<forall>d\<in>set (snd st). int (within_window w d (snd st)) \<le> max limit 1))"

lemma times_of_le: "\<forall>d\<in>set hist. fst d \<le> now \<Longrightarrow> e \<in> set (times_of k hist) \<Longrightarrow> e \<le> now"
  by (auto simp: times_of_def)

lemma sorted_dropWhile_gt:
  fixes xs :: "rat list"
  shows "sorted xs \<Longrightarrow> e \<in> set (dropWhile (\<lambda>x. x \<le> c) xs) \<Longrightarrow> c < e"
  by (induction xs) (auto split: if_splits)

text \<open>What a call sees: the entries left after the expired ones are dropped are exactly those in its window.\<close>

lemma throttle_inv_kept:
  fixes k
  assumes "throttle_inv limit w now (att, hist)" and "now \<le> t"
  defines "kept \<equiv> dropWhile (\<lambda>e. e \<le> window_start w t) (dict_get att k [])"
  shows "length (filter (\<lambda>e. window_start w t < e \<and> e \<le> t) (times_of k hist)) = length kept"
    and "\<exists>gone. times_of k hist = gone @ kept \<and> (\<forall>e\<in>set gone. e \<le> window_start w t)"
proof -
  obtain gone where gone: "times_of k hist = gone @ dict_get att k []" "\<forall>e\<in>set gone. e \<le> window_start w now"
    and sorted: "sorted (times_of k hist)" and le: "\<forall>d\<in>set hist. fst d \<le> now"
    using assms(1) unfolding throttle_inv_def fst_conv snd_conv by metis
  let ?old = "takeWhile (\<lambda>e. e \<le> window_start w t) (dict_get att k [])"
  have split: "times_of k hist = (gone @ ?old) @ kept"
    by (simp add: gone(1) kept_def)
  have out: "\<forall>e\<in>set (gone @ ?old). e \<le> window_start w t"
    using gone(2) window_start_mono [OF assms(2), of w] by (auto dest: set_takeWhileD)
  have inn: "window_start w t < e \<and> e \<le> t" if "e \<in> set kept" for e
    using that sorted times_of_le [OF le, of e k] assms(2) sorted_dropWhile_gt [of "dict_get att k []" e]
    by (auto simp: gone(1) sorted_append kept_def split dest: set_dropWhileD)
  have "filter (\<lambda>e. window_start w t < e \<and> e \<le> t) (gone @ ?old) = []"
    unfolding filter_empty_conv using out by (meson leD)
  moreover have "filter (\<lambda>e. window_start w t < e \<and> e \<le> t) kept = kept"
    using inn by simp
  ultimately show "length (filter (\<lambda>e. window_start w t < e \<and> e \<le> t) (times_of k hist)) = length kept"
    by (simp only: split filter_append append_Nil)
  show "\<exists>gone. times_of k hist = gone @ kept \<and> (\<forall>e\<in>set gone. e \<le> window_start w t)"
    using split out by blast
qed

lemma throttle_inv_step:
  assumes inv: "throttle_inv limit w now (att, hist)" and le: "now \<le> t"
  shows "throttle_inv limit w t (throttle_call limit w (t, k) (att, hist))"
proof -
  define kept where "kept = dropWhile (\<lambda>e. e \<le> window_start w t) (dict_get att k [])"
  note kept = throttle_inv_kept [OF inv le, of k, folded kept_def]
  have old: "\<forall>d\<in>set hist. fst d \<le> now" "\<And>k. sorted (times_of k hist)"
    "\<And>d. d \<in> set hist \<Longrightarrow> int (within_window w d hist) \<le> max limit 1"
    using inv by (auto simp: throttle_inv_def)
  have others: "\<exists>gone. times_of k' hist = gone @ dict_get att k' [] \<and> (\<forall>e\<in>set gone. e \<le> window_start w t)" for k'
    using inv window_start_mono [OF le, of w] by (fastforce simp: throttle_inv_def)
  have snoc: "times_of k' (hist @ [(t, k)]) = times_of k' hist @ (if k' = k then [t] else [])" for k'
    by (simp add: times_of_def)
  show ?thesis
  proof (cases "max limit 1 \<le> int (length kept)")
    case True
    then have "throttle_call limit w (t, k) (att, hist) = (AList.update k kept att, hist)"
      by (simp add: throttle_call_def enforce_auth_rate_limit_def kept_def window_start_def Let_def)
    then show ?thesis
      using old kept(2) others le by (auto simp: throttle_inv_def dict_simps)
  next
    case False
    then have st: "throttle_call limit w (t, k) (att, hist) = (AList.update k (kept @ [t]) att, hist @ [(t, k)])"
      by (simp add: throttle_call_def enforce_auth_rate_limit_def kept_def window_start_def Let_def)
    have new: "int (within_window w (t, k) (hist @ [(t, k)])) \<le> max limit 1"
    proof -
      have "within_window w (t, k) (hist @ [(t, k)]) \<le> length kept + 1"
        using kept(1) by (simp add: within_window_times snoc)
      with False show ?thesis by linarith
    qed
    have "int (within_window w d (hist @ [(t, k)])) \<le> max limit 1" if "d \<in> set hist" for d
    proof (cases "d = (t, k)")
      case True
      then show ?thesis using new by simp
    next
      case False
      then have "\<not> (k = snd d \<and> t \<le> fst d)"
        using old(1) that le by (cases d) force
      then have "within_window w d (hist @ [(t, k)]) = within_window w d hist"
        by (auto simp: within_window_def)
      then show ?thesis using old(3) [OF that] by simp
    qed
    moreover have "sorted (times_of k' (hist @ [(t, k)]))" for k'
      using old(2) times_of_le [OF old(1)] le by (fastforce simp: snoc sorted_append)
    moreover have "\<exists>gone. times_of k' (hist @ [(t, k)]) = gone @ dict_get (AList.update k (kept @ [t]) att) k' [] \<and>
        (\<forall>e\<in>set gone. e \<le> window_start w t)" for k'
      using kept(2) others [of k'] by (cases "k' = k") (auto simp: snoc dict_simps)
    ultimately show ?thesis
      using old(1) le new unfolding st throttle_inv_def by force
  qed
qed

text \<open>
  C33. The throttle is a sliding window: for calls in the order of the clock, at the moment of every
  accepted attempt no more than the configured number of attempts with the same key were accepted
  within the window that ends there, that attempt included.
\<close>

theorem throttle_bounds_attempts:
  assumes "sorted (map fst calls)" and "c \<in> set (accepted_attempts limit w calls)"
  shows "int (within_window w c (accepted_attempts limit w calls)) \<le> max limit 1"
proof -
  have "throttle_inv limit w now (fold (throttle_call limit w) calls st)"
    if "throttle_inv limit w t st" "sorted (map fst calls)" "\<forall>c\<in>set calls. t \<le> fst c \<and> fst c \<le> now" "t \<le> now"
    for now t st calls
    using that
  proof (induction calls arbitrary: t st)
    case Nil
    then show ?case
      using window_start_mono [OF Nil(4), of w] by (fastforce simp: throttle_inv_def)
  next
    case (Cons c calls)
    then show ?case
      using throttle_inv_step [of limit w t "fst st" "snd st" "fst c" "snd c"] by (simp add: Cons.IH [of "fst c"])
  qed
  moreover have "throttle_inv limit w t ([], [])" for t
    by (simp add: throttle_inv_def times_of_def)
  ultimately have inv: "throttle_inv limit w now (fold (throttle_call limit w) calls ([], []))"
    if "\<forall>c\<in>set calls. t \<le> fst c \<and> fst c \<le> now" "t \<le> now" for t now
    using assms(1) that by blast
  have "throttle_inv limit w (Max (insert 0 (fst ` set calls))) (fold (throttle_call limit w) calls ([], []))"
    by (rule inv [of "Min (insert 0 (fst ` set calls))"]) (auto intro: order_trans [of _ 0])
  then show ?thesis
    using assms(2) by (simp add: throttle_inv_def accepted_attempts_def)
qed

theorem throttle_bounds_attempts_witness:
  "int (within_window 10 (20, ''k'') (accepted_attempts 1 10 [(1, ''k''), (2, ''k''), (3, ''j''), (20, ''k'')])) \<le> max 1 1"
proof (rule throttle_bounds_attempts)
  show "(20, ''k'') \<in> set (accepted_attempts 1 10 [(1, ''k''), (2, ''k''), (3, ''j''), (20, ''k'')])"
    by code_simp
qed simp

subsection \<open>Administration\<close>

lemma revoke_all_find:
  assumes "find_session db sid = Some s" and "ss_user_id s = u"
  shows "\<exists>s'. find_session (fst (revoke_session now u None r db)) sid = Some s' \<and> ss_revoked_at s' \<noteq> None"
  using find_sql_update [of ss_id "revoke_session_row (timestamp now) r" sid "auth_sessions db" s
      "\<lambda>s. ss_user_id s = u \<and> ss_revoked_at s = None"] assms
  by (auto simp: find_session_def revoke_session_def Let_def revoke_session_row_def coalesce_def split: option.splits)

lemma delete_user_Inr:
  assumes "delete_user E rq c i db = (db1, Inr ())"
  obtains d where "db1 = fst (revoke_session (rq_now rq) i None ''admin_account_deactivated'' d)"
    "auth_sessions d = auth_sessions db" "auth_refresh_tokens d = auth_refresh_tokens db"
proof -
  obtain g r where guard: "admin_guard E rq c db = (g, r)" by fastforce
  then have "auth_sessions g = auth_sessions db" "auth_refresh_tokens g = auth_refresh_tokens db"
    using throttle_frame(3,4)
    by (auto simp: admin_guard_def sbind_def limit_sensitive_def split: sum.splits prod.splits) (metis fst_conv)+
  with assms guard show thesis
    by (auto simp: delete_user_def sbind_def Let_def set_user_active_def drop_legacy_sessions_def
        split: sum.splits if_splits intro!: that)
qed

text \<open>
  Deactivating an account ends its sessions for good: after an administrator deleted (deactivated)
  a user, every session that user had at that moment is refused in every later state, also when the
  account is enabled again.
\<close>

theorem deactivation_ends_sessions:
  assumes "auth_ok db" and "delete_user E rq0 cred target db = (db1, Inr ())"
    and "find_session db sid = Some s" and "ss_user_id s = target" and "sid \<noteq> []"
    and "decode_token E now tok = Some payload" and "pget payload ''sid'' = PStr sid" and "rq_now rq = now"
  shows "get_current_user E now (Some tok) (auth_run E reqs db1) \<noteq> Inr cu \<and>
    snd (refresh_token E rq tok (auth_run E reqs db1)) \<noteq> Inr ts"
proof (rule delete_user_Inr [OF assms(2)])
  fix d
  assume d: "db1 = fst (revoke_session (rq_now rq0) target None ''admin_account_deactivated'' d)"
    "auth_sessions d = auth_sessions db" "auth_refresh_tokens d = auth_refresh_tokens db"
  have "sessions_ok db1"
    unfolding d(1) by (rule revoke_session_ok) (use assms(1) d in \<open>simp add: auth_ok_def sessions_ok_def\<close>)
  then have ok: "sessions_ok (auth_run E reqs db1)"
    by (rule auth_run_sessions_ok)
  have "find_session d sid = Some s" using assms(3) d(2) by (simp add: find_session_def)
  then obtain s1 where s1: "find_session db1 sid = Some s1" "ss_revoked_at s1 \<noteq> None"
    using revoke_all_find assms(4) unfolding d(1) by blast
  moreover obtain s2 where "find_session (auth_run E reqs db1) sid = Some s2" "session_keeps s1 s2"
    using evolves_session [OF auth_run_evolves s1(1)] by blast
  ultimately show ?thesis
    using unusable_session_refuses [OF ok _ _ assms(5-8)] session_keeps_usable by (auto simp: usable_def)
qed

lemma demo_team_ok: "auth_ok demo_team"
  by (simp add: auth_ok_def sessions_ok_def accounts_ok_def demo_team_def demo_bob_def demo_rows
      is_valid_permission_def all_permissions_def)

lemma demo_str_digit: "py_int_of_str ''1'' = Some 1" "py_int_of_str ''2'' = Some 2"
  by (simp_all add: py_int_of_str_def str_strip_def is_space_def is_digit_def)

lemma demo_user:
  "get_current_user demo_auth_env 5 (Some ''A1'') demo_team =
     Inr \<lparr>cu_id = 1, cu_username = ''alice'', cu_is_admin = True, cu_permissions = [], cu_jti = PStr ''a1'',
          cu_session_id = Some ''s1''\<rparr>"
  "get_current_user demo_auth_env 5 (Some ''B1'') demo_team =
     Inr \<lparr>cu_id = 2, cu_username = ''bob'', cu_is_admin = False, cu_permissions = [''admin:users''],
          cu_jti = PStr ''b1'', cu_session_id = Some ''s2''\<rparr>"
proof -
  have "session_is_active 5 1 ''s1'' demo_team" "session_is_active 5 2 ''s2'' demo_team"
    using timestamp_lessI [of 5 604800000000]
    by (simp_all add: session_is_active_def demo_team_def demo_open_session_def)
  moreover have "pget demo_access_claims ''type'' = PStr ''access''" "pget demo_access_claims ''sub'' = PStr ''1''"
    "pget demo_access_claims ''jti'' = PStr ''a1''" "pget demo_bob_claims ''type'' = PStr ''access''"
    "pget demo_bob_claims ''sub'' = PStr ''2''" "pget demo_bob_claims ''jti'' = PStr ''b1''"
    by (simp_all add: demo_access_claims_def demo_bob_claims_def dict_get_def)
  moreover have "find_user demo_team 1 = Some demo_alice" "find_user demo_team 2 = Some demo_bob"
    "permissions_of demo_team 1 = []" "permissions_of demo_team 2 = [''admin:users'']"
    by (simp_all add: find_user_def permissions_of_def demo_team_def demo_alice_def demo_bob_def)
  ultimately show "get_current_user demo_auth_env 5 (Some ''A1'') demo_team =
     Inr \<lparr>cu_id = 1, cu_username = ''alice'', cu_is_admin = True, cu_permissions = [], cu_jti = PStr ''a1'',
          cu_session_id = Some ''s1''\<rparr>"
    and "get_current_user demo_auth_env 5 (Some ''B1'') demo_team =
     Inr \<lparr>cu_id = 2, cu_username = ''bob'', cu_is_admin = False, cu_permissions = [''admin:users''],
          cu_jti = PStr ''b1'', cu_session_id = Some ''s2''\<rparr>"
    unfolding get_current_user_def bind.simps demo_decode_token
    by (simp_all add: demo_claims_sid demo_str_digit session_refused_def sid_of_def)
      (simp_all add: demo_alice_def demo_bob_def)
qed

lemma demo_limit: "snd (limit_sensitive demo_auth_env 0 h i demo_team) = Inr ()"
  by (simp add: limit_sensitive_def throttle_def enforce_auth_rate_limit_def Let_def demo_auth_env_def demo_team_def)

lemma demo_limit_db:
  "users (fst (limit_sensitive E m h i db)) = users db"
  "next_user_id (fst (limit_sensitive E m h i db)) = next_user_id db"
  by (simp_all add: limit_defs auth_frame)

lemma demo_guard:
  "admin_guard demo_auth_env (demo_rq 5 demo_ids2) (Some ''A1'') demo_team =
     (fst (limit_sensitive demo_auth_env 0 None 1 demo_team),
      Inr \<lparr>cu_id = 1, cu_username = ''alice'', cu_is_admin = True, cu_permissions = [], cu_jti = PStr ''a1'',
          cu_session_id = Some ''s1''\<rparr>)"
  "admin_guard demo_auth_env (demo_rq 5 demo_ids2) (Some ''B1'') demo_team =
     (fst (limit_sensitive demo_auth_env 0 None 2 demo_team),
      Inr \<lparr>cu_id = 2, cu_username = ''bob'', cu_is_admin = False, cu_permissions = [''admin:users''],
          cu_jti = PStr ''b1'', cu_session_id = Some ''s2''\<rparr>)"
  using demo_limit
  by (simp_all add: admin_guard_def sbind_def demo_rq_def demo_user require_permission_def case_prod_beta)

lemma demo_delete:
  "delete_user demo_auth_env (demo_rq 5 demo_ids2) (Some ''A1'') 2 demo_team =
     (fst (delete_user demo_auth_env (demo_rq 5 demo_ids2) (Some ''A1'') 2 demo_team), Inr ())"
proof -
  have "find_user (fst (limit_sensitive demo_auth_env 0 None 1 demo_team)) 2 = Some demo_bob"
    by (simp add: find_user_def demo_limit_db) (simp add: demo_team_def demo_alice_def demo_bob_def)
  then show ?thesis by (simp add: delete_user_def demo_guard sbind_def Let_def)
qed

theorem deactivation_ends_sessions_witness:
  "get_current_user demo_auth_env 9 (Some ''B1'')
     (auth_run demo_auth_env [(demo_rq 7 demo_ids2, Update_user_status (Some ''A1'') 2 True)]
       (fst (delete_user demo_auth_env (demo_rq 5 demo_ids2) (Some ''A1'') 2 demo_team)))
   \<noteq> Inr \<lparr>cu_id = 2, cu_username = ''bob'', cu_is_admin = False, cu_permissions = [], cu_jti = PStr ''b1'',
          cu_session_id = Some ''s2''\<rparr>"
proof (rule deactivation_ends_sessions [OF demo_team_ok demo_delete, THEN conjunct1])
  show "find_session demo_team ''s2'' =
      Some ((demo_open_session None)\<lparr>ss_id := ''s2'', ss_user_id := 2, ss_family_id := ''f2''\<rparr>)"
    by (simp add: find_session_def demo_team_def demo_open_session_def)
  show "decode_token demo_auth_env 9 ''B1'' = Some demo_bob_claims" by (rule demo_decode_token)
  show "rq_now (demo_rq 9 demo_ids2) = 9" by (simp add: demo_rq_def)
qed (simp_all add: demo_claims_sid)

text \<open>
  The administration routes are open to whoever holds \<open>admin:users\<close>, and \<open>create_user\<close> takes the
  administrator flag from the request: Bob, who is no administrator, makes one.
\<close>

definition demo_new_admin :: account_body where
  "demo_new_admin =
     \<lparr>ab_username = ''mallory'', ab_password = ''password'', ab_display_name = None, ab_email = None, ab_is_admin = True\<rparr>"

theorem admin_permission_makes_administrators:
  "get_current_user demo_auth_env 5 (Some ''B1'') demo_team =
     Inr \<lparr>cu_id = 2, cu_username = ''bob'', cu_is_admin = False, cu_permissions = [''admin:users''],
          cu_jti = PStr ''b1'', cu_session_id = Some ''s2''\<rparr> \<and>
   snd (create_user demo_auth_env (demo_rq 5 demo_ids2) (Some ''B1'') demo_new_admin demo_team) = Inr 3 \<and>
   map (\<lambda>u. (u_username u, u_is_admin u))
     (users (fst (create_user demo_auth_env (demo_rq 5 demo_ids2) (Some ''B1'') demo_new_admin demo_team))) =
     [(''alice'', True), (''bob'', False), (''mallory'', True)]"
proof -
  have ok: "create_body_ok demo_new_admin"
    by (simp add: create_body_ok_def credentials_ok_def demo_new_admin_def username_char_def)
  have body: "ab_username demo_new_admin = ''mallory''" "ab_is_admin demo_new_admin"
    by (simp_all add: demo_new_admin_def)
  have two: "users demo_team = [demo_alice, demo_bob]" "next_user_id demo_team = 3"
    "u_username demo_alice = ''alice''" "u_username demo_bob = ''bob''" "u_is_admin demo_alice" "\<not> u_is_admin demo_bob"
    by (simp_all add: demo_team_def demo_alice_def demo_bob_def)
  show ?thesis
    by (simp add: demo_user create_user_def demo_guard sbind_def ok body add_account_def insert_user_def
        demo_limit_db two)
qed

definition by_admin :: "request_ctx \<times> auth_request \<Rightarrow> bool" where
  "by_admin r = (case snd r of Create_user c body \<Rightarrow> True | _ \<Rightarrow> False)"

definition admins :: "auth_db \<Rightarrow> nat" where
  "admins db = sql_count u_is_admin (users db)"

definition same_roles :: "auth_db \<Rightarrow> auth_db \<Rightarrow> bool" where
  "same_roles db db' = (map u_is_admin (users db') = map u_is_admin (users db))"

lemma same_roles_refl [simp, intro]: "same_roles db db"
  by (simp add: same_roles_def)

lemma same_roles_admins: "same_roles db db' \<Longrightarrow> admins db' = admins db"
proof -
  have "sql_count u_is_admin us = length (filter id (map u_is_admin us))" for us
    by (induction us) (simp_all add: table_simps)
  then show "same_roles db db' \<Longrightarrow> admins db' = admins db"
    unfolding same_roles_def admins_def by metis
qed

lemma same_roles_trans [trans]: "same_roles db db' \<Longrightarrow> same_roles db' db'' \<Longrightarrow> same_roles db db''"
  by (simp add: same_roles_def)

lemma same_roles_users: "users db' = users db \<Longrightarrow> same_roles db db'"
  by (simp add: same_roles_def)

lemma same_roles_update:
  "(\<And>u. u_is_admin (f u) = u_is_admin u) \<Longrightarrow> same_roles db (db\<lparr>users := sql_update p f (users db)\<rparr>)"
  by (simp add: same_roles_def map_sql_update)

lemma sbind_roles:
  assumes "same_roles db (fst p)" and "\<And>x. snd p = Inr x \<Longrightarrow> same_roles (fst p) (fst (k x (fst p)))"
  shows "same_roles db (fst (sbind p k))"
  using assms by (cases p; cases "snd p") (auto simp: sbind_def intro: same_roles_trans)

lemma roles_frame [simp, intro]:
  "same_roles db (fst (limit_login E m h n db))"
  "same_roles db (fst (limit_refresh E m h db))"
  "same_roles db (fst (limit_sensitive E m h i db))"
  "same_roles db (fst (revoke_session now u sid r db))"
  "same_roles db (revoke_family a u sd fam db)"
  "same_roles db (set_user_active i b db)"
  "same_roles db (drop_legacy_sessions i db)"
  "same_roles db (db\<lparr>user_permissions := ps\<rparr>)"
  by (simp_all add: same_roles_def limit_defs auth_frame revoke_session_def Let_def revoke_family_def
      set_user_active_def drop_legacy_sessions_def map_sql_update)

lemma issue_roles:
  "issue_new_session E now ids uid name perms db = Inr (db', tok) \<Longrightarrow> same_roles db db'"
  by (erule issue_new_session_Inr) (simp add: same_roles_def)

lemma rotate_roles:
  "rotate_refresh_token E now ids tok payload name perms db = Inr (db', out) \<Longrightarrow> same_roles db db'"
  by (erule rotate_cases) (auto intro: same_roles_users)

lemma insert_permissions_users:
  "rfold (insert_permission i g) ps db = Inr db' \<Longrightarrow> users db' = users db"
  by (rule rfold_invariant [where P = "\<lambda>d. users d = users db"])
    (auto simp: insert_permission_def split: if_splits)

lemma admin_guard_roles [simp, intro]: "same_roles db (fst (admin_guard E rq c db))"
  unfolding admin_guard_def by (auto intro!: sbind_roles)

lemma login_roles: "same_roles db (fst (login E rq name pw db))"
proof -
  have "same_roles d d'"
    if "issue_new_session E now ids uid n ps (d\<lparr>users := sql_update p (\<lambda>u. u\<lparr>u_last_login := l\<rparr>) (users d)\<rparr>) = Inr (d', t)"
    for d d' :: auth_db and now ids uid n ps p l t
    using same_roles_trans [OF same_roles_update issue_roles [OF that]] by simp
  then show ?thesis
    unfolding login_def by (auto simp: Let_def intro!: sbind_roles split: sum.splits option.splits)
qed

lemma request_roles:
  "same_roles db (fst (refresh_token E rq tok db))"
  "same_roles db (fst (get_sessions E rq c db))"
  "same_roles db (fst (logout E rq c al db))"
  "same_roles db (fst (delete_session E rq c sid db))"
  "same_roles db (fst (list_users E rq c db))"
  unfolding refresh_token_def get_sessions_def logout_def delete_session_def list_users_def
  by (auto intro!: sbind_roles simp: case_prod_beta split: sum.splits option.splits dest: rotate_roles)

lemma admin_request_roles:
  "same_roles db (fst (update_user_permissions E rq c i ps db))"
  "same_roles db (fst (update_user_status E rq c i b db))"
  "same_roles db (fst (delete_user E rq c i db))"
proof -
  have off: "same_roles d (fst (revoke_session now k None r (drop_legacy_sessions k d)))" for d now k r
    by (rule same_roles_trans [OF roles_frame(7,4)])
  show "same_roles db (fst (update_user_permissions E rq c i ps db))"
    unfolding update_user_permissions_def
    by (rule sbind_roles)
      (auto simp: Let_def same_roles_def split: sum.splits option.splits dest!: insert_permissions_users,
       simp add: admin_guard_roles [unfolded same_roles_def])
  show "same_roles db (fst (update_user_status E rq c i b db))"
    unfolding update_user_status_def
    by (auto intro!: sbind_roles simp: Let_def intro: same_roles_trans [OF roles_frame(6) off])
  show "same_roles db (fst (delete_user E rq c i db))"
    unfolding delete_user_def
    by (auto intro!: sbind_roles simp: Let_def
        intro: same_roles_trans [OF roles_frame(6) same_roles_trans [OF roles_frame(8) off]])
qed

lemma register_admins:
  assumes "admins db \<le> 1"
  shows "admins (fst (register E rq body bt db)) \<le> 1"
    and "ENVIRONMENT E = ''production'' \<Longrightarrow> BOOTSTRAP_ADMIN_TOKEN E = [] \<Longrightarrow> admins (fst (register E rq body bt db)) = admins db"
proof -
  let ?a = "is_bootstrap_admin E bt db"
  have acc: "admins (fst (add_account E now body ?a g db)) \<le> 1"
    "\<not> ?a \<Longrightarrow> admins (fst (add_account E now body ?a g db)) = admins db" for now g
    using assms insert_permissions_users
    by (auto simp: add_account_def Let_def insert_user_def admins_def is_bootstrap_admin_def table_simps
        split: sum.splits)
  have "admins (fst (register E rq body bt db)) =
      (if credentials_ok body then admins (fst (add_account E (rq_now rq) body ?a (next_user_id db) db)) else admins db)"
    by (auto simp: register_def sbind_def Let_def split: prod.splits sum.splits dest!: issue_roles same_roles_admins)
  moreover have "\<not> ?a" if "ENVIRONMENT E = ''production''" "BOOTSTRAP_ADMIN_TOKEN E = []"
    using that by (simp add: is_bootstrap_admin_def)
  ultimately show "admins (fst (register E rq body bt db)) \<le> 1"
    and "ENVIRONMENT E = ''production'' \<Longrightarrow> BOOTSTRAP_ADMIN_TOKEN E = [] \<Longrightarrow> admins (fst (register E rq body bt db)) = admins db"
    using acc assms by auto
qed

lemma handle_admins:
  assumes "admins db \<le> 1" and "\<not> by_admin r"
  shows "admins (handle E r db) \<le> 1"
    and "ENVIRONMENT E = ''production'' \<Longrightarrow> BOOTSTRAP_ADMIN_TOKEN E = [] \<Longrightarrow> admins (handle E r db) = admins db"
proof -
  obtain rq q where r: "r = (rq, q)" by (cases r)
  note roles = login_roles request_roles admin_request_roles
  have same: "admins (handle E r db) = admins db" if "\<nexists>body bt. q = Register body bt"
    using that assms(2) roles [THEN same_roles_admins] by (cases q) (simp_all add: r by_admin_def)
  show "admins (handle E r db) \<le> 1"
    using same assms(1) register_admins(1) [OF assms(1)] by (cases "\<exists>body bt. q = Register body bt") (auto simp: r)
  show "admins (handle E r db) = admins db" if "ENVIRONMENT E = ''production''" "BOOTSTRAP_ADMIN_TOKEN E = []"
    using same register_admins(2) [OF assms(1) that] by (cases "\<exists>body bt. q = Register body bt") (auto simp: r)
qed



end
