(* ===== verification/Scheduler.thy ===== *)
theory Scheduler
  imports Broker
begin

text \<open>
  The dispatcher: capacity decisions from host load (\<open>AdaptiveCapacityController\<close> of
  \<open>backend/jobs/resources.py\<close>), the scheduler that owns the leader lease, claims jobs up to that
  capacity and keeps their leases alive (\<open>AdaptiveJobScheduler\<close> of \<open>backend/jobs/scheduler.py\<close>), and its
  supervision (\<open>backend/jobs/worker.py\<close>).

  A load sample is an input; what SQLite answers to a transaction (\<open>access\<close>) and which job tasks are
  done are inputs as well. One \<open>scheduler_tick\<close> is one turn of the main loop of \<open>run\<close>; it reads the
  monotonic clock once. Of the alert evaluation only its outcome matters here: it writes none of the
  modelled tables. The release reasons, Chinese texts in the source, appear under English names.
\<close>

subsection \<open>Capacity\<close>

record load_snapshot =
  cpu_count :: int
  load_1m :: "rat option"
  normalized_load :: "rat option"
  memory_total_mb :: "rat option"
  memory_available_mb :: "rat option"
  memory_used_ratio :: "rat option"
  swap_used_mb :: "rat option"
  load_source :: string
  load_error :: "string option"
  disk_free_mb :: "rat option"
  io_pressure :: "rat option"
  io_source :: "string option"

record capacity_decision =
  d_capacity :: int
  d_configured_max :: int
  d_degraded :: bool
  d_reasons :: "string list"
  d_metrics :: load_snapshot
  d_pause_heavy :: bool
  d_admission_mode :: string

record sched_env = env +
  JOB_SCHEDULER_ENABLED :: bool
  JOB_SCHEDULER_MAX_CONCURRENCY :: int
  JOB_SCHEDULER_CPU_LOAD_LIMIT :: rat
  JOB_SCHEDULER_MEMORY_USED_LIMIT :: rat
  JOB_SCHEDULER_MIN_AVAILABLE_MEMORY_MB :: int
  JOB_SCHEDULER_MAX_SWAP_USED_MB :: int
  JOB_SCHEDULER_MAX_SWAP_GROWTH_MB :: int
  JOB_SCHEDULER_SCALE_UP_SAMPLES :: int
  JOB_SCHEDULER_SAMPLE_SECONDS :: rat
  JOB_SCHEDULER_CRITICAL_CPU_LOAD :: rat
  JOB_SCHEDULER_CRITICAL_MEMORY_USED :: rat
  JOB_SCHEDULER_CRITICAL_AVAILABLE_MEMORY_MB :: int
  JOB_SCHEDULER_MIN_DISK_FREE_MB :: int
  JOB_SCHEDULER_MAX_IO_PRESSURE :: rat
  JOB_SLO_EVALUATION_SECONDS :: rat

definition HARD_MAX_CAPACITY :: int where "HARD_MAX_CAPACITY = 2"

record controller =
  healthy_samples :: nat
  previous_swap_mb :: "rat option"

definition new_controller :: controller where
  "new_controller = \<lparr>healthy_samples = 0, previous_swap_mb = None\<rparr>"

definition configured_max :: "('a sched_env_scheme) \<Rightarrow> int" where
  "configured_max E = max 1 (min (JOB_SCHEDULER_MAX_CONCURRENCY E) HARD_MAX_CAPACITY)"

definition over :: "rat option \<Rightarrow> rat \<Rightarrow> bool" where
  "over x limit = (case x of None \<Rightarrow> False | Some v \<Rightarrow> v > limit)"

definition under :: "rat option \<Rightarrow> rat \<Rightarrow> bool" where
  "under x limit = (case x of None \<Rightarrow> False | Some v \<Rightarrow> v < limit)"

definition cond :: "bool \<Rightarrow> string \<Rightarrow> string list" where
  "cond b reason = (if b then [reason] else [])"

definition scale_reasons :: "('a sched_env_scheme) \<Rightarrow> rat option \<Rightarrow> load_snapshot \<Rightarrow> string list" where
  "scale_reasons E previous_swap m =
     cond (\<not> JOB_SCHEDULER_ENABLED E) ''scheduler_disabled'' @
     cond (configured_max E \<le> 1) ''configured_single_slot'' @
     cond (cpu_count m < 4) ''insufficient_cpu_cores'' @
     cond (normalized_load m = None) ''cpu_load_unavailable'' @
     cond (over (normalized_load m) (JOB_SCHEDULER_CPU_LOAD_LIMIT E)) ''cpu_load_high'' @
     (if memory_used_ratio m = None \<or> memory_available_mb m = None then [''memory_pressure_unavailable'']
      else cond (over (memory_used_ratio m) (JOB_SCHEDULER_MEMORY_USED_LIMIT E)) ''memory_used_high'' @
           cond (under (memory_available_mb m) (of_int (JOB_SCHEDULER_MIN_AVAILABLE_MEMORY_MB E))) ''memory_available_low'') @
     (case swap_used_mb m of
        None \<Rightarrow> [''swap_pressure_unavailable'']
      | Some swap \<Rightarrow>
          cond (swap > of_int (JOB_SCHEDULER_MAX_SWAP_USED_MB E)) ''swap_used_high'' @
          cond (case previous_swap of
                  None \<Rightarrow> False
                | Some p \<Rightarrow> fsub swap p > of_int (JOB_SCHEDULER_MAX_SWAP_GROWTH_MB E)) ''swap_growing'') @
     cond (under (disk_free_mb m) (of_int (JOB_SCHEDULER_MIN_DISK_FREE_MB E))) ''disk_free_low'' @
     cond (over (io_pressure m) (JOB_SCHEDULER_MAX_IO_PRESSURE E)) ''io_pressure_high''"

definition critical_reasons :: "('a sched_env_scheme) \<Rightarrow> load_snapshot \<Rightarrow> string list" where
  "critical_reasons E m =
     cond (over (normalized_load m) (JOB_SCHEDULER_CRITICAL_CPU_LOAD E)) ''cpu_budget_exhausted'' @
     cond (over (memory_used_ratio m) (JOB_SCHEDULER_CRITICAL_MEMORY_USED E)) ''memory_budget_exhausted'' @
     cond (under (memory_available_mb m) (of_int (JOB_SCHEDULER_CRITICAL_AVAILABLE_MEMORY_MB E))) ''memory_reserve_exhausted'' @
     cond (under (disk_free_mb m) (of_int (JOB_SCHEDULER_MIN_DISK_FREE_MB E))) ''io_budget_exhausted'' @
     cond (over (io_pressure m) (JOB_SCHEDULER_MAX_IO_PRESSURE E)) ''io_budget_exhausted''"

definition add_new :: "string \<Rightarrow> string list \<Rightarrow> string list" where
  "add_new r rs = (if r \<in> set rs then rs else rs @ [r])"

definition decide ::
  "('a sched_env_scheme) \<Rightarrow> load_snapshot \<Rightarrow> controller \<Rightarrow> controller \<times> capacity_decision" where
  "decide E m c =
     (let cmax = configured_max E;
          critical = critical_reasons E m;
          reasons = fold add_new critical (scale_reasons E (previous_swap_mb c) m);
          healthy = (if reasons \<noteq> [] then 0 else healthy_samples c + 1);
          capacity = (if reasons \<noteq> [] then 1
                      else if int healthy \<ge> max (JOB_SCHEDULER_SCALE_UP_SAMPLES E) 1 then cmax else 1);
          reasons' = (if reasons = [] \<and> capacity = 1 \<and> cmax > 1 then [''scale_up_warmup''] else reasons);
          capacity' = max 1 (min (min capacity cmax) HARD_MAX_CAPACITY)
      in (\<lparr>healthy_samples = healthy, previous_swap_mb = swap_used_mb m\<rparr>,
          \<lparr>d_capacity = capacity', d_configured_max = cmax, d_degraded = capacity' < cmax, d_reasons = reasons',
           d_metrics = m, d_pause_heavy = (critical \<noteq> []),
           d_admission_mode = (if critical \<noteq> [] then ''pause_heavy'' else ''normal'')\<rparr>))"

subsection \<open>State of the scheduler\<close>

text \<open>The task of a claim is not part of the record: whether it is done is an input of a turn.\<close>

record running_claim =
  rc_job_uuid :: string
  rc_worker_id :: string
  rc_generation :: int
  rc_slots :: int
  rc_exclusive :: bool

definition lease_tuple :: "running_claim \<Rightarrow> claim" where
  "lease_tuple c = (rc_job_uuid c, rc_worker_id c, rc_generation c)"

record sched_state =
  st_owner :: string
  st_running :: "(string, running_claim) dict"
  st_controller :: controller
  st_decision :: "capacity_decision option"
  st_failures :: nat
  st_retry_at :: rat
  st_next_sample_at :: rat
  st_next_heartbeat_at :: rat
  st_next_reconciliation_at :: rat
  st_next_recovery_at :: rat
  st_next_slo_at :: rat
  st_broker :: broker

datatype access = Granted | Contended | Broken

definition contention_delay :: "nat \<Rightarrow> rat" where
  "contention_delay failures = min (1 / 4 * 2 ^ (min (failures - 1) 8)) 5"

definition defer_for_contention :: "rat \<Rightarrow> sched_state \<Rightarrow> sched_state" where
  "defer_for_contention now st =
     (let failures = st_failures st + 1 in
      st\<lparr>st_failures := failures, st_broker := note_sqlite_contention (st_broker st),
         st_retry_at := fadd now (contention_delay failures)\<rparr>)"

definition used_slots :: "(string, running_claim) dict \<Rightarrow> int" where
  "used_slots running = sum_list (map (\<lambda>(u, c). rc_slots c) running)"

definition publish_status ::
  "capacity_decision \<Rightarrow> bool \<Rightarrow> string list \<Rightarrow> sched_state \<Rightarrow> sched_state" where
  "publish_status d leader extra_reasons st =
     (let reasons = fold add_new extra_reasons (d_reasons d);
          slots = used_slots (st_running st);
          slots' = (if list_ex (\<lambda>(u, c). rc_exclusive c) (st_running st) then max slots (d_capacity d) else slots)
      in st\<lparr>st_broker := (st_broker st)\<lparr>scheduler_desired_capacity := (if leader then d_capacity d else 0),
              scheduler_running_slots := slots', scheduler_degraded := d_degraded d \<or> extra_reasons \<noteq> [],
              scheduler_reasons := reasons, scheduler_leader := leader, scheduler_pause_heavy := d_pause_heavy d\<rparr>\<rparr>)"

subsection \<open>Running a claim\<close>

text \<open>How the executor of a job ends.\<close>

datatype execution = Returned | Task_cancelled_ex | Job_cancelled_ex | Lease_lost_ex | Raised string

definition execute_claim ::
  "('a sched_env_scheme) \<Rightarrow> int \<Rightarrow> (nat \<Rightarrow> bool) \<Rightarrow> claim \<Rightarrow> execution \<Rightarrow> broker \<Rightarrow> broker result" where
  "execute_claim E t busy c outcome s =
     (case outcome of
        Raised exc \<Rightarrow>
          (case update_job_progress E t busy (Some c) (fst c)
                 \<lparr>arg_progress = Some (Fin 1), arg_status = Some ''failed'', arg_result = None,
                  arg_error = Some exc, arg_message = Some Task_failed, arg_stage = Some ''failed''\<rparr> s of
             Inl JobLeaseLostError \<Rightarrow> Inr s
           | r \<Rightarrow> r)
      | _ \<Rightarrow> Inr s)"

definition claimed_slots :: "int \<Rightarrow> dispatch \<Rightarrow> int" where
  "claimed_slots capacity h = min (max (int (dispatch_slots h)) 1) (max capacity 1)"

definition pending_jobs :: "('a db_scheme) \<Rightarrow> nat" where
  "pending_jobs s = sql_count (\<lambda>j. j_status j = Pending) (jobs s)"

lemma claim_next_job_pending:
  assumes "claim_next_job E t w ls s = (s', Some jh)"
  shows "pending_jobs s' < pending_jobs s"
proof -
  obtain u where "sql_count (claimable u) (jobs s) = 1"
    and jobs: "jobs s' = sql_update (claimable u) (claim_row t (lease_ttl E ls) w) (jobs s)"
    using assms
    by (auto simp: claim_next_job_def Let_def insert_job_event_def update_jobs_def split: if_splits option.splits prod.splits)
  moreover have "sql_count (\<lambda>j. j_status j = Pending) (sql_update (claimable u) (claim_row t ttl w) js) +
      sql_count (claimable u) js = sql_count (\<lambda>j. j_status j = Pending) js" for ttl js
    by (induction js) (auto simp: table_simps claimable_def claim_row_def)
  ultimately show ?thesis
    unfolding pending_jobs_def jobs by (metis less_add_one)
qed

text \<open>
  \<open>_start_available_jobs\<close>: attempt \<open>n\<close> reads the clock \<open>ts n\<close>, uses the worker id \<open>ws n\<close> and meets the
  access \<open>acc n\<close>. Every claim takes a job out of the pending ones, so the loop ends.
\<close>

function start_available_jobs ::
  "('a sched_env_scheme) \<Rightarrow> int \<Rightarrow> (nat \<Rightarrow> int) \<Rightarrow> (nat \<Rightarrow> string) \<Rightarrow> (nat \<Rightarrow> access) \<Rightarrow> nat \<Rightarrow>
   broker \<Rightarrow> (string, running_claim) dict \<Rightarrow> broker \<times> (string, running_claim) dict \<times> access" where
  "start_available_jobs E capacity ts ws acc n s running =
     (if \<not> used_slots running < capacity then (s, running, Granted)
      else if acc n \<noteq> Granted then (s, running, acc n)
      else case claim_next_job E (ts n) (ws n) (Some (JOB_SCHEDULER_LEASE_SECONDS E)) s of
        (s', None) \<Rightarrow> (s', running, Granted)
      | (s', Some (job, h)) \<Rightarrow>
          start_available_jobs E capacity ts ws acc (n + 1) s'
            (AList.update (j_uuid job)
               \<lparr>rc_job_uuid = j_uuid job, rc_worker_id = ws n, rc_generation = j_generation job,
                rc_slots = claimed_slots capacity h, rc_exclusive = dispatch_exclusive h\<rparr> running))"
  by pat_completeness auto
termination
  by (relation "measure (\<lambda>(E, capacity, ts, ws, acc, n, s, running). pending_jobs s)")
    (auto dest!: claim_next_job_pending [OF sym])

declare start_available_jobs.simps [simp del]

subsection \<open>One turn of the main loop\<close>

record tick =
  tk_now :: rat
  tk_time :: int
  tk_sample :: load_snapshot
  tk_done :: "string \<Rightarrow> bool"
  tk_release :: "string \<Rightarrow> access"
  tk_renew :: access
  tk_heartbeat :: access
  tk_flush_busy :: bool
  tk_recovery :: access
  tk_reconcile :: access
  tk_slo :: access
  tk_claim :: "nat \<Rightarrow> access"
  tk_claim_time :: "nat \<Rightarrow> int"
  tk_worker :: "nat \<Rightarrow> string"

type_synonym 'a phase = "sched_state \<Rightarrow> sched_state \<times> 'a result"

definition collect_one :: "tick \<Rightarrow> string \<Rightarrow> sched_state \<times> unit result \<Rightarrow> sched_state \<times> unit result" where
  "collect_one k u p =
     sbind p (\<lambda>_ st.
       case tk_release k u of
         Broken \<Rightarrow> (st, Inl OperationalError)
       | Contended \<Rightarrow> (defer_for_contention (tk_now k) st, Inr ())
       | Granted \<Rightarrow>
           (case map_of (st_running st) u of
              None \<Rightarrow> (st, Inr ())
            | Some c \<Rightarrow>
                (st\<lparr>st_broker := fst (release_claims (tk_time k) [lease_tuple c] ''executor_ended_early'' (st_broker st)),
                    st_running := AList.delete u (st_running st)\<rparr>, Inr ())))"

definition collect_finished :: "tick \<Rightarrow> bool phase" where
  "collect_finished k st =
     (let finished = filter (tk_done k) (map fst (st_running st)) in
      if finished = [] then (st, Inr False)
      else if tk_now k < st_retry_at st then (st, Inr True)
      else sbind (fold (collect_one k) finished (st, Inr ())) (\<lambda>_ st.
             (st, Inr (list_ex (tk_done k) (map fst (st_running st))))))"

definition sample_phase :: "('a sched_env_scheme) \<Rightarrow> tick \<Rightarrow> sched_state \<Rightarrow> sched_state \<times> capacity_decision" where
  "sample_phase E k st =
     (case st_decision st of
        Some d \<Rightarrow>
          if tk_now k \<ge> st_next_sample_at st
          then (case decide E (tk_sample k) (st_controller st) of
                  (c, d') \<Rightarrow>
                    (publish_status d' True []
                       (st\<lparr>st_controller := c, st_decision := Some d',
                           st_next_sample_at := fadd (tk_now k) (max (JOB_SCHEDULER_SAMPLE_SECONDS E) (1 / 2))\<rparr>), d'))
          else (st, d)
      | None \<Rightarrow>
          (case decide E (tk_sample k) (st_controller st) of
             (c, d') \<Rightarrow>
               (publish_status d' True []
                  (st\<lparr>st_controller := c, st_decision := Some d',
                      st_next_sample_at := fadd (tk_now k) (max (JOB_SCHEDULER_SAMPLE_SECONDS E) (1 / 2))\<rparr>), d')))"

definition run_lease_seconds :: "('a sched_env_scheme) \<Rightarrow> int" where
  "run_lease_seconds E = max (JOB_SCHEDULER_LEASE_SECONDS E) 10"

definition defer_heartbeat :: "rat \<Rightarrow> sched_state \<Rightarrow> sched_state" where
  "defer_heartbeat now st =
     (let st1 = defer_for_contention now st
      in st1\<lparr>st_next_heartbeat_at := fadd now (contention_delay (st_failures st1))\<rparr>)"

definition heartbeat_phase :: "('a sched_env_scheme) \<Rightarrow> tick \<Rightarrow> capacity_decision \<Rightarrow> unit phase" where
  "heartbeat_phase E k d st =
     (if tk_now k < st_next_heartbeat_at st then (st, Inr ())
      else case tk_renew k of
        Broken \<Rightarrow> (st, Inl OperationalError)
      | Contended \<Rightarrow> (defer_heartbeat (tk_now k) st, Inr ())
      | Granted \<Rightarrow>
          (case renew_scheduler_lease E (tk_time k) (st_owner st) (Some (run_lease_seconds E)) (st_broker st) of
             (br, ok) \<Rightarrow>
               let st = st\<lparr>st_broker := br\<rparr> in
               if \<not> ok
               then (publish_status d False [''scheduler_lease_lost''] st,
                     Inl (RuntimeError ''scheduler leader lease lost''))
               else case tk_heartbeat k of
                 Broken \<Rightarrow> (st, Inl OperationalError)
               | Contended \<Rightarrow> (defer_heartbeat (tk_now k) st, Inr ())
               | Granted \<Rightarrow>
                   let br = heartbeat_claims E (tk_time k) (map (lease_tuple \<circ> snd) (st_running st))
                              (Some (run_lease_seconds E)) (st_broker st);
                       st1 = st\<lparr>st_broker := mark_worker_heartbeat (tk_time k) (tk_now k) br\<rparr>
                   in (case flush_operational_counters (tk_time k) (tk_flush_busy k) (st_broker st1) of
                         Inl e \<Rightarrow> (st1, Inl e)
                       | Inr br \<Rightarrow>
                           (st1\<lparr>st_broker := br,
                                st_next_heartbeat_at :=
                                  fadd (tk_now k) (max (fdiv (of_int (run_lease_seconds E)) 3) 5)\<rparr>, Inr ()))))"

text \<open>
  The periodic maintenance steps share their shape: contention defers, any other failure is only
  logged, and the deadline moves on in every case. They return the contention reasons.
\<close>

definition maintenance ::
  "access \<Rightarrow> rat \<Rightarrow> (broker \<Rightarrow> broker) \<Rightarrow> sched_state \<Rightarrow> sched_state \<times> string list" where
  "maintenance a now work st =
     (case a of
        Granted \<Rightarrow> (st\<lparr>st_broker := work (st_broker st)\<rparr>, [])
      | Contended \<Rightarrow> (defer_for_contention now st, [''sqlite_writer_contention''])
      | Broken \<Rightarrow> (st, []))"

definition recovery_phase :: "tick \<Rightarrow> sched_state \<Rightarrow> sched_state \<times> string list" where
  "recovery_phase k st =
     (if tk_now k < st_next_recovery_at st then (st, [])
      else case maintenance (tk_recovery k) (tk_now k) (\<lambda>s. fst (recover_expired_claims (tk_time k) 100 s)) st of
        (st, rs) \<Rightarrow> (st\<lparr>st_next_recovery_at := fadd (tk_now k) 5\<rparr>, rs))"

definition reconcile_phase :: "tick \<Rightarrow> sched_state \<Rightarrow> sched_state \<times> string list" where
  "reconcile_phase k st =
     (if tk_now k < st_next_reconciliation_at st then (st, [])
      else case maintenance (tk_reconcile k) (tk_now k)
             (\<lambda>s. fst (reconcile_terminal_backtest_jobs (tk_time k) 100 s)) st of
        (st, rs) \<Rightarrow> (st\<lparr>st_next_reconciliation_at := fadd (tk_now k) 60\<rparr>, rs))"

definition slo_phase :: "('a sched_env_scheme) \<Rightarrow> tick \<Rightarrow> sched_state \<Rightarrow> sched_state \<times> string list" where
  "slo_phase E k st =
     (if tk_now k < st_next_slo_at st then (st, [])
      else case maintenance (tk_slo k) (tk_now k) (\<lambda>s. s) st of
        (st, rs) \<Rightarrow> (st\<lparr>st_next_slo_at := fadd (tk_now k) (max (JOB_SLO_EVALUATION_SECONDS E) 5)\<rparr>, rs))"

definition dispatch_phase :: "('a sched_env_scheme) \<Rightarrow> tick \<Rightarrow> capacity_decision \<Rightarrow> string list phase" where
  "dispatch_phase E k d st =
     (if tk_now k < st_retry_at st then (st, Inr [''sqlite_writer_contention''])
      else case start_available_jobs E (d_capacity d) (tk_claim_time k) (tk_worker k) (tk_claim k) 0
                  (st_broker st) (st_running st) of
        (br, running, a) \<Rightarrow>
          let st1 = st\<lparr>st_broker := br, st_running := running\<rparr> in
          (case a of
             Granted \<Rightarrow> (st1\<lparr>st_failures := 0, st_retry_at := 0\<rparr>, Inr [])
           | Contended \<Rightarrow> (defer_for_contention (tk_now k) st1, Inr [''sqlite_writer_contention''])
           | Broken \<Rightarrow> (st1, Inl OperationalError)))"

definition scheduler_tick :: "('a sched_env_scheme) \<Rightarrow> tick \<Rightarrow> unit phase" where
  "scheduler_tick E k st =
     sbind (collect_finished k st) (\<lambda>cleanup_deferred st.
       case sample_phase E k st of
         (st, d) \<Rightarrow>
           if cleanup_deferred then (publish_status d True [''sqlite_writer_contention''] st, Inr ())
           else
             sbind (heartbeat_phase E k d st) (\<lambda>_ st.
               case recovery_phase k st of
                 (st, r1) \<Rightarrow>
                   (case reconcile_phase k st of
                      (st, r2) \<Rightarrow>
                        (case slo_phase E k st of
                           (st, r3) \<Rightarrow>
                             sbind (dispatch_phase E k d st) (\<lambda>r4 st.
                               (publish_status d True (r1 @ r2 @ r3 @ r4) st, Inr ()))))))"

subsection \<open>Start-up\<close>

text \<open>One attempt of a start-up loop: the clocks, what SQLite answers, and the load sampled.\<close>

record boot =
  bt_now :: rat
  bt_time :: int
  bt_access :: access
  bt_sample :: load_snapshot

definition new_scheduler :: "string \<Rightarrow> broker \<Rightarrow> sched_state" where
  "new_scheduler owner br =
     \<lparr>st_owner = owner, st_running = [], st_controller = new_controller, st_decision = None, st_failures = 0,
      st_retry_at = 0, st_next_sample_at = 0, st_next_heartbeat_at = 0, st_next_reconciliation_at = 0,
      st_next_recovery_at = 0, st_next_slo_at = 0, st_broker = br\<rparr>"

text \<open>The three loops before the first turn; \<open>Inr False\<close>: still looping when the attempts end.\<close>

fun wait_for_lease :: "('a sched_env_scheme) \<Rightarrow> process_env \<Rightarrow> boot list \<Rightarrow> bool phase" where
  "wait_for_lease E P [] st = (st, Inr False)"
| "wait_for_lease E P (b # bs) st =
     (case decide E (bt_sample b) (st_controller st) of
        (c, d) \<Rightarrow>
          let st1 = publish_status d False [''scheduler_lease_held_by_other_process''] (st\<lparr>st_controller := c\<rparr>) in
          (case bt_access b of
             Broken \<Rightarrow> (st1, Inl OperationalError)
           | Contended \<Rightarrow>
               wait_for_lease E P bs
                 (publish_status d False [''sqlite_writer_contention''] (defer_for_contention (bt_now b) st1))
           | Granted \<Rightarrow>
               (case acquire_scheduler_lease E P (bt_time b) (st_owner st1) (Some (run_lease_seconds E)) (st_broker st1) of
                  (br, ok) \<Rightarrow>
                    if ok then (st1\<lparr>st_broker := br\<rparr>, Inr True)
                    else wait_for_lease E P bs (st1\<lparr>st_broker := br\<rparr>))))"

fun acquire_lease :: "('a sched_env_scheme) \<Rightarrow> process_env \<Rightarrow> boot list \<Rightarrow> bool phase" where
  "acquire_lease E P [] st = (st, Inr False)"
| "acquire_lease E P (b # bs) st =
     (case bt_access b of
        Broken \<Rightarrow> (st, Inl OperationalError)
      | Contended \<Rightarrow>
          (case decide E (bt_sample b) (st_controller st) of
             (c, d) \<Rightarrow>
               acquire_lease E P bs
                 (publish_status d False [''sqlite_writer_contention'']
                    ((defer_for_contention (bt_now b) st)\<lparr>st_controller := c\<rparr>)))
      | Granted \<Rightarrow>
          (case acquire_scheduler_lease E P (bt_time b) (st_owner st) (Some (run_lease_seconds E)) (st_broker st) of
             (br, ok) \<Rightarrow>
               if ok then (st\<lparr>st_broker := br\<rparr>, Inr True)
               else wait_for_lease E P bs (st\<lparr>st_broker := br\<rparr>)))"

fun recover_at_start :: "('a sched_env_scheme) \<Rightarrow> boot list \<Rightarrow> bool phase" where
  "recover_at_start E [] st = (st, Inr False)"
| "recover_at_start E (b # bs) st =
     (case bt_access b of
        Broken \<Rightarrow> (st, Inl OperationalError)
      | Contended \<Rightarrow>
          (case decide E (bt_sample b) (st_controller st) of
             (c, d) \<Rightarrow>
               recover_at_start E bs
                 (publish_status d True [''sqlite_writer_contention'']
                    ((defer_for_contention (bt_now b) st)\<lparr>st_controller := c\<rparr>)))
      | Granted \<Rightarrow>
          (st\<lparr>st_broker := fst (recover_pending_jobs (bt_time b) (st_broker st)),
              st_failures := 0, st_retry_at := 0\<rparr>, Inr True))"

text \<open>
  \<open>run\<close> up to its first turn: \<open>b\<close> gives the clocks once the lease is held, \<open>busy\<close> what the restart event
  meets.
\<close>

definition start_scheduler ::
  "('a sched_env_scheme) \<Rightarrow> process_env \<Rightarrow> boot list \<Rightarrow> boot \<Rightarrow> boot list \<Rightarrow> bool \<Rightarrow> bool phase" where
  "start_scheduler E P bs b rs busy st =
     sbind (acquire_lease E P bs st) (\<lambda>acquired st.
       if \<not> acquired then (st, Inr False)
       else
         sbind (recover_at_start E rs
                  (st\<lparr>st_broker := mark_worker_started (bt_time b) (bt_now b) (st_broker st)\<rparr>)) (\<lambda>recovered st.
           if \<not> recovered then (st, Inr False)
           else case record_operational_event E (bt_time b) busy ''scheduler_restart'' ''scheduler'' None None None 1
                       (st_broker st) of
             Inl e \<Rightarrow> (st, Inl e)
           | Inr br \<Rightarrow>
               (st\<lparr>st_broker := br, st_next_sample_at := 0, st_next_heartbeat_at := 0,
                   st_next_reconciliation_at := fadd (bt_now b) 60,
                   st_next_recovery_at := fadd (bt_now b) 5, st_next_slo_at := 0\<rparr>, Inr True)))"

text \<open>The \<open>finally\<close> block of \<open>run\<close>, after the tasks were cancelled.\<close>

definition stop_scheduler :: "int \<Rightarrow> access \<Rightarrow> access \<Rightarrow> sched_state \<Rightarrow> sched_state" where
  "stop_scheduler t release_access lease_access st =
     (let br = (if release_access = Granted
                then fst (release_claims t (map (lease_tuple \<circ> snd) (st_running st)) ''service_shutdown'' (st_broker st))
                else st_broker st);
          br = (if lease_access = Granted then release_scheduler_lease (st_owner st) br else br)
      in st\<lparr>st_running := [], st_broker := mark_worker_stopped br\<rparr>)"

subsection \<open>Supervision\<close>

text \<open>
  \<open>supervise_job_worker\<close> on the uptimes of successive worker runs, all of which end in a failure: the
  delays before the restarts, then the failure count when the list ends or the error that ends it.
\<close>

fun supervise_job_worker :: "int \<Rightarrow> rat \<Rightarrow> rat \<Rightarrow> nat \<Rightarrow> rat list \<Rightarrow> rat list \<times> nat result" where
  "supervise_job_worker max_attempts retry_base stable_seconds failures [] = ([], Inr failures)"
| "supervise_job_worker max_attempts retry_base stable_seconds failures (uptime # uptimes) =
     (let failures = (if failures \<noteq> 0 \<and> uptime \<ge> max stable_seconds 0 then 0 else failures) + 1 in
      if int failures \<ge> max max_attempts 1
      then ([], Inl (RuntimeError ''background job worker exhausted its restart budget''))
      else case supervise_job_worker max_attempts retry_base stable_seconds failures uptimes of
        (delays, r) \<Rightarrow> (max retry_base 0 * 2 ^ (failures - 1) # delays, r))"

text \<open>
  \<open>worker_heartbeat_health\<close>: \<open>now\<close> is the clock of the start-up grace, \<open>now'\<close> that of the snapshot;
  without a broker the second reading is unused.
\<close>

record worker_health =
  wh_healthy :: bool
  wh_online :: bool
  wh_startup_grace :: bool
  wh_standby :: bool
  wh_heartbeat_at :: "int option"

definition startup_grace :: "('a sched_env_scheme) \<Rightarrow> rat \<Rightarrow> rat option \<Rightarrow> bool" where
  "startup_grace E now started =
     (case started of
        None \<Rightarrow> True
      | Some s \<Rightarrow> fsub now s < max (min (float_of_int (JOB_SCHEDULER_LEASE_SECONDS E)) 60) 15)"

definition worker_heartbeat_health ::
  "('a sched_env_scheme) \<Rightarrow> rat \<Rightarrow> rat \<Rightarrow> rat option \<Rightarrow> broker option \<Rightarrow> worker_health" where
  "worker_heartbeat_health E now now' started br =
     (let grace = startup_grace E now started in
      case br of
        None \<Rightarrow> \<lparr>wh_healthy = grace, wh_online = False, wh_startup_grace = grace, wh_standby = False,
                 wh_heartbeat_at = None\<rparr>
      | Some s \<Rightarrow>
          let standby = (\<not> scheduler_leader s \<and> ''scheduler_lease_held_by_other_process'' \<in> set (scheduler_reasons s));
              online = worker_online E now' s
          in \<lparr>wh_healthy = online \<or> grace \<or> standby, wh_online = online, wh_startup_grace = grace,
              wh_standby = standby, wh_heartbeat_at = worker_heartbeat_at s\<rparr>)"

end
