(* ===== verification/Scheduler_Props.thy ===== *)
theory Scheduler_Props
  imports Broker_Props Scheduler
begin

text \<open>
  What the dispatcher guarantees: capacity rises only after enough calm samples, dispatch fills the
  capacity and stops, never more jobs run than configured, a claim the scheduler tracks is the one in
  the database until it is fenced, and supervision ends a crash loop.
\<close>

subsection \<open>A configuration for the concrete instances\<close>

definition demo_senv :: sched_env where
  "demo_senv =
     \<lparr>py_repr = (\<lambda>v. []), re_sub = (\<lambda>r s. s), JOB_SCHEDULER_LEASE_SECONDS = 45,
      JOB_SCHEDULER_SWEEP_MAX_RUNNING = 1, JOB_SCHEDULER_MAX_PENDING_JOBS = 500,
      JOB_SCHEDULER_AGING_SECONDS = 300, JOB_SCHEDULER_LIGHT_BACKTEST_MAX_CODES = 50,
      JOB_SCHEDULER_MAX_ACTIVE_PER_USER = 1, JOB_OBSERVABILITY_RETENTION_HOURS = 168,
      sha256_hex = (\<lambda>s. s), json_loads = (\<lambda>s. None), runtime_code_evidence_json = [],
      JOB_SCHEDULER_ENABLED = True, JOB_SCHEDULER_MAX_CONCURRENCY = 2, JOB_SCHEDULER_CPU_LOAD_LIMIT = 3 / 4,
      JOB_SCHEDULER_MEMORY_USED_LIMIT = 3 / 4, JOB_SCHEDULER_MIN_AVAILABLE_MEMORY_MB = 2048,
      JOB_SCHEDULER_MAX_SWAP_USED_MB = 2048, JOB_SCHEDULER_MAX_SWAP_GROWTH_MB = 128,
      JOB_SCHEDULER_SCALE_UP_SAMPLES = 3, JOB_SCHEDULER_SAMPLE_SECONDS = 5,
      JOB_SCHEDULER_CRITICAL_CPU_LOAD = 1, JOB_SCHEDULER_CRITICAL_MEMORY_USED = 1,
      JOB_SCHEDULER_CRITICAL_AVAILABLE_MEMORY_MB = 512, JOB_SCHEDULER_MIN_DISK_FREE_MB = 1024,
      JOB_SCHEDULER_MAX_IO_PRESSURE = 1 / 2, JOB_SLO_EVALUATION_SECONDS = 60\<rparr>"

subsection \<open>Capacity over time\<close>

definition controller_after :: "('a sched_env_scheme) \<Rightarrow> load_snapshot list \<Rightarrow> controller" where
  "controller_after E ms = fold (\<lambda>m c. fst (decide E m c)) ms new_controller"

definition swap_before :: "load_snapshot list \<Rightarrow> nat \<Rightarrow> rat option" where
  "swap_before ms i = (if i = 0 then None else swap_used_mb (ms ! (i - 1)))"

text \<open>Sample \<open>i\<close> shows no reason against a second slot.\<close>

definition calm :: "('a sched_env_scheme) \<Rightarrow> load_snapshot list \<Rightarrow> nat \<Rightarrow> bool" where
  "calm E ms i = (scale_reasons E (swap_before ms i) (ms ! i) = [] \<and> critical_reasons E (ms ! i) = [])"

definition calm_suffix :: "('a sched_env_scheme) \<Rightarrow> nat \<Rightarrow> load_snapshot list \<Rightarrow> bool" where
  "calm_suffix E n ms = (n \<le> length ms \<and> (\<forall>i. length ms - n \<le> i \<and> i < length ms \<longrightarrow> calm E ms i))"

lemma fold_add_new_Nil [simp]: "fold add_new xs ys = [] \<longleftrightarrow> xs = [] \<and> ys = []"
proof (induction xs arbitrary: ys)
  case (Cons x xs)
  have "add_new x ys \<noteq> []" by (cases ys) (simp_all add: add_new_def)
  then show ?case by (simp add: Cons)
qed simp

lemma controller_after_snoc:
  "controller_after E (ms @ [m]) = fst (decide E m (controller_after E ms))"
  by (simp add: controller_after_def)

lemma previous_swap_after: "previous_swap_mb (controller_after E ms) = swap_before ms (length ms)"
  by (induction ms rule: rev_induct)
    (auto simp: controller_after_snoc decide_def Let_def swap_before_def nth_append controller_after_def new_controller_def)

lemma calm_snoc:
  "i < length ms \<Longrightarrow> calm E (ms @ [m]) i = calm E ms i"
  "calm E (ms @ [m]) (length ms) \<longleftrightarrow> scale_reasons E (swap_before ms (length ms)) m = [] \<and> critical_reasons E m = []"
  by (auto simp: calm_def swap_before_def nth_append)

lemma healthy_after:
  "healthy_samples (controller_after E (ms @ [m])) =
     (if calm E (ms @ [m]) (length ms) then healthy_samples (controller_after E ms) + 1 else 0)"
  by (simp add: controller_after_snoc decide_def Let_def calm_snoc previous_swap_after)

lemma healthy_calm_suffix: "n \<le> healthy_samples (controller_after E ms) \<longleftrightarrow> calm_suffix E n ms"
proof (induction ms arbitrary: n rule: rev_induct)
  case Nil
  then show ?case by (simp add: controller_after_def new_controller_def calm_suffix_def)
next
  case (snoc m ms)
  show ?case
  proof (cases n)
    case 0
    then show ?thesis by (auto simp: calm_suffix_def)
  next
    case (Suc k)
    have "calm_suffix E (Suc k) (ms @ [m]) \<longleftrightarrow> calm E (ms @ [m]) (length ms) \<and> calm_suffix E k ms"
      using calm_snoc(1) [of _ ms E m] by (auto simp: calm_suffix_def less_Suc_eq)
    then show ?thesis using snoc [of k] Suc by (simp add: healthy_after)
  qed
qed

text \<open>
  Capacity has hysteresis. After any sequence of load samples the scheduler gets its full
  configured capacity exactly when the configured number of most recent samples were all free of
  pressure, and one slot otherwise; heavy jobs are paused exactly while the latest sample exceeds a
  critical budget.
\<close>

theorem capacity_follows_recent_samples:
  "d_capacity (snd (decide E m (controller_after E ms))) =
     (if calm_suffix E (nat (max (JOB_SCHEDULER_SCALE_UP_SAMPLES E) 1)) (ms @ [m]) then configured_max E else 1) \<and>
   d_pause_heavy (snd (decide E m (controller_after E ms))) = (critical_reasons E m \<noteq> []) \<and>
   1 \<le> configured_max E \<and> configured_max E \<le> 2"
proof -
  let ?n = "nat (max (JOB_SCHEDULER_SCALE_UP_SAMPLES E) 1)"
  let ?c = "controller_after E ms"
  have n: "?n \<ge> 1" "int ?n = max (JOB_SCHEDULER_SCALE_UP_SAMPLES E) 1" by auto
  have bounds: "1 \<le> configured_max E" "configured_max E \<le> 2"
    by (auto simp: configured_max_def HARD_MAX_CAPACITY_def)
  have iff: "calm_suffix E ?n (ms @ [m]) \<longleftrightarrow>
      calm E (ms @ [m]) (length ms) \<and> max (JOB_SCHEDULER_SCALE_UP_SAMPLES E) 1 \<le> int (healthy_samples ?c + 1)"
    using n by (auto simp: healthy_calm_suffix [symmetric] healthy_after)
  show ?thesis
    using bounds unfolding iff
    by (auto simp: decide_def Let_def calm_snoc previous_swap_after HARD_MAX_CAPACITY_def)
qed

subsection \<open>Every phase is a run of the broker\<close>

lemma volatile_run: "db.truncate s' = db.truncate s \<Longrightarrow> broker_run E s s'"
  by (rule r_into_rtranclp) (rule step_other_process)

lemma publish_status_run: "broker_run E (st_broker st) (st_broker (publish_status d l rs st))"
  by (rule volatile_run) (simp add: publish_status_def Let_def db.defs)

lemma defer_for_contention_run: "broker_run E (st_broker st) (st_broker (defer_for_contention now st))"
  by (rule volatile_run) (simp add: defer_for_contention_def note_sqlite_contention_def Let_def db.defs)

text \<open>
  What every phase but the dispatch does to the state of the scheduler: the broker takes steps of its
  own, claims are only dropped, and a new decision respects the configured maximum.
\<close>

definition shrinks :: "('a sched_env_scheme) \<Rightarrow> sched_state \<Rightarrow> sched_state \<Rightarrow> bool" where
  "shrinks E st st' =
     (broker_run E (st_broker st) (st_broker st') \<and> set (st_running st') \<subseteq> set (st_running st) \<and>
      length (st_running st') \<le> length (st_running st) \<and> (dict_wf (st_running st) \<longrightarrow> dict_wf (st_running st')) \<and>
      (\<forall>d. st_decision st' = Some d \<longrightarrow> st_decision st = Some d \<or> d_capacity d \<le> configured_max E))"

lemma shrinks_refl [simp]: "shrinks E st st"
  by (simp add: shrinks_def)

lemma shrinks_trans: "shrinks E st st' \<Longrightarrow> shrinks E st' st'' \<Longrightarrow> shrinks E st st''"
  by (fastforce simp: shrinks_def intro: rtranclp_trans)

lemma shrinks_broker:
  assumes "broker_run E (st_broker st) (st_broker st')" and "st_running st' = st_running st"
    and "st_decision st' = st_decision st"
  shows "shrinks E st st'"
  using assms by (simp add: shrinks_def)

lemma shrinks_publish: "shrinks E st (publish_status d l rs st)"
  by (rule shrinks_broker [OF publish_status_run]) (simp_all add: publish_status_def Let_def)

lemma shrinks_defer: "shrinks E st (defer_for_contention now st)"
  by (rule shrinks_broker [OF defer_for_contention_run]) (simp_all add: defer_for_contention_def Let_def)

lemma shrinks_sbind:
  assumes "shrinks E st (fst p)" and "\<And>x st'. p = (st', Inr x) \<Longrightarrow> shrinks E st' (fst (k x st'))"
  shows "shrinks E st (fst (sbind p k))"
  using assms by (auto simp: sbind_def split: prod.splits sum.splits intro: shrinks_trans)

lemma decide_capacity: "d_capacity (snd (decide E m c)) \<le> configured_max E"
  by (simp add: decide_def Let_def configured_max_def HARD_MAX_CAPACITY_def)

lemma collect_one_shrinks: "shrinks E st (fst p) \<Longrightarrow> shrinks E st (fst (collect_one k u p))"
proof -
  assume "shrinks E st (fst p)"
  moreover have "shrinks E st' (fst (case tk_release k u of
         Broken \<Rightarrow> (st', Inl OperationalError)
       | Contended \<Rightarrow> (defer_for_contention (tk_now k) st', Inr ())
       | Granted \<Rightarrow>
           (case map_of (st_running st') u of
              None \<Rightarrow> (st', Inr ())
            | Some c \<Rightarrow>
                (st'\<lparr>st_broker := fst (release_claims (tk_time k) [lease_tuple c] ''executor_ended_early'' (st_broker st')),
                    st_running := AList.delete u (st_running st')\<rparr>, Inr ()))))" for st'
    using set_delete_subset [of u "st_running st'"] length_delete_le [of u "st_running st'"]
    by (auto simp: shrinks_defer shrinks_def [of _ _ "st'\<lparr>st_broker := _, st_running := _\<rparr>"] step_release r_into_rtranclp
        split: access.splits option.splits)
  ultimately show ?thesis
    unfolding collect_one_def by (intro shrinks_sbind)
qed

lemma collect_finished_shrinks: "shrinks E st (fst (collect_finished k st))"
proof -
  have "shrinks E st (fst (fold (collect_one k) us (st, Inr ())))" for us
    by (rule fold_invariant_list) (auto intro: collect_one_shrinks)
  then show ?thesis
    by (auto simp: collect_finished_def Let_def intro!: shrinks_sbind)
qed

lemma shrinks_decision:
  assumes "st_decision st' = Some (snd (decide E m c))" and "st_running st' = st_running st"
    and "st_broker st' = st_broker st"
  shows "shrinks E st st'"
  using assms decide_capacity [of E m c] by (simp add: shrinks_def)

lemma sample_phase_shrinks: "shrinks E st (fst (sample_phase E k st))"
  using shrinks_trans [OF shrinks_decision [of _ E "tk_sample k" "st_controller st" st] shrinks_publish]
  by (auto simp: sample_phase_def split: option.splits prod.splits)

lemma sample_phase_decision:
  assumes "sample_phase E k st = (st', d)"
  shows "st_decision st' = Some d"
  using assms by (auto simp: sample_phase_def publish_status_def Let_def split: option.splits prod.splits if_splits)

lemma broker_step_shrinks: "broker_step E (st_broker st) br \<Longrightarrow> shrinks E st (st\<lparr>st_broker := br\<rparr>)"
  by (rule shrinks_broker) auto

lemma defer_heartbeat_shrinks: "shrinks E st (defer_heartbeat now st)"
  by (rule shrinks_trans [OF shrinks_defer shrinks_broker]) (simp_all add: defer_heartbeat_def Let_def)

lemma heartbeat_run: "broker_run E br (mark_worker_heartbeat t now (heartbeat_claims E t' cs ls br))"
proof (rule rtranclp_trans [OF r_into_rtranclp])
  show "broker_step E br (heartbeat_claims E t' cs ls br)" by (rule step_heartbeat)
  show "broker_run E (heartbeat_claims E t' cs ls br) (mark_worker_heartbeat t now (heartbeat_claims E t' cs ls br))"
    by (rule volatile_run) (simp add: mark_worker_heartbeat_def db.defs)
qed

lemma heartbeat_flush_run:
  assumes "flush_operational_counters t b (mark_worker_heartbeat t now (heartbeat_claims E t' cs ls br)) = Inr br'"
  shows "broker_run E br br'"
  using rtranclp.rtrancl_into_rtrancl [OF heartbeat_run step_flush [OF assms]] .

lemma heartbeat_phase_shrinks: "shrinks E st (fst (heartbeat_phase E k d st))"
proof -
  have renew: "shrinks E st (st\<lparr>st_broker := br\<rparr>)"
    if "renew_scheduler_lease E t o_id ls (st_broker st) = (br, ok)" for t o_id ls br ok
    using broker_step_shrinks [OF step_renew [of E "st_broker st" t o_id ls]] that by simp
  have beat: "shrinks E st' (st'\<lparr>st_broker := mark_worker_heartbeat t now (heartbeat_claims E t' cs ls (st_broker st'))\<rparr>)"
    for st' t now t' cs ls
    by (rule shrinks_broker) (simp_all add: heartbeat_run)
  have flush: "shrinks E st' (st'\<lparr>st_broker := br', st_next_heartbeat_at := x\<rparr>)"
    if "flush_operational_counters t b (mark_worker_heartbeat t now (heartbeat_claims E t' cs ls (st_broker st'))) = Inr br'"
    for st' t b now t' cs ls br' x
    by (rule shrinks_broker) (simp_all add: heartbeat_flush_run [OF that])
  show ?thesis
  proof (cases "renew_scheduler_lease E (tk_time k) (st_owner st) (Some (run_lease_seconds E)) (st_broker st)")
    case (Pair br ok)
    let ?st = "st\<lparr>st_broker := br\<rparr>"
    note st = renew [OF Pair]
    show ?thesis
      using shrinks_trans [OF st shrinks_publish] shrinks_trans [OF st defer_heartbeat_shrinks] st
        shrinks_trans [OF st beat [of ?st]] shrinks_trans [OF st flush [of _ _ _ _ _ _ ?st]]
      by (simp add: heartbeat_phase_def Let_def Pair defer_heartbeat_shrinks split: access.split sum.split)
  qed
qed

lemma maintenance_shrinks:
  assumes "\<And>s. broker_run E s (work s)"
  shows "shrinks E st (fst (maintenance a now work st))"
  by (cases a) (simp_all add: maintenance_def shrinks_defer shrinks_broker assms)

lemma periodic_shrinks:
  "shrinks E st (fst (recovery_phase k st))"
  "shrinks E st (fst (reconcile_phase k st))"
  "shrinks E st (fst (slo_phase E' k st))"
proof -
  have steps: "broker_run E s (fst (recover_expired_claims t l s))"
    "broker_run E s (fst (reconcile_terminal_backtest_jobs t l s))" for s t l
    by (auto intro: step_recover step_reconcile)
  have deadline: "shrinks E st (st'\<lparr>st_next_recovery_at := x\<rparr>)" "shrinks E st (st'\<lparr>st_next_reconciliation_at := x\<rparr>)"
    "shrinks E st (st'\<lparr>st_next_slo_at := x\<rparr>)"
    if "maintenance a now work st = (st', rs)" "\<And>s. broker_run E s (work s)" for a now work st' rs x
    using maintenance_shrinks [of E work st a now, OF that(2)] that(1) by (simp_all add: shrinks_def)
  show "shrinks E st (fst (recovery_phase k st))"
    by (auto simp: recovery_phase_def split: prod.split intro: deadline steps)
  show "shrinks E st (fst (reconcile_phase k st))"
    by (auto simp: reconcile_phase_def split: prod.split intro: deadline steps)
  show "shrinks E st (fst (slo_phase E' k st))"
    by (auto simp: slo_phase_def split: prod.split intro: deadline)
qed

subsection \<open>Dispatch\<close>

lemma claim_next_job_keeps:
  assumes "claim_next_job E t w ls s = (s', r)" and "store_wf s" and "find_job s u = Some j" and "j_status j \<noteq> Pending"
  shows "find_job s' u = Some j"
proof (cases rule: claim_next_job_cases [of E t w ls s])
  case none
  then show ?thesis using assms by simp
next
  case (claimed i h s1)
  then have s1: "s1 = s'" using assms(1) by simp
  have "store_wf s1" using evolves_wf [OF quiet_evolves [OF claim_quiet [OF claimed(3,4)]] assms(2)] .
  moreover have "j \<in> set (jobs s1)" "j_uuid j = u"
    using find_job_mem [OF assms(3)] assms(4) by (auto simp: claimed(3) in_sql_update claimable_def intro: bexI [of _ j])
  ultimately show ?thesis
    using find_key_eq [of j_uuid "jobs s1" j] by (simp add: s1 find_job_def store_wf_def)
qed

definition held :: "('a db_scheme) \<Rightarrow> string \<times> running_claim \<Rightarrow> bool" where
  "held s p =
     (fst p = rc_job_uuid (snd p) \<and>
      (\<exists>j. find_job s (fst p) = Some j \<and> holds_claim (lease_tuple (snd p)) j \<and> j_status j = Running))"

lemma held_keeps:
  assumes "claim_next_job E t w ls s = (s', r)" and "store_wf s" and "held s p"
  shows "held s' p"
  using assms claim_next_job_keeps [OF assms(1,2)] by (fastforce simp: held_def)

lemma claim_next_job_wf:
  assumes "claim_next_job E t w ls s = (s', r)" and "store_wf s"
  shows "store_wf s'"
  using evolves_wf [OF quiet_evolves [OF claim_next_job_quiet [of s E t w ls]] assms(2)] assms(1) by simp

lemma claimed_held:
  assumes "claim_next_job E t w ls s = (s', Some (job, h))" and "store_wf s"
  shows "held s' (j_uuid job, \<lparr>rc_job_uuid = j_uuid job, rc_worker_id = w, rc_generation = j_generation job,
           rc_slots = n, rc_exclusive = x\<rparr>)"
  by (rule claim_next_job_claims [OF assms])
    (auto simp: held_def lease_tuple_def holds_claim_def claim_row_def claimed_status_def)

lemma claim_next_job_None:
  assumes "claim_next_job E t w ls s = (s', None)" and "store_wf s"
  shows "s' = s"
proof (cases rule: claim_next_job_cases [of E t w ls s])
  case none
  then show ?thesis using assms by simp
next
  case (claimed i h s1)
  have "i \<in> set (jobs s)" using select_candidate_mem [OF claimed(1)] by (auto simp: candidates_set)
  then have "find_job s (j_uuid i) = Some i"
    using assms(2) by (simp add: find_job_def store_wf_def find_key_eq)
  then have "find_job s1 (j_uuid i) \<noteq> None"
    using evolves_find [OF quiet_evolves [OF claim_quiet [OF claimed(3,4)]]] by fastforce
  then show ?thesis using claimed(2) assms(1) by auto
qed

abbreviation new_claim :: "int \<Rightarrow> string \<Rightarrow> job \<times> dispatch \<Rightarrow> running_claim" where
  "new_claim capacity w jh \<equiv>
     \<lparr>rc_job_uuid = j_uuid (fst jh), rc_worker_id = w, rc_generation = j_generation (fst jh),
      rc_slots = claimed_slots capacity (snd jh), rc_exclusive = dispatch_exclusive (snd jh)\<rparr>"

text \<open>The loop as an induction over its claims.\<close>

lemma start_available_jobs_rule [consumes 2, case_names stop claim]:
  assumes "start_available_jobs E capacity ts ws acc n s running = (s', running', a)" and "store_wf s"
    and stop: "\<And>n s running a. store_wf s \<Longrightarrow> (a = Granted \<and> capacity \<le> used_slots running) \<or>
        (used_slots running < capacity \<and> acc n = a \<and>
         (a = Granted \<longrightarrow> claim_next_job E (ts n) (ws n) (Some (JOB_SCHEDULER_LEASE_SECONDS E)) s = (s, None))) \<Longrightarrow>
        P n s running s running a"
    and claim: "\<And>n s running s1 jh s' running' a. store_wf s \<Longrightarrow> used_slots running < capacity \<Longrightarrow> acc n = Granted \<Longrightarrow>
        claim_next_job E (ts n) (ws n) (Some (JOB_SCHEDULER_LEASE_SECONDS E)) s = (s1, Some jh) \<Longrightarrow> store_wf s1 \<Longrightarrow>
        P (n + 1) s1 (AList.update (j_uuid (fst jh)) (new_claim capacity (ws n) jh) running) s' running' a \<Longrightarrow>
        P n s running s' running' a"
  shows "P n s running s' running' a"
  using assms(1,2)
proof (induction "pending_jobs s" arbitrary: n s running rule: less_induct)
  case less
  let ?claim = "claim_next_job E (ts n) (ws n) (Some (JOB_SCHEDULER_LEASE_SECONDS E)) s"
  consider "capacity \<le> used_slots running" | "used_slots running < capacity" "acc n \<noteq> Granted"
    | "used_slots running < capacity" "acc n = Granted" by linarith
  then show ?case
  proof cases
    case 1
    then show ?thesis using less.prems stop [of s Granted running n] by (simp add: start_available_jobs.simps)
  next
    case 2
    then show ?thesis using less.prems stop [of s "acc n" running n] by (simp add: start_available_jobs.simps)
  next
    case 3
    show ?thesis
    proof (cases ?claim)
      case (Pair s1 r)
      show ?thesis
      proof (cases r)
        case None
        then have "s1 = s" using Pair claim_next_job_None less.prems(2) by blast
        then show ?thesis
          using 3 Pair None less.prems stop [of s Granted running n] by (simp add: start_available_jobs.simps)
      next
        case (Some jh)
        have wf1: "store_wf s1" using claim_next_job_wf [OF Pair less.prems(2)] .
        have "start_available_jobs E capacity ts ws acc (n + 1) s1
            (AList.update (j_uuid (fst jh)) (new_claim capacity (ws n) jh) running) = (s', running', a)"
          using 3 Pair Some less.prems(1) by (simp add: start_available_jobs.simps [of _ _ _ _ _ n] split: prod.splits)
        then show ?thesis
          using less.hyps [OF claim_next_job_pending] Pair Some wf1 claim [OF less.prems(2) 3] by blast
      qed
    qed
  qed
qed

lemma claimed_slots_bounds: "1 \<le> claimed_slots capacity h" "claimed_slots capacity h \<le> max capacity 1"
  by (auto simp: claimed_slots_def)

lemma start_available_jobs_run:
  assumes "start_available_jobs E capacity ts ws acc n s running = (s', running', a)" and "store_wf s"
  shows "broker_run E s s' \<and> store_wf s'"
  using assms
proof (induction rule: start_available_jobs_rule)
  case (claim n s running s1 jh s' running' a)
  have "broker_step E s s1"
    using step_claim_next [of E s "ts n" "ws n" "Some (JOB_SCHEDULER_LEASE_SECONDS E)"] claim(4) by simp
  then show ?case
    using claim.IH converse_rtranclp_into_rtranclp [of "broker_step E" s s1 s'] by blast
qed simp

lemma held_later:
  assumes "start_available_jobs E capacity ts ws acc n s running = (s', running', a)" and "store_wf s"
  shows "held s p \<longrightarrow> held s' p"
  using assms by (induction rule: start_available_jobs_rule) (auto intro: held_keeps)

lemma new_claims_held:
  assumes "start_available_jobs E capacity ts ws acc n s running = (s', running', a)" and "store_wf s"
  shows "\<forall>p\<in>set running'. p \<in> set running \<or>
    held s' p \<and> 1 \<le> rc_slots (snd p) \<and> rc_slots (snd p) \<le> max capacity 1"
proof -
  have "(\<forall>p\<in>set running. Q p \<or> held s p \<and> 1 \<le> rc_slots (snd p) \<and> rc_slots (snd p) \<le> max capacity 1) \<longrightarrow>
      (\<forall>p\<in>set running'. Q p \<or> held s' p \<and> 1 \<le> rc_slots (snd p) \<and> rc_slots (snd p) \<le> max capacity 1)" for Q
    using assms
  proof (induction rule: start_available_jobs_rule)
    case (claim n s running s1 jh s' running' a)
    have new: "held s1 (j_uuid (fst jh), new_claim capacity (ws n) jh)"
      using claimed_held [of _ _ _ _ s s1 "fst jh" "snd jh"] claim(1,4) by simp
    have "\<forall>p\<in>set running. held s p \<longrightarrow> held s1 p"
      using held_keeps [OF claim(4,1)] by blast
    then show ?case
      using claim.IH new claimed_slots_bounds [of capacity "snd jh"]
        set_update_subset [of "j_uuid (fst jh)" "new_claim capacity (ws n) jh" running]
      by (smt (verit) insertE running_claim.select_convs(4) snd_conv subsetD)
  qed simp
  from this [of "\<lambda>p. p \<in> set running"] show ?thesis by blast
qed

lemma start_ends:
  assumes "start_available_jobs E capacity ts ws acc n s running = (s', running', a)" and "store_wf s"
  shows "\<exists>m\<ge>n. (a = Granted \<and> capacity \<le> used_slots running') \<or>
    (used_slots running' < capacity \<and> acc m = a \<and>
     (a = Granted \<longrightarrow> claim_next_job E (ts m) (ws m) (Some (JOB_SCHEDULER_LEASE_SECONDS E)) s' = (s', None)))"
  using assms
proof (induction rule: start_available_jobs_rule)
  case (stop n s running a)
  then show ?case by blast
next
  case (claim n s running s1 jh s' running' a)
  then obtain m where "m \<ge> n + 1" "(a = Granted \<and> capacity \<le> used_slots running') \<or>
    (used_slots running' < capacity \<and> acc m = a \<and>
     (a = Granted \<longrightarrow> claim_next_job E (ts m) (ws m) (Some (JOB_SCHEDULER_LEASE_SECONDS E)) s' = (s', None)))"
    by blast
  then show ?case by (intro exI [of _ m]) simp
qed

lemma used_slots_length:
  assumes "\<forall>p\<in>set running. 1 \<le> rc_slots (snd p)"
  shows "int (length running) \<le> used_slots running"
  using assms by (induction running) (auto simp: used_slots_def)

lemma start_bounded:
  assumes "start_available_jobs E capacity ts ws acc n s running = (s', running', a)" and "store_wf s"
  shows "dict_wf running \<and> (\<forall>p\<in>set running. 1 \<le> rc_slots (snd p)) \<longrightarrow>
    dict_wf running' \<and> (\<forall>p\<in>set running'. 1 \<le> rc_slots (snd p)) \<and>
    int (length running') \<le> max (int (length running)) capacity"
  using assms
proof (induction rule: start_available_jobs_rule)
  case (claim n s running s1 jh s' running' a)
  let ?r = "AList.update (j_uuid (fst jh)) (new_claim capacity (ws n) jh) running"
  show ?case
  proof
    assume r: "dict_wf running \<and> (\<forall>p\<in>set running. 1 \<le> rc_slots (snd p))"
    then have "dict_wf ?r \<and> (\<forall>p\<in>set ?r. 1 \<le> rc_slots (snd p))"
      using set_update_subset [of "j_uuid (fst jh)" "new_claim capacity (ws n) jh" running] claimed_slots_bounds(1)
      by fastforce
    moreover have "int (length running) < capacity"
      using used_slots_length [of running] r claim(2) by linarith
    ultimately show "dict_wf running' \<and> (\<forall>p\<in>set running'. 1 \<le> rc_slots (snd p)) \<and>
        int (length running') \<le> max (int (length running)) capacity"
      using claim.IH length_update_le [of "j_uuid (fst jh)" "new_claim capacity (ws n) jh" running] by fastforce
  qed
qed simp

text \<open>
  Dispatch is maximal and safe. Whatever SQLite answers, the loop that claims jobs ends; it ends
  normally only when the capacity is used up or the queue has nothing compatible left to claim, and
  otherwise it reports the failed access with capacity to spare. Every claim it added is recorded in
  the database as running under that worker and generation, takes at least one slot and at most the
  capacity, and never are more jobs tracked than before or than the capacity.
\<close>

theorem dispatch_fills_capacity:
  assumes "store_wf s" and "dict_wf running" and "\<forall>p\<in>set running. 1 \<le> rc_slots (snd p)"
    and "start_available_jobs E capacity ts ws acc n s running = (s', running', a)"
  shows "(a = Granted \<longrightarrow> capacity \<le> used_slots running' \<or>
            (\<exists>m\<ge>n. claim_next_job E (ts m) (ws m) (Some (JOB_SCHEDULER_LEASE_SECONDS E)) s' = (s', None))) \<and>
         (a \<noteq> Granted \<longrightarrow> used_slots running' < capacity \<and> (\<exists>m\<ge>n. acc m = a)) \<and>
         (\<forall>p\<in>set running' - set running.
            held s' p \<and> 1 \<le> rc_slots (snd p) \<and> rc_slots (snd p) \<le> max capacity 1) \<and>
         int (length running') \<le> max (int (length running)) capacity"
  using start_ends [OF assms(4,1)] new_claims_held [OF assms(4,1)] start_bounded [OF assms(4,1)] assms(2,3)
  by blast

definition demo_queue :: broker where
  "demo_queue = demo_broker [demo_job 1 ''a'' ''daily_simulation'' Pending]"

definition demo_run :: "broker \<times> (string, running_claim) dict \<times> access" where
  "demo_run = start_available_jobs demo_senv 1 (\<lambda>n. 0) (\<lambda>n. ''w'') (\<lambda>n. Granted) 0 demo_queue []"

lemma demo_senv_claim:
  "snd (claim_next_job demo_senv 0 ''w'' (Some 45) demo_queue) = Some (demo_claimed, demo_dispatch)"
  by (simp add: claim_next_job_def candidates_def running_jobs_def demo_queue_def demo_simps demo_senv_def dispatch_simps
      claimable_def lease_ttl_def demo_claimed_def claim_row_def demo_dispatch_def frame table_simps Let_def)

lemma demo_senv_lease: "JOB_SCHEDULER_LEASE_SECONDS demo_senv = 45"
  by (simp add: demo_senv_def)

lemma demo_run_eq:
  "demo_run = (fst demo_run, [(''a'', new_claim 1 ''w'' (demo_claimed, demo_dispatch))], Granted)"
proof -
  obtain s1 where s1: "claim_next_job demo_senv 0 ''w'' (Some 45) demo_queue = (s1, Some (demo_claimed, demo_dispatch))"
    using demo_senv_claim by (metis prod.collapse)
  show ?thesis
    unfolding demo_run_def
    by (simp add: start_available_jobs.simps [of _ _ _ _ _ 0] demo_senv_lease s1 used_slots_def)
      (simp add: start_available_jobs.simps used_slots_def claimed_slots_def demo_dispatch_def demo_claimed_def
        claim_row_def demo_job_def)
qed

lemma demo_queue_wf: "store_wf demo_queue"
  by (simp add: demo_queue_def demo_simps)

theorem dispatch_fills_capacity_witness:
  "held (fst demo_run) (''a'', new_claim 1 ''w'' (demo_claimed, demo_dispatch)) \<and>
   used_slots (fst (snd demo_run)) = 1"
proof -
  have go: "start_available_jobs demo_senv 1 (\<lambda>n. 0) (\<lambda>n. ''w'') (\<lambda>n. Granted) 0 demo_queue [] =
      (fst demo_run, [(''a'', new_claim 1 ''w'' (demo_claimed, demo_dispatch))], Granted)"
    using demo_run_eq by (simp add: demo_run_def)
  have "held (fst demo_run) (''a'', new_claim 1 ''w'' (demo_claimed, demo_dispatch))"
    by (rule dispatch_fills_capacity [OF demo_queue_wf dict_wf_Nil _ go, THEN conjunct2, THEN conjunct2, THEN conjunct1,
          rule_format, THEN conjunct1]) simp_all
  moreover have "used_slots (fst (snd demo_run)) = 1"
    by (subst demo_run_eq) (simp add: used_slots_def claimed_slots_def demo_dispatch_def)
  ultimately show ?thesis by blast
qed

subsection \<open>The scheduler among the other clients of the queue\<close>

text \<open>
  The steps of the whole system: a start-up, a turn or the shutdown of the scheduler, a new scheduler
  object after a restart, or a step of any other client of the broker (a request, a worker reporting
  progress, another process).
\<close>

inductive sched_step :: "('a sched_env_scheme) \<Rightarrow> sched_state \<Rightarrow> sched_state \<Rightarrow> bool" for E where
  sched_boot: "start_scheduler E P bs b rs busy st = (st', r) \<Longrightarrow> sched_step E st st'"
| sched_turn: "scheduler_tick E k st = (st', r) \<Longrightarrow> sched_step E st st'"
| sched_stop: "sched_step E st (stop_scheduler t a a' st)"
| sched_new: "sched_step E st (new_scheduler o_id (st_broker st))"
| sched_other: "broker_step E (st_broker st) br \<Longrightarrow> sched_step E st (st\<lparr>st_broker := br\<rparr>)"

abbreviation sched_run :: "('a sched_env_scheme) \<Rightarrow> sched_state \<Rightarrow> sched_state \<Rightarrow> bool" where
  "sched_run E \<equiv> (sched_step E)\<^sup>*\<^sup>*"

lemma shrinks_controller: "shrinks E (st\<lparr>st_controller := c\<rparr>) st' = shrinks E st st'"
  "shrinks E st' (st\<lparr>st_controller := c\<rparr>) = shrinks E st' st"
  by (simp_all add: shrinks_def)

lemma acquire_shrinks:
  assumes "acquire_scheduler_lease E P t o_id ls (st_broker st) = (br, ok)"
  shows "shrinks E st (st\<lparr>st_broker := br\<rparr>)"
  using broker_step_shrinks [OF step_acquire [of E "st_broker st" P t o_id ls]] assms by simp

lemma wait_for_lease_shrinks: "shrinks E st (fst (wait_for_lease E P bs st))"
proof (induction bs arbitrary: st)
  case (Cons b bs)
  obtain c d where d: "decide E (bt_sample b) (st_controller st) = (c, d)" by fastforce
  let ?st = "publish_status d False [''scheduler_lease_held_by_other_process''] (st\<lparr>st_controller := c\<rparr>)"
  have st: "shrinks E st ?st"
    using shrinks_publish [of E "st\<lparr>st_controller := c\<rparr>"] by (simp add: shrinks_controller)
  show ?case
    using st shrinks_trans [OF shrinks_trans [OF st acquire_shrinks] Cons.IH]  shrinks_trans [OF st acquire_shrinks]
      shrinks_trans [OF shrinks_trans [OF shrinks_trans [OF st shrinks_defer] shrinks_publish] Cons.IH]
    by (auto simp: d Let_def split: access.split prod.split)
qed simp

lemma deferred_shrinks:
  "shrinks E st (publish_status d l rs ((defer_for_contention now st)\<lparr>st_controller := c\<rparr>))"
  by (rule shrinks_trans [OF _ shrinks_publish]) (simp add: shrinks_controller shrinks_defer)

lemma acquire_lease_shrinks: "shrinks E st (fst (acquire_lease E P bs st))"
proof (induction bs arbitrary: st)
  case (Cons b bs)
  show ?case
    using shrinks_trans [OF acquire_shrinks wait_for_lease_shrinks] acquire_shrinks shrinks_trans [OF deferred_shrinks Cons.IH]
    by (auto split: access.split prod.split)
qed simp

lemma recover_at_start_shrinks: "shrinks E st (fst (recover_at_start E bs st))"
proof (induction bs arbitrary: st)
  case (Cons b bs)
  have "shrinks E st (st\<lparr>st_broker := fst (recover_pending_jobs t (st_broker st)), st_failures := 0, st_retry_at := 0\<rparr>)" for t
    by (rule shrinks_broker) (auto intro: step_recover_pending)
  then show ?case
    using shrinks_trans [OF deferred_shrinks Cons.IH] by (auto split: access.split prod.split)
qed simp

lemma start_scheduler_shrinks: "shrinks E st (fst (start_scheduler E P bs b rs busy st))"
  unfolding start_scheduler_def
proof (rule shrinks_sbind [OF acquire_lease_shrinks])
  fix acquired st1
  have started: "shrinks E st1 (st1\<lparr>st_broker := mark_worker_started (bt_time b) (bt_now b) (st_broker st1)\<rparr>)"
    by (rule shrinks_broker [OF volatile_run]) (simp_all add: mark_worker_started_def mark_worker_heartbeat_def db.defs)
  have event: "shrinks E st2 (st2\<lparr>st_broker := br, st_next_sample_at := 0, st_next_heartbeat_at := 0,
      st_next_reconciliation_at := x, st_next_recovery_at := y, st_next_slo_at := 0\<rparr>)"
    if "record_operational_event E t busy n c None None None 1 (st_broker st2) = Inr br" for t n c st2 br x y
    by (rule shrinks_broker) (auto intro: step_operational [OF that])
  show "shrinks E st1 (fst (if \<not> acquired then (st1, Inr False)
       else
         sbind (recover_at_start E rs
                  (st1\<lparr>st_broker := mark_worker_started (bt_time b) (bt_now b) (st_broker st1)\<rparr>)) (\<lambda>recovered st.
           if \<not> recovered then (st, Inr False)
           else case record_operational_event E (bt_time b) busy ''scheduler_restart'' ''scheduler'' None None None 1
                       (st_broker st) of
             Inl e \<Rightarrow> (st, Inl e)
           | Inr br \<Rightarrow>
               (st\<lparr>st_broker := br, st_next_sample_at := 0, st_next_heartbeat_at := 0,
                   st_next_reconciliation_at := fadd (bt_now b) 60,
                   st_next_recovery_at := fadd (bt_now b) 5, st_next_slo_at := 0\<rparr>, Inr True))))"
    using event
    by (auto intro!: shrinks_sbind intro: shrinks_trans [OF started recover_at_start_shrinks] split: sum.split)
qed

lemma stop_scheduler_shrinks: "shrinks E st (stop_scheduler t a a' st)"
proof -
  have stopped: "broker_run E s (mark_worker_stopped s)" for s
    by (rule volatile_run) (simp add: mark_worker_stopped_def db.defs)
  have steps: "broker_run E s (fst (release_claims t cs r s))" "broker_run E s (release_scheduler_lease o_id s)" for s cs r o_id
    by (auto intro: step_release step_release_lease)
  let ?br = "if a = Granted
      then fst (release_claims t (map (lease_tuple \<circ> snd) (st_running st)) ''service_shutdown'' (st_broker st)) else st_broker st"
  have "broker_run E (st_broker st) ?br" using steps(1) by simp
  moreover have "broker_run E ?br (if a' = Granted then release_scheduler_lease (st_owner st) ?br else ?br)"
    using steps(2) by simp
  ultimately have "broker_run E (st_broker st) (st_broker (stop_scheduler t a a' st))"
    unfolding stop_scheduler_def Let_def using stopped by (fastforce intro: rtranclp_trans)
  then show ?thesis by (simp add: shrinks_def stop_scheduler_def Let_def)
qed

lemma new_scheduler_shrinks: "shrinks E st (new_scheduler o_id (st_broker st))"
  by (simp add: shrinks_def new_scheduler_def)

subsection \<open>What the scheduler tracks\<close>

definition owned :: "('a db_scheme) \<Rightarrow> running_claim \<Rightarrow> bool" where
  "owned s c =
     (\<exists>j. find_job s (rc_job_uuid c) = Some j \<and> rc_generation c \<le> j_generation j \<and>
        (j_generation j = rc_generation c \<longrightarrow> j_worker_id j = Some (rc_worker_id c) \<or> j_worker_id j = None))"

definition tracks :: "('a sched_env_scheme) \<Rightarrow> sched_state \<Rightarrow> bool" where
  "tracks E st =
     (store_wf (st_broker st) \<and> dict_wf (st_running st) \<and>
      (\<forall>p\<in>set (st_running st). fst p = rc_job_uuid (snd p) \<and> 1 \<le> rc_slots (snd p) \<and> owned (st_broker st) (snd p)) \<and>
      int (length (st_running st)) \<le> configured_max E \<and>
      (\<forall>d. st_decision st = Some d \<longrightarrow> d_capacity d \<le> configured_max E))"

lemma owned_run:
  assumes "broker_run E s s'" and "store_wf s" and "owned s c"
  shows "owned s' c"
proof -
  obtain j where j: "find_job s (rc_job_uuid c) = Some j" "rc_generation c \<le> j_generation j"
      "j_generation j = rc_generation c \<longrightarrow> j_worker_id j = Some (rc_worker_id c) \<or> j_worker_id j = None"
    using assms(3) by (auto simp: owned_def)
  then show ?thesis
    using fence.R_evolves [OF broker_run_evolves [OF assms(1,2)] j(1)] by (auto simp: owned_def)
qed

lemma held_owned: "held s p \<Longrightarrow> fst p = rc_job_uuid (snd p) \<and> owned s (snd p)"
  by (auto simp: held_def owned_def lease_tuple_def holds_claim_def)

lemma broker_run_wf: "broker_run E s s' \<Longrightarrow> store_wf s \<Longrightarrow> store_wf s'"
  using broker_run_evolves evolves_wf by blast

lemma tracks_shrinks:
  assumes "shrinks E st st'" and "tracks E st"
  shows "tracks E st'"
  using assms broker_run_wf [of E "st_broker st" "st_broker st'"] owned_run [of E "st_broker st" "st_broker st'"]
  by (fastforce simp: shrinks_def tracks_def)

lemma dispatch_phase_tracks:
  assumes "tracks E st" and "d_capacity d \<le> configured_max E"
  shows "tracks E (fst (dispatch_phase E k d st)) \<and> broker_run E (st_broker st) (st_broker (fst (dispatch_phase E k d st)))"
proof (cases "tk_now k < st_retry_at st")
  case True
  then show ?thesis using assms(1) by (simp add: dispatch_phase_def)
next
  case False
  obtain br running a where go: "start_available_jobs E (d_capacity d) (tk_claim_time k) (tk_worker k) (tk_claim k) 0
      (st_broker st) (st_running st) = (br, running, a)" by (metis prod_cases3)
  have wf: "store_wf (st_broker st)" using assms(1) by (simp add: tracks_def)
  note run = start_available_jobs_run [OF go wf] and new = new_claims_held [OF go wf] and bound = start_bounded [OF go wf]
  let ?st = "st\<lparr>st_broker := br, st_running := running\<rparr>"
  have tr: "tracks E ?st"
    using assms run new bound owned_run [of E "st_broker st" br] wf held_owned [of br]
    by (fastforce simp: tracks_def)
  then have "tracks E (?st\<lparr>st_failures := 0, st_retry_at := 0\<rparr>)" by (simp add: tracks_def)
  with False tr tracks_shrinks [OF shrinks_defer tr] run show ?thesis
    using rtranclp_trans [OF _ defer_for_contention_run [of E ?st]]
    by (auto simp: dispatch_phase_def go Let_def split: access.split)
qed

definition safe_move :: "('a sched_env_scheme) \<Rightarrow> sched_state \<Rightarrow> sched_state \<Rightarrow> bool" where
  "safe_move E st st' =
     (tracks E st \<longrightarrow> tracks E st' \<and> broker_run E (st_broker st) (st_broker st'))"

lemma safe_move_trans: "safe_move E st st' \<Longrightarrow> safe_move E st' st'' \<Longrightarrow> safe_move E st st''"
  by (auto simp: safe_move_def)

lemma shrinks_safe: "shrinks E st st' \<Longrightarrow> safe_move E st st'"
  using tracks_shrinks by (auto simp: safe_move_def shrinks_def)

lemma safe_move_sbind:
  assumes "safe_move E st (fst p)" and "\<And>x st'. p = (st', Inr x) \<Longrightarrow> safe_move E st' (fst (k x st'))"
  shows "safe_move E st (fst (sbind p k))"
  using assms by (auto simp: sbind_def split: prod.splits sum.splits intro: safe_move_trans)

lemma safe_move_bind:
  assumes "safe_move E st (fst p)" and "\<And>st' x. p = (st', x) \<Longrightarrow> safe_move E st' (fst (k st' x))"
  shows "safe_move E st (fst (case p of (st', x) \<Rightarrow> k st' x))"
  using assms by (auto split: prod.split intro: safe_move_trans)

lemma safe_moveI: "(tracks E st \<Longrightarrow> safe_move E st st') \<Longrightarrow> safe_move E st st'"
  by (simp add: safe_move_def)

lemma dispatch_phase_safe: "d_capacity d \<le> configured_max E \<Longrightarrow> safe_move E st (fst (dispatch_phase E k d st))"
  using dispatch_phase_tracks by (auto simp: safe_move_def)

lemmas phase_safe =
  collect_finished_shrinks [THEN shrinks_safe] sample_phase_shrinks [THEN shrinks_safe]
  heartbeat_phase_shrinks [THEN shrinks_safe] periodic_shrinks [THEN shrinks_safe]
  shrinks_publish [THEN shrinks_safe]

lemma scheduler_tick_safe: "safe_move E st (fst (scheduler_tick E k st))"
  unfolding scheduler_tick_def
proof (rule safe_move_sbind [OF phase_safe(1)], goal_cases)
  case (1 cleanup st1)
  show ?case
  proof (rule safe_move_bind [OF phase_safe(2)], rule safe_moveI)
    fix st2 d assume d: "sample_phase E k st1 = (st2, d)" and tr: "tracks E st2"
    have cap: "d_capacity d \<le> configured_max E"
      using sample_phase_decision [OF d] tr by (simp add: tracks_def)
    show "safe_move E st2 (fst (if cleanup then (publish_status d True [''sqlite_writer_contention''] st2, Inr ())
         else sbind (heartbeat_phase E k d st2) (\<lambda>_ st. case recovery_phase k st of
       (st, r1) \<Rightarrow> (case reconcile_phase k st of
          (st, r2) \<Rightarrow> (case slo_phase E k st of
             (st, r3) \<Rightarrow> sbind (dispatch_phase E k d st) (\<lambda>r4 st.
               (publish_status d True (r1 @ r2 @ r3 @ r4) st, Inr ())))))))"
      by (cases cleanup)
        (simp_all add: phase_safe safe_move_sbind safe_move_bind dispatch_phase_safe [OF cap])
  qed
qed

lemma sched_step_safe: "sched_step E st st' \<Longrightarrow> safe_move E st st'"
proof (induction rule: sched_step.induct)
  case (sched_boot P bs b rs busy st st' r)
  then show ?case using shrinks_safe [OF start_scheduler_shrinks [of E st P bs b rs busy]] by simp
next
  case (sched_turn k st st' r)
  then show ?case using scheduler_tick_safe [of E st k] by simp
next
  case (sched_other st br)
  then show ?case by (rule shrinks_safe [OF broker_step_shrinks])
qed (simp_all add: shrinks_safe stop_scheduler_shrinks new_scheduler_shrinks)

lemma sched_run_safe: "sched_run E st st' \<Longrightarrow> safe_move E st st'"
proof (induction rule: rtranclp_induct)
  case base
  show ?case by (rule shrinks_safe) simp
next
  case (step y z)
  then show ?case using safe_move_trans sched_step_safe by blast
qed

lemma new_scheduler_broker: "st_broker (new_scheduler o_id br) = br"
  by (simp add: new_scheduler_def)

lemma new_scheduler_tracks: "store_wf br \<Longrightarrow> tracks E (new_scheduler o_id br)"
  by (simp add: tracks_def new_scheduler_def configured_max_def)


text \<open>A run of one turn: the sample is calm, the clock is past every deadline, the first claim succeeds.\<close>

definition demo_load :: load_snapshot where
  "demo_load =
     \<lparr>cpu_count = 8, load_1m = Some 1, normalized_load = Some (1 / 8), memory_total_mb = Some 16384,
      memory_available_mb = Some 8192, memory_used_ratio = Some (1 / 2), swap_used_mb = Some 0,
      load_source = ''linux'', load_error = None, disk_free_mb = Some 9000, io_pressure = Some 0, io_source = None\<rparr>"

definition demo_tick :: tick where
  "demo_tick =
     \<lparr>tk_now = 1, tk_time = 1000, tk_sample = demo_load, tk_done = (\<lambda>u. False), tk_release = (\<lambda>u. Granted),
      tk_renew = Contended, tk_heartbeat = Granted, tk_flush_busy = False, tk_recovery = Granted,
      tk_reconcile = Granted, tk_slo = Granted, tk_claim = (\<lambda>n. Granted), tk_claim_time = (\<lambda>n. 0),
      tk_worker = (\<lambda>n. ''w'')\<rparr>"

definition demo_turn :: sched_state where
  "demo_turn = fst (scheduler_tick demo_senv demo_tick (new_scheduler ''o'' demo_queue))"

lemma demo_turn_run: "sched_run demo_senv (new_scheduler ''o'' demo_queue) demo_turn"
  unfolding demo_turn_def by (rule r_into_rtranclp, rule sched_turn) (rule prod.collapse [symmetric])




subsection \<open>Shutdown\<close>

definition released_row :: "int \<Rightarrow> string \<Rightarrow> job \<Rightarrow> job" where
  "released_row t reason j =
     (if j_status j = Cancel_requested then release_cancelled_row t j else release_running_row t reason j)"

lemma released_not_claimed: "\<not> claimed_status (j_status (released_row t reason j))"
  by (simp add: released_row_def release_cancelled_row_def release_running_row_def claimed_status_def)

lemma holds_claim_unique:
  assumes "store_wf s" and "i \<in> set (jobs s)" and "j \<in> set (jobs s)" and "holds_claim c i" and "holds_claim c j"
  shows "i = j"
  using assms find_key_eq [of j_uuid "jobs s" i] find_key_eq [of j_uuid "jobs s" j]
  by (auto simp: store_wf_def holds_claim_def split: prod.splits)

lemma release_one_jobs:
  assumes "store_wf s"
  shows "jobs (fst (release_one t reason c (s, n))) = sql_update (holds_claim c) (released_row t reason) (jobs s)"
proof (cases "find (holds_claim c) (jobs s)")
  case None
  then have "\<forall>j\<in>set (jobs s). \<not> holds_claim c j" by (simp add: find_None_iff)
  then show ?thesis using None by (simp add: release_one_def sql_update_def map_idI)
next
  case (Some row)
  then have row: "row \<in> set (jobs s)" "holds_claim c row" by (auto dest: find_Some_mem)
  have one: "j = row" if "j \<in> set (jobs s)" "holds_claim c j" for j
    using holds_claim_unique [OF assms that(1) row(1) that(2) row(2)] .
  have "jobs (fst (release_one t reason c (s, n))) =
      sql_update (\<lambda>j. holds_claim c j \<and> j_status j = j_status row)
        (if j_status row = Cancel_requested then release_cancelled_row t else release_running_row t reason) (jobs s)"
    by (simp add: release_one_def Some Let_def frame)
  also have "\<dots> = sql_update (holds_claim c) (released_row t reason) (jobs s)"
    unfolding sql_update_def released_row_def using one by (intro map_cong) auto
  finally show ?thesis .
qed

lemma release_fold_jobs:
  assumes "store_wf s"
  shows "jobs (fst (fold (release_one t reason) cs (s, n))) =
    sql_update (\<lambda>j. \<exists>c\<in>set cs. holds_claim c j) (released_row t reason) (jobs s)"
  using assms
proof (induction cs arbitrary: s n)
  case Nil
  then show ?case by (simp add: sql_update_def)
next
  case (Cons c cs)
  obtain s1 n1 where one: "release_one t reason c (s, n) = (s1, n1)" by fastforce
  have jobs1: "jobs s1 = sql_update (holds_claim c) (released_row t reason) (jobs s)"
    using release_one_jobs [OF Cons.prems, of t reason c n] one by simp
  have "store_wf s1"
    using evolves_wf [OF quiet_evolves [OF release_one_quiet [of "(s, n)" t reason c]]] Cons.prems one by simp
  from Cons.IH [OF this] show ?case
    using released_not_claimed [of t reason]
    by (auto simp: one jobs1 sql_update_def holds_claim_def split: prod.splits)
qed

lemma release_claims_jobs:
  assumes "store_wf s"
  shows "jobs (fst (release_claims t cs reason s)) =
    sql_update (\<lambda>j. \<exists>c\<in>set cs. holds_claim c j) (released_row t reason) (jobs s)"
  using release_fold_jobs [OF assms, of t reason cs 0]
  by (auto simp: release_claims_def split: prod.splits)

text \<open>
  A clean shutdown leaves nothing behind. When SQLite answers, stopping the scheduler hands back
  exactly the jobs whose rows still carry one of its claims: a running one returns to the queue
  without a worker, one with an accepted cancellation becomes cancelled, and every other row is
  untouched; afterwards no row carries a claim of the scheduler and it tracks nothing.
\<close>

theorem shutdown_hands_back_claims:
  assumes "store_wf (st_broker st)"
  shows "jobs (st_broker (stop_scheduler t Granted a st)) =
           map (\<lambda>j. if \<exists>p\<in>set (st_running st). holds_claim (lease_tuple (snd p)) j
                    then (if j_status j = Cancel_requested then release_cancelled_row t j
                          else release_running_row t ''service_shutdown'' j)
                    else j) (jobs (st_broker st)) \<and>
         (\<forall>j\<in>set (jobs (st_broker (stop_scheduler t Granted a st))).
            \<forall>p\<in>set (st_running st). \<not> holds_claim (lease_tuple (snd p)) j) \<and>
         st_running (stop_scheduler t Granted a st) = []"
proof -
  let ?held = "\<lambda>j. \<exists>p\<in>set (st_running st). holds_claim (lease_tuple (snd p)) j"
  have jobs: "jobs (st_broker (stop_scheduler t Granted a st)) =
      map (\<lambda>j. if ?held j then released_row t ''service_shutdown'' j else j) (jobs (st_broker st))"
    using release_claims_jobs [OF assms, of t "map (lease_tuple \<circ> snd) (st_running st)" "''service_shutdown''"]
    by (simp add: stop_scheduler_def Let_def mark_worker_stopped_def frame sql_update_def)
  have free: "\<not> holds_claim c (released_row t r j)" for c r j
    using released_not_claimed [of t r j] by (auto simp: holds_claim_def split: prod.splits)
  show ?thesis
    unfolding jobs using free by (auto simp: released_row_def [symmetric] stop_scheduler_def Let_def lease_tuple_def)
qed

definition demo_holding :: sched_state where
  "demo_holding = (new_scheduler ''o'' (demo_broker [demo_claimed]))\<lparr>st_running :=
     [(''a'', new_claim 1 ''w'' (demo_claimed, demo_dispatch))]\<rparr>"

theorem shutdown_hands_back_claims_witness:
  "jobs (st_broker (stop_scheduler 5000 Granted Granted demo_holding)) =
     [release_running_row 5000 ''service_shutdown'' demo_claimed]"
proof -
  have "store_wf (st_broker demo_holding)"
    by (simp add: demo_holding_def new_scheduler_def demo_simps demo_claimed_def claim_row_def)
  from shutdown_hands_back_claims [OF this, of 5000 Granted, THEN conjunct1]
  show ?thesis
    by (simp add: demo_holding_def new_scheduler_def demo_broker_def demo_claimed_def claim_row_def demo_job_def
        holds_claim_def lease_tuple_def claimed_status_def)
qed

subsection \<open>Supervision\<close>

text \<open>\<open>crash_loop a secs ups\<close>: somewhere \<open>a\<close> consecutive runs fail, all but the first within \<open>secs\<close> seconds.\<close>

definition short_prefix :: "nat \<Rightarrow> rat \<Rightarrow> rat list \<Rightarrow> bool" where
  "short_prefix n secs ups = (n \<le> length ups \<and> list_all (\<lambda>u. u < secs) (take n ups))"

fun crash_loop :: "nat \<Rightarrow> rat \<Rightarrow> rat list \<Rightarrow> bool" where
  "crash_loop a secs [] = False"
| "crash_loop a secs (u # ups) = (short_prefix (a - 1) secs ups \<or> crash_loop a secs ups)"

lemma short_prefix_Cons:
  "short_prefix n secs (u # ups) = (n = 0 \<or> u < secs \<and> short_prefix (n - 1) secs ups)"
  by (cases n) (auto simp: short_prefix_def)

lemma short_prefix_mono: "short_prefix n secs ups \<Longrightarrow> m \<le> n \<Longrightarrow> short_prefix m secs ups"
  by (auto simp: short_prefix_def list_all_iff dest: set_take_subset_set_take [THEN subsetD])

lemma supervise_raises_iff:
  fixes max_attempts :: int
  defines "a \<equiv> nat (max max_attempts 1)"
  assumes "failures < a"
  shows "(\<exists>e. snd (supervise_job_worker max_attempts retry_base stable_seconds failures ups) = Inl e) \<longleftrightarrow>
    0 < failures \<and> short_prefix (a - failures) (max stable_seconds 0) ups \<or> crash_loop a (max stable_seconds 0) ups"
  using assms(2)
proof (induction ups arbitrary: failures)
  case Nil
  then show ?case by (simp add: short_prefix_def)
next
  case (Cons u ups)
  let ?lim = "max stable_seconds 0"
  let ?f = "(if failures \<noteq> 0 \<and> u \<ge> ?lim then 0 else failures) + 1"
  have a: "int a = max max_attempts 1" by (simp add: a_def max_def)
  have raise: "(\<exists>e. snd (supervise_job_worker max_attempts retry_base stable_seconds failures (u # ups)) = Inl e) \<longleftrightarrow>
      a \<le> ?f \<or> (\<exists>e. snd (supervise_job_worker max_attempts retry_base stable_seconds ?f ups) = Inl e)"
  proof -
    have "int ?f \<ge> max max_attempts 1 \<longleftrightarrow> a \<le> ?f" unfolding a [symmetric] by linarith
    then show ?thesis unfolding supervise_job_worker.simps Let_def by (simp split: prod.split)
  qed
  show ?case
  proof (cases "a \<le> ?f")
    case True
    then have "a - failures = 1 \<and> (failures = 0 \<or> u < ?lim)"
      using Cons.prems by (auto split: if_splits)
    with True show ?thesis
      unfolding raise by (cases "failures = 0") (auto simp: short_prefix_Cons, auto simp: short_prefix_def)
  next
    case False
    have IH: "(\<exists>e. snd (supervise_job_worker max_attempts retry_base stable_seconds ?f ups) = Inl e) \<longleftrightarrow>
        short_prefix (a - ?f) ?lim ups \<or> crash_loop a ?lim ups"
      using Cons.IH [of ?f] False by simp
    show ?thesis
      unfolding raise IH using False Cons.prems
      by (auto simp: short_prefix_Cons not_le split: if_splits intro: short_prefix_mono)
  qed
qed

lemma supervise_delays:
  assumes "delay \<in> set (fst (supervise_job_worker max_attempts retry_base stable_seconds failures ups))"
  shows "\<exists>n. int n + 1 < max max_attempts 1 \<and> delay = max retry_base 0 * 2 ^ n"
  using assms
proof (induction ups arbitrary: failures)
  case (Cons u ups)
  let ?f = "if failures \<noteq> 0 \<and> u \<ge> max stable_seconds 0 then 0 else failures"
  obtain delays r where rest: "supervise_job_worker max_attempts retry_base stable_seconds (?f + 1) ups = (delays, r)"
    by fastforce
  have "int (?f + 1) < max max_attempts 1 \<and> (delay = max retry_base 0 * 2 ^ ?f \<or> delay \<in> set delays)"
    using Cons.prems unfolding supervise_job_worker.simps Let_def rest prod.case
    by (cases "max max_attempts 1 \<le> int (?f + 1)") simp_all
  then show ?case
  proof (elim conjE disjE)
    assume "int (?f + 1) < max max_attempts 1" and "delay = max retry_base 0 * 2 ^ ?f"
    then show ?thesis by (intro exI [of _ ?f]) simp
  next
    assume "delay \<in> set delays"
    then show ?thesis using Cons.IH [of "?f + 1"] rest by simp
  qed
qed simp

text \<open>
  C31. Supervision tells a crash loop from an unlucky restart. The worker is given up exactly when some
  \<open>max_attempts\<close> consecutive runs failed, all but the first of them before \<open>stable_run_seconds\<close> of
  uptime; otherwise it is restarted for ever, after a delay that doubles with each failure in a row
  and never exceeds the base delay doubled \<open>max_attempts - 2\<close> times.
\<close>

theorem supervision_ends_crash_loops:
  "((\<exists>e. snd (supervise_job_worker max_attempts retry_base stable_seconds 0 ups) = Inl e) \<longleftrightarrow>
      crash_loop (nat (max max_attempts 1)) (max stable_seconds 0) ups) \<and>
   (\<forall>delay\<in>set (fst (supervise_job_worker max_attempts retry_base stable_seconds 0 ups)).
      \<exists>n. int n + 1 < max max_attempts 1 \<and> delay = max retry_base 0 * 2 ^ n)"
  using supervise_raises_iff [of 0 max_attempts] supervise_delays by simp

theorem supervision_ends_crash_loops_witness:
  "(\<exists>e. snd (supervise_job_worker 3 1 60 0 [100, 2, 70, 5, 6]) = Inl e) \<and>
   \<not> (\<exists>e. snd (supervise_job_worker 3 1 60 0 [100, 2, 70, 5, 90]) = Inl e)"
  using supervision_ends_crash_loops [of 3 1 60 "[100, 2, 70, 5, 6]", THEN conjunct1]
    supervision_ends_crash_loops [of 3 1 60 "[100, 2, 70, 5, 90]", THEN conjunct1]
  by (simp add: short_prefix_def)

end
