(* ===== verification/Allocations.thy ===== *)
theory Allocations
  imports Payload
begin

text \<open>
  Portfolio weights (\<open>backend/services/allocations.py\<close>): the units a client may use, their
  canonical form in basis points, the constraints of a portfolio, and the preview of a rebalance.

  A raw allocation is a Python value. The messages of the validation are the constructors of
  \<open>alloc_error\<close> and \<open>alloc_warning\<close>; amounts are finite floats.
\<close>

subsection \<open>Python's \<open>float(v)\<close> and \<open>round\<close>\<close>

text \<open>A number read from text or an integer: values of $2^{1024}$ and more are infinite.\<close>

definition to_float :: "rat \<Rightarrow> pyfloat" where
  "to_float x = (let y = fl x in if y \<ge> pow2 1024 then PInf else if y \<le> - pow2 1024 then NInf else Fin y)"

text \<open>Underscores may separate digits.\<close>

fun drop_underscores :: "bool \<Rightarrow> string \<Rightarrow> string option" where
  "drop_underscores after_digit [] = Some []"
| "drop_underscores after_digit (c # s) =
     (if c = CHR ''_''
      then (if after_digit \<and> list_ex is_digit (take 1 s) then drop_underscores False s else None)
      else map_option ((#) c) (drop_underscores (is_digit c) s))"

definition parse_exponent :: "string \<Rightarrow> int option" where
  "parse_exponent s =
     (case s of
        [] \<Rightarrow> Some 0
      | c # t \<Rightarrow>
          if c \<noteq> CHR ''e'' then None
          else
            let neg = (take 1 t = ''-'');
                ds = (if take 1 t = ''-'' \<or> take 1 t = ''+'' then drop 1 t else t)
            in if ds = [] \<or> \<not> list_all is_digit ds then None
               else Some (if neg then - digits_val 0 ds else digits_val 0 ds))"

definition pow10 :: "int \<Rightarrow> rat" where
  "pow10 e = (if 0 \<le> e then 10 ^ nat e else 1 / 10 ^ nat (- e))"

definition parse_number :: "string \<Rightarrow> rat option" where
  "parse_number s =
     (let whole = takeWhile is_digit s;
          rest = dropWhile is_digit s;
          point = (take 1 rest = ''.'');
          frac = (if point then takeWhile is_digit (drop 1 rest) else []);
          rest' = (if point then dropWhile is_digit (drop 1 rest) else rest)
      in if whole = [] \<and> frac = [] then None
         else map_option (\<lambda>e. of_int (digits_val 0 (whole @ frac)) * pow10 (e - int (length frac)))
                (parse_exponent rest'))"

definition py_float_of_str :: "string \<Rightarrow> pyfloat option" where
  "py_float_of_str s =
     (let t = str_lower (str_strip s);
          neg = (take 1 t = ''-'');
          u = (if take 1 t = ''-'' \<or> take 1 t = ''+'' then drop 1 t else t)
      in if u = ''inf'' \<or> u = ''infinity'' then Some (if neg then NInf else PInf)
         else if u = ''nan'' then Some NaN
         else case drop_underscores False u of
           None \<Rightarrow> None
         | Some v \<Rightarrow> map_option (\<lambda>x. to_float (if neg then - x else x)) (parse_number v))"

fun py_float :: "pyval \<Rightarrow> pyfloat result" where
  "py_float (PBool b) = Inr (Fin (if b then 1 else 0))"
| "py_float (PInt i) = (case to_float (of_int i) of Fin x \<Rightarrow> Inr (Fin x) | _ \<Rightarrow> Inl OverflowError)"
| "py_float (PFloat x) = Inr x"
| "py_float (PStr s) =
     (case py_float_of_str s of None \<Rightarrow> Inl (ValueError ''could not convert string to float'') | Some x \<Rightarrow> Inr x)"
| "py_float v = Inl TypeError"

text \<open>\<open>int(round(x))\<close>: to the nearest integer, ties to even.\<close>

fun py_round :: "pyfloat \<Rightarrow> int result" where
  "py_round (Fin x) = Inr (round_half_even x)"
| "py_round NaN = Inl (ValueError ''cannot convert float NaN to integer'')"
| "py_round _ = Inl OverflowError"

text \<open>\<open>round(x, n)\<close>: the exact value to \<open>n\<close> decimals, ties to even, then the nearest float.\<close>

definition py_round_digits :: "nat \<Rightarrow> rat \<Rightarrow> rat" where
  "py_round_digits n x = fl (of_int (round_half_even (x * 10 ^ n)) / 10 ^ n)"

fun abs_le :: "pyfloat \<Rightarrow> rat \<Rightarrow> bool" where
  "abs_le (Fin x) b = (\<bar>x\<bar> \<le> b)"
| "abs_le _ b = False"

fun scale :: "pyfloat \<Rightarrow> rat \<Rightarrow> pyfloat" where
  "scale (Fin x) k = Fin (fmul x k)"
| "scale x k = x"

fun has_key :: "pyval \<Rightarrow> string \<Rightarrow> bool" where
  "has_key (PDict kvs) k = (map_of kvs (PStr k) \<noteq> None)"
| "has_key v k = False"

subsection \<open>Canonical allocations\<close>

definition to_bps :: "pyval \<Rightarrow> string \<Rightarrow> string \<Rightarrow> int result" where
  "to_bps item key legacy_key =
     (let given = pget item key;
          v = (if given = PNone then pget item legacy_key else given)
      in if v = PNone then Inr 0
         else
           rbind (py_float v) (\<lambda>numeric.
             if key = ''target_weight_bps'' \<and> given \<noteq> PNone then py_round numeric
             else if abs_le numeric 1 then py_round (scale numeric 10000)
             else if abs_le numeric 100 then py_round (scale numeric 100)
             else py_round numeric))"

datatype alloc_error =
    Capital_not_positive
  | No_deployment_id nat
  | Duplicate_deployment int
  | Bad_limits int
  | Target_out_of_range int int int int
  | Bad_risk_budget int
  | Weights_exceed_total int

datatype alloc_warning = Cash_above_half | All_weights_zero

record allocation =
  al_deployment_id :: int
  al_target_bps :: int
  al_min_bps :: int
  al_max_bps :: int
  al_locked :: bool
  al_risk_budget_bps :: "int option"
  al_capital :: rat

record alloc_validation =
  av_valid :: bool
  av_errors :: "alloc_error list"
  av_warnings :: "alloc_warning list"
  av_strategy_weight_bps :: int
  av_cash_weight_bps :: int
  av_total_weight_bps :: int
  av_cash_capital :: rat

text \<open>
  \<open>int(raw["deployment_id"])\<close>: \<open>None\<close> when \<open>KeyError\<close>, \<open>TypeError\<close> or \<open>ValueError\<close> is caught; the
  \<open>OverflowError\<close> of an infinite float is not.
\<close>

definition read_deployment_id :: "pyval \<Rightarrow> int option result" where
  "read_deployment_id raw =
     (case pget raw ''deployment_id'' of
        PFloat PInf \<Rightarrow> Inl OverflowError
      | PFloat NInf \<Rightarrow> Inl OverflowError
      | v \<Rightarrow> (case py_int v of Inl e \<Rightarrow> Inr None | Inr i \<Rightarrow> Inr (Some i)))"

definition share_of :: "rat \<Rightarrow> int \<Rightarrow> rat" where
  "share_of total_capital bps = fdiv (fmul total_capital (float_of_int bps)) 10000"

definition row_errors :: "allocation \<Rightarrow> alloc_error list" where
  "row_errors a =
     (if 0 \<le> al_min_bps a \<and> al_min_bps a \<le> al_max_bps a \<and> al_max_bps a \<le> 10000 then []
      else [Bad_limits (al_deployment_id a)]) @
     (if al_min_bps a \<le> al_target_bps a \<and> al_target_bps a \<le> al_max_bps a then []
      else [Target_out_of_range (al_deployment_id a) (al_target_bps a) (al_min_bps a) (al_max_bps a)]) @
     (case al_risk_budget_bps a of
        None \<Rightarrow> []
      | Some r \<Rightarrow> if 0 \<le> r \<and> r \<le> 10000 then [] else [Bad_risk_budget (al_deployment_id a)])"

definition read_allocation :: "rat \<Rightarrow> pyval \<Rightarrow> int \<Rightarrow> allocation result" where
  "read_allocation total_capital raw deployment_id =
     rbind (to_bps raw ''target_weight_bps'' ''weight'') (\<lambda>target.
     rbind (to_bps raw ''min_weight_bps'' ''min_weight'') (\<lambda>minimum.
     rbind (to_bps raw ''max_weight_bps'' ''max_weight'') (\<lambda>maximum.
     rbind (if pget raw ''risk_budget_bps'' \<noteq> PNone \<or> pget raw ''risk_budget'' \<noteq> PNone
            then rbind (to_bps raw ''risk_budget_bps'' ''risk_budget'') (\<lambda>r. Inr (Some r))
            else Inr None) (\<lambda>risk_budget.
       Inr \<lparr>al_deployment_id = deployment_id, al_target_bps = target, al_min_bps = minimum,
            al_max_bps = (if \<not> has_key raw ''max_weight_bps'' \<and> \<not> has_key raw ''max_weight'' then 10000 else maximum),
            al_locked = truthy (pget raw ''locked''), al_risk_budget_bps = risk_budget,
            al_capital = py_round_digits 2 (share_of total_capital target)\<rparr>))))"

text \<open>The loop over \<open>enumerate(allocations)\<close> from index \<open>i\<close>, with the identifiers already seen.\<close>

fun canonicalize_rows ::
  "rat \<Rightarrow> nat \<Rightarrow> int list \<Rightarrow> pyval list \<Rightarrow> (allocation list \<times> alloc_error list) result" where
  "canonicalize_rows total_capital i seen [] = Inr ([], [])"
| "canonicalize_rows total_capital i seen (raw # raws) =
     rbind (read_deployment_id raw) (\<lambda>d.
       case d of
         None \<Rightarrow>
           rbind (canonicalize_rows total_capital (i + 1) seen raws) (\<lambda>(rows, errors).
             Inr (rows, No_deployment_id (i + 1) # errors))
       | Some deployment_id \<Rightarrow>
           if deployment_id \<in> set seen
           then rbind (canonicalize_rows total_capital (i + 1) seen raws) (\<lambda>(rows, errors).
                  Inr (rows, Duplicate_deployment deployment_id # errors))
           else
             rbind (read_allocation total_capital raw deployment_id) (\<lambda>a.
             rbind (canonicalize_rows total_capital (i + 1) (deployment_id # seen) raws) (\<lambda>(rows, errors).
               Inr (a # rows, row_errors a @ errors))))"

definition validation_of ::
  "rat \<Rightarrow> pyval list \<Rightarrow> allocation list \<Rightarrow> alloc_error list \<Rightarrow> alloc_validation" where
  "validation_of total_capital allocations rows errors =
     (let total = sum_list (map al_target_bps rows);
          all_errors = (if total_capital \<le> 0 then [Capital_not_positive] else []) @ errors @
                       (if total > 10000 then [Weights_exceed_total total] else []);
          cash_weight = max (10000 - total) 0
      in \<lparr>av_valid = (all_errors = []), av_errors = all_errors,
          av_warnings = (if cash_weight > 5000 then [Cash_above_half] else []) @
                        (if allocations \<noteq> [] \<and> total = 0 then [All_weights_zero] else []),
          av_strategy_weight_bps = total, av_cash_weight_bps = cash_weight,
          av_total_weight_bps = total + cash_weight,
          av_cash_capital = py_round_digits 2 (share_of total_capital cash_weight)\<rparr>)"

definition canonicalize_allocations ::
  "pyval list \<Rightarrow> rat \<Rightarrow> (allocation list \<times> alloc_validation) result" where
  "canonicalize_allocations allocations total_capital =
     rbind (canonicalize_rows total_capital 0 [] allocations) (\<lambda>(rows, errors).
       Inr (rows, validation_of total_capital allocations rows errors))"

text \<open>A canonical row as the JSON object that is stored with the portfolio.\<close>

definition alloc_json :: "allocation \<Rightarrow> pyval" where
  "alloc_json a =
     PDict [(PStr ''deployment_id'', PInt (al_deployment_id a)),
            (PStr ''target_weight_bps'', PInt (al_target_bps a)),
            (PStr ''min_weight_bps'', PInt (al_min_bps a)),
            (PStr ''max_weight_bps'', PInt (al_max_bps a)),
            (PStr ''locked'', PBool (al_locked a)),
            (PStr ''risk_budget_bps'', case al_risk_budget_bps a of None \<Rightarrow> PNone | Some r \<Rightarrow> PInt r),
            (PStr ''capital'', PFloat (Fin (al_capital a)))]"

subsection \<open>Preview of a rebalance\<close>

datatype direction = Buy_direction | Sell_direction | Hold_direction

record preview_row =
  pv_allocation :: allocation
  pv_current_capital :: rat
  pv_target_capital :: rat
  pv_capital_delta :: rat
  pv_direction :: direction
  pv_estimated_cost :: rat

record rebalance_preview =
  rp_rows :: "preview_row list"
  rp_one_way_turnover :: rat
  rp_turnover_rate :: rat
  rp_estimated_cost :: rat

definition preview_delta :: "rat \<Rightarrow> (int, rat) dict \<Rightarrow> allocation \<Rightarrow> rat" where
  "preview_delta total_capital current_market_values a =
     fsub (share_of total_capital (al_target_bps a)) (dict_get current_market_values (al_deployment_id a) 0)"

definition preview_row :: "rat \<Rightarrow> (int, rat) dict \<Rightarrow> rat \<Rightarrow> allocation \<Rightarrow> preview_row" where
  "preview_row total_capital current_market_values estimated_cost_rate a =
     (let delta = preview_delta total_capital current_market_values a in
      \<lparr>pv_allocation = a,
       pv_current_capital = py_round_digits 2 (dict_get current_market_values (al_deployment_id a) 0),
       pv_target_capital = py_round_digits 2 (share_of total_capital (al_target_bps a)),
       pv_capital_delta = py_round_digits 2 delta,
       pv_direction = (if delta > 0 then Buy_direction else if delta < 0 then Sell_direction else Hold_direction),
       pv_estimated_cost = py_round_digits 2 (fmul \<bar>delta\<bar> estimated_cost_rate)\<rparr>)"

definition build_rebalance_preview ::
  "allocation list \<Rightarrow> rat \<Rightarrow> (int, rat) dict \<Rightarrow> rat \<Rightarrow> rebalance_preview" where
  "build_rebalance_preview allocations total_capital current_market_values estimated_cost_rate =
     (let turnover = foldl (\<lambda>acc a. fadd acc \<bar>preview_delta total_capital current_market_values a\<bar>) 0 allocations
      in \<lparr>rp_rows = map (preview_row total_capital current_market_values estimated_cost_rate) allocations,
          rp_one_way_turnover = py_round_digits 2 (fdiv turnover 2),
          rp_turnover_rate = py_round_digits 6 (fdiv turnover (max (fmul total_capital 2) 1)),
          rp_estimated_cost = py_round_digits 2 (fmul turnover estimated_cost_rate)\<rparr>)"

subsection \<open>What validation guarantees\<close>

definition alloc_ok :: "allocation \<Rightarrow> bool" where
  "alloc_ok a =
     (0 \<le> al_min_bps a \<and> al_min_bps a \<le> al_target_bps a \<and> al_target_bps a \<le> al_max_bps a \<and> al_max_bps a \<le> 10000 \<and>
      (case al_risk_budget_bps a of None \<Rightarrow> True | Some r \<Rightarrow> 0 \<le> r \<and> r \<le> 10000))"

lemma row_errors_Nil: "row_errors a = [] \<longleftrightarrow> alloc_ok a"
  by (auto simp: row_errors_def alloc_ok_def split: option.splits)

lemma read_allocation_fields:
  assumes "read_allocation cap raw d = Inr a"
  shows "al_deployment_id a = d" and "al_capital a = py_round_digits 2 (share_of cap (al_target_bps a))"
  using assms by (auto simp: read_allocation_def rbind_Inr_conv)

lemma canonicalize_rows_ids:
  assumes "canonicalize_rows cap i seen raws = Inr (rows, errors)"
  shows "distinct (map al_deployment_id rows) \<and> set (map al_deployment_id rows) \<inter> set seen = {} \<and>
    (\<forall>a\<in>set rows. al_capital a = py_round_digits 2 (share_of cap (al_target_bps a)))"
  using assms
proof (induction cap i seen raws arbitrary: rows errors rule: canonicalize_rows.induct)
  case (2 cap i seen raw raws)
  then show ?case
    by (fastforce simp: rbind_Inr_conv read_allocation_fields split: option.splits if_splits prod.splits)
qed simp

lemma canonicalize_rows_valid:
  assumes "canonicalize_rows cap i seen raws = Inr (rows, [])"
  shows "length rows = length raws \<and> (\<forall>a\<in>set rows. alloc_ok a)"
  using assms
proof (induction cap i seen raws arbitrary: rows rule: canonicalize_rows.induct)
  case (2 cap i seen raw raws)
  then show ?case
    by (fastforce simp: rbind_Inr_conv row_errors_Nil split: option.splits if_splits prod.splits)
qed simp

lemma canonicalize_Inr:
  assumes "canonicalize_allocations raws cap = Inr (rows, v)"
  obtains errors where "canonicalize_rows cap 0 [] raws = Inr (rows, errors)" "v = validation_of cap raws rows errors"
  using assms by (auto simp: canonicalize_allocations_def rbind_Inr_conv)

lemma validation_valid:
  "av_valid (validation_of cap raws rows errors) \<longleftrightarrow>
     0 < cap \<and> errors = [] \<and> sum_list (map al_target_bps rows) \<le> 10000"
  by (auto simp: validation_of_def Let_def)

text \<open>
  C37. What validation accepts is a portfolio. If the allocations are valid then no row was dropped, no
  deployment occurs twice, every target lies between its minimum and maximum inside 0 to 10000 basis
  points, and strategies and cash together are exactly 10000.
\<close>

theorem valid_allocations_form_portfolio:
  assumes "canonicalize_allocations raws cap = Inr (rows, v)" and "av_valid v"
  shows "length rows = length raws \<and> distinct (map al_deployment_id rows) \<and>
    (\<forall>a\<in>set rows. 0 \<le> al_min_bps a \<and> al_min_bps a \<le> al_target_bps a \<and> al_target_bps a \<le> al_max_bps a \<and>
       al_max_bps a \<le> 10000) \<and>
    sum_list (map al_target_bps rows) + av_cash_weight_bps v = 10000 \<and> 0 \<le> av_cash_weight_bps v \<and>
    av_total_weight_bps v = 10000 \<and> 0 < cap"
proof -
  obtain errors where rows: "canonicalize_rows cap 0 [] raws = Inr (rows, errors)" and v: "v = validation_of cap raws rows errors"
    using canonicalize_Inr [OF assms(1)] .
  have ok: "0 < cap" "errors = []" "sum_list (map al_target_bps rows) \<le> 10000"
    using assms(2) by (simp_all add: v validation_valid)
  show ?thesis
    using canonicalize_rows_ids [OF rows] canonicalize_rows_valid [of cap 0 "[]" raws rows] rows ok
    by (simp add: v validation_of_def Let_def alloc_ok_def)
qed

subsection \<open>Reading stored allocations back\<close>

text \<open>A stored number of basis points that is read as it was written.\<close>

definition unambiguous_bps :: "int \<Rightarrow> bool" where
  "unambiguous_bps b = (b = 0 \<or> 100 < b)"

definition unambiguous :: "allocation \<Rightarrow> bool" where
  "unambiguous a =
     (unambiguous_bps (al_min_bps a) \<and> unambiguous_bps (al_max_bps a) \<and>
      (case al_risk_budget_bps a of None \<Rightarrow> True | Some r \<Rightarrow> unambiguous_bps r))"

lemma py_float_bps:
  assumes "0 \<le> b" and "b \<le> 10000"
  shows "py_float (PInt b) = Inr (Fin (of_int b))"
proof -
  have "fl (of_int b) = of_int b" using assms by (intro fl_of_int) simp
  moreover have "(of_int b :: rat) < pow2 1024" "- pow2 1024 < (of_int b :: rat)"
    using assms pow2_mono [of 14 1024] by (simp_all add: pow2_def)
  ultimately show ?thesis by (simp add: to_float_def Let_def)
qed

lemma to_bps_stored:
  assumes "pget item key = PInt b" and "0 \<le> b" and "b \<le> 10000"
    and "key = ''target_weight_bps'' \<or> unambiguous_bps b"
  shows "to_bps item key legacy = Inr b"
proof -
  have r: "round_half_even 0 = 0" using round_half_even_of_int [of 0] by simp
  show ?thesis
    using assms r unfolding to_bps_def unambiguous_bps_def
    by (auto simp: py_float_bps Let_def fmul_def simp del: py_float.simps)
qed

lemma to_bps_absent: "pget item key = PNone \<Longrightarrow> pget item legacy = PNone \<Longrightarrow> to_bps item key legacy = Inr 0"
  by (simp add: to_bps_def)

lemma alloc_json_get:
  "pget (alloc_json a) ''deployment_id'' = PInt (al_deployment_id a)"
  "pget (alloc_json a) ''target_weight_bps'' = PInt (al_target_bps a)"
  "pget (alloc_json a) ''min_weight_bps'' = PInt (al_min_bps a)"
  "pget (alloc_json a) ''max_weight_bps'' = PInt (al_max_bps a)"
  "pget (alloc_json a) ''locked'' = PBool (al_locked a)"
  "pget (alloc_json a) ''risk_budget_bps'' = (case al_risk_budget_bps a of None \<Rightarrow> PNone | Some r \<Rightarrow> PInt r)"
  "pget (alloc_json a) ''risk_budget'' = PNone"
  "has_key (alloc_json a) ''max_weight_bps''"
  by (simp_all add: alloc_json_def dict_get_def)

lemma read_stored:
  assumes "alloc_ok a" and "unambiguous a" and "al_capital a = py_round_digits 2 (share_of cap (al_target_bps a))"
  shows "read_deployment_id (alloc_json a) = Inr (Some (al_deployment_id a))"
    and "read_allocation cap (alloc_json a) (al_deployment_id a) = Inr a"
proof -
  show "read_deployment_id (alloc_json a) = Inr (Some (al_deployment_id a))"
    by (simp add: read_deployment_id_def alloc_json_get)
  have "to_bps (alloc_json a) ''target_weight_bps'' ''weight'' = Inr (al_target_bps a)"
    "to_bps (alloc_json a) ''min_weight_bps'' ''min_weight'' = Inr (al_min_bps a)"
    "to_bps (alloc_json a) ''max_weight_bps'' ''max_weight'' = Inr (al_max_bps a)"
    using assms(1,2) by (auto intro!: to_bps_stored simp: alloc_json_get alloc_ok_def unambiguous_def)
  moreover have "to_bps (alloc_json a) ''risk_budget_bps'' ''risk_budget'' = Inr r" if "al_risk_budget_bps a = Some r" for r
    using assms(1,2) that by (auto intro!: to_bps_stored simp: alloc_json_get alloc_ok_def unambiguous_def)
  ultimately show "read_allocation cap (alloc_json a) (al_deployment_id a) = Inr a"
    using assms(3) by (cases "al_risk_budget_bps a") (simp_all add: read_allocation_def alloc_json_get)
qed

lemma canonicalize_stored_rows:
  assumes "\<forall>a\<in>set rows. alloc_ok a \<and> unambiguous a \<and> al_capital a = py_round_digits 2 (share_of cap (al_target_bps a))"
    and "distinct (map al_deployment_id rows)" and "set (map al_deployment_id rows) \<inter> set seen = {}"
  shows "canonicalize_rows cap i seen (map alloc_json rows) = Inr (rows, [])"
  using assms by (induction rows arbitrary: i seen) (auto simp: read_stored row_errors_Nil)

text \<open>
  Stored allocations are read back unchanged, as long as every stored minimum, maximum and risk
  budget is zero or more than 100 basis points: canonicalising the JSON of a valid result gives the
  same rows and the same validation.
\<close>

theorem stored_allocations_roundtrip:
  assumes "canonicalize_allocations raws cap = Inr (rows, v)" and "av_valid v" and "\<forall>a\<in>set rows. unambiguous a"
  shows "canonicalize_allocations (map alloc_json rows) cap = Inr (rows, v)"
proof -
  obtain errors where rows: "canonicalize_rows cap 0 [] raws = Inr (rows, errors)" and v: "v = validation_of cap raws rows errors"
    using canonicalize_Inr [OF assms(1)] .
  have err: "errors = []" using assms(2) by (simp add: v validation_valid)
  note ids = canonicalize_rows_ids [OF rows] and ok = canonicalize_rows_valid [OF rows [unfolded err]]
  have "canonicalize_rows cap 0 [] (map alloc_json rows) = Inr (rows, [])"
    by (rule canonicalize_stored_rows) (use ids ok assms(3) in auto)
  moreover have "map alloc_json rows = [] \<longleftrightarrow> raws = []" using ok by auto
  ultimately show ?thesis
    by (simp add: canonicalize_allocations_def v err validation_of_def Let_def)
qed

text \<open>One half in a single strategy, given as a fraction, with a minimum of 2000 basis points.\<close>

definition demo_raw :: pyval where
  "demo_raw = PDict [(PStr ''deployment_id'', PInt 7), (PStr ''weight'', PFloat (Fin (1 / 2))),
     (PStr ''min_weight_bps'', PInt 2000)]"

definition demo_alloc :: allocation where
  "demo_alloc = \<lparr>al_deployment_id = 7, al_target_bps = 5000, al_min_bps = 2000, al_max_bps = 10000,
     al_locked = False, al_risk_budget_bps = None, al_capital = 50000\<rparr>"

lemma demo_rounding: "fl (625 / 8) = 625 / 8" "round_half_even (625 / 8) = 78"
  by code_simp+

lemmas demo_alloc_simps =
  canonicalize_allocations_def demo_raw_def demo_alloc_def read_deployment_id_def read_allocation_def to_bps_def dict_get_def
  py_float_bps row_errors_def share_of_def py_round_digits_def fmul_def fdiv_def float_of_int_def fl_numeral demo_rounding

lemma round_half_even_numeral [simp]: "round_half_even (numeral n) = numeral n"
  using round_half_even_of_int [of "numeral n"] by simp

lemma demo_canonicalize:
  "canonicalize_allocations [demo_raw] 100000 = Inr ([demo_alloc], validation_of 100000 [demo_raw] [demo_alloc] [])"
  by (simp add: demo_alloc_simps del: py_float.simps(2))

lemma demo_alloc_valid: "av_valid (validation_of 100000 [demo_raw] [demo_alloc] [])"
  by (simp add: validation_valid demo_alloc_def)

theorem valid_allocations_form_portfolio_witness:
  "length [demo_alloc] = length [demo_raw] \<and>
   sum_list (map al_target_bps [demo_alloc]) + av_cash_weight_bps (validation_of 100000 [demo_raw] [demo_alloc] []) = 10000"
  using valid_allocations_form_portfolio [OF demo_canonicalize demo_alloc_valid] by blast

theorem stored_allocations_roundtrip_witness:
  "canonicalize_allocations [alloc_json demo_alloc] 100000 =
     Inr ([demo_alloc], validation_of 100000 [demo_raw] [demo_alloc] [])"
  using stored_allocations_roundtrip [OF demo_canonicalize demo_alloc_valid]
  by (simp add: demo_alloc_def unambiguous_def unambiguous_bps_def)

text \<open>
  A small stored limit is not read back. A client gives a minimum of one part in 128, accepted and
  stored as 78 basis points; when the stored row is validated again, 78 counts as 78 percent and the
  same portfolio is rejected.
\<close>

definition demo_small :: pyval where
  "demo_small = PDict [(PStr ''deployment_id'', PInt 7), (PStr ''weight'', PFloat (Fin (1 / 2))),
     (PStr ''min_weight'', PFloat (Fin (1 / 128)))]"

definition demo_small_alloc :: allocation where
  "demo_small_alloc = demo_alloc\<lparr>al_min_bps := 78\<rparr>"

theorem stored_minimum_is_reinterpreted:
  "canonicalize_allocations [demo_small] 100000 =
     Inr ([demo_small_alloc], validation_of 100000 [demo_small] [demo_small_alloc] []) \<and>
   av_valid (validation_of 100000 [demo_small] [demo_small_alloc] []) \<and>
   canonicalize_allocations [alloc_json demo_small_alloc] 100000 =
     Inr ([demo_small_alloc\<lparr>al_min_bps := 7800\<rparr>],
       validation_of 100000 [alloc_json demo_small_alloc] [demo_small_alloc\<lparr>al_min_bps := 7800\<rparr>]
         [Target_out_of_range 7 5000 7800 10000]) \<and>
   \<not> av_valid (validation_of 100000 [alloc_json demo_small_alloc] [demo_small_alloc\<lparr>al_min_bps := 7800\<rparr>]
         [Target_out_of_range 7 5000 7800 10000])"
proof (intro conjI)
  show "canonicalize_allocations [demo_small] 100000 =
     Inr ([demo_small_alloc], validation_of 100000 [demo_small] [demo_small_alloc] [])"
    by (simp add: demo_alloc_simps demo_small_def demo_small_alloc_def del: py_float.simps(2))
  show "canonicalize_allocations [alloc_json demo_small_alloc] 100000 =
     Inr ([demo_small_alloc\<lparr>al_min_bps := 7800\<rparr>],
       validation_of 100000 [alloc_json demo_small_alloc] [demo_small_alloc\<lparr>al_min_bps := 7800\<rparr>]
         [Target_out_of_range 7 5000 7800 10000])"
    by (simp add: demo_alloc_simps alloc_json_def demo_small_alloc_def del: py_float.simps(2))
qed (simp_all add: validation_valid demo_small_alloc_def demo_alloc_def)

end
