(* ===== verification/Simulation.thy ===== *)
theory Simulation
  imports Allocations Engine
begin

text \<open>
  Paper trading (\<open>backend/services/simulation.py\<close>): the tables of the trading database, the claim of
  a daily run, the trades of one portfolio on one day, and what a run writes.

  Dates are ISO texts, compared as such; clock readings are arguments in microseconds. The market
  tape of a deployment (universe, price cache, masks and filters), the signals of its strategy on a
  tape, the promotion check and the readiness check are other parts of the program: they are fields
  of \<open>sim_env\<close>. So is the order in which Python iterates a set of codes, of which nothing is known
  but that it lists the set. Tape values are finite or missing. Columns that every row of a run fills
  with the same constant (the order type, the signal score of an order, the confidence of a signal)
  or with a copy of another column (\<open>contribution_pnl\<close>, \<open>total_equity\<close> of \<open>nav_history\<close>) are left out,
  as are the research warnings of a summary.
\<close>

subsection \<open>Tables\<close>

record portfolio =
  pf_id :: int
  pf_user_id :: int
  pf_total_capital :: rat
  pf_allocations :: "string option"
  pf_status :: string
  pf_cash_balance :: "rat option"

record deployment =
  dp_id :: int
  dp_user_id :: int
  dp_strategy_id :: string
  dp_params :: string
  dp_pool_preset :: "string option"
  dp_promotion_binding_hash :: "string option"
  dp_research_generation_id :: "string option"
  dp_status :: string

record portfolio_allocation =
  pa_portfolio_id :: int
  pa_deployment_id :: int
  pa_target_weight_bps :: int

datatype run_status = Run_running | Run_completed | Run_failed

record portfolio_summary =
  su_trade_date :: string
  su_total_equity :: rat
  su_cash_balance :: rat
  su_positions :: nat
  su_orders :: nat
  su_attribution_pnl :: rat
  su_daily_pnl :: rat

datatype portfolio_report = No_active_deployments int | Traded int portfolio_summary

record run_summary =
  rs_run_id :: string
  rs_requested_date :: string
  rs_portfolios :: "portfolio_report list"
  rs_signals :: nat
  rs_orders :: nat

record sim_run =
  sr_id :: string
  sr_user_id :: int
  sr_portfolio_id :: "int option"
  sr_trade_date :: string
  sr_key :: string
  sr_status :: run_status
  sr_summary :: "run_summary option"
  sr_error :: "py_error option"
  sr_created_at :: int
  sr_completed_at :: "int option"
  sr_claim_token :: "string option"
  sr_claim_expires_at :: "int option"
  sr_heartbeat_at :: "int option"

record signal_row =
  ds_deployment_id :: int
  ds_date :: string
  ds_code :: string
  ds_action :: string
  ds_score :: rat
  ds_weight :: rat
  ds_run_id :: "string option"
  ds_target_bps :: int

datatype order_status = Filled | Rejected_no_open

record order_row =
  so_deployment_id :: int
  so_portfolio_id :: int
  so_date :: string
  so_code :: string
  so_action :: string
  so_price :: rat
  so_shares :: int
  so_amount :: rat
  so_cost :: rat
  so_strategy :: string
  so_status :: order_status
  so_run_id :: "string option"
  so_intent_id :: "string option"

record snapshot_row =
  ps_portfolio_id :: int
  ps_deployment_id :: "int option"
  ps_date :: string
  ps_code :: string
  ps_shares :: int
  ps_avg_cost :: rat
  ps_close_price :: rat
  ps_market_value :: rat
  ps_unrealized :: rat
  ps_run_id :: "string option"
  ps_weight :: rat

record nav_row =
  nh_portfolio_id :: int
  nh_date :: string
  nh_nav :: rat
  nh_daily_return :: rat
  nh_cumulative_return :: rat
  nh_run_id :: "string option"
  nh_cash_balance :: rat

record strategy_nav_row =
  sn_portfolio_id :: int
  sn_deployment_id :: int
  sn_date :: string
  sn_opening_equity :: rat
  sn_net_flow :: rat
  sn_cash_balance :: rat
  sn_market_value :: rat
  sn_total_equity :: rat
  sn_daily_pnl :: rat
  sn_daily_return :: rat
  sn_cumulative_return :: rat
  sn_realized_pnl :: rat
  sn_unrealized_pnl :: rat
  sn_transaction_cost :: rat
  sn_turnover :: rat
  sn_turnover_rate :: rat
  sn_contribution_return :: rat
  sn_run_id :: "string option"

record sim_db =
  portfolios :: "portfolio list"
  deployments :: "deployment list"
  portfolio_allocations :: "portfolio_allocation list"
  simulation_runs :: "sim_run list"
  daily_signals :: "signal_row list"
  sim_orders :: "order_row list"
  snapshots :: "snapshot_row list"
  nav_history :: "nav_row list"
  strategy_nav_history :: "strategy_nav_row list"

type_synonym tape = "(string, pivot_row) dict"

record sim_env =
  sim_json :: "string \<Rightarrow> pyval option"
  sim_tape :: "deployment \<Rightarrow> string \<Rightarrow> tape result"
  sim_signals :: "deployment \<Rightarrow> tape \<Rightarrow> string \<Rightarrow> (string, signal_item list) dict result"
  sim_promotion :: "bool \<Rightarrow> deployment \<Rightarrow> unit result"
  sim_ready :: "deployment list \<Rightarrow> string \<Rightarrow> unit result"
  sim_order :: "int \<Rightarrow> nat \<Rightarrow> string set \<Rightarrow> string list"
  sim_sha256 :: "string \<Rightarrow> string"
  sim_pool_alias :: "string \<Rightarrow> string option"
  sim_dates :: "string \<Rightarrow> string option \<Rightarrow> string list"
  SIMULATION_RUN_LEASE_SECONDS :: int

subsection \<open>Claims on a run\<close>

definition lease_micros :: "('a sim_env_scheme) \<Rightarrow> int" where
  "lease_micros E = max (SIMULATION_RUN_LEASE_SECONDS E) 60 * 1000000"

definition claim_expiry :: "('a sim_env_scheme) \<Rightarrow> int \<Rightarrow> int" where
  "claim_expiry E now = now + lease_micros E"

definition claim_is_expired :: "('a sim_env_scheme) \<Rightarrow> int \<Rightarrow> sim_run \<Rightarrow> bool" where
  "claim_is_expired E now r =
     (case sr_claim_expires_at r of
        None \<Rightarrow> sr_created_at r + lease_micros E \<le> now
      | Some expires \<Rightarrow> expires \<le> now)"

definition simulation_side_effect_count :: "string \<Rightarrow> ('a sim_db_scheme) \<Rightarrow> nat" where
  "simulation_side_effect_count run_id db =
     sql_count (\<lambda>r. ds_run_id r = Some run_id) (daily_signals db) +
     sql_count (\<lambda>r. so_run_id r = Some run_id) (sim_orders db) +
     sql_count (\<lambda>r. ps_run_id r = Some run_id) (snapshots db) +
     sql_count (\<lambda>r. nh_run_id r = Some run_id) (nav_history db) +
     sql_count (\<lambda>r. sn_run_id r = Some run_id) (strategy_nav_history db)"

subsection \<open>How much history a strategy needs\<close>

definition LOOKBACK_MARKERS :: "string list" where
  "LOOKBACK_MARKERS = [''lookback'', ''period'', ''window'', ''seq_len'']"

definition NON_SIGNAL_WINDOWS :: "string list" where
  "NON_SIGNAL_WINDOWS = [''train_months'', ''validation_months'', ''retrain_months'', ''embargo_days'']"

datatype lookback_warning = Params_unreadable | Metadata_unavailable | Lookback_not_declared

definition lookback_value :: "('a outside_scheme) \<Rightarrow> pyval \<times> pyval \<Rightarrow> int option" where
  "lookback_value X kv =
     (let name = str_lower (py_str X (fst kv)) in
      case snd kv of
        PInt v \<Rightarrow>
          if list_ex (str_contains name) LOOKBACK_MARKERS \<and> \<not> list_ex (str_contains name) NON_SIGNAL_WINDOWS \<and> v > 0
          then Some v else None
      | _ \<Rightarrow> None)"

text \<open>
  \<open>params\<close>: the deployment's parameters, \<open>None\<close> when they cannot be read; \<open>defaults\<close>: the declared
  defaults of the strategy, \<open>None\<close> when it is not registered.
\<close>

definition derive_simulation_lookback ::
  "('a outside_scheme) \<Rightarrow> (pyval \<times> pyval) list option \<Rightarrow> (pyval \<times> pyval) list option \<Rightarrow> int \<times> lookback_warning set" where
  "derive_simulation_lookback X params defaults =
     (let given = (case params of None \<Rightarrow> [] | Some p \<Rightarrow> p);
          merged = (case defaults of
                      None \<Rightarrow> given
                    | Some d \<Rightarrow> fold (\<lambda>(k, v). AList.update k v) given d);
          warnings = (if params = None then {Params_unreadable} else {}) \<union>
                     (if defaults = None then {Metadata_unavailable} else {});
          candidates = List.map_filter (lookback_value X) merged
      in if candidates \<noteq> [] then (min (Max (set candidates) + 5) 2520, warnings)
         else (252, insert Lookback_not_declared warnings))"

definition lookback_calendar_days :: "int \<Rightarrow> int" where
  "lookback_calendar_days sessions = (sessions * 7 + 4) div 5 + 14"

subsection \<open>Prices and target weights\<close>

definition sim_valid_price :: "pyfloat \<Rightarrow> rat option" where
  "sim_valid_price v = (case v of Fin x \<Rightarrow> if x \<le> 0 then None else Some x | _ \<Rightarrow> None)"

definition valid_prices :: "(string \<times> pyfloat) list \<Rightarrow> (string, rat) dict" where
  "valid_prices values =
     List.map_filter (\<lambda>(code, v). map_option (Pair code) (sim_valid_price v)) (dict_of values)"

definition field_prices :: "pivot_row \<Rightarrow> string \<Rightarrow> (string, rat) dict" where
  "field_prices row field_name =
     (case row of
        FrameRow columns \<Rightarrow> (case map_of columns field_name of None \<Rightarrow> [] | Some series \<Rightarrow> valid_prices series)
      | MultiRow entries \<Rightarrow>
          valid_prices (map (\<lambda>((code, field), v). (code, v))
            (filter (\<lambda>((code, field), v). str_lower field = field_name) entries))
      | FlatRow series \<Rightarrow> if field_name = ''close'' then valid_prices series else [])"

text \<open>The loop over the signals: the target codes and the positive hints.\<close>

definition signal_targets :: "string set \<Rightarrow> signal_item list \<Rightarrow> string set \<times> (string, rat) dict" where
  "signal_targets current_codes signals =
     fold (\<lambda>s (codes, hints).
       if str_upper (sig_action s) = ''SELL'' then (codes - {sig_code s}, hints)
       else if str_upper (sig_action s) = ''BUY''
       then (insert (sig_code s) codes, AList.update (sig_code s) (max (sig_weight s) 0) hints)
       else (codes, hints)) signals (current_codes, [])"

definition fsum :: "rat list \<Rightarrow> rat" where
  "fsum xs = foldl fadd 0 xs"

text \<open>\<open>order\<close> lists the set of target codes; \<open>None\<close> means no event: hold.\<close>

definition target_stock_weights ::
  "(string set \<Rightarrow> string list) \<Rightarrow> string set \<Rightarrow> signal_item list \<Rightarrow> (string, rat) dict option" where
  "target_stock_weights order current_codes signals =
     (if signals = [] then None
      else case signal_targets current_codes signals of
        (codes, hints) \<Rightarrow>
          if codes = {} then Some []
          else
            let raw = map (\<lambda>code. (code, dict_get hints code 0)) (order codes) in
            if fsum (map snd raw) \<le> 0
            then Some (map (\<lambda>code. (code, fdiv 1 (float_of_int (int (card codes))))) (sort (order codes)))
            else
              let hinted = filter (\<lambda>v. v > 0) (map snd raw);
                  fallback = fdiv (fsum hinted) (float_of_int (int (length hinted)));
                  raw = map (\<lambda>(code, v). (code, if v > 0 then v else fallback)) raw;
                  total = fsum (map snd raw)
              in Some (map (\<lambda>(code, v). (code, fdiv v total)) raw))"

subsection \<open>Trades of one deployment\<close>

record sim_position =
  sp_shares :: int
  sp_avg_cost :: rat
  sp_close_price :: rat

type_synonym positions = "(int \<times> string, sim_position) dict"

record strategy_state =
  ss_opening_equity :: rat
  ss_net_flow :: rat
  ss_cash :: rat
  ss_realized_pnl :: rat
  ss_transaction_cost :: rat
  ss_turnover :: rat
  ss_prior_cumulative_return :: rat

record book =
  bk_cash :: rat
  bk_positions :: positions
  bk_orders :: "order_row list"
  bk_strategy :: strategy_state

record trade_context =
  cx_deployment_id :: int
  cx_strategy_id :: string
  cx_portfolio_id :: int
  cx_trade_date :: string
  cx_run_id :: string
  cx_prices :: "(string, rat) dict"

definition new_order :: "trade_context \<Rightarrow> string \<Rightarrow> string \<Rightarrow> rat \<Rightarrow> int \<Rightarrow> rat \<Rightarrow> rat \<Rightarrow> order_status \<Rightarrow> order_row" where
  "new_order cx code action price shares amount cost status =
     \<lparr>so_deployment_id = cx_deployment_id cx, so_portfolio_id = cx_portfolio_id cx, so_date = cx_trade_date cx,
      so_code = code, so_action = action, so_price = price, so_shares = shares, so_amount = amount, so_cost = cost,
      so_strategy = cx_strategy_id cx, so_status = status, so_run_id = Some (cx_run_id cx), so_intent_id = None\<rparr>"

definition held_shares :: "positions \<Rightarrow> int \<times> string \<Rightarrow> int" where
  "held_shares ps key = (case map_of ps key of None \<Rightarrow> 0 | Some p \<Rightarrow> sp_shares p)"

definition current_codes :: "int \<Rightarrow> positions \<Rightarrow> string set" where
  "current_codes deployment_id ps = {code. (deployment_id, code) \<in> fst ` set ps}"

lemma current_codes_code [code]:
  "current_codes deployment_id ps = set (map snd (filter (\<lambda>k. fst k = deployment_id) (map fst ps)))"
  by (force simp: current_codes_def)

text \<open>A delta is negative only for a held code.\<close>

definition paper_sell :: "trade_context \<Rightarrow> string \<times> int \<Rightarrow> book \<Rightarrow> book" where
  "paper_sell cx cd b =
     (case cd of (code, delta) \<Rightarrow>
        let key = (cx_deployment_id cx, code) in
        if delta \<ge> 0 then b
        else case map_of (bk_positions b) key of
          None \<Rightarrow> b
        | Some current \<Rightarrow>
            let shares = min (- delta) (sp_shares current) in
            case map_of (cx_prices cx) code of
              None \<Rightarrow> b\<lparr>bk_orders := bk_orders b @ [new_order cx code ''SELL'' 0 shares 0 0 Rejected_no_open]\<rparr>
            | Some price \<Rightarrow>
                if shares \<le> 0 then b
                else
                  let proceeds = calc_sell_cost CostModel price shares;
                      amount = fmul price (float_of_int shares);
                      cost = fsub amount proceeds;
                      st = bk_strategy b;
                      remaining = sp_shares current - shares
                  in \<lparr>bk_cash = fadd (bk_cash b) proceeds,
                      bk_positions =
                        (if remaining \<noteq> 0
                         then AList.update key (current\<lparr>sp_shares := remaining\<rparr>) (bk_positions b)
                         else AList.delete key (bk_positions b)),
                      bk_orders = bk_orders b @ [new_order cx code ''SELL'' price shares amount cost Filled],
                      bk_strategy = st\<lparr>ss_cash := fadd (ss_cash st) proceeds,
                        ss_realized_pnl := fadd (ss_realized_pnl st)
                          (fsub proceeds (fmul (sp_avg_cost current) (float_of_int shares))),
                        ss_transaction_cost := fadd (ss_transaction_cost st) cost,
                        ss_turnover := fadd (ss_turnover st) amount\<rparr>\<rparr>)"

definition paper_buy :: "trade_context \<Rightarrow> string \<times> int \<Rightarrow> book \<Rightarrow> book" where
  "paper_buy cx cd b =
     (case cd of (code, delta) \<Rightarrow>
        let key = (cx_deployment_id cx, code) in
        if delta \<le> 0 then b
        else case map_of (cx_prices cx) code of
          None \<Rightarrow> b
        | Some price \<Rightarrow>
            let shares = min delta (calc_shares CostModel (bk_cash b) price) in
            if shares < 100 then b
            else
              let total_cost = calc_buy_cost CostModel price shares;
                  amount = fmul price (float_of_int shares);
                  st = bk_strategy b;
                  old_shares = held_shares (bk_positions b) key;
                  old_cost = (case map_of (bk_positions b) key of None \<Rightarrow> 0 | Some p \<Rightarrow> sp_avg_cost p);
                  new_shares = old_shares + shares
              in \<lparr>bk_cash = fsub (bk_cash b) total_cost,
                  bk_positions = AList.update key
                    \<lparr>sp_shares = new_shares,
                     sp_avg_cost = fdiv (fadd (fmul old_cost (float_of_int old_shares)) total_cost) (float_of_int new_shares),
                     sp_close_price = price\<rparr> (bk_positions b),
                  bk_orders = bk_orders b @ [new_order cx code ''BUY'' price shares amount (fsub total_cost amount) Filled],
                  bk_strategy = st\<lparr>ss_cash := fsub (ss_cash st) total_cost,
                    ss_transaction_cost := fadd (ss_transaction_cost st) (fsub total_cost amount),
                    ss_turnover := fadd (ss_turnover st) amount\<rparr>\<rparr>)"

definition target_shares :: "trade_context \<Rightarrow> rat \<Rightarrow> (string, rat) dict \<Rightarrow> (string, int) dict" where
  "target_shares cx strategy_capital weights =
     List.map_filter (\<lambda>(code, weight).
       map_option (\<lambda>price. (code, calc_shares CostModel (fmul strategy_capital weight) price)) (map_of (cx_prices cx) code))
       weights"

definition unpriced_orders :: "trade_context \<Rightarrow> string set \<Rightarrow> (string, rat) dict \<Rightarrow> order_row list" where
  "unpriced_orders cx codes weights =
     map (\<lambda>(code, weight). new_order cx code ''BUY'' 0 0 0 0 Rejected_no_open)
       (filter (\<lambda>(code, weight). map_of (cx_prices cx) code = None \<and> code \<notin> codes) weights)"

text \<open>Sells settle first so their proceeds can finance buys.\<close>

definition rebalance_deployment ::
  "(string set \<Rightarrow> string list) \<Rightarrow> trade_context \<Rightarrow> rat \<Rightarrow> (string, rat) dict \<Rightarrow> book \<Rightarrow> book" where
  "rebalance_deployment order cx strategy_capital weights b =
     (let codes = current_codes (cx_deployment_id cx) (bk_positions b);
          targets = target_shares cx strategy_capital weights;
          b1 = b\<lparr>bk_orders := bk_orders b @ unpriced_orders cx codes weights\<rparr>;
          deltas = map (\<lambda>code. (code, dict_get targets code 0 - held_shares (bk_positions b) (cx_deployment_id cx, code)))
                     (order (codes \<union> fst ` set targets));
          b2 = fold (paper_sell cx) (sort_key snd deltas) b1
      in fold (paper_buy cx) (sort_key (\<lambda>cd. - snd cd) deltas) b2)"

subsection \<open>Which deployments trade\<close>

definition json_list :: "('a sim_env_scheme) \<Rightarrow> string option \<Rightarrow> pyval result" where
  "json_list E text =
     (case sim_json E (case text of None \<Rightarrow> ''[]'' | Some t \<Rightarrow> if t = [] then ''[]'' else t) of
        None \<Rightarrow> Inl (ValueError ''JSONDecodeError'')
      | Some v \<Rightarrow> Inr v)"

text \<open>What a \<open>for\<close> loop sees of a JSON value.\<close>

fun iter_json :: "pyval \<Rightarrow> pyval list result" where
  "iter_json (PSeq vs) = Inr vs"
| "iter_json (PDict kvs) = Inr (map fst kvs)"
| "iter_json (PStr s) = Inr (map (\<lambda>c. PStr [c]) s)"
| "iter_json v = Inl TypeError"

definition active_deployment :: "int \<Rightarrow> int \<Rightarrow> ('a sim_db_scheme) \<Rightarrow> deployment option" where
  "active_deployment user_id deployment_id db =
     find (\<lambda>d. dp_id d = deployment_id \<and> dp_user_id d = user_id \<and> dp_status d = ''active'') (deployments db)"

definition legacy_binding :: "('a sim_env_scheme) \<Rightarrow> ('b sim_db_scheme) \<Rightarrow> int \<Rightarrow> portfolio \<Rightarrow> deployment list result" where
  "legacy_binding E db user_id pf =
     (case json_list E (pf_allocations pf) of
        Inr (PSeq legacy) \<Rightarrow>
          rbind (canonicalize_allocations legacy (pf_total_capital pf)) (\<lambda>(rows, v).
            if \<not> av_valid v then Inl (ValueError ''legacy_portfolio_allocations_invalid'')
            else rmap (\<lambda>a. case active_deployment user_id (al_deployment_id a) db of
                         None \<Rightarrow> Inl (ValueError ''legacy_portfolio_deployment_unavailable'')
                       | Some d \<Rightarrow> Inr d) rows)
      | _ \<Rightarrow> Inl (ValueError ''legacy_portfolio_allocations_invalid''))"

definition bound_deployments :: "('a sim_db_scheme) \<Rightarrow> int \<Rightarrow> (int \<times> deployment) list" where
  "bound_deployments db pid =
     sort_key (\<lambda>(p, d). dp_id d)
       [(pid, d). a \<leftarrow> portfolio_allocations db, pa_portfolio_id a = pid,
                    d \<leftarrow> deployments db, dp_id d = pa_deployment_id a \<and> dp_status d = ''active'']"

definition active_portfolio_deployments ::
  "('a sim_env_scheme) \<Rightarrow> int \<Rightarrow> int option \<Rightarrow> ('b sim_db_scheme) \<Rightarrow> deployment list result" where
  "active_portfolio_deployments E user_id portfolio_id db =
     (let pfs = sort_key pf_id (filter (\<lambda>p. pf_user_id p = user_id \<and> pf_status p = ''active'' \<and>
                  (portfolio_id = None \<or> portfolio_id = Some (pf_id p))) (portfolios db));
          bound = concat (map (\<lambda>p. bound_deployments db (pf_id p)) pfs)
      in if portfolio_id \<noteq> None \<and> pfs = [] then Inl (ValueError ''portfolio_not_found_or_not_owned'')
         else
           rbind (rmap (\<lambda>p. if pf_id p \<in> fst ` set bound then Inr [] else legacy_binding E db user_id p) pfs) (\<lambda>legacy.
             if map snd bound @ concat legacy = [] then Inl (ValueError ''portfolio_has_no_active_deployments'')
             else Inr (map snd bound @ concat legacy)))"

definition pool_of :: "('a sim_env_scheme) \<Rightarrow> deployment \<Rightarrow> string" where
  "pool_of E d =
     (let raw_pool = (case dp_pool_preset d of None \<Rightarrow> ''csi300'' | Some p \<Rightarrow> if p = [] then ''csi300'' else p);
          pool_id = (case sim_pool_alias E raw_pool of None \<Rightarrow> raw_pool | Some a \<Rightarrow> a)
      in if pool_id = ''custom'' then ''all_a'' else pool_id)"

definition simulation_pool_bindings ::
  "('a sim_env_scheme) \<Rightarrow> int \<Rightarrow> int option \<Rightarrow> ('b sim_db_scheme) \<Rightarrow> (string \<times> string option) list result" where
  "simulation_pool_bindings E user_id portfolio_id db =
     rbind (active_portfolio_deployments E user_id portfolio_id db) (\<lambda>rows.
       Inr (map fst (dict_of (map (\<lambda>d. ((pool_of E d,
              case dp_research_generation_id d of None \<Rightarrow> None | Some g \<Rightarrow> if g = [] then None else Some g), ())) rows))))"

text \<open>The allocation rows of a run, with the target weight of each deployment.\<close>

definition allocation_rows ::
  "('a sim_env_scheme) \<Rightarrow> ('b sim_db_scheme) \<Rightarrow> int \<Rightarrow> portfolio \<Rightarrow> (deployment \<times> int) list result" where
  "allocation_rows E db user_id pf =
     (let bound = sort_key (\<lambda>(d, bps). dp_id d)
            [(d, pa_target_weight_bps a). a \<leftarrow> portfolio_allocations db, pa_portfolio_id a = pf_id pf,
               d \<leftarrow> deployments db, dp_id d = pa_deployment_id a \<and> dp_user_id d = user_id \<and> dp_status d = ''active'']
      in if bound \<noteq> [] then Inr bound
         else
           rbind (json_list E (pf_allocations pf)) (\<lambda>v.
           rbind (iter_json v) (\<lambda>legacy.
           rbind (canonicalize_allocations legacy (pf_total_capital pf)) (\<lambda>(rows, validation).
             if \<not> av_valid validation then Inl (ValueError ''invalid allocations'')
             else Inr (List.map_filter (\<lambda>a. map_option (\<lambda>d. (d, al_target_bps a))
                         (active_deployment user_id (al_deployment_id a) db)) rows)))))"

definition check_promotion :: "('a sim_env_scheme) \<Rightarrow> bool \<Rightarrow> deployment \<times> int \<Rightarrow> unit result" where
  "check_promotion E again row =
     (case dp_promotion_binding_hash (fst row) of
        None \<Rightarrow> Inr ()
      | Some h \<Rightarrow> if h = [] then Inr () else sim_promotion E again (fst row))"

subsection \<open>The trades of a run\<close>

record plan =
  pl_cash :: rat
  pl_positions :: positions
  pl_orders :: "order_row list"
  pl_signals :: "signal_row list"
  pl_latest_prices :: "(int \<times> string, rat) dict"
  pl_states :: "(int, strategy_state) dict"

definition latest_by :: "('r \<Rightarrow> string) \<Rightarrow> 'r list \<Rightarrow> 'r list" where
  "latest_by date rows = filter (\<lambda>r. \<forall>q\<in>set rows. date q \<le> date r) rows"

definition opening_snapshot :: "int \<Rightarrow> string \<Rightarrow> ('a sim_db_scheme) \<Rightarrow> snapshot_row list" where
  "opening_snapshot portfolio_id requested_date db =
     latest_by ps_date (filter (\<lambda>r. ps_portfolio_id r = portfolio_id \<and> ps_date r < requested_date) (snapshots db))"

definition opening_positions :: "snapshot_row list \<Rightarrow> positions" where
  "opening_positions rows =
     dict_of (List.map_filter (\<lambda>r. case ps_deployment_id r of
         None \<Rightarrow> None
       | Some d \<Rightarrow> if ps_shares r > 0
                   then Some ((d, ps_code r), \<lparr>sp_shares = ps_shares r, sp_avg_cost = ps_avg_cost r,
                                               sp_close_price = ps_close_price r\<rparr>)
                   else None) rows)"

definition opening_cash :: "portfolio \<Rightarrow> snapshot_row list \<Rightarrow> rat" where
  "opening_cash pf rows =
     (case pf_cash_balance pf of
        Some c \<Rightarrow> c
      | None \<Rightarrow> fsub (pf_total_capital pf) (fsum (map ps_market_value rows)))"

definition prior_strategy_nav :: "int \<Rightarrow> string \<Rightarrow> int \<Rightarrow> ('a sim_db_scheme) \<Rightarrow> strategy_nav_row option" where
  "prior_strategy_nav portfolio_id requested_date deployment_id db =
     find (\<lambda>r. True) (latest_by sn_date (filter (\<lambda>r. sn_portfolio_id r = portfolio_id \<and>
       sn_deployment_id r = deployment_id \<and> sn_date r < requested_date) (strategy_nav_history db)))"

definition opening_state :: "strategy_nav_row option \<Rightarrow> rat \<Rightarrow> strategy_state" where
  "opening_state prior strategy_capital =
     (let opening = (case prior of None \<Rightarrow> 0 | Some r \<Rightarrow> sn_total_equity r);
          net_flow = fsub strategy_capital opening
      in \<lparr>ss_opening_equity = opening, ss_net_flow = net_flow,
          ss_cash = fadd (case prior of None \<Rightarrow> 0 | Some r \<Rightarrow> sn_cash_balance r) net_flow,
          ss_realized_pnl = 0, ss_transaction_cost = 0, ss_turnover = 0,
          ss_prior_cumulative_return = (case prior of None \<Rightarrow> 0 | Some r \<Rightarrow> sn_cumulative_return r)\<rparr>)"

definition signal_row_of :: "int \<Rightarrow> string \<Rightarrow> string \<Rightarrow> signal_item \<Rightarrow> signal_row" where
  "signal_row_of deployment_id signal_date run_id s =
     \<lparr>ds_deployment_id = deployment_id, ds_date = signal_date, ds_code = sig_code s,
      ds_action = str_upper (sig_action s), ds_score = sig_score s, ds_weight = sig_weight s,
      ds_run_id = Some run_id,
      ds_target_bps = (if sig_weight s \<le> 1 then round_half_even (fmul (max (sig_weight s) 0) 10000) else 0)\<rparr>"

text \<open>The two sessions of a run: the day before the requested one, and the requested one.\<close>

definition run_sessions :: "tape \<Rightarrow> string \<Rightarrow> (string \<times> pivot_row) result" where
  "run_sessions tp requested_date =
     (let available = filter (\<lambda>d. d \<le> requested_date) (map fst tp) in
      if tp = [] then Inl (ValueError ''empty universe'')
      else case map_of tp requested_date of
        None \<Rightarrow> Inl (ValueError ''not an executable trading day'')
      | Some row \<Rightarrow>
          if length available < 2 then Inl (ValueError ''not enough market data for T+1'')
          else Inr (available ! (length available - 2), row))"

definition trade_deployment ::
  "('a sim_env_scheme) \<Rightarrow> ('b sim_db_scheme) \<Rightarrow> string \<Rightarrow> string \<Rightarrow> portfolio \<Rightarrow> rat \<Rightarrow> deployment \<times> int \<Rightarrow> plan \<Rightarrow> plan result" where
  "trade_deployment E db run_id requested_date pf equity_base row pl =
     (case row of (d, bps) \<Rightarrow>
      rbind (sim_tape E d requested_date) (\<lambda>tp.
      rbind (run_sessions tp requested_date) (\<lambda>(signal_date, today).
      rbind (sim_signals E d (filter (\<lambda>(day, r). day \<le> signal_date) tp) signal_date) (\<lambda>signals_by_date.
        let day_signals = dict_get signals_by_date signal_date [];
            weights = target_stock_weights (sim_order E (dp_id d) 0) (current_codes (dp_id d) (pl_positions pl)) day_signals;
            strategy_capital = share_of equity_base bps;
            state = opening_state (prior_strategy_nav (pf_id pf) requested_date (dp_id d) db) strategy_capital;
            pl1 = pl\<lparr>pl_latest_prices := fold (\<lambda>(code, price). AList.update (dp_id d, code) price)
                                          (field_prices today ''close'') (pl_latest_prices pl),
                     pl_signals := pl_signals pl @ map (signal_row_of (dp_id d) signal_date run_id) day_signals\<rparr>
        in case weights of
             None \<Rightarrow> Inr (pl1\<lparr>pl_states := AList.update (dp_id d) state (pl_states pl1)\<rparr>)
           | Some ws \<Rightarrow>
               let cx = \<lparr>cx_deployment_id = dp_id d, cx_strategy_id = dp_strategy_id d, cx_portfolio_id = pf_id pf,
                         cx_trade_date = requested_date, cx_run_id = run_id, cx_prices = field_prices today ''open''\<rparr>;
                   b = rebalance_deployment (sim_order E (dp_id d) 1) cx strategy_capital ws
                         \<lparr>bk_cash = pl_cash pl1, bk_positions = pl_positions pl1, bk_orders = pl_orders pl1, bk_strategy = state\<rparr>
               in Inr (pl1\<lparr>pl_cash := bk_cash b, pl_positions := bk_positions b, pl_orders := bk_orders b,
                           pl_states := AList.update (dp_id d) (bk_strategy b) (pl_states pl1)\<rparr>)))))"

definition plan_portfolio ::
  "('a sim_env_scheme) \<Rightarrow> ('b sim_db_scheme) \<Rightarrow> int \<Rightarrow> string \<Rightarrow> string \<Rightarrow> portfolio \<Rightarrow> ((deployment \<times> int) list \<times> plan) result" where
  "plan_portfolio E db user_id run_id requested_date pf =
     rbind (allocation_rows E db user_id pf) (\<lambda>rows.
     rbind (rmap (check_promotion E False) rows) (\<lambda>_.
       let opening = opening_snapshot (pf_id pf) requested_date db;
           cash = opening_cash pf opening;
           equity_base = fadd cash (fsum (map ps_market_value opening))
       in rbind (rfold (trade_deployment E db run_id requested_date pf equity_base) rows
                  \<lparr>pl_cash = cash, pl_positions = opening_positions opening, pl_orders = [], pl_signals = [],
                   pl_latest_prices = [], pl_states = []\<rparr>) (\<lambda>pl.
            Inr (rows, pl))))"

subsection \<open>What a run writes\<close>

text \<open>\<open>INSERT .. ON CONFLICT(key) DO UPDATE\<close>: all columns of the model are taken from the new row.\<close>

definition upsert :: "('r \<Rightarrow> 'k) \<Rightarrow> 'r \<Rightarrow> 'r list \<Rightarrow> 'r list" where
  "upsert key r t = (if list_ex (\<lambda>q. key q = key r) t then map (\<lambda>q. if key q = key r then r else q) t else t @ [r])"

definition signal_key :: "signal_row \<Rightarrow> int \<times> string \<times> string" where
  "signal_key r = (ds_deployment_id r, ds_date r, ds_code r)"

definition snapshot_key :: "snapshot_row \<Rightarrow> int \<times> int option \<times> string \<times> string" where
  "snapshot_key r = (ps_portfolio_id r, ps_deployment_id r, ps_date r, ps_code r)"

definition nav_key :: "nav_row \<Rightarrow> int \<times> string" where
  "nav_key r = (nh_portfolio_id r, nh_date r)"

definition strategy_nav_key :: "strategy_nav_row \<Rightarrow> int \<times> int \<times> string" where
  "strategy_nav_key r = (sn_portfolio_id r, sn_deployment_id r, sn_date r)"

definition order_intent_id :: "('a sim_env_scheme) \<Rightarrow> string \<Rightarrow> order_row \<Rightarrow> string" where
  "order_intent_id E run_id o_row =
     sim_sha256 E (run_id @ '':'' @ str_of_int (so_deployment_id o_row) @ '':'' @ str_of_int (so_portfolio_id o_row) @ '':'' @
       so_date o_row @ '':'' @ so_code o_row @ '':'' @ so_action o_row)"

text \<open>The inserts keep the unique index on the intents.\<close>

definition insert_order :: "order_row \<Rightarrow> order_row list \<Rightarrow> order_row list result" where
  "insert_order r t =
     (if so_intent_id r \<noteq> None \<and> list_ex (\<lambda>q. so_intent_id q = so_intent_id r) t then Inl IntegrityError
      else Inr (t @ [r]))"

definition snapshot_price :: "(int \<times> string, rat) dict \<Rightarrow> (int \<times> string) \<times> sim_position \<Rightarrow> rat option" where
  "snapshot_price latest kp =
     (case map_of latest (fst kp) of
        Some price \<Rightarrow> Some price
      | None \<Rightarrow> sim_valid_price (Fin (sp_close_price (snd kp))))"

definition snapshot_of ::
  "int \<Rightarrow> string \<Rightarrow> string \<Rightarrow> (int \<times> string, rat) dict \<Rightarrow> (int \<times> string) \<times> sim_position \<Rightarrow> snapshot_row option" where
  "snapshot_of portfolio_id date run_id latest kp =
     (case kp of ((d, code), p) \<Rightarrow>
        map_option (\<lambda>price.
          \<lparr>ps_portfolio_id = portfolio_id, ps_deployment_id = Some d, ps_date = date, ps_code = code,
           ps_shares = sp_shares p, ps_avg_cost = sp_avg_cost p, ps_close_price = price,
           ps_market_value = fmul price (float_of_int (sp_shares p)),
           ps_unrealized = fmul (fsub price (sp_avg_cost p)) (float_of_int (sp_shares p)),
           ps_run_id = Some run_id, ps_weight = 0\<rparr>) (snapshot_price latest kp))"

definition weigh :: "rat \<Rightarrow> snapshot_row \<Rightarrow> snapshot_row" where
  "weigh total_equity r =
     r\<lparr>ps_weight := (if total_equity > 0 then fmul (fdiv (ps_market_value r) total_equity) 100 else 0)\<rparr>"

definition sum_by :: "int \<Rightarrow> (snapshot_row \<Rightarrow> rat) \<Rightarrow> snapshot_row list \<Rightarrow> rat" where
  "sum_by deployment_id f rows = fsum (map f (filter (\<lambda>r. ps_deployment_id r = Some deployment_id) rows))"

definition ratio :: "rat \<Rightarrow> rat \<Rightarrow> rat" where
  "ratio x base = (if base \<noteq> 0 then fdiv x base else 0)"

definition strategy_nav_of ::
  "int \<Rightarrow> string \<Rightarrow> string \<Rightarrow> rat \<Rightarrow> snapshot_row list \<Rightarrow> int \<Rightarrow> strategy_state \<Rightarrow> strategy_nav_row" where
  "strategy_nav_of portfolio_id date run_id previous_nav rows d st =
     (let market_value = sum_by d ps_market_value rows;
          equity = fadd (ss_cash st) market_value;
          pnl = fsub (fsub equity (ss_opening_equity st)) (ss_net_flow st);
          base = fadd (ss_opening_equity st) (ss_net_flow st);
          daily = ratio pnl base
      in \<lparr>sn_portfolio_id = portfolio_id, sn_deployment_id = d, sn_date = date, sn_opening_equity = ss_opening_equity st,
          sn_net_flow = ss_net_flow st, sn_cash_balance = ss_cash st, sn_market_value = market_value,
          sn_total_equity = equity, sn_daily_pnl = pnl, sn_daily_return = daily,
          sn_cumulative_return = fsub (fmul (fadd 1 (ss_prior_cumulative_return st)) (fadd 1 daily)) 1,
          sn_realized_pnl = ss_realized_pnl st, sn_unrealized_pnl = sum_by d ps_unrealized rows,
          sn_transaction_cost = ss_transaction_cost st, sn_turnover = ss_turnover st,
          sn_turnover_rate = ratio (ss_turnover st) base, sn_contribution_return = ratio pnl previous_nav,
          sn_run_id = Some run_id\<rparr>)"

definition previous_nav :: "portfolio \<Rightarrow> string \<Rightarrow> ('a sim_db_scheme) \<Rightarrow> rat" where
  "previous_nav pf date db =
     (case find (\<lambda>r. True) (latest_by nh_date (filter (\<lambda>r. nh_portfolio_id r = pf_id pf \<and> nh_date r < date) (nav_history db))) of
        None \<Rightarrow> pf_total_capital pf
      | Some r \<Rightarrow> nh_nav r)"

text \<open>
  The writes of one portfolio, with its entry in the summary. A portfolio without deployments writes
  nothing.
\<close>

definition publish_plan ::
  "('a sim_env_scheme) \<Rightarrow> string \<Rightarrow> string \<Rightarrow> portfolio \<Rightarrow> (deployment \<times> int) list \<times> plan \<Rightarrow> sim_db \<Rightarrow>
   (sim_db \<times> portfolio_report) result" where
  "publish_plan E run_id date pf rp db =
     (case rp of (rows, pl) \<Rightarrow>
        if rows = [] then Inr (db, No_active_deployments (pf_id pf))
        else
          rbind (rfold insert_order (map (\<lambda>r. r\<lparr>so_intent_id := Some (order_intent_id E run_id r)\<rparr>) (pl_orders pl)) (sim_orders db)) (\<lambda>orders'.
            let snaps = List.map_filter (snapshot_of (pf_id pf) date run_id (pl_latest_prices pl)) (pl_positions pl);
                total_equity = fadd (pl_cash pl) (fsum (map ps_market_value snaps));
                snaps' = map (weigh total_equity) snaps;
                previous = previous_nav pf date db;
                navs = List.map_filter (\<lambda>(d, bps). map_option (strategy_nav_of (pf_id pf) date run_id previous snaps' (dp_id d))
                         (map_of (pl_states pl) (dp_id d))) rows
            in if pf_total_capital pf = 0 then Inl ZeroDivisionError
               else
                 Inr (db\<lparr>sim_orders := orders',
                         daily_signals := fold (upsert signal_key) (pl_signals pl) (daily_signals db),
                         snapshots := fold (upsert snapshot_key) snaps' (snapshots db),
                         strategy_nav_history := fold (upsert strategy_nav_key) navs (strategy_nav_history db),
                         nav_history := upsert nav_key
                           \<lparr>nh_portfolio_id = pf_id pf, nh_date = date, nh_nav = total_equity,
                            nh_daily_return = (if previous \<noteq> 0 then fsub (fdiv total_equity previous) 1 else 0),
                            nh_cumulative_return = fsub (fdiv total_equity (pf_total_capital pf)) 1,
                            nh_run_id = Some run_id, nh_cash_balance = pl_cash pl\<rparr> (nav_history db),
                         portfolios := sql_update (\<lambda>p. pf_id p = pf_id pf)
                           (\<lambda>p. p\<lparr>pf_cash_balance := Some (pl_cash pl)\<rparr>) (portfolios db)\<rparr>,
                      Traded (pf_id pf)
                        \<lparr>su_trade_date = date, su_total_equity = py_round_digits 2 total_equity,
                         su_cash_balance = py_round_digits 2 (pl_cash pl), su_positions = length snaps',
                         su_orders = length (pl_orders pl),
                         su_attribution_pnl = py_round_digits 2 (fsum (map sn_daily_pnl navs)),
                         su_daily_pnl = py_round_digits 2 (fsub total_equity previous)\<rparr>)))"

subsection \<open>Daily runs\<close>

datatype begun = Already "run_summary option" | Claimed string

definition run_key :: "int \<Rightarrow> int \<Rightarrow> string \<Rightarrow> string" where
  "run_key user_id portfolio_id requested_date =
     str_of_int user_id @ '':'' @ str_of_int portfolio_id @ '':'' @ requested_date"

definition latest_completed :: "int \<Rightarrow> int \<Rightarrow> ('a sim_db_scheme) \<Rightarrow> sim_run list" where
  "latest_completed user_id portfolio_id db =
     filter (\<lambda>r. sr_user_id r = user_id \<and> sr_portfolio_id r = Some portfolio_id \<and> sr_status r = Run_completed)
       (simulation_runs db)"

definition reclaim_row :: "('a sim_env_scheme) \<Rightarrow> int \<Rightarrow> string \<Rightarrow> sim_run \<Rightarrow> sim_run" where
  "reclaim_row E now token r =
     r\<lparr>sr_status := Run_running, sr_error := None, sr_completed_at := None, sr_claim_token := Some token,
       sr_claim_expires_at := Some (claim_expiry E now), sr_heartbeat_at := Some now\<rparr>"

text \<open>The first transaction of \<open>run_daily_simulation\<close>.\<close>

definition begin_run ::
  "('a sim_env_scheme) \<Rightarrow> int \<Rightarrow> string \<Rightarrow> string \<Rightarrow> int \<Rightarrow> int \<Rightarrow> string \<Rightarrow> sim_db \<Rightarrow> (sim_db \<times> begun) result" where
  "begin_run E now new_id token user_id portfolio_id requested_date db =
     (let key = run_key user_id portfolio_id requested_date in
      case find (\<lambda>r. sr_key r = key) (simulation_runs db) of
        None \<Rightarrow>
          if list_ex (\<lambda>r. requested_date < sr_trade_date r) (latest_completed user_id portfolio_id db)
          then Inl (ValueError ''cannot backfill before a completed trade date'')
          else if list_ex (\<lambda>r. sr_id r = new_id) (simulation_runs db) then Inl IntegrityError
          else Inr (db\<lparr>simulation_runs := simulation_runs db @
                 [\<lparr>sr_id = new_id, sr_user_id = user_id, sr_portfolio_id = Some portfolio_id,
                   sr_trade_date = requested_date, sr_key = key, sr_status = Run_running, sr_summary = None,
                   sr_error = None, sr_created_at = now, sr_completed_at = None, sr_claim_token = Some token,
                   sr_claim_expires_at = Some (claim_expiry E now), sr_heartbeat_at = Some now\<rparr>]\<rparr>, Claimed new_id)
      | Some existing \<Rightarrow>
          if sr_status existing = Run_completed then Inr (db, Already (sr_summary existing))
          else if sr_status existing = Run_running \<and> \<not> claim_is_expired E now existing
          then Inl (RuntimeError ''simulation run in progress'')
          else if simulation_side_effect_count (sr_id existing) db > 0
          then Inl (RuntimeError ''failed run has persisted side effects'')
          else Inr (db\<lparr>simulation_runs := sql_update (\<lambda>r. sr_id r = sr_id existing) (reclaim_row E now token) (simulation_runs db)\<rparr>,
                    Claimed (sr_id existing)))"

definition owns_run :: "string \<Rightarrow> string \<Rightarrow> sim_run \<Rightarrow> bool" where
  "owns_run run_id token r = (sr_id r = run_id \<and> sr_status r = Run_running \<and> sr_claim_token r = Some token)"

definition finish_row :: "int \<Rightarrow> run_summary \<Rightarrow> sim_run \<Rightarrow> sim_run" where
  "finish_row now su r =
     r\<lparr>sr_status := Run_completed, sr_summary := Some su, sr_completed_at := Some now,
       sr_claim_expires_at := None, sr_heartbeat_at := Some now\<rparr>"

definition fail_row :: "int \<Rightarrow> py_error \<Rightarrow> sim_run \<Rightarrow> sim_run" where
  "fail_row now e r =
     r\<lparr>sr_status := Run_failed, sr_error := Some e, sr_completed_at := Some now,
       sr_claim_expires_at := None, sr_heartbeat_at := Some now\<rparr>"

text \<open>
  The second transaction, on the trades planned from an earlier reading of the tables: everything it
  wrote is rolled back when the promotion was revoked meanwhile or the claim was lost.
\<close>

definition commit_run ::
  "('a sim_env_scheme) \<Rightarrow> int \<Rightarrow> string \<Rightarrow> string \<Rightarrow> string \<Rightarrow> portfolio \<Rightarrow> (deployment \<times> int) list \<times> plan \<Rightarrow> sim_db \<Rightarrow>
   (sim_db \<times> run_summary) result" where
  "commit_run E now run_id token date pf rp db =
     rbind (publish_plan E run_id date pf rp db) (\<lambda>(db1, report).
     rbind (rmap (check_promotion E True) (fst rp)) (\<lambda>_.
       let su = \<lparr>rs_run_id = run_id, rs_requested_date = date, rs_portfolios = [report],
                 rs_signals = (if fst rp = [] then 0 else length (pl_signals (snd rp))),
                 rs_orders = (if fst rp = [] then 0 else length (pl_orders (snd rp)))\<rparr>
       in if sql_count (owns_run run_id token) (simulation_runs db1) \<noteq> 1
          then Inl (RuntimeError ''simulation run ownership changed before commit'')
          else Inr (db1\<lparr>simulation_runs := sql_update (owns_run run_id token) (finish_row now su) (simulation_runs db1)\<rparr>, su)))"

definition fail_run :: "int \<Rightarrow> string \<Rightarrow> string \<Rightarrow> py_error \<Rightarrow> sim_db \<Rightarrow> sim_db" where
  "fail_run now run_id token e db =
     db\<lparr>simulation_runs := sql_update (owns_run run_id token) (fail_row now e) (simulation_runs db)\<rparr>"

definition plan_run ::
  "('a sim_env_scheme) \<Rightarrow> int \<Rightarrow> int \<Rightarrow> string \<Rightarrow> string \<Rightarrow> sim_db \<Rightarrow> (portfolio \<times> (deployment \<times> int) list \<times> plan) result" where
  "plan_run E user_id portfolio_id run_id requested_date db =
     (case find (\<lambda>p. pf_id p = portfolio_id \<and> pf_user_id p = user_id \<and> pf_status p = ''active'') (portfolios db) of
        None \<Rightarrow> Inl (ValueError ''portfolio is not active or does not belong to this user'')
      | Some pf \<Rightarrow> rbind (plan_portfolio E db user_id run_id requested_date pf) (\<lambda>rp. Inr (pf, rp)))"

text \<open>\<open>run_daily_simulation\<close> for one portfolio, with nothing in between; \<open>ts\<close> are its clock readings.\<close>

definition run_daily_simulation ::
  "('a sim_env_scheme) \<Rightarrow> (nat \<Rightarrow> int) \<Rightarrow> string \<Rightarrow> string \<Rightarrow> int \<Rightarrow> int \<Rightarrow> string \<Rightarrow> sim_db \<Rightarrow> sim_db \<times> run_summary option result" where
  "run_daily_simulation E ts new_id token user_id portfolio_id requested_date db =
     (case rbind (active_portfolio_deployments E user_id (Some portfolio_id) db) (\<lambda>ds. sim_ready E ds requested_date) of
        Inl e \<Rightarrow> (db, Inl e)
      | Inr _ \<Rightarrow>
          (case begin_run E (ts 0) new_id token user_id portfolio_id requested_date db of
             Inl e \<Rightarrow> (db, Inl e)
           | Inr (db1, Already su) \<Rightarrow> (db1, Inr su)
           | Inr (db1, Claimed run_id) \<Rightarrow>
               (case rbind (plan_run E user_id portfolio_id run_id requested_date db1) (\<lambda>(pf, rp).
                       commit_run E (ts 1) run_id token requested_date pf rp db1) of
                  Inl e \<Rightarrow> (fail_run (ts 2) run_id token e db1, Inl e)
                | Inr (db2, su) \<Rightarrow> (db2, Inr (Some su)))))"

subsection \<open>All portfolios, replays and resets\<close>

datatype all_result = Legacy_summary "run_summary option" | Portfolio_runs "run_summary option list"

definition legacy_key :: "int \<Rightarrow> string \<Rightarrow> string" where
  "legacy_key user_id requested_date = str_of_int user_id @ '':all:'' @ requested_date"

definition replace_legacy_run :: "('a sim_env_scheme) \<Rightarrow> int \<Rightarrow> int \<Rightarrow> string \<Rightarrow> sim_db \<Rightarrow> (sim_db \<times> all_result option) result" where
  "replace_legacy_run E now user_id requested_date db =
     (case find (\<lambda>r. sr_key r = legacy_key user_id requested_date) (simulation_runs db) of
        None \<Rightarrow> Inr (db, None)
      | Some legacy \<Rightarrow>
          if sr_status legacy = Run_completed then Inr (db, Some (Legacy_summary (sr_summary legacy)))
          else if simulation_side_effect_count (sr_id legacy) db > 0
          then Inl (RuntimeError ''legacy run has persisted side effects'')
          else if sr_status legacy = Run_running \<and> \<not> claim_is_expired E now legacy
          then Inl (RuntimeError ''simulation run in progress'')
          else Inr (db\<lparr>simulation_runs := sql_update (\<lambda>r. sr_id r = sr_id legacy)
                 (\<lambda>r. r\<lparr>sr_status := Run_failed, sr_error := Some (RuntimeError ''legacy_scope_replaced_after_expiry''),
                        sr_completed_at := Some now, sr_claim_expires_at := None\<rparr>) (simulation_runs db)\<rparr>, None))"

text \<open>Run \<open>i\<close> of a sequence reads the clocks \<open>ts i\<close> and uses the UUIDs \<open>ids i\<close>.\<close>

fun run_sequence ::
  "(nat \<Rightarrow> 'x \<Rightarrow> sim_db \<Rightarrow> sim_db \<times> 'r result) \<Rightarrow> nat \<Rightarrow> 'x list \<Rightarrow> sim_db \<Rightarrow> sim_db \<times> 'r list result" where
  "run_sequence f i [] db = (db, Inr [])"
| "run_sequence f i (x # xs) db =
     sbind (f i x db) (\<lambda>r db. sbind (run_sequence f (i + 1) xs db) (\<lambda>rs db. (db, Inr (r # rs))))"

definition run_all_portfolio_simulations ::
  "('a sim_env_scheme) \<Rightarrow> int \<Rightarrow> (nat \<Rightarrow> nat \<Rightarrow> int) \<Rightarrow> (nat \<Rightarrow> string \<times> string) \<Rightarrow> int \<Rightarrow> string \<Rightarrow> sim_db \<Rightarrow>
   sim_db \<times> all_result result" where
  "run_all_portfolio_simulations E now ts ids user_id requested_date db =
     (case replace_legacy_run E now user_id requested_date db of
        Inl e \<Rightarrow> (db, Inl e)
      | Inr (db1, Some r) \<Rightarrow> (db1, Inr r)
      | Inr (db1, None) \<Rightarrow>
          let pids = sort (map pf_id (filter (\<lambda>p. pf_user_id p = user_id \<and> pf_status p = ''active'') (portfolios db1)))
          in sbind (run_sequence (\<lambda>i pid. run_daily_simulation E (ts i) (fst (ids i)) (snd (ids i)) user_id pid requested_date)
                      0 pids db1) (\<lambda>rs db. (db, Inr (Portfolio_runs rs))))"

definition reset_portfolio_simulation :: "int \<Rightarrow> int \<Rightarrow> sim_db \<Rightarrow> sim_db result" where
  "reset_portfolio_simulation user_id portfolio_id db =
     (if \<not> list_ex (\<lambda>p. pf_id p = portfolio_id \<and> pf_user_id p = user_id) (portfolios db)
      then Inl (ValueError ''portfolio does not belong to this user'')
      else Inr (db\<lparr>sim_orders := sql_delete (\<lambda>r. so_portfolio_id r = portfolio_id) (sim_orders db),
                  snapshots := sql_delete (\<lambda>r. ps_portfolio_id r = portfolio_id) (snapshots db),
                  nav_history := sql_delete (\<lambda>r. nh_portfolio_id r = portfolio_id) (nav_history db),
                  strategy_nav_history := sql_delete (\<lambda>r. sn_portfolio_id r = portfolio_id) (strategy_nav_history db),
                  simulation_runs := sql_delete (\<lambda>r. sr_user_id r = user_id \<and> sr_portfolio_id r = Some portfolio_id) (simulation_runs db),
                  portfolios := sql_update (\<lambda>p. pf_id p = portfolio_id \<and> pf_user_id p = user_id)
                    (\<lambda>p. p\<lparr>pf_cash_balance := Some (pf_total_capital p)\<rparr>) (portfolios db)\<rparr>))"

definition replay_dates :: "('a sim_env_scheme) \<Rightarrow> string \<Rightarrow> string \<Rightarrow> (string \<times> string option) list \<Rightarrow> string list" where
  "replay_dates E from_date to_date bindings =
     (case map (\<lambda>(pool, gen). filter (\<lambda>d. from_date \<le> d \<and> d \<le> to_date) (sim_dates E pool gen)) bindings of
        [] \<Rightarrow> []
      | ds # dss \<Rightarrow> sort (remdups (filter (\<lambda>d. list_all (\<lambda>es. d \<in> set es) dss) ds)))"

record replay_report =
  rr_start_date :: string
  rr_end_date :: string
  rr_trading_days :: nat
  rr_restarted :: bool

definition replay_day ::
  "('a sim_env_scheme) \<Rightarrow> (nat \<Rightarrow> nat \<Rightarrow> nat \<Rightarrow> int) \<Rightarrow> (nat \<Rightarrow> nat \<Rightarrow> string \<times> string) \<Rightarrow> int \<Rightarrow> int option \<Rightarrow>
   nat \<Rightarrow> string \<Rightarrow> sim_db \<Rightarrow> sim_db \<times> all_result result" where
  "replay_day E ts ids user_id portfolio_id i date db =
     (case portfolio_id of
        None \<Rightarrow> run_all_portfolio_simulations E (ts i 0 0) (ts i) (ids i) user_id date db
      | Some pid \<Rightarrow>
          sbind (run_daily_simulation E (ts i 0) (fst (ids i 0)) (snd (ids i 0)) user_id pid date db)
            (\<lambda>su db. (db, Inr (Portfolio_runs [su]))))"

definition run_simulation_backfill ::
  "('a sim_env_scheme) \<Rightarrow> (nat \<Rightarrow> nat \<Rightarrow> nat \<Rightarrow> int) \<Rightarrow> (nat \<Rightarrow> nat \<Rightarrow> string \<times> string) \<Rightarrow> int \<Rightarrow> string \<Rightarrow> string \<Rightarrow> int option \<Rightarrow> bool \<Rightarrow>
   sim_db \<Rightarrow> sim_db \<times> replay_report result" where
  "run_simulation_backfill E ts ids user_id from_date to_date portfolio_id restart db =
     (if to_date < from_date then (db, Inl (ValueError ''end_date must not be earlier than start_date''))
      else case simulation_pool_bindings E user_id portfolio_id db of
        Inl e \<Rightarrow> (db, Inl e)
      | Inr bindings \<Rightarrow>
          let dates = replay_dates E from_date to_date bindings in
          if dates = [] then (db, Inl (ValueError ''no common executable trading dates''))
          else if length dates > 750 then (db, Inl (ValueError ''a replay may contain at most 750 trading days''))
          else case (if \<not> restart then Inr db
                     else case portfolio_id of
                       None \<Rightarrow> Inl (ValueError ''portfolio_id is required when restarting a simulation'')
                     | Some pid \<Rightarrow> reset_portfolio_simulation user_id pid db) of
            Inl e \<Rightarrow> (db, Inl e)
          | Inr db1 \<Rightarrow>
              sbind (run_sequence (replay_day E ts ids user_id portfolio_id) 0 dates db1) (\<lambda>rs db.
                (db, Inr \<lparr>rr_start_date = hd dates, rr_end_date = last dates, rr_trading_days = length dates,
                          rr_restarted = restart\<rparr>)))"

end
