(* ===== verification/Simulation_Demo.thy ===== *)
theory Simulation_Demo
  imports Simulation
begin

text \<open>
  A portfolio with one strategy that holds 200 shares of one stock, evaluated on a day without
  signals and on a day on which the strategy sells.
\<close>

definition demo_tape :: tape where
  "demo_tape = [(''2024-01-02'', FrameRow [(''open'', [(''A'', Fin 10)]), (''close'', [(''A'', Fin 10)])]),
                (''2024-01-03'', FrameRow [(''open'', [(''A'', Fin 10)]), (''close'', [(''A'', Fin 16)])])]"

definition demo_halted_tape :: tape where
  "demo_halted_tape = [(''2024-01-02'', FrameRow [(''open'', [(''A'', Fin 10)]), (''close'', [(''A'', Fin 10)])]),
                       (''2024-01-03'', FrameRow [])]"

definition demo_env :: sim_env where
  "demo_env =
     \<lparr>sim_json = (\<lambda>t. None), sim_tape = (\<lambda>x d. Inr demo_tape), sim_signals = (\<lambda>x tp date. Inr []),
      sim_promotion = (\<lambda>again x. Inr ()), sim_ready = (\<lambda>xs d. Inr ()),
      sim_order = (\<lambda>x n codes. sorted_list_of_set codes), sim_sha256 = (\<lambda>t. t),
      sim_pool_alias = (\<lambda>t. None), sim_dates = (\<lambda>pool gen. [''2024-01-02'', ''2024-01-03'']),
      SIMULATION_RUN_LEASE_SECONDS = 900\<rparr>"

definition demo_sell_env :: sim_env where
  "demo_sell_env = demo_env\<lparr>sim_signals := (\<lambda>x tp date.
     Inr [(date, [\<lparr>sig_code = ''A'', sig_action = ''sell'', sig_score = 1, sig_weight = 1\<rparr>])])\<rparr>"

definition demo_portfolio :: portfolio where
  "demo_portfolio = \<lparr>pf_id = 1, pf_user_id = 7, pf_total_capital = 4096, pf_allocations = None, pf_status = ''active'',
     pf_cash_balance = Some 2096\<rparr>"

definition demo_deployment :: deployment where
  "demo_deployment = \<lparr>dp_id = 4, dp_user_id = 7, dp_strategy_id = ''s'', dp_params = ''{}'', dp_pool_preset = None,
     dp_promotion_binding_hash = None, dp_research_generation_id = None, dp_status = ''active''\<rparr>"

definition demo_snapshot :: snapshot_row where
  "demo_snapshot = \<lparr>ps_portfolio_id = 1, ps_deployment_id = Some 4, ps_date = ''2024-01-02'', ps_code = ''A'', ps_shares = 200,
     ps_avg_cost = 9, ps_close_price = 10, ps_market_value = 2000, ps_unrealized = 200, ps_run_id = None, ps_weight = 50\<rparr>"

definition demo_sim_db :: sim_db where
  "demo_sim_db = \<lparr>portfolios = [demo_portfolio], deployments = [demo_deployment],
     portfolio_allocations = [\<lparr>pa_portfolio_id = 1, pa_deployment_id = 4, pa_target_weight_bps = 10000\<rparr>],
     simulation_runs = [], daily_signals = [], sim_orders = [], snapshots = [demo_snapshot], nav_history = [],
     strategy_nav_history = []\<rparr>"

definition demo_begun :: sim_db where
  "demo_begun = demo_sim_db\<lparr>simulation_runs :=
     [\<lparr>sr_id = ''r'', sr_user_id = 7, sr_portfolio_id = Some 1, sr_trade_date = ''2024-01-03'', sr_key = ''7:1:2024-01-03'',
       sr_status = Run_running, sr_summary = None, sr_error = None, sr_created_at = 0, sr_completed_at = None,
       sr_claim_token = Some ''t'', sr_claim_expires_at = Some 900000000, sr_heartbeat_at = Some 0\<rparr>]\<rparr>"

definition demo_plan :: plan where
  "demo_plan = \<lparr>pl_cash = 2096, pl_positions = [((4, ''A''), \<lparr>sp_shares = 200, sp_avg_cost = 9, sp_close_price = 10\<rparr>)],
     pl_orders = [], pl_signals = [], pl_latest_prices = [((4, ''A''), 16)],
     pl_states = [(4, \<lparr>ss_opening_equity = 0, ss_net_flow = 4096, ss_cash = 4096, ss_realized_pnl = 0,
       ss_transaction_cost = 0, ss_turnover = 0, ss_prior_cumulative_return = 0\<rparr>)]\<rparr>"

lemma demo_key: "run_key 7 1 ''2024-01-03'' = ''7:1:2024-01-03''"
  by code_simp

lemma demo_begin: "begin_run demo_env 0 ''r'' ''t'' 7 1 ''2024-01-03'' demo_sim_db = Inr (demo_begun, Claimed ''r'')"
  by (simp add: begin_run_def demo_key demo_begun_def demo_sim_db_def latest_completed_def claim_expiry_def lease_micros_def demo_env_def)

lemma demo_planned: "plan_portfolio demo_env demo_begun 7 ''r'' ''2024-01-03'' demo_portfolio = Inr ([(demo_deployment, 10000)], demo_plan)"
  by code_simp

lemma demo_promotion: "check_promotion demo_env True (demo_deployment, 10000) = Inr ()"
  by (simp add: check_promotion_def demo_deployment_def)

lemma demo_published:
  "\<exists>db report. publish_plan demo_env ''r'' ''2024-01-03'' demo_portfolio ([(demo_deployment, 10000)], demo_plan) demo_begun = Inr (db, report)"
  by (simp add: publish_plan_def Let_def demo_portfolio_def demo_plan_def)

lemma demo_sold:
  "case plan_portfolio demo_sell_env demo_begun 7 ''r'' ''2024-01-03'' demo_portfolio of
     Inr (rows, pl) \<Rightarrow> rows = [(demo_deployment, 10000)] \<and> pl_positions pl = [] \<and> map so_shares (pl_orders pl) = [200] \<and> length (pl_signals pl) = 1
   | Inl e \<Rightarrow> False"
  by code_simp

lemma demo_halted:
  "case plan_portfolio (demo_sell_env\<lparr>sim_tape := (\<lambda>x d. Inr demo_halted_tape)\<rparr>) demo_begun 7 ''r'' ''2024-01-03'' demo_portfolio of
     Inr (rows, pl) \<Rightarrow> map so_status (pl_orders pl) = [Rejected_no_open] | Inl e \<Rightarrow> False"
  by code_simp

lemma demo_bindings: "simulation_pool_bindings demo_env 7 (Some 1) demo_sim_db = Inr [(''csi300'', None)]"
  by code_simp

lemma demo_deployments: "active_portfolio_deployments demo_env 7 (Some 1) demo_sim_db = Inr [demo_deployment]"
  by code_simp

lemma demo_dates: "replay_dates demo_env ''2024-01-03'' ''2024-01-05'' [(''csi300'', None)] = [''2024-01-03'']"
  by code_simp

lemma demo_committed:
  obtains db su where "commit_run demo_env 1 ''r'' ''t'' ''2024-01-03'' demo_portfolio ([(demo_deployment, 10000)], demo_plan) demo_begun = Inr (db, su)"
proof -
  obtain db report where pub: "publish_plan demo_env ''r'' ''2024-01-03'' demo_portfolio ([(demo_deployment, 10000)], demo_plan) demo_begun = Inr (db, report)"
    using demo_published by blast
  then have "simulation_runs db = simulation_runs demo_begun"
    by (auto simp: publish_plan_def Let_def demo_plan_def split: if_splits)
  moreover have "sql_count (owns_run ''r'' ''t'') (simulation_runs demo_begun) = 1"
    by (simp add: sql_count_def demo_begun_def owns_run_def)
  ultimately show thesis using that by (simp add: commit_run_def pub demo_promotion Let_def)
qed

lemma demo_plan_run: "plan_run demo_env 7 1 ''r'' ''2024-01-03'' demo_begun = Inr (demo_portfolio, [(demo_deployment, 10000)], demo_plan)"
proof -
  have "find (\<lambda>p. pf_id p = 1 \<and> pf_user_id p = 7 \<and> pf_status p = ''active'') (portfolios demo_begun) = Some demo_portfolio"
    by (simp add: demo_begun_def demo_sim_db_def demo_portfolio_def)
  then show ?thesis by (simp add: plan_run_def demo_planned)
qed

lemma demo_sell_plan:
  obtains rows pl where "plan_portfolio demo_sell_env demo_begun 7 ''r'' ''2024-01-03'' demo_portfolio = Inr (rows, pl)"
    "pl_positions pl = []" "map so_shares (pl_orders pl) = [200]" "length (pl_signals pl) = 1"
  using demo_sold by (auto split: sum.splits)

end
