(* ===== verification/Simulation_Props.thy ===== *)
theory Simulation_Props
  imports Simulation_Demo
begin

text \<open>
  What paper trading guarantees: a run that did not complete leaves no trace and a completed one is
  final, the recorded orders explain the account exactly, positions are whole lots, and a day's
  trades do not look ahead.
\<close>

subsection \<open>Runs among each other\<close>

text \<open>
  The steps of concurrent workers on the trading database. A worker plans from an earlier reading of
  the tables (\<open>db0\<close>) and commits later; UUIDs are fresh; the last rule is any change of the other
  tables by a request.
\<close>

definition run_id_fresh :: "string \<Rightarrow> sim_db \<Rightarrow> bool" where
  "run_id_fresh i db = (simulation_side_effect_count i db = 0)"

inductive sim_step :: "('a sim_env_scheme) \<Rightarrow> sim_db \<Rightarrow> sim_db \<Rightarrow> bool" for E where
  sim_begin: "begin_run E now i token u p d db = Inr (db', r) \<Longrightarrow> run_id_fresh i db \<Longrightarrow> sim_step E db db'"
| sim_commit: "plan_run E u p i d db0 = Inr (pf, rp) \<Longrightarrow> commit_run E now i token d pf rp db = Inr (db', su) \<Longrightarrow> sim_step E db db'"
| sim_fail: "sim_step E db (fail_run now i token e db)"
| sim_legacy: "replace_legacy_run E now u d db = Inr (db', r) \<Longrightarrow> sim_step E db db'"
| sim_other: "sim_step E db (db\<lparr>portfolios := ps, deployments := ds, portfolio_allocations := pas\<rparr>)"

inductive sim_reset :: "sim_db \<Rightarrow> sim_db \<Rightarrow> bool" where
  sim_reset: "reset_portfolio_simulation u p db = Inr db' \<Longrightarrow> sim_reset db db'"

abbreviation sim_steps :: "('a sim_env_scheme) \<Rightarrow> sim_db \<Rightarrow> sim_db \<Rightarrow> bool" where
  "sim_steps E \<equiv> (sim_step E)\<^sup>*\<^sup>*"

abbreviation sim_reach :: "('a sim_env_scheme) \<Rightarrow> sim_db \<Rightarrow> sim_db \<Rightarrow> bool" where
  "sim_reach E \<equiv> (\<lambda>db db'. sim_step E db db' \<or> sim_reset db db')\<^sup>*\<^sup>*"

definition sim_ok :: "sim_db \<Rightarrow> bool" where
  "sim_ok db =
     (distinct (map sr_id (simulation_runs db)) \<and> distinct (map sr_key (simulation_runs db)) \<and>
      (\<forall>r\<in>set (simulation_runs db). sr_status r \<noteq> Run_completed \<longrightarrow> simulation_side_effect_count (sr_id r) db = 0))"

text \<open>Rows tagged with a run, table by table.\<close>

definition no_effects :: "string \<Rightarrow> sim_db \<Rightarrow> bool" where
  "no_effects i db =
     (\<not> list_ex (\<lambda>r. ds_run_id r = Some i) (daily_signals db) \<and> \<not> list_ex (\<lambda>r. so_run_id r = Some i) (sim_orders db) \<and>
      \<not> list_ex (\<lambda>r. ps_run_id r = Some i) (snapshots db) \<and> \<not> list_ex (\<lambda>r. nh_run_id r = Some i) (nav_history db) \<and>
      \<not> list_ex (\<lambda>r. sn_run_id r = Some i) (strategy_nav_history db))"

lemma side_effects_0: "simulation_side_effect_count i db = 0 \<longleftrightarrow> no_effects i db"
  by (simp add: simulation_side_effect_count_def no_effects_def sql_count_def filter_empty_conv list_ex_iff)

lemma upsert_tagged:
  assumes "list_ex (\<lambda>r. tag r = Some i) (fold (upsert key) rs t)" and "\<forall>r\<in>set rs. tag r = Some j" and "i \<noteq> j"
  shows "list_ex (\<lambda>r. tag r = Some i) t"
  using assms
proof (induction rs arbitrary: t)
  case (Cons r rs)
  then have "list_ex (\<lambda>r. tag r = Some i) (upsert key r t)" by simp
  then show ?case
    using Cons.prems(2,3) by (auto simp: upsert_def list_ex_iff split: if_splits)
qed simp

lemma insert_orders_append:
  assumes "rfold insert_order rs t = Inr t'"
  shows "t' = t @ rs"
  using assms by (induction rs arbitrary: t) (fastforce simp: rbind_Inr_conv insert_order_def split: if_splits)+

subsection \<open>What a plan contains\<close>

definition plan_of_run :: "string \<Rightarrow> plan \<Rightarrow> bool" where
  "plan_of_run i pl =
     ((\<forall>r\<in>set (pl_orders pl). so_run_id r = Some i) \<and> (\<forall>r\<in>set (pl_signals pl). ds_run_id r = Some i))"

lemma new_order_run [simp]: "so_run_id (new_order cx code a pr sh am co st) = Some (cx_run_id cx)"
  by (simp add: new_order_def)

lemma paper_sell_orders:
  assumes "\<forall>r\<in>set (bk_orders b). P r" and "\<And>c a p s m k st. P (new_order cx c a p s m k st)"
  shows "\<forall>r\<in>set (bk_orders (paper_sell cx cd b)). P r"
  using assms by (auto simp: paper_sell_def Let_def split: prod.splits option.splits)

lemma paper_buy_orders:
  assumes "\<forall>r\<in>set (bk_orders b). P r" and "\<And>c a p s m k st. P (new_order cx c a p s m k st)"
  shows "\<forall>r\<in>set (bk_orders (paper_buy cx cd b)). P r"
  using assms by (auto simp: paper_buy_def Let_def split: prod.splits option.splits)

lemma rebalance_orders:
  assumes "\<forall>r\<in>set (bk_orders b). P r" and "\<And>c a p s m k st. P (new_order cx c a p s m k st)"
  shows "\<forall>r\<in>set (bk_orders (rebalance_deployment order cx cap ws b)). P r"
  unfolding rebalance_deployment_def Let_def
  by (intro fold_invariant_list [where P = "\<lambda>b. \<forall>r\<in>set (bk_orders b). P r"] paper_buy_orders paper_sell_orders assms)
    (use assms in \<open>auto simp: unpriced_orders_def\<close>)

text \<open>Trading one deployment either holds or rebalances it.\<close>

lemma trade_deployment_cases:
  assumes "trade_deployment E db i d pf eq row pl = Inr pl'"
  obtains latest sigs states where "\<forall>r\<in>set sigs. ds_run_id r = Some i"
      "pl' = pl\<lparr>pl_latest_prices := latest, pl_signals := pl_signals pl @ sigs, pl_states := states\<rparr>"
  | latest sigs states cap ws st today cx b where "\<forall>r\<in>set sigs. ds_run_id r = Some i"
      "cx = \<lparr>cx_deployment_id = dp_id (fst row), cx_strategy_id = dp_strategy_id (fst row), cx_portfolio_id = pf_id pf,
             cx_trade_date = d, cx_run_id = i, cx_prices = field_prices today ''open''\<rparr>"
      "b = rebalance_deployment (sim_order E (dp_id (fst row)) 1) cx cap ws
         \<lparr>bk_cash = pl_cash pl, bk_positions = pl_positions pl, bk_orders = pl_orders pl, bk_strategy = st\<rparr>"
      "pl' = pl\<lparr>pl_cash := bk_cash b, pl_positions := bk_positions b, pl_orders := bk_orders b,
         pl_latest_prices := latest, pl_signals := pl_signals pl @ sigs, pl_states := states\<rparr>"
proof -
  obtain x bps where row: "row = (x, bps)" by fastforce
  obtain tp sd today sbd where ok: "sim_tape E x d = Inr tp" "run_sessions tp d = Inr (sd, today)"
      "sim_signals E x (filter (\<lambda>(day, r). day \<le> sd) tp) sd = Inr sbd"
    using assms by (auto simp: trade_deployment_def row rbind_Inr_conv)
  define sigs where "sigs = map (signal_row_of (dp_id x) sd i) (dict_get sbd sd [])"
  have tagged: "\<forall>r\<in>set sigs. ds_run_id r = Some i" by (auto simp: sigs_def signal_row_of_def)
  define latest where "latest = fold (\<lambda>(code, price). AList.update (dp_id x, code) price) (field_prices today ''close'') (pl_latest_prices pl)"
  define st where "st = opening_state (prior_strategy_nav (pf_id pf) d (dp_id x) db) (share_of eq bps)"
  show thesis
  proof (cases "target_stock_weights (sim_order E (dp_id x) 0) (current_codes (dp_id x) (pl_positions pl)) (dict_get sbd sd [])")
    case None
    show thesis
      by (rule that(1) [OF tagged, where latest = latest and states = "AList.update (dp_id x) st (pl_states pl)"])
        (use assms None in \<open>simp add: trade_deployment_def row ok Let_def sigs_def latest_def st_def\<close>)
  next
    case (Some ws)
    show thesis
      by (rule that(2) [OF tagged refl refl, where latest = latest and today = today and cap = "share_of eq bps" and ws = ws and st = st
            and states = "AList.update (dp_id x) (bk_strategy (rebalance_deployment
            (sim_order E (dp_id x) 1) \<lparr>cx_deployment_id = dp_id x, cx_strategy_id = dp_strategy_id x, cx_portfolio_id = pf_id pf,
               cx_trade_date = d, cx_run_id = i, cx_prices = field_prices today ''open''\<rparr> (share_of eq bps) ws
            \<lparr>bk_cash = pl_cash pl, bk_positions = pl_positions pl, bk_orders = pl_orders pl, bk_strategy = st\<rparr>)) (pl_states pl)"])
        (use assms Some in \<open>cases pl; auto simp: trade_deployment_def row ok Let_def sigs_def latest_def st_def\<close>)
  qed
qed

lemma trade_deployment_of_run:
  assumes "trade_deployment E db i d pf eq row pl = Inr pl'" and "plan_of_run i pl"
  shows "plan_of_run i pl'"
  using assms(1)
proof (cases rule: trade_deployment_cases)
  case 1
  then show ?thesis using assms(2) by (auto simp: plan_of_run_def)
next
  case (2 latest sigs states cap ws st today cx b)
  have "\<forall>r\<in>set (bk_orders b). so_run_id r = Some i"
    unfolding 2(3) by (rule rebalance_orders) (use assms(2) in \<open>simp_all add: plan_of_run_def 2(2)\<close>)
  then show ?thesis using 2 assms(2) by (auto simp: plan_of_run_def)
qed

lemma plan_run_of_run:
  assumes "plan_run E u p i d db = Inr (pf, rows, pl)"
  shows "plan_of_run i pl"
proof -
  obtain eq rows c ps where "rfold (trade_deployment E db i d pf eq) rows
      \<lparr>pl_cash = c, pl_positions = ps, pl_orders = [], pl_signals = [], pl_latest_prices = [], pl_states = []\<rparr> = Inr pl"
    using assms by (auto simp: plan_run_def plan_portfolio_def rbind_Inr_conv Let_def split: option.splits)
  then show ?thesis
    by (rule rfold_invariant [where P = "plan_of_run i"])
      (blast intro: trade_deployment_of_run | simp add: plan_of_run_def)+
qed

subsection \<open>Unfinished runs leave no trace\<close>

lemma publish_plan_runs:
  assumes "publish_plan E i d pf rp db = Inr (db', rep)"
  shows "simulation_runs db' = simulation_runs db"
  using assms by (auto simp: publish_plan_def rbind_Inr_conv Let_def split: prod.splits if_splits)

lemma publish_plan_cases:
  assumes "publish_plan E i d pf (rows, pl) db = Inr (db', rep)"
  obtains "rows = []" "db' = db"
  | snaps navs nav where "rows \<noteq> []"
      "daily_signals db' = fold (upsert signal_key) (pl_signals pl) (daily_signals db)"
      "sim_orders db' = sim_orders db @ map (\<lambda>r. r\<lparr>so_intent_id := Some (order_intent_id E i r)\<rparr>) (pl_orders pl)"
      "snapshots db' = fold (upsert snapshot_key) snaps (snapshots db)" "\<forall>r\<in>set snaps. ps_run_id r = Some i"
      "strategy_nav_history db' = fold (upsert strategy_nav_key) navs (strategy_nav_history db)" "\<forall>r\<in>set navs. sn_run_id r = Some i"
      "nav_history db' = upsert nav_key nav (nav_history db)" "nh_run_id nav = Some i"
proof (cases "rows = []")
  case True
  then show thesis using assms that(1) by (simp add: publish_plan_def)
next
  case False
  obtain orders where orders: "rfold insert_order (map (\<lambda>r. r\<lparr>so_intent_id := Some (order_intent_id E i r)\<rparr>) (pl_orders pl))
      (sim_orders db) = Inr orders"
    using assms False by (auto simp: publish_plan_def rbind_Inr_conv)
  define snaps where "snaps = List.map_filter (snapshot_of (pf_id pf) d i (pl_latest_prices pl)) (pl_positions pl)"
  define eq where "eq = fadd (pl_cash pl) (fsum (map ps_market_value snaps))"
  define navs where "navs = List.map_filter (\<lambda>(x, bps). map_option (strategy_nav_of (pf_id pf) d i (previous_nav pf d db)
      (map (weigh eq) snaps) (dp_id x)) (map_of (pl_states pl) (dp_id x))) rows"
  have "\<forall>r\<in>set (map (weigh eq) snaps). ps_run_id r = Some i"
    by (auto simp: snaps_def weigh_def snapshot_of_def List.map_filter_def split: prod.splits)
  moreover have "\<forall>r\<in>set navs. sn_run_id r = Some i"
    by (auto simp: navs_def strategy_nav_of_def List.map_filter_def Let_def split: prod.splits)
  ultimately show thesis
    using assms False that(2) [of "map (weigh eq) snaps" navs] insert_orders_append [OF orders]
    by (auto simp: publish_plan_def orders Let_def snaps_def eq_def navs_def split: if_splits)
qed

lemma publish_plan_tags:
  assumes "publish_plan E i d pf (rows, pl) db = Inr (db', rep)" and "plan_of_run i pl" and "j \<noteq> i" and "no_effects j db"
  shows "no_effects j db'"
  using assms(1)
proof (cases rule: publish_plan_cases)
  case 1
  then show ?thesis using assms(4) by simp
next
  case (2 snaps navs nav)
  have "\<not> list_ex (\<lambda>r. ds_run_id r = Some j) (daily_signals db')"
    using upsert_tagged [of ds_run_id j signal_key "pl_signals pl" "daily_signals db" i] assms(2-4) 2(2)
    by (auto simp: no_effects_def plan_of_run_def)
  moreover have "\<not> list_ex (\<lambda>r. so_run_id r = Some j) (sim_orders db')"
    using assms(2-4) 2(3) by (auto simp: no_effects_def plan_of_run_def list_ex_iff)
  moreover have "\<not> list_ex (\<lambda>r. ps_run_id r = Some j) (snapshots db')"
    using upsert_tagged [of ps_run_id j snapshot_key snaps "snapshots db" i] assms(3,4) 2(4,5)
    by (auto simp: no_effects_def)
  moreover have "\<not> list_ex (\<lambda>r. sn_run_id r = Some j) (strategy_nav_history db')"
    using upsert_tagged [of sn_run_id j strategy_nav_key navs "strategy_nav_history db" i] assms(3,4) 2(6,7)
    by (auto simp: no_effects_def)
  moreover have "\<not> list_ex (\<lambda>r. nh_run_id r = Some j) (nav_history db')"
    using upsert_tagged [of nh_run_id j nav_key "[nav]" "nav_history db" i] assms(3,4) 2(8,9)
    by (auto simp: no_effects_def)
  ultimately show ?thesis by (simp add: no_effects_def)
qed

lemma no_effects_runs [simp]: "no_effects i (db\<lparr>simulation_runs := rs\<rparr>) = no_effects i db"
  by (simp add: no_effects_def)

lemma sim_ok_def2:
  "sim_ok db \<longleftrightarrow> distinct (map sr_id (simulation_runs db)) \<and> distinct (map sr_key (simulation_runs db)) \<and>
     (\<forall>r\<in>set (simulation_runs db). sr_status r \<noteq> Run_completed \<longrightarrow> no_effects (sr_id r) db)"
  by (simp add: sim_ok_def side_effects_0)

text \<open>An update of run rows that keeps their keys and completes or revives no run with effects.\<close>

lemma sim_ok_update:
  assumes "sim_ok db" and "\<And>r. q r \<Longrightarrow> sr_id (f r) = sr_id r \<and> sr_key (f r) = sr_key r"
    and "\<And>r. r \<in> set (simulation_runs db) \<Longrightarrow> q r \<Longrightarrow> sr_status (f r) \<noteq> Run_completed \<Longrightarrow> no_effects (sr_id r) db"
  shows "sim_ok (db\<lparr>simulation_runs := sql_update q f (simulation_runs db)\<rparr>)"
proof -
  have "map sr_id (sql_update q f (simulation_runs db)) = map sr_id (simulation_runs db)"
    "map sr_key (sql_update q f (simulation_runs db)) = map sr_key (simulation_runs db)"
    using assms(2) by (simp_all add: map_sql_update)
  then show ?thesis
    using assms by (auto simp: sim_ok_def2 in_sql_update split: if_splits)
qed

lemma begin_run_ok:
  assumes "begin_run E now i token u p d db = Inr (db', r)" and "run_id_fresh i db" and "sim_ok db"
  shows "sim_ok db'"
proof (cases "find (\<lambda>r. sr_key r = run_key u p d) (simulation_runs db)")
  case None
  then have "run_key u p d \<notin> sr_key ` set (simulation_runs db)" by (auto simp: find_None_iff)
  then show ?thesis
    using assms None
    by (auto simp: begin_run_def Let_def sim_ok_def2 run_id_fresh_def side_effects_0 list_ex_iff split: if_splits)
next
  case (Some x)
  then show ?thesis
    using assms
    by (auto simp: begin_run_def Let_def reclaim_row_def side_effects_0 split: if_splits intro!: sim_ok_update)
qed

lemma publish_plan_ok:
  assumes "publish_plan E i d pf (rows, pl) db = Inr (db', rep)" and "plan_of_run i pl" and "sim_ok db"
  shows "\<forall>r\<in>set (simulation_runs db). sr_id r \<noteq> i \<and> sr_status r \<noteq> Run_completed \<longrightarrow> no_effects (sr_id r) db'"
  using publish_plan_tags [OF assms(1,2)] assms(3) by (auto simp: sim_ok_def2)

lemma owner_unique:
  assumes "sim_ok db" and "sql_count (owns_run i token) (simulation_runs db) = 1"
    and "r \<in> set (simulation_runs db)" and "sr_id r = i"
  shows "owns_run i token r"
proof -
  obtain x where x: "x \<in> set (simulation_runs db)" "owns_run i token x"
    using assms(2) by (metis filter_empty_conv list.size(3) sql_count_def zero_neq_one)
  have "x = r"
    using find_key_eq [of sr_id "simulation_runs db" x] find_key_eq [of sr_id "simulation_runs db" r] assms(1,3,4) x
    by (auto simp: sim_ok_def owns_run_def)
  with x show ?thesis by simp
qed

lemma commit_run_cases:
  assumes "commit_run E now i token d pf rp db = Inr (db', su)"
  obtains db1 rep where "publish_plan E i d pf rp db = Inr (db1, rep)" "simulation_runs db1 = simulation_runs db"
    "sql_count (owns_run i token) (simulation_runs db) = 1"
    "db' = db1\<lparr>simulation_runs := sql_update (owns_run i token) (finish_row now su) (simulation_runs db)\<rparr>"
  using assms publish_plan_runs [of E i d pf rp db] by (auto simp: commit_run_def rbind_Inr_conv Let_def split: if_splits)

lemma commit_run_ok:
  assumes "commit_run E now i token d pf rp db = Inr (db', su)" and "plan_run E u p i d db0 = Inr (pf, rp)" and "sim_ok db"
  shows "sim_ok db'"
  using assms(1)
proof (cases rule: commit_run_cases)
  case (1 db1 rep)
  have tags: "\<forall>r\<in>set (simulation_runs db). sr_id r \<noteq> i \<and> sr_status r \<noteq> Run_completed \<longrightarrow> no_effects (sr_id r) db1"
    using publish_plan_ok [of E i d pf "fst rp" "snd rp"] 1(1) plan_run_of_run [of E u p i d db0 pf "fst rp" "snd rp"] assms(2,3)
    by simp
  have own: "\<forall>r\<in>set (simulation_runs db). sr_id r = i \<longrightarrow> owns_run i token r"
    using owner_unique [OF assms(3) 1(3)] by blast
  have keys: "map sr_id (sql_update (owns_run i token) (finish_row now su) (simulation_runs db)) = map sr_id (simulation_runs db)"
    "map sr_key (sql_update (owns_run i token) (finish_row now su) (simulation_runs db)) = map sr_key (simulation_runs db)"
    by (simp_all add: map_sql_update finish_row_def)
  have "no_effects (sr_id r) db1"
    if mem: "r \<in> set (sql_update (owns_run i token) (finish_row now su) (simulation_runs db))"
      and open_run: "sr_status r \<noteq> Run_completed" for r
  proof -
    obtain q where q: "q \<in> set (simulation_runs db)" "r = (if owns_run i token q then finish_row now su q else q)"
      using mem unfolding in_sql_update by blast
    with open_run have "\<not> owns_run i token q" "r = q" by (auto simp: finish_row_def split: if_splits)
    then show ?thesis using q(1) open_run tags own by blast
  qed
  then show ?thesis
    using assms(3) unfolding 1(4) by (simp add: sim_ok_def2 keys)
qed

lemma sim_step_ok: "sim_step E db db' \<Longrightarrow> sim_ok db \<Longrightarrow> sim_ok db'"
proof (induction rule: sim_step.induct)
  case (sim_begin now i token u p d db db' r)
  then show ?case by (blast intro: begin_run_ok)
next
  case (sim_commit u p i d db0 pf rp now token db db' su)
  then show ?case by (blast intro: commit_run_ok)
next
  case (sim_fail db now i token e)
  then show ?case
    unfolding fail_run_def by (rule sim_ok_update) (auto simp: fail_row_def owns_run_def sim_ok_def2 dest: sim_fail.prems [unfolded sim_ok_def2, THEN conjunct2, THEN conjunct2, rule_format])
next
  case (sim_legacy now u d db db' r)
  then show ?case
    by (auto simp: replace_legacy_run_def side_effects_0 split: option.splits if_splits intro!: sim_ok_update)
next
  case (sim_other db ps ds pas)
  then show ?case by (simp add: sim_ok_def2 no_effects_def)
qed

lemma sim_reset_ok: "sim_reset db db' \<Longrightarrow> sim_ok db \<Longrightarrow> sim_ok db'"
proof (induction rule: sim_reset.induct)
  case (sim_reset u p db db')
  then show ?case
    by (auto simp: reset_portfolio_simulation_def sim_ok_def2 no_effects_def sql_delete_def list_ex_iff distinct_map_filter
        split: if_splits)
qed

text \<open>
  C13. A run that did not complete leaves no trace. Whatever concurrent workers, retries, failures and
  resets do, runs stay unique per key and every row of the five result tables that names a recorded
  run names a completed one; so a retry is never refused because of left-over effects.
\<close>

theorem unfinished_runs_leave_no_trace:
  assumes "sim_ok db" and "sim_reach E db db'"
  shows "distinct (map sr_key (simulation_runs db')) \<and>
    (\<forall>r\<in>set (simulation_runs db'). sr_status r \<noteq> Run_completed \<longrightarrow> simulation_side_effect_count (sr_id r) db' = 0) \<and>
    begin_run E now i token u p d db' \<noteq> Inl (RuntimeError ''failed run has persisted side effects'')"
proof -
  have ok: "sim_ok db'"
    using assms(2,1) by (induction rule: rtranclp_induct) (auto intro: sim_step_ok sim_reset_ok)
  then show ?thesis
    by (auto simp: sim_ok_def begin_run_def Let_def dest!: find_Some_mem split: option.splits)
qed

lemma run_by_id:
  assumes "sim_ok db" and "q \<in> set (simulation_runs db)" and "r \<in> set (simulation_runs db)" and "sr_id q = sr_id r"
  shows "q = r"
proof -
  have "inj_on sr_id (set (simulation_runs db))" using assms(1) by (simp add: sim_ok_def distinct_map)
  from inj_onD [OF this assms(4,2,3)] show ?thesis .
qed

lemma run_by_key:
  assumes "sim_ok db" and "r \<in> set (simulation_runs db)"
  shows "find (\<lambda>q. sr_key q = sr_key r) (simulation_runs db) = Some r"
  using assms find_key_eq [of sr_key "simulation_runs db" r] by (simp add: sim_ok_def)

lemma completed_kept:
  assumes "sim_step E db db'" and "sim_ok db" and "r \<in> set (simulation_runs db)" and "sr_status r = Run_completed"
  shows "r \<in> set (simulation_runs db')"
  using assms
proof (induction rule: sim_step.induct)
  case (sim_begin now i token u p d db db' x)
  show ?case
  proof (cases "find (\<lambda>r. sr_key r = run_key u p d) (simulation_runs db)")
    case None
    then show ?thesis using sim_begin by (auto simp: begin_run_def Let_def split: if_splits)
  next
    case (Some q)
    have "sr_id q \<noteq> sr_id r" if "sr_status q \<noteq> Run_completed"
      using run_by_id [OF sim_begin(3) _ sim_begin(4), of q] find_Some_mem [OF Some] that sim_begin(5) by auto
    then show ?thesis
      using sim_begin Some by (auto simp: begin_run_def Let_def in_sql_update split: if_splits intro!: bexI [of _ r])
  qed
next
  case (sim_commit u p i d db0 pf rp now token db db' su)
  from sim_commit(2) show ?case
    by (cases rule: commit_run_cases) (use sim_commit(4,5) in \<open>auto simp: in_sql_update owns_run_def intro!: bexI [of _ r]\<close>)
next
  case (sim_fail db now i token e)
  then show ?case by (auto simp: fail_run_def in_sql_update owns_run_def intro!: bexI [of _ r])
next
  case (sim_legacy now u d db db' x)
  show ?case
  proof (cases "find (\<lambda>r. sr_key r = legacy_key u d) (simulation_runs db)")
    case None
    then show ?thesis using sim_legacy by (simp add: replace_legacy_run_def)
  next
    case (Some q)
    have "sr_id q \<noteq> sr_id r" if "sr_status q \<noteq> Run_completed"
      using run_by_id [OF sim_legacy(2) _ sim_legacy(3), of q] find_Some_mem [OF Some] that sim_legacy(4) by auto
    then show ?thesis
      using sim_legacy Some by (auto simp: replace_legacy_run_def in_sql_update split: if_splits intro!: bexI [of _ r])
  qed
qed simp

lemma completed_kept_run:
  assumes "sim_steps E db db'" and "sim_ok db" and "r \<in> set (simulation_runs db)" and "sr_status r = Run_completed"
  shows "sim_ok db' \<and> r \<in> set (simulation_runs db')"
  using assms by (induction rule: rtranclp_induct) (auto intro: completed_kept sim_step_ok)

text \<open>
  C12. A daily run takes effect once. After a run was committed, as long as its portfolio is not reset:
  its row keeps the summary, no worker, whatever token it holds, can commit under the same run again,
  and a new request for the same user, portfolio and date returns that summary without touching the
  database.
\<close>

theorem committed_run_is_final:
  assumes "sim_ok db" and "plan_run E u p i d db0 = Inr (pf, rp)" and "commit_run E now i token d pf rp db = Inr (db1, su)"
    and "sim_steps E db1 db2"
  shows "\<exists>r\<in>set (simulation_runs db2). sr_id r = i \<and> sr_status r = Run_completed \<and> sr_summary r = Some su \<and>
    (\<forall>now' token' pf' rp'. \<exists>e. commit_run E now' i token' d pf' rp' db2 = Inl e) \<and>
    (\<forall>now' j token' u' p' d'. sr_key r = run_key u' p' d' \<longrightarrow> begin_run E now' j token' u' p' d' db2 = Inr (db2, Already (Some su)))"
  using assms(3)
proof (cases rule: commit_run_cases)
  case (1 db' rep)
  obtain q where q: "q \<in> set (simulation_runs db)" "owns_run i token q"
    using 1(3) by (metis filter_empty_conv list.size(3) sql_count_def zero_neq_one)
  define r where "r = finish_row now su q"
  have r: "r \<in> set (simulation_runs db1)" "sr_id r = i" "sr_status r = Run_completed" "sr_summary r = Some su"
    using q by (auto simp: r_def 1(4) in_sql_update finish_row_def owns_run_def)
  have ok: "sim_ok db2" "r \<in> set (simulation_runs db2)"
    using completed_kept_run [OF assms(4) commit_run_ok [OF assms(3,2,1)] r(1,3)] by auto
  have "\<exists>e. commit_run E now' i token' d pf' rp' db2 = Inl e" for now' token' pf' rp'
  proof (rule ccontr)
    assume "\<not> ?thesis"
    then obtain db3 su' where "commit_run E now' i token' d pf' rp' db2 = Inr (db3, su')"
      by (metis old.sum.exhaust surj_pair)
    then show False
      by (cases rule: commit_run_cases) (use owner_unique [OF ok(1) _ ok(2) r(2)] r(3) in \<open>auto simp: owns_run_def\<close>)
  qed
  moreover have "begin_run E now' j token' u' p' d' db2 = Inr (db2, Already (Some su))"
    if "sr_key r = run_key u' p' d'" for now' j token' u' p' d'
    using run_by_key [OF ok] r(3,4) that by (simp add: begin_run_def Let_def)
  ultimately show ?thesis using ok(2) r by blast
qed

subsection \<open>Orders explain the account\<close>

text \<open>What a recorded order does to an account: its cash and the shares held of each code.\<close>

type_synonym account = "rat \<times> (int \<times> string \<Rightarrow> int)"

definition settle :: "account \<Rightarrow> order_row \<Rightarrow> account" where
  "settle acc r =
     (case acc of (c, h) \<Rightarrow>
        let key = (so_deployment_id r, so_code r) in
        if so_status r \<noteq> Filled then (c, h)
        else if so_action r = ''SELL''
        then (fadd c (calc_sell_cost CostModel (so_price r) (so_shares r)), h(key := h key - so_shares r))
        else (fsub c (calc_buy_cost CostModel (so_price r) (so_shares r)), h(key := h key + so_shares r)))"

definition book_account :: "book \<Rightarrow> account" where
  "book_account b = (bk_cash b, held_shares (bk_positions b))"

definition explains :: "account \<Rightarrow> order_row list \<Rightarrow> book \<Rightarrow> bool" where
  "explains acc old b = (\<exists>new. bk_orders b = old @ new \<and> book_account b = foldl settle acc new)"

lemma held_shares_update: "held_shares (AList.update k p ps) = (held_shares ps)(k := sp_shares p)"
  by (rule ext) (simp add: held_shares_def update_conv)

lemma held_shares_delete: "held_shares (AList.delete k ps) = (held_shares ps)(k := 0)"
  by (rule ext) (simp add: held_shares_def delete_conv)

lemma held_shares_at: "map_of ps k = Some p \<Longrightarrow> held_shares ps k = sp_shares p"
  by (simp add: held_shares_def)

lemma explains_snoc:
  assumes "explains acc old b" and "bk_orders b' = bk_orders b @ [r]" and "book_account b' = settle (book_account b) r"
  shows "explains acc old b'"
proof -
  obtain new where "bk_orders b = old @ new" "book_account b = foldl settle acc new"
    using assms(1) by (auto simp: explains_def)
  then show ?thesis using assms(2,3) by (auto simp: explains_def intro!: exI [of _ "new @ [r]"])
qed

lemma paper_sell_explains: "explains acc old b \<Longrightarrow> explains acc old (paper_sell cx cd b)"
  by (cases cd)
    (auto simp: paper_sell_def Let_def settle_def new_order_def book_account_def held_shares_update held_shares_delete
      held_shares_at split: option.split intro!: explains_snoc [of acc old b])

lemma paper_buy_explains: "explains acc old b \<Longrightarrow> explains acc old (paper_buy cx cd b)"
  by (cases cd)
    (auto simp: paper_buy_def Let_def settle_def new_order_def book_account_def held_shares_update held_shares_delete
      split: option.split intro!: explains_snoc [of acc old b])

lemma settle_rejected: "\<forall>r\<in>set rs. so_status r \<noteq> Filled \<Longrightarrow> foldl settle acc rs = acc"
  by (induction rs arbitrary: acc) (auto simp: settle_def split: prod.splits)

lemma rebalance_explains: "explains (book_account b) (bk_orders b) (rebalance_deployment order cx cap ws b)"
proof -
  let ?b1 = "b\<lparr>bk_orders := bk_orders b @ unpriced_orders cx (current_codes (cx_deployment_id cx) (bk_positions b)) ws\<rparr>"
  have "explains (book_account b) (bk_orders b) ?b1"
    by (auto simp: explains_def book_account_def unpriced_orders_def new_order_def settle_rejected)
  then show ?thesis
    unfolding rebalance_deployment_def Let_def
    by (intro fold_invariant_list [where P = "explains (book_account b) (bk_orders b)"] paper_buy_explains paper_sell_explains)
qed

definition plan_account :: "plan \<Rightarrow> account" where
  "plan_account pl = (pl_cash pl, held_shares (pl_positions pl))"

lemma trade_deployment_explains:
  assumes "trade_deployment E db i d pf eq row pl = Inr pl'" and "plan_account pl = foldl settle acc (pl_orders pl)"
  shows "plan_account pl' = foldl settle acc (pl_orders pl')"
  using assms(1)
proof (cases rule: trade_deployment_cases)
  case 1
  then show ?thesis using assms(2) by (simp add: plan_account_def)
next
  case (2 latest sigs states cap ws st today cx b)
  obtain new where "bk_orders b = pl_orders pl @ new" "book_account b = foldl settle (plan_account pl) new"
    using rebalance_explains [of "\<lparr>bk_cash = pl_cash pl, bk_positions = pl_positions pl, bk_orders = pl_orders pl, bk_strategy = st\<rparr>"
        "sim_order E (dp_id (fst row)) 1" cx cap ws]
    by (auto simp: explains_def 2(3) book_account_def plan_account_def)
  then show ?thesis using 2(4) assms(2) by (simp add: plan_account_def book_account_def)
qed

text \<open>
  C10. The recorded orders explain the account. After the trades of a day, the cash (to the last bit)
  and the number of shares of every position are what settling the recorded orders one after the
  other makes of the opening cash and positions: nothing is traded without an order and no order is
  recorded without its effect.
\<close>

theorem orders_explain_account:
  assumes "plan_portfolio E db u i d pf = Inr (rows, pl)"
  shows "(pl_cash pl, held_shares (pl_positions pl)) =
    foldl settle (opening_cash pf (opening_snapshot (pf_id pf) d db),
                  held_shares (opening_positions (opening_snapshot (pf_id pf) d db))) (pl_orders pl)"
proof -
  let ?open = "opening_snapshot (pf_id pf) d db"
  let ?acc = "(opening_cash pf ?open, held_shares (opening_positions ?open))"
  obtain eq where "rfold (trade_deployment E db i d pf eq) rows
      \<lparr>pl_cash = opening_cash pf ?open, pl_positions = opening_positions ?open, pl_orders = [], pl_signals = [],
       pl_latest_prices = [], pl_states = []\<rparr> = Inr pl"
    using assms by (auto simp: plan_portfolio_def rbind_Inr_conv Let_def)
  then have "plan_account pl = foldl settle ?acc (pl_orders pl)"
    by (rule rfold_invariant [where P = "\<lambda>pl. plan_account pl = foldl settle ?acc (pl_orders pl)"])
      (blast intro: trade_deployment_explains | simp add: plan_account_def)+
  then show ?thesis by (simp add: plan_account_def)
qed

subsection \<open>The properties at concrete inputs\<close>

lemma demo_sim_ok: "sim_ok demo_sim_db" and demo_begun_ok: "sim_ok demo_begun" and demo_fresh: "run_id_fresh ''r'' demo_sim_db"
proof -
  show ok: "sim_ok demo_sim_db" by (simp add: sim_ok_def demo_sim_db_def)
  show fresh: "run_id_fresh ''r'' demo_sim_db"
    by (simp add: run_id_fresh_def simulation_side_effect_count_def sql_count_def demo_sim_db_def demo_snapshot_def)
  show "sim_ok demo_begun" by (rule begin_run_ok [OF demo_begin fresh ok])
qed

theorem unfinished_runs_leave_no_trace_witness:
  "\<exists>db'. sim_reach demo_env demo_sim_db db' \<and> map sr_status (simulation_runs db') = [Run_failed] \<and> simulation_side_effect_count ''r'' db' = 0"
proof -
  let ?db = "fail_run 1 ''r'' ''t'' (ValueError ''no data'') demo_begun"
  have "sim_reach demo_env demo_sim_db demo_begun"
    by (rule r_into_rtranclp, rule disjI1, rule sim_begin [OF demo_begin demo_fresh])
  then have reach: "sim_reach demo_env demo_sim_db ?db"
    by (rule rtranclp.rtrancl_into_rtrancl, intro disjI1 sim_fail)
  have run: "map sr_status (simulation_runs ?db) = [Run_failed]"
    and "\<exists>r\<in>set (simulation_runs ?db). sr_id r = ''r'' \<and> sr_status r = Run_failed"
    by (simp_all add: fail_run_def demo_begun_def sql_update_def owns_run_def fail_row_def)
  then obtain r where r: "r \<in> set (simulation_runs ?db)" "sr_id r = ''r''" "sr_status r = Run_failed" by blast
  have "simulation_side_effect_count (sr_id r) ?db = 0"
    by (rule unfinished_runs_leave_no_trace [OF demo_sim_ok reach, THEN conjunct2, THEN conjunct1, rule_format, OF r(1)])
      (simp add: r(3))
  then have "simulation_side_effect_count ''r'' ?db = 0" by (simp only: r(2))
  with reach run show ?thesis by (intro exI [of _ ?db] conjI)
qed

theorem committed_run_is_final_witness:
  "\<exists>db1 su. commit_run demo_env 1 ''r'' ''t'' ''2024-01-03'' demo_portfolio ([(demo_deployment, 10000)], demo_plan) demo_begun = Inr (db1, su) \<and>
     (\<exists>e. commit_run demo_env 2 ''r'' ''t'' ''2024-01-03'' demo_portfolio ([(demo_deployment, 10000)], demo_plan) db1 = Inl e)"
proof -
  obtain db1 su where c: "commit_run demo_env 1 ''r'' ''t'' ''2024-01-03'' demo_portfolio ([(demo_deployment, 10000)], demo_plan) demo_begun = Inr (db1, su)"
    by (rule demo_committed)
  from committed_run_is_final [OF demo_begun_ok demo_plan_run c rtranclp.rtrancl_refl] c show ?thesis by blast
qed

theorem orders_explain_account_witness:
  "\<exists>rows pl. plan_portfolio demo_sell_env demo_begun 7 ''r'' ''2024-01-03'' demo_portfolio = Inr (rows, pl) \<and> length (pl_orders pl) = 1 \<and>
     (pl_cash pl, held_shares (pl_positions pl)) = foldl settle
       (opening_cash demo_portfolio (opening_snapshot (pf_id demo_portfolio) ''2024-01-03'' demo_begun),
        held_shares (opening_positions (opening_snapshot (pf_id demo_portfolio) ''2024-01-03'' demo_begun))) (pl_orders pl)"
proof -
  obtain rows pl where p: "plan_portfolio demo_sell_env demo_begun 7 ''r'' ''2024-01-03'' demo_portfolio = Inr (rows, pl)"
    "map so_shares (pl_orders pl) = [200]"
    by (rule demo_sell_plan)
  from p(2) have "length (pl_orders pl) = 1" by (cases "pl_orders pl") auto
  with p(1) orders_explain_account [OF p(1)] show ?thesis by blast
qed

end
