(* ===== verification/Simulation_Account.thy ===== *)
theory Simulation_Account
  imports Simulation_Props
begin

text \<open>
  The account of a portfolio from day to day: positions stay long, the holdings a day closes with are
  the ones the next day opens with (unless everything was sold), signals do not look ahead, and a
  reset or a replay touches its own portfolio only.
\<close>

subsection \<open>Positions stay long and priced\<close>

definition long_positions :: "positions \<Rightarrow> bool" where
  "long_positions ps =
     (dict_wf ps \<and> (\<forall>k p. map_of ps k = Some p \<longrightarrow> 0 < sp_shares p \<and> 0 < sp_close_price p))"

definition positive_prices :: "('k, rat) dict \<Rightarrow> bool" where
  "positive_prices ps = (\<forall>x\<in>set ps. 0 < snd x)"

lemma positive_price: "positive_prices ps \<Longrightarrow> map_of ps k = Some p \<Longrightarrow> 0 < p"
  using map_of_SomeD [of ps k p] by (fastforce simp: positive_prices_def)

lemma long_update:
  "long_positions ps \<Longrightarrow> 0 < sp_shares p \<Longrightarrow> 0 < sp_close_price p \<Longrightarrow> long_positions (AList.update k p ps)"
  by (auto simp: long_positions_def update_conv)

lemma long_delete: "long_positions ps \<Longrightarrow> long_positions (AList.delete k ps)"
  by (auto simp: long_positions_def delete_conv)

lemma long_held: "long_positions ps \<Longrightarrow> 0 \<le> held_shares ps k"
  by (cases k) (auto simp: long_positions_def held_shares_def intro: less_imp_le split: option.split)

lemma valid_prices_positive: "positive_prices (valid_prices vs)"
  by (auto simp: positive_prices_def valid_prices_def map_filter_def sim_valid_price_def
      split: pyfloat.splits if_splits)

lemma field_prices_positive: "positive_prices (field_prices row f)"
  by (cases row) (auto simp: field_prices_def valid_prices_positive positive_prices_def [of "[]"] split: option.split)

lemma positive_prices_update:
  "positive_prices ps \<Longrightarrow> 0 < p \<Longrightarrow> positive_prices (AList.update k p ps)"
  using set_update_subset [of k p ps] by (auto simp: positive_prices_def)

definition fill_ok :: "order_row \<Rightarrow> bool" where
  "fill_ok r = (so_status r = Filled \<longrightarrow> 0 < so_price r \<and> 0 < so_shares r \<and> (so_action r = ''BUY'' \<longrightarrow> 100 \<le> so_shares r))"

definition long_book :: "book \<Rightarrow> bool" where
  "long_book b = (long_positions (bk_positions b) \<and> (\<forall>r\<in>set (bk_orders b). fill_ok r))"

lemma paper_sell_long:
  assumes "long_book b" and "positive_prices (cx_prices cx)"
  shows "long_book (paper_sell cx cd b)"
proof (cases cd)
  case (Pair code delta)
  show ?thesis
  proof (cases "map_of (bk_positions b) (cx_deployment_id cx, code)")
    case None
    then show ?thesis using assms by (simp add: paper_sell_def Pair Let_def)
  next
    case (Some p)
    have p: "0 < sp_shares p" "0 < sp_close_price p" using assms(1) Some by (auto simp: long_book_def long_positions_def)
    show ?thesis
      using assms p
      by (auto simp: paper_sell_def Pair Some Let_def long_book_def fill_ok_def new_order_def positive_price
          intro!: long_update long_delete split: option.split)
  qed
qed

lemma paper_buy_long:
  assumes "long_book b" and "positive_prices (cx_prices cx)"
  shows "long_book (paper_buy cx cd b)"
proof (cases cd)
  case (Pair code delta)
  have "0 \<le> held_shares (bk_positions b) k" for k using assms(1) by (simp add: long_book_def long_held)
  then show ?thesis
    using assms
    by (auto simp: paper_buy_def Pair Let_def long_book_def fill_ok_def new_order_def positive_price
        intro!: long_update add_nonneg_pos split: option.split)
qed

lemma rebalance_long:
  assumes "long_book b" and "positive_prices (cx_prices cx)"
  shows "long_book (rebalance_deployment order cx cap ws b)"
  unfolding rebalance_deployment_def Let_def
  by (intro fold_invariant_list [where P = long_book] paper_buy_long paper_sell_long assms)
    (use assms in \<open>auto simp: long_book_def unpriced_orders_def fill_ok_def new_order_def\<close>)

definition long_plan :: "plan \<Rightarrow> bool" where
  "long_plan pl =
     (long_positions (pl_positions pl) \<and> (\<forall>r\<in>set (pl_orders pl). fill_ok r) \<and> positive_prices (pl_latest_prices pl))"

lemma latest_prices_positive:
  assumes "positive_prices ps" and "positive_prices qs"
  shows "positive_prices (fold (\<lambda>(code, price). AList.update (k, code) price) qs ps)"
  using assms
proof (induction qs arbitrary: ps)
  case (Cons q qs)
  have "positive_prices (AList.update (k, fst q) (snd q) ps)"
    using Cons.prems by (auto simp: positive_prices_def [of "q # qs"] intro: positive_prices_update)
  then show ?case using Cons by (simp add: case_prod_beta positive_prices_def [of "q # qs"] positive_prices_def [of qs])
qed simp

lemma trade_deployment_prices:
  assumes "trade_deployment E db i d pf eq row pl = Inr pl'" and "positive_prices (pl_latest_prices pl)"
  shows "positive_prices (pl_latest_prices pl')"
  using assms latest_prices_positive [OF assms(2) field_prices_positive]
  by (auto simp: trade_deployment_def rbind_Inr_conv Let_def split: prod.splits option.splits)

lemma trade_deployment_long:
  assumes "trade_deployment E db i d pf eq row pl = Inr pl'" and "long_plan pl"
  shows "long_plan pl'"
  using assms(1)
proof (cases rule: trade_deployment_cases)
  case 1
  then show ?thesis using assms trade_deployment_prices [OF assms(1)] by (simp add: long_plan_def)
next
  case (2 latest sigs states cap ws st today cx b)
  have "long_book b"
    unfolding 2(3) by (rule rebalance_long) (use assms(2) in \<open>simp_all add: long_book_def long_plan_def 2(2) field_prices_positive\<close>)
  then show ?thesis using 2(4) assms(2) trade_deployment_prices [OF assms(1)] by (simp add: long_plan_def long_book_def)
qed

lemma opening_positions_long:
  assumes "\<forall>r\<in>set rows. 0 < ps_close_price r"
  shows "long_positions (opening_positions rows)"
  unfolding long_positions_def
proof (intro conjI allI impI)
  fix k p
  assume "map_of (opening_positions rows) k = Some p"
  then have "(k, p) \<in> set (opening_positions rows)" by (rule map_of_SomeD)
  then show "0 < sp_shares p" "0 < sp_close_price p"
    using assms set_dict_of by (fastforce simp: opening_positions_def map_filter_def split: option.splits if_splits)+
qed (simp add: opening_positions_def)

text \<open>The rows a run closes with: one per position, and all of them priced.\<close>

lemma plan_portfolio_long:
  assumes "plan_portfolio E db u i d pf = Inr (rows, pl)" and "\<forall>r\<in>set (snapshots db). 0 < ps_close_price r"
  shows "long_plan pl"
proof -
  let ?open = "opening_snapshot (pf_id pf) d db"
  obtain eq where "rfold (trade_deployment E db i d pf eq) rows
      \<lparr>pl_cash = opening_cash pf ?open, pl_positions = opening_positions ?open, pl_orders = [], pl_signals = [],
       pl_latest_prices = [], pl_states = []\<rparr> = Inr pl"
    using assms(1) by (auto simp: plan_portfolio_def rbind_Inr_conv Let_def)
  note run = this
  have "long_positions (opening_positions ?open)"
    using assms(2) by (auto simp: opening_snapshot_def latest_by_def intro: opening_positions_long)
  with run show ?thesis
    by - (rule rfold_invariant [where P = long_plan, OF run],
      (blast intro: trade_deployment_long | simp add: long_plan_def positive_prices_def)+)
qed

text \<open>
  Paper trading never sells short. Whatever signals, prices and allocations a day has, from a
  snapshot with valid prices: every position the day closes with holds a positive number of shares
  at a positive price, every filled order has a positive price and size, and every filled purchase
  is at least one lot.
\<close>

theorem plan_stays_long:
  assumes "plan_portfolio E db u i d pf = Inr (rows, pl)" and "\<forall>r\<in>set (snapshots db). 0 < ps_close_price r"
  shows "(\<forall>k p. map_of (pl_positions pl) k = Some p \<longrightarrow> 0 < sp_shares p \<and> 0 < sp_close_price p) \<and>
    (\<forall>r\<in>set (pl_orders pl). so_status r = Filled \<longrightarrow>
       0 < so_price r \<and> 0 < so_shares r \<and> (so_action r = ''BUY'' \<longrightarrow> 100 \<le> so_shares r))"
  using plan_portfolio_long [OF assms] by (auto simp: long_plan_def long_positions_def fill_ok_def)

subsection \<open>From one day to the next\<close>

lemma upsert_fresh:
  assumes "distinct (map key rs)" and "\<forall>r\<in>set rs. key r \<notin> key ` set t"
  shows "fold (upsert key) rs t = t @ rs"
  using assms
proof (induction rs arbitrary: t)
  case (Cons r rs)
  have "\<not> list_ex (\<lambda>q. key q = key r) t" using Cons.prems(2) by (simp add: list_ex_iff image_iff) metis
  then have "upsert key r t = t @ [r]" by (simp add: upsert_def)
  moreover have "fold (upsert key) rs (t @ [r]) = (t @ [r]) @ rs" by (rule Cons.IH) (use Cons.prems in \<open>auto, metis imageI\<close>)
  ultimately show ?case by simp
qed simp

lemma map_filter_all: "(\<And>x. x \<in> set xs \<Longrightarrow> \<exists>y. f x = Some y) \<Longrightarrow> List.map_filter f xs = map (the \<circ> f) xs"
  by (induction xs) (force simp: map_filter_simps)+

lemma map_filter_of_map: "List.map_filter f (map g xs) = List.map_filter (f \<circ> g) xs"
  by (induction xs) (auto split: option.split)

text \<open>The rows of the closing positions, with their keys and what the next opening reads of them.\<close>

definition closing_rows :: "portfolio \<Rightarrow> string \<Rightarrow> string \<Rightarrow> plan \<Rightarrow> snapshot_row list" where
  "closing_rows pf d i pl =
     (let snaps = List.map_filter (snapshot_of (pf_id pf) d i (pl_latest_prices pl)) (pl_positions pl)
      in map (weigh (fadd (pl_cash pl) (fsum (map ps_market_value snaps)))) snaps)"

lemma closing_rows_map:
  assumes "long_plan pl"
  obtains f where "closing_rows pf d i pl = map f (pl_positions pl)"
    "\<And>x. x \<in> set (pl_positions pl) \<Longrightarrow> ps_portfolio_id (f x) = pf_id pf \<and> ps_deployment_id (f x) = Some (fst (fst x)) \<and>
       ps_date (f x) = d \<and> ps_code (f x) = snd (fst x) \<and> ps_shares (f x) = sp_shares (snd x) \<and> ps_avg_cost (f x) = sp_avg_cost (snd x) \<and>
       0 < ps_close_price (f x)"
proof -
  let ?s = "snapshot_of (pf_id pf) d i (pl_latest_prices pl)"
  have price: "\<exists>pr. snapshot_price (pl_latest_prices pl) x = Some pr \<and> 0 < pr" if "x \<in> set (pl_positions pl)" for x
  proof -
    have "0 < sp_close_price (snd x)"
      using assms that by (cases x) (auto simp: long_plan_def long_positions_def dict_wf_def)
    then show ?thesis
      using assms positive_price [of "pl_latest_prices pl" "fst x"]
      by (auto simp: snapshot_price_def sim_valid_price_def long_plan_def split: option.split)
  qed
  have eq: "List.map_filter ?s (pl_positions pl) = map (the \<circ> ?s) (pl_positions pl)"
    by (rule map_filter_all) (use price in \<open>force simp: snapshot_of_def split: prod.splits\<close>)
  show thesis
    by (rule that [of "weigh (fadd (pl_cash pl) (fsum (map ps_market_value (List.map_filter ?s (pl_positions pl))))) \<circ> the \<circ> ?s"])
      (auto simp: closing_rows_def Let_def eq weigh_def snapshot_of_def dest!: price)
qed

lemma publish_plan_account:
  assumes "publish_plan E i d pf (rows, pl) db = Inr (db', rep)" and "rows \<noteq> []"
  shows "snapshots db' = fold (upsert snapshot_key) (closing_rows pf d i pl) (snapshots db)"
    and "portfolios db' = sql_update (\<lambda>p. pf_id p = pf_id pf) (\<lambda>p. p\<lparr>pf_cash_balance := Some (pl_cash pl)\<rparr>) (portfolios db)"
  using assms by (auto simp: publish_plan_def rbind_Inr_conv Let_def closing_rows_def split: if_splits)

lemma publish_appends_snapshots:
  assumes "publish_plan E i d pf (rows, pl) db = Inr (db', rep)" and "rows \<noteq> []" and "long_plan pl"
    and "\<forall>r\<in>set (snapshots db). ps_portfolio_id r = pf_id pf \<longrightarrow> ps_date r < d"
  shows "snapshots db' = snapshots db @ closing_rows pf d i pl"
proof -
  obtain f where f: "closing_rows pf d i pl = map f (pl_positions pl)"
    "\<And>x. x \<in> set (pl_positions pl) \<Longrightarrow> snapshot_key (f x) = (pf_id pf, Some (fst (fst x)), d, snd (fst x))"
    by (rule closing_rows_map [OF assms(3), of pf d i]) (auto simp: snapshot_key_def)
  have "distinct (map (snapshot_key \<circ> f) (pl_positions pl))"
    using assms(3) f(2) by (auto simp: long_plan_def long_positions_def dict_wf_def distinct_map inj_on_def) (metis fst_conv snd_conv)
  moreover have "snapshot_key (f x) \<notin> snapshot_key ` set (snapshots db)" if "x \<in> set (pl_positions pl)" for x
    using f(2) [OF that] assms(4) by (force simp: snapshot_key_def)
  ultimately show ?thesis
    unfolding publish_plan_account(1) [OF assms(1,2)] f(1) by (intro upsert_fresh) auto
qed

lemma latest_by_append:
  assumes "ys \<noteq> []" and "\<And>y. y \<in> set ys \<Longrightarrow> date y = d" and "\<And>x. x \<in> set xs \<Longrightarrow> date x < d"
  shows "latest_by date (xs @ ys) = ys"
proof -
  have last: "hd ys \<in> set (xs @ ys)" "date (hd ys) = d" using assms(1,2) by simp_all
  have "\<not> (\<forall>q\<in>set (xs @ ys). date q \<le> date x)" if "x \<in> set xs" for x
  proof
    assume "\<forall>q\<in>set (xs @ ys). date q \<le> date x"
    then have "date (hd ys) \<le> date x" using last(1) by blast
    then show False using last(2) assms(3) [OF that] by simp
  qed
  then have "filter (\<lambda>r. \<forall>q\<in>set (xs @ ys). date q \<le> date r) xs = []" by (intro filter_False) blast
  moreover have "filter (\<lambda>r. \<forall>q\<in>set (xs @ ys). date q \<le> date r) ys = ys"
    using assms(2,3) by (intro filter_True) (auto intro: less_imp_le)
  ultimately show ?thesis by (simp add: latest_by_def)
qed

lemma opening_after:
  assumes "snapshots db' = snapshots db @ rs" and "\<forall>r\<in>set rs. ps_portfolio_id r = p \<and> ps_date r = d" and "d < d'"
    and "\<forall>r\<in>set (snapshots db). ps_portfolio_id r = p \<longrightarrow> ps_date r < d"
  shows "opening_snapshot p d' db' = (if rs = [] then opening_snapshot p d db else rs)"
proof -
  have old: "filter (\<lambda>r. ps_portfolio_id r = p \<and> ps_date r < d') (snapshots db) =
      filter (\<lambda>r. ps_portfolio_id r = p \<and> ps_date r < d) (snapshots db)"
    using assms(3,4) by (intro filter_cong) auto
  have new: "filter (\<lambda>r. ps_portfolio_id r = p \<and> ps_date r < d') rs = rs"
    using assms(2,3) by (simp add: filter_id_conv)
  show ?thesis
  proof (cases "rs = []")
    case False
    then have "latest_by ps_date (filter (\<lambda>r. ps_portfolio_id r = p \<and> ps_date r < d) (snapshots db) @ rs) = rs"
      by (rule latest_by_append) (use assms(2) in auto)
    then show ?thesis using False by (simp add: opening_snapshot_def assms(1) old new)
  qed (simp add: opening_snapshot_def assms(1) old)
qed

lemma update_new: "k \<notin> fst ` set d \<Longrightarrow> AList.update k v d = d @ [(k, v)]"
  by (induction d) auto

lemma dict_of_wf:
  assumes "dict_wf ps"
  shows "dict_of ps = ps"
proof -
  have "dict_wf (d @ ps) \<Longrightarrow> fold (\<lambda>(k, v) d. AList.update k v d) ps d = d @ ps" for d
  proof (induction ps arbitrary: d)
    case (Cons x ps)
    obtain k v where x: "x = (k, v)" by fastforce
    have "AList.update k v d = d @ [(k, v)]" using Cons.prems by (intro update_new) (auto simp: dict_wf_def x)
    then show ?case using Cons.IH [of "d @ [x]"] Cons.prems by (simp add: x)
  qed simp
  from this [of "[]"] show ?thesis using assms by (simp add: dict_of_def)
qed

definition holding :: "positions \<Rightarrow> int \<times> string \<Rightarrow> (int \<times> rat) option" where
  "holding ps k = map_option (\<lambda>p. (sp_shares p, sp_avg_cost p)) (map_of ps k)"

lemma opening_of_closing:
  assumes "long_plan pl"
  shows "holding (opening_positions (closing_rows pf d i pl)) k = holding (pl_positions pl) k"
proof -
  obtain f where f: "closing_rows pf d i pl = map f (pl_positions pl)"
    "\<And>x. x \<in> set (pl_positions pl) \<Longrightarrow> ps_deployment_id (f x) = Some (fst (fst x)) \<and> ps_code (f x) = snd (fst x) \<and>
       ps_shares (f x) = sp_shares (snd x) \<and> ps_avg_cost (f x) = sp_avg_cost (snd x)"
    by (rule closing_rows_map [OF assms, of pf d i]) auto
  define g where "g x = (fst x, \<lparr>sp_shares = sp_shares (snd x), sp_avg_cost = sp_avg_cost (snd x), sp_close_price = ps_close_price (f x)\<rparr>)"
    for x
  have pos: "0 < sp_shares (snd x)" if "x \<in> set (pl_positions pl)" for x
    using assms that by (cases x) (auto simp: long_plan_def long_positions_def dict_wf_def)
  have "opening_positions (closing_rows pf d i pl) = dict_of (map g (pl_positions pl))"
    unfolding opening_positions_def f(1) map_filter_of_map
    by (subst map_filter_all) (use f(2) pos in \<open>auto simp: g_def cong: map_cong\<close>)
  also have "\<dots> = map g (pl_positions pl)"
    using assms by (intro dict_of_wf) (auto simp: long_plan_def long_positions_def dict_wf_def comp_def g_def)
  also have "holding (map g ps) k = holding ps k" for ps by (induction ps) (auto simp: holding_def g_def)
  finally show ?thesis .
qed

text \<open>
  C11. The account carries over. A day that ends with at least one position closes and re-opens the
  same account: after its writes, a run of any later day before which nothing else is recorded opens
  with exactly the shares and average costs of every position the day ended with, and with the cash it
  ended with.
\<close>

theorem holdings_carry_over:
  assumes "plan_portfolio E db u i d pf = Inr (rows, pl)" and "publish_plan E i d pf (rows, pl) db = Inr (db', rep)"
    and "rows \<noteq> []" and "pl_positions pl \<noteq> []" and "d < d'"
    and "\<forall>r\<in>set (snapshots db). 0 < ps_close_price r \<and> (ps_portfolio_id r = pf_id pf \<longrightarrow> ps_date r < d)"
  shows "holding (opening_positions (opening_snapshot (pf_id pf) d' db')) k = holding (pl_positions pl) k \<and>
    (\<forall>q\<in>set (portfolios db'). pf_id q = pf_id pf \<longrightarrow> opening_cash q (opening_snapshot (pf_id pf) d' db') = pl_cash pl)"
proof
  have lp: "long_plan pl" using plan_portfolio_long [OF assms(1)] assms(6) by blast
  obtain f where f: "closing_rows pf d i pl = map f (pl_positions pl)"
    "\<And>x. x \<in> set (pl_positions pl) \<Longrightarrow> ps_portfolio_id (f x) = pf_id pf \<and> ps_date (f x) = d"
    by (rule closing_rows_map [OF lp, of pf d i]) auto
  have hist: "\<forall>r\<in>set (snapshots db). ps_portfolio_id r = pf_id pf \<longrightarrow> ps_date r < d" using assms(6) by blast
  have "\<forall>r\<in>set (closing_rows pf d i pl). ps_portfolio_id r = pf_id pf \<and> ps_date r = d" using f by simp
  from opening_after [OF publish_appends_snapshots [OF assms(2,3) lp hist] this assms(5) hist]
  have "opening_snapshot (pf_id pf) d' db' = closing_rows pf d i pl" using assms(4) f(1) by simp
  then show "holding (opening_positions (opening_snapshot (pf_id pf) d' db')) k = holding (pl_positions pl) k"
    by (simp add: opening_of_closing [OF lp])
  show "\<forall>q\<in>set (portfolios db'). pf_id q = pf_id pf \<longrightarrow> opening_cash q (opening_snapshot (pf_id pf) d' db') = pl_cash pl"
    unfolding publish_plan_account(2) [OF assms(2,3)] by (auto simp: in_sql_update opening_cash_def)
qed

text \<open>
  The other case is a defect: a day that sells the last position writes no snapshot, so a later day
  opens with the holdings from before the sale while the cash already has the proceeds.
\<close>

theorem sold_out_holdings_reappear:
  assumes "plan_portfolio E db u i d pf = Inr (rows, pl)" and "publish_plan E i d pf (rows, pl) db = Inr (db', rep)"
    and "rows \<noteq> []" and "pl_positions pl = []" and "d < d'"
    and "\<forall>r\<in>set (snapshots db). ps_portfolio_id r = pf_id pf \<longrightarrow> ps_date r < d"
  shows "opening_snapshot (pf_id pf) d' db' = opening_snapshot (pf_id pf) d db \<and>
    (\<forall>q\<in>set (portfolios db'). pf_id q = pf_id pf \<longrightarrow> opening_cash q (opening_snapshot (pf_id pf) d' db') = pl_cash pl)"
proof -
  have "snapshots db' = snapshots db @ []"
    using publish_plan_account(1) [OF assms(2,3)] assms(4) by (simp add: closing_rows_def)
  from opening_after [OF this _ assms(5,6)] show ?thesis
    unfolding publish_plan_account(2) [OF assms(2,3)] by (auto simp: in_sql_update opening_cash_def)
qed

subsection \<open>Signals do not look ahead\<close>

lemma sessions_before:
  assumes "run_sessions tp d = Inr (sd, today)" and "sorted_wrt (<) (map fst tp)"
  shows "filter (\<lambda>(day, r). day \<le> sd) tp = filter (\<lambda>(day, r). day < d) tp" and "sd = last (map fst (filter (\<lambda>(day, r). day < d) tp))"
    and "sd < d"
proof -
  obtain row where d: "(d, row) \<in> set tp"
    using assms(1) by (auto simp: run_sessions_def Let_def dest: map_of_SomeD split: if_splits option.splits)
  then obtain xs ys where tp: "tp = xs @ (d, row) # ys" by (auto simp: in_set_conv_decomp)
  have before: "\<forall>x\<in>set xs. fst x < d" and after: "\<forall>y\<in>set ys. d < fst y"
    using assms(2) by (auto simp: tp sorted_wrt_append)
  have avail: "filter (\<lambda>x. x \<le> d) (map fst tp) = map fst xs @ [d]"
    using before after by (auto simp: tp filter_id_conv filter_empty_conv not_le intro: less_imp_le)
  have early: "filter (\<lambda>(day, r). day < d) tp = xs"
    using before after by (auto simp: tp filter_id_conv filter_empty_conv not_less case_prod_beta intro: less_imp_le)
  have sd: "sd = (map fst xs @ [d]) ! (length xs - 1)" and ne: "xs \<noteq> []"
    using assms(1) by (auto simp: run_sessions_def Let_def avail [simplified] split: if_splits option.splits)
  then have sd: "sd = fst (last xs)" by (simp add: nth_append last_conv_nth)
  then show "sd = last (map fst (filter (\<lambda>(day, r). day < d) tp))" using ne by (simp add: early last_map)
  show less: "sd < d" using before ne by (simp add: sd)
  have "fst x \<le> sd" if "x \<in> set xs" for x
  proof -
    have "sorted (map fst xs)" using assms(2) by (simp add: tp sorted_wrt_append strict_sorted_imp_sorted)
    then show ?thesis using that ne unfolding sd by (auto simp: sorted_append dest!: split_list split: if_splits)
  qed
  then show "filter (\<lambda>(day, r). day \<le> sd) tp = filter (\<lambda>(day, r). day < d) tp"
    unfolding early using after less by (auto simp: tp filter_id_conv filter_empty_conv not_le case_prod_beta)
qed

lemma trade_deployment_signals:
  assumes "trade_deployment E db i d pf eq row pl = Inr pl'"
  obtains tp sd today sbd where "sim_tape E (fst row) d = Inr tp" "run_sessions tp d = Inr (sd, today)"
    "sim_signals E (fst row) (filter (\<lambda>(day, r). day \<le> sd) tp) sd = Inr sbd"
    "pl_signals pl' = pl_signals pl @ map (signal_row_of (dp_id (fst row)) sd i) (dict_get sbd sd [])"
  using assms by (auto simp: trade_deployment_def rbind_Inr_conv Let_def split: prod.splits option.splits)

text \<open>The tapes of two markets that agree before a day.\<close>

definition same_past :: "string \<Rightarrow> ('a sim_env_scheme) \<Rightarrow> ('a sim_env_scheme) \<Rightarrow> bool" where
  "same_past d E E' =
     (\<forall>x tp tp'. sim_tape E x d = Inr tp \<longrightarrow> sim_tape E' x d = Inr tp' \<longrightarrow>
        sorted_wrt (<) (map fst tp) \<and> sorted_wrt (<) (map fst tp') \<and>
        filter (\<lambda>(day, r). day < d) tp = filter (\<lambda>(day, r). day < d) tp')"

definition same_signals :: "string \<Rightarrow> plan \<Rightarrow> plan \<Rightarrow> bool" where
  "same_signals d pl pl' = (pl_signals pl' = pl_signals pl \<and> (\<forall>r\<in>set (pl_signals pl). ds_date r < d))"

lemma trade_deployment_same_past:
  assumes "trade_deployment E db i d pf eq row pl = Inr pl1" and "trade_deployment E' db i d pf eq row pl' = Inr pl1'"
    and "same_past d E E'" and "sim_signals E' = sim_signals E" and "same_signals d pl pl'"
  shows "same_signals d pl1 pl1'"
proof -
  from assms(1) obtain tp sd today sbd where 1: "sim_tape E (fst row) d = Inr tp" "run_sessions tp d = Inr (sd, today)"
    "sim_signals E (fst row) (filter (\<lambda>(day, r). day \<le> sd) tp) sd = Inr sbd"
    "pl_signals pl1 = pl_signals pl @ map (signal_row_of (dp_id (fst row)) sd i) (dict_get sbd sd [])"
    by (rule trade_deployment_signals)
  from assms(2) obtain tp' sd' today' sbd' where 2: "sim_tape E' (fst row) d = Inr tp'" "run_sessions tp' d = Inr (sd', today')"
    "sim_signals E' (fst row) (filter (\<lambda>(day, r). day \<le> sd') tp') sd' = Inr sbd'"
    "pl_signals pl1' = pl_signals pl' @ map (signal_row_of (dp_id (fst row)) sd' i) (dict_get sbd' sd' [])"
    by (rule trade_deployment_signals)
  have past: "sorted_wrt (<) (map fst tp)" "sorted_wrt (<) (map fst tp')"
    "filter (\<lambda>(day, r). day < d) tp = filter (\<lambda>(day, r). day < d) tp'"
    using assms(3) 1(1) 2(1) unfolding same_past_def by blast+
  have "sd' = sd" using sessions_before(2) [OF 1(2) past(1)] sessions_before(2) [OF 2(2) past(2)] past(3) by simp
  moreover have "sbd' = sbd"
    using 1(3) 2(3) sessions_before(1) [OF 1(2) past(1)] sessions_before(1) [OF 2(2) past(2)] past(3) calculation assms(4) by simp
  ultimately show ?thesis
    using 1(4) 2(4) assms(5) sessions_before(3) [OF 1(2) past(1)] by (auto simp: same_signals_def signal_row_of_def)
qed

lemma trade_all_same_past:
  assumes "rfold (trade_deployment E db i d pf eq) rows pl = Inr pl1" and "rfold (trade_deployment E' db i d pf eq) rows pl' = Inr pl1'"
    and "same_past d E E'" and "sim_signals E' = sim_signals E" and "same_signals d pl pl'"
  shows "same_signals d pl1 pl1'"
  using assms(1,2,5)
proof (induction rows arbitrary: pl pl')
  case (Cons row rows)
  then obtain m m' where "trade_deployment E db i d pf eq row pl = Inr m" "rfold (trade_deployment E db i d pf eq) rows m = Inr pl1"
    "trade_deployment E' db i d pf eq row pl' = Inr m'" "rfold (trade_deployment E' db i d pf eq) rows m' = Inr pl1'"
    by (auto simp: rbind_Inr_conv)
  then show ?case using Cons.IH Cons.prems(3) trade_deployment_same_past [OF _ _ assms(3,4)] by blast
qed simp

lemma json_list_tape: "json_list (E\<lparr>sim_tape := t\<rparr>) = json_list E"
  by (rule ext) (simp add: json_list_def)

lemma allocation_rows_tape [simp]: "allocation_rows (E\<lparr>sim_tape := t\<rparr>) db u pf = allocation_rows E db u pf"
  unfolding allocation_rows_def json_list_tape ..

text \<open>
  Signals do not look ahead. On a tape in date order, the signals a run of a day trades on are dated
  before that day and are the same for any two markets that agree on the days before it: neither the
  prices it trades at nor any later ones can influence them.
\<close>

theorem signals_do_not_look_ahead:
  assumes "plan_portfolio E db u i d pf = Inr (rows, pl)" and "plan_portfolio (E\<lparr>sim_tape := tape'\<rparr>) db u i d pf = Inr (rows', pl')"
    and "same_past d E (E\<lparr>sim_tape := tape'\<rparr>)"
  shows "pl_signals pl' = pl_signals pl \<and> (\<forall>r\<in>set (pl_signals pl). ds_date r < d)"
proof -
  let ?open = "opening_snapshot (pf_id pf) d db"
  obtain eq where "rfold (trade_deployment E db i d pf eq) rows
      \<lparr>pl_cash = opening_cash pf ?open, pl_positions = opening_positions ?open, pl_orders = [], pl_signals = [],
       pl_latest_prices = [], pl_states = []\<rparr> = Inr pl"
    "rfold (trade_deployment (E\<lparr>sim_tape := tape'\<rparr>) db i d pf eq) rows
      \<lparr>pl_cash = opening_cash pf ?open, pl_positions = opening_positions ?open, pl_orders = [], pl_signals = [],
       pl_latest_prices = [], pl_states = []\<rparr> = Inr pl'"
    using assms(1,2) by (auto simp: plan_portfolio_def rbind_Inr_conv Let_def)
  from trade_all_same_past [OF this assms(3)] show ?thesis by (simp add: same_signals_def)
qed

subsection \<open>Retries, resets and replays\<close>

text \<open>
  A day is refused after a later one was completed, but only when it is requested for the first time:
  a day that failed before is taken up again, and then trades with the cash of the later day.
\<close>

theorem failed_day_is_retried_out_of_order:
  assumes "sim_ok db" and "r \<in> set (simulation_runs db)" and "sr_key r = run_key u p d" and "sr_status r = Run_failed"
    and "q \<in> set (latest_completed u p db)" and "d < sr_trade_date q" and "e < sr_trade_date q"
    and "\<forall>x\<in>set (simulation_runs db). sr_key x \<noteq> run_key u p e"
  shows "(\<exists>db'. begin_run E now i token u p d db = Inr (db', Claimed (sr_id r))) \<and>
    begin_run E now i token u p e db = Inl (ValueError ''cannot backfill before a completed trade date'')"
proof -
  have "find (\<lambda>x. sr_key x = run_key u p d) (simulation_runs db) = Some r"
    using run_by_key [OF assms(1,2)] assms(3) by simp
  moreover have "simulation_side_effect_count (sr_id r) db = 0" using assms(1,2,4) by (simp add: sim_ok_def)
  moreover have "find (\<lambda>x. sr_key x = run_key u p e) (simulation_runs db) = None"
    using assms(8) by (auto simp: find_None_iff)
  moreover have "list_ex (\<lambda>r. e < sr_trade_date r) (latest_completed u p db)"
    using assms(5,7) by (auto simp: list_ex_iff)
  ultimately show ?thesis using assms(4) by (simp add: begin_run_def)
qed

text \<open>
  A reset is local. It removes every order, snapshot, net asset value and run of the portfolio and
  gives it its whole capital back, so that any day opens with the full cash and no position; rows of
  other portfolios, the signals, deployments and allocations stay as they were.
\<close>

theorem reset_is_local:
  assumes "reset_portfolio_simulation u p db = Inr db'"
  shows "opening_snapshot p d db' = [] \<and> latest_completed u p db' = [] \<and>
    (\<forall>q\<in>set (portfolios db'). pf_id q = p \<and> pf_user_id q = u \<longrightarrow> opening_cash q (opening_snapshot p d db') = pf_total_capital q) \<and>
    sim_orders db' = filter (\<lambda>r. so_portfolio_id r \<noteq> p) (sim_orders db) \<and>
    filter (\<lambda>r. ps_portfolio_id r \<noteq> p) (snapshots db') = filter (\<lambda>r. ps_portfolio_id r \<noteq> p) (snapshots db) \<and>
    filter (\<lambda>r. nh_portfolio_id r \<noteq> p) (nav_history db') = filter (\<lambda>r. nh_portfolio_id r \<noteq> p) (nav_history db) \<and>
    filter (\<lambda>r. sn_portfolio_id r \<noteq> p) (strategy_nav_history db') = filter (\<lambda>r. sn_portfolio_id r \<noteq> p) (strategy_nav_history db) \<and>
    filter (\<lambda>r. sr_portfolio_id r \<noteq> Some p) (simulation_runs db') = filter (\<lambda>r. sr_portfolio_id r \<noteq> Some p) (simulation_runs db) \<and>
    filter (\<lambda>q. pf_id q \<noteq> p) (portfolios db') = filter (\<lambda>q. pf_id q \<noteq> p) (portfolios db) \<and>
    daily_signals db' = daily_signals db \<and> deployments db' = deployments db \<and> portfolio_allocations db' = portfolio_allocations db"
proof -
  have upd: "filter (\<lambda>q. pf_id q \<noteq> p) (sql_update (\<lambda>q. pf_id q = p \<and> pf_user_id q = u) f ps) = filter (\<lambda>q. pf_id q \<noteq> p) ps"
    if "\<And>q. pf_id (f q) = pf_id q" for f ps
    using that by (induction ps) (auto simp: sql_update_def)
  have runs: "filter (\<lambda>r. sr_portfolio_id r \<noteq> Some p) (sql_delete (\<lambda>r. sr_user_id r = u \<and> sr_portfolio_id r = Some p) rs) =
      filter (\<lambda>r. sr_portfolio_id r \<noteq> Some p) rs" for rs
    by (induction rs) (auto simp: sql_delete_def)
  have db': "db' = db\<lparr>sim_orders := sql_delete (\<lambda>r. so_portfolio_id r = p) (sim_orders db),
      snapshots := sql_delete (\<lambda>r. ps_portfolio_id r = p) (snapshots db),
      nav_history := sql_delete (\<lambda>r. nh_portfolio_id r = p) (nav_history db),
      strategy_nav_history := sql_delete (\<lambda>r. sn_portfolio_id r = p) (strategy_nav_history db),
      simulation_runs := sql_delete (\<lambda>r. sr_user_id r = u \<and> sr_portfolio_id r = Some p) (simulation_runs db),
      portfolios := sql_update (\<lambda>q. pf_id q = p \<and> pf_user_id q = u) (\<lambda>q. q\<lparr>pf_cash_balance := Some (pf_total_capital q)\<rparr>) (portfolios db)\<rparr>"
    using assms by (simp add: reset_portfolio_simulation_def split: if_splits)
  have closed: "opening_snapshot p d db' = []" "latest_completed u p db' = []"
    unfolding db' by (simp_all add: opening_snapshot_def latest_by_def latest_completed_def sql_delete_def filter_empty_conv)
  have cash: "opening_cash q rows = pf_total_capital q" if mem: "q \<in> set (portfolios db')" and own: "pf_id q = p \<and> pf_user_id q = u" for q rows
  proof -
    have "portfolios db' = sql_update (\<lambda>q. pf_id q = p \<and> pf_user_id q = u) (\<lambda>q. q\<lparr>pf_cash_balance := Some (pf_total_capital q)\<rparr>) (portfolios db)"
      by (simp add: db')
    then obtain q0 where q: "q = (if pf_id q0 = p \<and> pf_user_id q0 = u then q0\<lparr>pf_cash_balance := Some (pf_total_capital q0)\<rparr> else q0)"
      using mem by (auto simp only: in_sql_update)
    show ?thesis
    proof (cases "pf_id q0 = p \<and> pf_user_id q0 = u")
      case True
      then have "q = q0\<lparr>pf_cash_balance := Some (pf_total_capital q0)\<rparr>" using q by metis
      then show ?thesis by (simp add: opening_cash_def)
    next
      case False
      then have "q = q0" using q by metis
      with False own show ?thesis by blast
    qed
  qed
  show ?thesis
    by (intro conjI ballI impI closed cash) (simp_all add: db' upd runs, simp_all add: sql_delete_def)
qed

text \<open>What a sequence of runs keeps of the completed ones.\<close>

definition runs_ok :: "sim_run list \<Rightarrow> bool" where
  "runs_ok rs = (distinct (map sr_id rs) \<and> distinct (map sr_key rs))"

definition runs_kept :: "sim_db \<Rightarrow> sim_db \<Rightarrow> bool" where
  "runs_kept db db' =
     (runs_ok (simulation_runs db) \<longrightarrow> runs_ok (simulation_runs db') \<and>
        (\<forall>r\<in>set (simulation_runs db). sr_status r = Run_completed \<longrightarrow> r \<in> set (simulation_runs db')))"

definition day_completed :: "int \<Rightarrow> int \<Rightarrow> string \<Rightarrow> sim_db \<Rightarrow> bool" where
  "day_completed u p d db = (\<exists>r\<in>set (simulation_runs db). sr_key r = run_key u p d \<and> sr_status r = Run_completed)"

lemma runs_kept_trans: "runs_kept a b \<Longrightarrow> runs_kept b c \<Longrightarrow> runs_kept a c"
  by (auto simp: runs_kept_def)

lemma runs_kept_refl [simp]: "runs_kept a a"
  by (simp add: runs_kept_def)

lemma day_completed_kept: "day_completed u p d a \<Longrightarrow> runs_kept a b \<Longrightarrow> runs_ok (simulation_runs a) \<Longrightarrow> day_completed u p d b"
  by (auto simp: day_completed_def runs_kept_def)

lemma runs_kept_update:
  assumes "simulation_runs db' = sql_update q f (simulation_runs db)" and "\<And>r. sr_id (f r) = sr_id r \<and> sr_key (f r) = sr_key r"
    and "\<And>r. runs_ok (simulation_runs db) \<Longrightarrow> r \<in> set (simulation_runs db) \<Longrightarrow> q r \<Longrightarrow> sr_status r \<noteq> Run_completed"
  shows "runs_kept db db'"
proof -
  have "map sr_id (simulation_runs db') = map sr_id (simulation_runs db)" "map sr_key (simulation_runs db') = map sr_key (simulation_runs db)"
    using assms(1,2) by (simp_all add: map_sql_update)
  then show ?thesis
    using assms(1,3) by (auto simp: runs_kept_def runs_ok_def in_sql_update intro!: bexI)
qed

lemma unique_run:
  assumes "runs_ok rs" and "q \<in> set rs" and "r \<in> set rs" and "sr_id q = sr_id r"
  shows "q = r"
  using assms inj_onD [of sr_id "set rs" q r] by (auto simp: runs_ok_def distinct_map)

lemma begin_run_kept:
  assumes "begin_run E now i token u p d db = Inr (db', b)"
  shows "runs_kept db db'"
proof (cases "find (\<lambda>r. sr_key r = run_key u p d) (simulation_runs db)")
  case None
  then have "run_key u p d \<notin> sr_key ` set (simulation_runs db)" by (auto simp: find_None_iff)
  then show ?thesis
    using assms None by (auto simp: begin_run_def Let_def runs_kept_def runs_ok_def list_ex_iff split: if_splits)
next
  case (Some x)
  then have x: "x \<in> set (simulation_runs db)" by (blast dest: find_Some_mem)
  show ?thesis
  proof (cases "sr_status x = Run_completed")
    case True
    then show ?thesis using assms Some by (simp add: begin_run_def)
  next
    case False
    then have "simulation_runs db' = sql_update (\<lambda>r. sr_id r = sr_id x) (reclaim_row E now token) (simulation_runs db)"
      using assms Some by (auto simp: begin_run_def Let_def split: if_splits)
    then show ?thesis
      by (rule runs_kept_update) (use x False in \<open>auto simp: reclaim_row_def dest: unique_run\<close>)
  qed
qed

lemma begin_run_claims:
  assumes "begin_run E now i token u p d db = Inr (db', b)"
  shows "case b of Already su \<Rightarrow> day_completed u p d db'
    | Claimed j \<Rightarrow> \<exists>r\<in>set (simulation_runs db'). sr_id r = j \<and> sr_key r = run_key u p d"
proof (cases "find (\<lambda>r. sr_key r = run_key u p d) (simulation_runs db)")
  case None
  then show ?thesis using assms by (auto simp: begin_run_def Let_def split: if_splits)
next
  case (Some x)
  then have x: "x \<in> set (simulation_runs db)" "sr_key x = run_key u p d" by (blast dest: find_Some_mem)+
  then have "reclaim_row E now token x \<in> set (sql_update (\<lambda>r. sr_id r = sr_id x) (reclaim_row E now token) (simulation_runs db))"
    by (auto simp: in_sql_update)
  moreover have "sr_id (reclaim_row E now token x) = sr_id x" "sr_key (reclaim_row E now token x) = sr_key x"
    by (simp_all add: reclaim_row_def)
  ultimately show ?thesis
    using assms Some x by (auto simp: begin_run_def Let_def day_completed_def split: if_splits)
qed

lemma commit_run_kept:
  assumes "commit_run E now i token d' pf rp db = Inr (db', su)"
  shows "runs_kept db db'"
  using assms
proof (cases rule: commit_run_cases)
  case (1 db1 rep)
  show ?thesis
    by (rule runs_kept_update [where q = "owns_run i token" and f = "finish_row now su"]) (auto simp: 1(4) finish_row_def owns_run_def)
qed

lemma commit_run_completes:
  assumes "commit_run E now i token d' pf rp db = Inr (db', su)" and "runs_ok (simulation_runs db)"
    and "r \<in> set (simulation_runs db)" and "sr_id r = i" and "sr_key r = run_key u p d"
  shows "day_completed u p d db'"
  using assms(1)
proof (cases rule: commit_run_cases)
  case (1 db1 rep)
  obtain x where x: "x \<in> set (simulation_runs db)" "owns_run i token x"
    using 1(3) by (metis filter_empty_conv list.size(3) sql_count_def zero_neq_one)
  then have "x = r" using unique_run [OF assms(2) x(1) assms(3)] assms(4) by (simp add: owns_run_def)
  then show ?thesis
    using x assms(5) unfolding 1(4) day_completed_def
    by (intro bexI [of _ "finish_row now su x"]) (auto simp: finish_row_def in_sql_update)
qed

lemma fail_run_kept: "runs_kept db (fail_run now i token e db)"
  by (rule runs_kept_update [where q = "owns_run i token" and f = "fail_row now e"]) (auto simp: fail_run_def fail_row_def owns_run_def)

lemma run_daily_kept:
  assumes "run_daily_simulation E ts i token u p d db = (db', res)"
  shows "runs_kept db db' \<and> (runs_ok (simulation_runs db) \<longrightarrow> res = Inr su \<longrightarrow> day_completed u p d db')"
proof (cases "begin_run E (ts 0) i token u p d db")
  case (Inl e)
  then show ?thesis using assms by (auto simp: run_daily_simulation_def split: sum.splits)
next
  case (Inr x)
  obtain db1 b where x: "x = (db1, b)" by fastforce
  note kept = begin_run_kept [OF Inr [unfolded x]] and claims = begin_run_claims [OF Inr [unfolded x]]
  show ?thesis
  proof (cases "res = Inr su \<or> db' \<noteq> db")
    case False
    then show ?thesis by simp
  next
    case True
    consider (already) s where "b = Already s" "db' = db1"
      | (failed) j e where "db' = fail_run (ts 2) j token e db1" "res = Inl e"
      | (fin) j pf rp s where "b = Claimed j" "commit_run E (ts 1) j token d pf rp db1 = Inr (db', s)"
      using assms True Inr x by (auto simp: run_daily_simulation_def rbind_def split: sum.splits begun.splits prod.splits)
    then show ?thesis
    proof cases
      case already
      then show ?thesis using kept claims by simp
    next
      case failed
      then show ?thesis using runs_kept_trans [OF kept fail_run_kept] by simp
    next
      case fin
      have "runs_ok (simulation_runs db1)" if "runs_ok (simulation_runs db)" using kept that by (simp add: runs_kept_def)
      then show ?thesis
        using runs_kept_trans [OF kept commit_run_kept [OF fin(2)]] commit_run_completes [OF fin(2)] claims fin(1) by auto
    qed
  qed
qed

lemma replay_completes:
  assumes "run_sequence (replay_day E ts ids u (Some p)) n ds db = (db', Inr rs)" and "runs_ok (simulation_runs db)"
  shows "runs_kept db db' \<and> (\<forall>d\<in>set ds. day_completed u p d db')"
  using assms
proof (induction ds arbitrary: n db rs)
  case (Cons d ds)
  obtain db1 res where run: "run_daily_simulation E (ts n 0) (fst (ids n 0)) (snd (ids n 0)) u p d db = (db1, res)" by fastforce
  then obtain su rs' where su: "res = Inr su" and rest: "run_sequence (replay_day E ts ids u (Some p)) (n + 1) ds db1 = (db', Inr rs')"
    using Cons.prems(1) by (auto simp: replay_day_def [of E ts ids u "Some p" n d db] sbind_def split: sum.splits prod.splits)
  have 1: "runs_kept db db1" "day_completed u p d db1"
    using run_daily_kept [OF run, of su] Cons.prems(2) su by simp_all
  then have ok: "runs_ok (simulation_runs db1)" using Cons.prems(2) by (simp add: runs_kept_def)
  from Cons.IH [OF rest ok] show ?case
    using 1 ok runs_kept_trans day_completed_kept by (metis set_ConsD)
qed simp

text \<open>
  C36. A replay is chronological and complete. The days of a replay are ascending trading days of the
  requested range, at most 750, and when a replay of a portfolio reports success, every one of them
  has a completed run of that portfolio.
\<close>

theorem replay_completes_every_day:
  assumes "run_simulation_backfill E ts ids u from_d to_d (Some p) restart db = (db', Inr rep)"
    and "runs_ok (simulation_runs db)" and "simulation_pool_bindings E u (Some p) db = Inr bindings"
  shows "let ds = replay_dates E from_d to_d bindings in
    sorted_wrt (<) ds \<and> set ds \<subseteq> {from_d..to_d} \<and> rr_trading_days rep = length ds \<and> 0 < length ds \<and> length ds \<le> 750 \<and>
    (\<forall>d\<in>set ds. day_completed u p d db')"
proof -
  let ?ds = "replay_dates E from_d to_d bindings"
  have dates: "sorted_wrt (<) ?ds" "set ?ds \<subseteq> {from_d..to_d}"
    by (auto simp: replay_dates_def strict_sorted_iff split: list.splits)
  obtain db1 rs where "run_sequence (replay_day E ts ids u (Some p)) 0 ?ds db1 = (db', Inr rs)"
    "db1 = db \<or> reset_portfolio_simulation u p db = Inr db1" "?ds \<noteq> []" "length ?ds \<le> 750" "rr_trading_days rep = length ?ds"
    using assms(1,3) by (auto simp: run_simulation_backfill_def Let_def sbind_def split: if_splits sum.splits prod.splits)
  moreover have "runs_ok (simulation_runs db1)"
    using assms(2) calculation(2) by (auto simp: reset_portfolio_simulation_def runs_ok_def sql_delete_def distinct_map_filter split: if_splits)
  ultimately show ?thesis using dates replay_completes by (simp add: Let_def) blast
qed

subsection \<open>The properties at concrete inputs\<close>

lemma demo_snapshots: "snapshots demo_begun = [demo_snapshot]" "0 < ps_close_price demo_snapshot" "ps_date demo_snapshot < ''2024-01-03''"
  by (simp_all add: demo_begun_def demo_sim_db_def demo_snapshot_def)

theorem plan_stays_long_witness:
  "\<exists>rows pl. plan_portfolio demo_sell_env demo_begun 7 ''r'' ''2024-01-03'' demo_portfolio = Inr (rows, pl) \<and> length (pl_orders pl) = 1 \<and>
     (\<forall>r\<in>set (pl_orders pl). so_status r = Filled \<longrightarrow> 0 < so_price r \<and> 0 < so_shares r)"
proof -
  obtain rows pl where p: "plan_portfolio demo_sell_env demo_begun 7 ''r'' ''2024-01-03'' demo_portfolio = Inr (rows, pl)"
    "map so_shares (pl_orders pl) = [200]"
    by (rule demo_sell_plan)
  from p(2) have "length (pl_orders pl) = 1" by (cases "pl_orders pl") auto
  moreover have "\<forall>r\<in>set (snapshots demo_begun). 0 < ps_close_price r" by (simp add: demo_snapshots)
  ultimately show ?thesis using p(1) plan_stays_long [OF p(1)] by blast
qed

theorem holdings_carry_over_witness:
  "\<exists>db' rep. publish_plan demo_env ''r'' ''2024-01-03'' demo_portfolio ([(demo_deployment, 10000)], demo_plan) demo_begun = Inr (db', rep) \<and>
     holding (opening_positions (opening_snapshot (pf_id demo_portfolio) ''2024-01-04'' db')) (4, ''A'') = Some (200, 9)"
proof -
  obtain db' rep where p: "publish_plan demo_env ''r'' ''2024-01-03'' demo_portfolio ([(demo_deployment, 10000)], demo_plan) demo_begun = Inr (db', rep)"
    using demo_published by blast
  have "holding (pl_positions demo_plan) (4, ''A'') = Some (200, 9)" "pl_positions demo_plan \<noteq> []"
    by (simp_all add: holding_def demo_plan_def)
  then show ?thesis
    using p holdings_carry_over [OF demo_planned p, of "''2024-01-04''" "(4, ''A'')"] demo_snapshots by simp
qed

theorem signals_do_not_look_ahead_witness:
  "\<exists>rows pl rows' pl'. plan_portfolio demo_sell_env demo_begun 7 ''r'' ''2024-01-03'' demo_portfolio = Inr (rows, pl) \<and>
     plan_portfolio (demo_sell_env\<lparr>sim_tape := (\<lambda>x d. Inr demo_halted_tape)\<rparr>) demo_begun 7 ''r'' ''2024-01-03'' demo_portfolio = Inr (rows', pl') \<and>
     length (pl_signals pl) = 1 \<and> pl_signals pl' = pl_signals pl"
proof -
  obtain rows pl where p: "plan_portfolio demo_sell_env demo_begun 7 ''r'' ''2024-01-03'' demo_portfolio = Inr (rows, pl)"
    "length (pl_signals pl) = 1"
    by (rule demo_sell_plan)
  obtain rows' pl' where p': "plan_portfolio (demo_sell_env\<lparr>sim_tape := (\<lambda>x d. Inr demo_halted_tape)\<rparr>) demo_begun 7 ''r'' ''2024-01-03'' demo_portfolio = Inr (rows', pl')"
    using demo_halted by (auto split: sum.splits)
  have "same_past ''2024-01-03'' demo_sell_env (demo_sell_env\<lparr>sim_tape := (\<lambda>x d. Inr demo_halted_tape)\<rparr>)"
    by (simp add: same_past_def demo_sell_env_def demo_env_def demo_tape_def demo_halted_tape_def)
  from signals_do_not_look_ahead [OF p(1) p' this] p p' show ?thesis by blast
qed

theorem reset_is_local_witness:
  "\<exists>db'. reset_portfolio_simulation 7 1 demo_begun = Inr db' \<and> opening_snapshot 1 ''2024-01-03'' db' = []"
proof -
  obtain db' where r: "reset_portfolio_simulation 7 1 demo_begun = Inr db'"
    by (simp add: reset_portfolio_simulation_def demo_begun_def demo_sim_db_def demo_portfolio_def)
  with reset_is_local [OF r, of "''2024-01-03''"] show ?thesis by blast
qed

theorem replay_completes_every_day_witness:
  "\<exists>db' rep. run_simulation_backfill demo_env (\<lambda>i j. int) (\<lambda>i j. (''r'', ''t'')) 7 ''2024-01-03'' ''2024-01-05'' (Some 1) False demo_sim_db = (db', Inr rep) \<and>
     rr_trading_days rep = 1 \<and> day_completed 7 1 ''2024-01-03'' db'"
proof -
  obtain db su where c: "commit_run demo_env 1 ''r'' ''t'' ''2024-01-03'' demo_portfolio ([(demo_deployment, 10000)], demo_plan) demo_begun = Inr (db, su)"
    by (rule demo_committed)
  have ready: "sim_ready demo_env xs d = Inr ()" for xs d by (simp add: demo_env_def)
  have "run_daily_simulation demo_env int ''r'' ''t'' 7 1 ''2024-01-03'' demo_sim_db = (db, Inr (Some su))"
    by (simp add: run_daily_simulation_def demo_deployments ready demo_begin demo_plan_run c)
  then have "run_simulation_backfill demo_env (\<lambda>i j. int) (\<lambda>i j. (''r'', ''t'')) 7 ''2024-01-03'' ''2024-01-05'' (Some 1) False demo_sim_db =
      (db, Inr \<lparr>rr_start_date = ''2024-01-03'', rr_end_date = ''2024-01-03'', rr_trading_days = 1, rr_restarted = False\<rparr>)"
    by (simp add: run_simulation_backfill_def demo_bindings demo_dates replay_day_def sbind_def)
  note run = this
  have "runs_ok (simulation_runs demo_sim_db)" by (simp add: runs_ok_def demo_sim_db_def)
  from replay_completes_every_day [OF run this demo_bindings] run show ?thesis by (simp add: demo_dates)
qed

end
