(* ===== verification/Alerts.thy ===== *)
theory Alerts
  imports Payload
begin

text \<open>
  Operational alerts: the debounced state of the service objectives
  (\<open>JobBroker.evaluate_slo_alerts\<close> in \<open>backend/jobs/broker.py\<close>) and the outbox that delivers its
  transitions to a webhook (\<open>backend/jobs/alert_delivery.py\<close>).

  The clock is a parameter \<open>t\<close> in microseconds since the epoch, read once per transaction. Both
  modules store whole seconds, whose text order is the order of the numbers. The measurements of the
  objectives (\<open>_get_observability_sync\<close>) are an argument. URL parsing, the address classes of
  \<open>ipaddress\<close> and name resolution are fields of \<open>alert_env\<close>, and what the endpoint answers is a
  function of the request and its position in the batch. The encoding and signing of a request are
  not modelled: a request is the value its body encodes.
\<close>

subsection \<open>Rows\<close>

datatype slo_status = Healthy | Breaching

datatype alert_transition = Breach | Recovery

datatype event_kind = Transition | Escalation

datatype delivery_status =
    Off | Waiting | Sending | Retry_wait | Delivered | Delivery_failed | Acknowledged

datatype delivery_error = Timed_out | Network_error | Http_retryable | Http_rejected | Attempts_exhausted

record slo_row =
  sl_objective :: string
  sl_status :: slo_status
  sl_pending :: "slo_status option"
  sl_count :: int
  sl_last_transition_at :: "int option"
  sl_breach_notified_at :: "int option"
  sl_recovery_notified_at :: "int option"
  sl_updated_at :: int

record alert_event =
  ev_id :: int
  ev_objective :: string
  ev_transition :: alert_transition
  ev_actual :: "pyfloat option"
  ev_threshold :: pyfloat
  ev_window_hours :: int
  ev_notified :: bool
  ev_created_at :: int

record delivery =
  dv_id :: string
  dv_event_id :: int
  dv_kind :: event_kind
  dv_objective :: string
  dv_transition :: alert_transition
  dv_actual :: "pyfloat option"
  dv_threshold :: pyfloat
  dv_window_hours :: int
  dv_status :: delivery_status
  dv_attempt_count :: int
  dv_next_attempt_at :: "int option"
  dv_lease_expires_at :: "int option"
  dv_delivered_at :: "int option"
  dv_acknowledged_at :: "int option"
  dv_escalation_due_at :: "int option"
  dv_escalation_enqueued_at :: "int option"
  dv_last_error :: "delivery_error option"
  dv_created_at :: int
  dv_updated_at :: int

record delivery_attempt =
  da_delivery_id :: string
  da_number :: int
  da_outcome :: delivery_status
  da_http_status :: "int option"
  da_error :: "delivery_error option"
  da_created_at :: int

text \<open>\<open>next_event_id\<close> is the \<open>AUTOINCREMENT\<close> counter of the events.\<close>

record alert_db =
  slo_states :: "slo_row list"
  slo_events :: "alert_event list"
  next_event_id :: int
  deliveries :: "delivery list"
  attempts :: "delivery_attempt list"

record url_parts =
  url_scheme :: string
  url_hostname :: "string option"
  url_username :: "string option"
  url_password :: "string option"
  url_fragment :: string
  url_query_keys :: "string list"

record alert_env =
  ALERT_WEBHOOK_ENABLED :: bool
  ALERT_WEBHOOK_URL :: string
  ALERT_WEBHOOK_SIGNING_SECRET :: string
  ALERT_WEBHOOK_TIMEOUT_SECONDS :: int
  ALERT_WEBHOOK_MAX_ATTEMPTS :: int
  ALERT_WEBHOOK_RETRY_BASE_SECONDS :: int
  ALERT_WEBHOOK_BATCH_SIZE :: int
  ALERT_WEBHOOK_ACK_ESCALATION_SECONDS :: int
  JOB_OBSERVABILITY_RETENTION_HOURS :: int
  JOB_SLO_WINDOW_HOURS :: int
  JOB_SLO_CONFIRMATIONS_REQUIRED :: int
  JOB_SLO_ALERT_COOLDOWN_SECONDS :: int
  urlsplit :: "string \<Rightarrow> url_parts option"
  ip_is_global :: "string \<Rightarrow> bool option"
  getaddrinfo :: "string \<Rightarrow> string list option"
  timestamp_text :: "int \<Rightarrow> string"

definition timestamp_seconds :: "int \<Rightarrow> int" where
  "timestamp_seconds t = t div 1000000"

definition retention_hours :: "('a alert_env_scheme) \<Rightarrow> int" where
  "retention_hours E = max (min (JOB_OBSERVABILITY_RETENTION_HOURS E) (24 * 31)) 1"

definition max_attempts :: "('a alert_env_scheme) \<Rightarrow> int" where
  "max_attempts E = max (min (ALERT_WEBHOOK_MAX_ATTEMPTS E) 10) 1"

subsection \<open>The endpoint\<close>

datatype config_error = Config_disabled | Missing_configuration | Invalid_configuration | Unsafe_endpoint

definition CREDENTIAL_KEYS :: "string list" where
  "CREDENTIAL_KEYS = [''token'', ''secret'', ''password'', ''authorization'', ''apikey'', ''api_key'', ''api-key'']"

definition endswith :: "string \<Rightarrow> string \<Rightarrow> bool" where
  "endswith s suffix = startswith (rev s) (rev suffix)"

text \<open>\<open>None\<close> from the resolver is an \<open>OSError\<close>, \<open>None\<close> from \<open>ip_address\<close> a \<open>ValueError\<close>.\<close>

definition safe_webhook_configuration :: "('a alert_env_scheme) \<Rightarrow> config_error + string" where
  "safe_webhook_configuration E =
     (let endpoint = str_strip (ALERT_WEBHOOK_URL E); secret = ALERT_WEBHOOK_SIGNING_SECRET E in
      if \<not> ALERT_WEBHOOK_ENABLED E then Inl Config_disabled
      else if endpoint = [] \<or> secret = [] then Inl Missing_configuration
      else if length endpoint > 2048 \<or> length secret < 16 then Inl Invalid_configuration
      else case urlsplit E endpoint of
        None \<Rightarrow> Inl Invalid_configuration
      | Some u \<Rightarrow>
          (case url_hostname u of
             None \<Rightarrow> Inl Invalid_configuration
           | Some host \<Rightarrow>
               if url_scheme u \<noteq> ''https'' \<or> host = [] \<or> url_username u \<noteq> None \<or> url_password u \<noteq> None \<or> url_fragment u \<noteq> []
               then Inl Invalid_configuration
               else if list_ex (\<lambda>key. list_ex (str_contains (str_lower key)) CREDENTIAL_KEYS) (url_query_keys u)
               then Inl Unsafe_endpoint
               else
                 let hostname = str_lower host in
                 if hostname = ''localhost'' \<or> endswith hostname ''.local'' then Inl Unsafe_endpoint
                 else if ip_is_global E hostname = Some False then Inl Unsafe_endpoint
                 else if list_ex (\<lambda>address. ip_is_global E address \<noteq> Some True)
                           (case getaddrinfo E hostname of None \<Rightarrow> [] | Some addresses \<Rightarrow> addresses)
                 then Inl Unsafe_endpoint
                 else Inr endpoint))"

definition webhook_enabled :: "('a alert_env_scheme) \<Rightarrow> bool" where
  "webhook_enabled E = (case safe_webhook_configuration E of Inl e \<Rightarrow> False | Inr endpoint \<Rightarrow> True)"

subsection \<open>Queueing\<close>

definition delivery_name :: "int \<Rightarrow> event_kind \<Rightarrow> string" where
  "delivery_name event_id kind =
     ''slo-'' @ str_of_int event_id @ (case kind of Transition \<Rightarrow> ''-transition'' | Escalation \<Rightarrow> ''-escalation'')"

definition settled :: "delivery \<Rightarrow> bool" where
  "settled d =
     (dv_status d \<in> {Off, Acknowledged, Delivery_failed} \<or>
      dv_status d = Delivered \<and> (dv_transition d = Recovery \<or> dv_kind d = Escalation))"

definition expired_delivery :: "('a alert_env_scheme) \<Rightarrow> int \<Rightarrow> delivery \<Rightarrow> bool" where
  "expired_delivery E t d = (settled d \<and> dv_created_at d < timestamp_seconds t - retention_hours E * 3600)"

definition purge_deliveries :: "('a alert_env_scheme) \<Rightarrow> int \<Rightarrow> ('b alert_db_scheme) \<Rightarrow> 'b alert_db_scheme" where
  "purge_deliveries E t db =
     db\<lparr>attempts := sql_delete (\<lambda>a. da_delivery_id a \<in> dv_id ` set (filter (expired_delivery E t) (deliveries db))) (attempts db),
        deliveries := sql_delete (expired_delivery E t) (deliveries db)\<rparr>"

text \<open>\<open>INSERT OR IGNORE\<close> under the primary key and the unique pair of event and kind.\<close>

definition insert_or_ignore :: "delivery \<Rightarrow> delivery list \<Rightarrow> delivery list" where
  "insert_or_ignore d t =
     (if list_ex (\<lambda>q. dv_id q = dv_id d \<or> dv_event_id q = dv_event_id d \<and> dv_kind q = dv_kind d) t then t else t @ [d])"

definition transition_delivery ::
  "('a alert_env_scheme) \<Rightarrow> int \<Rightarrow> int \<Rightarrow> string \<Rightarrow> alert_transition \<Rightarrow> pyfloat option \<Rightarrow> pyfloat \<Rightarrow> int \<Rightarrow> delivery" where
  "transition_delivery E t event_id objective tr actual threshold window_hours =
     (let now = timestamp_seconds t; enabled = webhook_enabled E in
      \<lparr>dv_id = delivery_name event_id Transition, dv_event_id = event_id, dv_kind = Transition,
       dv_objective = objective, dv_transition = tr, dv_actual = actual, dv_threshold = threshold,
       dv_window_hours = window_hours, dv_status = (if enabled then Waiting else Off),
       dv_attempt_count = 0, dv_next_attempt_at = (if enabled then Some now else None),
       dv_lease_expires_at = None, dv_delivered_at = None, dv_acknowledged_at = None,
       dv_escalation_due_at =
         (if tr = Breach \<and> enabled then Some (now + max (ALERT_WEBHOOK_ACK_ESCALATION_SECONDS E) 60) else None),
       dv_escalation_enqueued_at = None, dv_last_error = None, dv_created_at = now, dv_updated_at = now\<rparr>)"

definition queue_slo_alert_delivery ::
  "('a alert_env_scheme) \<Rightarrow> int \<Rightarrow> int \<Rightarrow> string \<Rightarrow> alert_transition \<Rightarrow> pyfloat option \<Rightarrow> pyfloat \<Rightarrow> int \<Rightarrow>
   ('b alert_db_scheme) \<Rightarrow> 'b alert_db_scheme" where
  "queue_slo_alert_delivery E t event_id objective tr actual threshold window_hours db =
     (let db1 = purge_deliveries E t db
      in db1\<lparr>deliveries := insert_or_ignore (transition_delivery E t event_id objective tr actual threshold window_hours)
           (deliveries db1)\<rparr>)"

subsection \<open>Objectives\<close>

record metric =
  m_met :: "bool option"
  m_target :: "pyfloat option"
  m_target_max :: "pyfloat option"
  m_actual :: "pyfloat option"

definition SLO_OBJECTIVE_NAMES :: "string list" where
  "SLO_OBJECTIVE_NAMES = [''job_success_rate'', ''queue_wait_p95_seconds'', ''service_starts'', ''sqlite_contention_events'']"

definition confirmations :: "('a alert_env_scheme) \<Rightarrow> int" where
  "confirmations E = max (JOB_SLO_CONFIRMATIONS_REQUIRED E) 1"

definition cooldown_seconds :: "('a alert_env_scheme) \<Rightarrow> int" where
  "cooldown_seconds E = max (JOB_SLO_ALERT_COOLDOWN_SECONDS E) 0"

definition transition_of :: "slo_status \<Rightarrow> alert_transition" where
  "transition_of desired = (if desired = Breaching then Breach else Recovery)"

definition notified_at :: "alert_transition \<Rightarrow> slo_row \<Rightarrow> int option" where
  "notified_at tr r = (case tr of Breach \<Rightarrow> sl_breach_notified_at r | Recovery \<Rightarrow> sl_recovery_notified_at r)"

definition notification_due :: "('a alert_env_scheme) \<Rightarrow> int \<Rightarrow> alert_transition \<Rightarrow> slo_row \<Rightarrow> bool" where
  "notification_due E t tr r =
     (case notified_at tr r of None \<Rightarrow> True | Some s \<Rightarrow> cooldown_seconds E * 1000000 \<le> t - s * 1000000)"

definition reset_observations :: "int \<Rightarrow> slo_row \<Rightarrow> slo_row" where
  "reset_observations t r = r\<lparr>sl_pending := None, sl_count := 0, sl_updated_at := timestamp_seconds t\<rparr>"

definition observe :: "int \<Rightarrow> slo_status \<Rightarrow> int \<Rightarrow> slo_row \<Rightarrow> slo_row" where
  "observe t desired count r = r\<lparr>sl_pending := Some desired, sl_count := count, sl_updated_at := timestamp_seconds t\<rparr>"

definition change_state :: "int \<Rightarrow> slo_status \<Rightarrow> bool \<Rightarrow> slo_row \<Rightarrow> slo_row" where
  "change_state t desired notify r =
     r\<lparr>sl_status := desired, sl_pending := None, sl_count := 0, sl_last_transition_at := Some (timestamp_seconds t),
       sl_breach_notified_at := (if notify \<and> transition_of desired = Breach then Some (timestamp_seconds t) else sl_breach_notified_at r),
       sl_recovery_notified_at := (if notify \<and> transition_of desired = Recovery then Some (timestamp_seconds t) else sl_recovery_notified_at r),
       sl_updated_at := timestamp_seconds t\<rparr>"

definition new_slo_row :: "string \<Rightarrow> int \<Rightarrow> slo_row" where
  "new_slo_row objective t =
     \<lparr>sl_objective = objective, sl_status = Healthy, sl_pending = None, sl_count = 0, sl_last_transition_at = None,
      sl_breach_notified_at = None, sl_recovery_notified_at = None, sl_updated_at = timestamp_seconds t\<rparr>"

definition update_slo :: "string \<Rightarrow> (slo_row \<Rightarrow> slo_row) \<Rightarrow> ('b alert_db_scheme) \<Rightarrow> 'b alert_db_scheme" where
  "update_slo objective f db = db\<lparr>slo_states := sql_update (\<lambda>r. sl_objective r = objective) f (slo_states db)\<rparr>"

text \<open>A transition of an objective: its row, the event and, unless one was sent recently, its delivery.\<close>

definition record_transition ::
  "('a alert_env_scheme) \<Rightarrow> int \<Rightarrow> int \<Rightarrow> string \<Rightarrow> slo_status \<Rightarrow> pyfloat option \<Rightarrow> pyfloat \<Rightarrow> slo_row \<Rightarrow>
   ('b alert_db_scheme) \<Rightarrow> 'b alert_db_scheme" where
  "record_transition E t hours objective desired actual threshold row db =
     (let tr = transition_of desired;
          notify = notification_due E t tr row;
          event_id = next_event_id db;
          db1 = (update_slo objective (change_state t desired notify) db)
            \<lparr>slo_events := slo_events db @ [\<lparr>ev_id = event_id, ev_objective = objective, ev_transition = tr, ev_actual = actual,
               ev_threshold = threshold, ev_window_hours = hours, ev_notified = notify, ev_created_at = timestamp_seconds t\<rparr>],
             next_event_id := event_id + 1\<rparr>
      in if notify then queue_slo_alert_delivery E t event_id objective tr actual threshold hours db1 else db1)"

definition judge_objective ::
  "('a alert_env_scheme) \<Rightarrow> int \<Rightarrow> int \<Rightarrow> string \<Rightarrow> slo_status \<Rightarrow> pyfloat option \<Rightarrow> pyfloat \<Rightarrow> slo_row \<Rightarrow>
   ('b alert_db_scheme) \<Rightarrow> 'b alert_db_scheme" where
  "judge_objective E t hours objective desired actual threshold row db =
     (if sl_status row = desired then update_slo objective (reset_observations t) db
      else
        let count = (if sl_pending row = Some desired then sl_count row + 1 else 1) in
        if count < confirmations E then update_slo objective (observe t desired count) db
        else record_transition E t hours objective desired actual threshold row db)"

definition evaluate_objective ::
  "('a alert_env_scheme) \<Rightarrow> int \<Rightarrow> int \<Rightarrow> (string \<Rightarrow> metric option) \<Rightarrow> string \<Rightarrow> ('b alert_db_scheme) \<Rightarrow> 'b alert_db_scheme" where
  "evaluate_objective E t hours objectives objective db =
     (case objectives objective of
        None \<Rightarrow> db
      | Some m \<Rightarrow>
          (case m_met m of
             None \<Rightarrow> update_slo objective (reset_observations t) db
           | Some met \<Rightarrow>
               let desired = (if met then Healthy else Breaching) in
               (case (if m_target m \<noteq> None then m_target m else m_target_max m) of
                  None \<Rightarrow> db
                | Some threshold \<Rightarrow>
                    (case find (\<lambda>r. sl_objective r = objective) (slo_states db) of
                       None \<Rightarrow>
                         let row = new_slo_row objective t;
                             db1 = db\<lparr>slo_states := slo_states db @ [row]\<rparr>
                         in if desired = Healthy then db1
                            else judge_objective E t hours objective desired (m_actual m) threshold row db1
                     | Some row \<Rightarrow> judge_objective E t hours objective desired (m_actual m) threshold row db))))"

text \<open>\<open>julianday\<close> reads the clock in milliseconds.\<close>

definition purge_events :: "('a alert_env_scheme) \<Rightarrow> int \<Rightarrow> ('b alert_db_scheme) \<Rightarrow> 'b alert_db_scheme" where
  "purge_events E t db =
     db\<lparr>slo_events := sql_delete (\<lambda>e. ev_created_at e * 1000 < t div 1000 - retention_hours E * 3600000) (slo_events db)\<rparr>"

definition evaluate_slo_alerts_sync ::
  "('a alert_env_scheme) \<Rightarrow> int \<Rightarrow> int \<Rightarrow> (string \<Rightarrow> metric option) \<Rightarrow> ('b alert_db_scheme) \<Rightarrow> 'b alert_db_scheme" where
  "evaluate_slo_alerts_sync E t hours objectives db =
     purge_events E t (fold (evaluate_objective E t hours objectives) SLO_OBJECTIVE_NAMES db)"

definition slo_window :: "('a alert_env_scheme) \<Rightarrow> int option \<Rightarrow> int" where
  "slo_window E window_hours =
     max (min (case window_hours of None \<Rightarrow> JOB_SLO_WINDOW_HOURS E | Some h \<Rightarrow> if h = 0 then JOB_SLO_WINDOW_HOURS E else h)
           (max (JOB_OBSERVABILITY_RETENTION_HOURS E) 1)) 1"

subsection \<open>The outbox\<close>

definition due_delivery :: "int \<Rightarrow> delivery \<Rightarrow> bool" where
  "due_delivery now d =
     (dv_status d \<in> {Waiting, Retry_wait} \<and> (case dv_next_attempt_at d of None \<Rightarrow> True | Some s \<Rightarrow> s \<le> now) \<or>
      dv_status d = Sending \<and> (case dv_lease_expires_at d of None \<Rightarrow> False | Some s \<Rightarrow> s \<le> now))"

definition due_deliveries :: "int \<Rightarrow> ('b alert_db_scheme) \<Rightarrow> delivery list" where
  "due_deliveries now db = sort_key dv_created_at (sort_key dv_id (filter (due_delivery now) (deliveries db)))"

definition retry_delay_seconds :: "('a alert_env_scheme) \<Rightarrow> int \<Rightarrow> int" where
  "retry_delay_seconds E attempt_number =
     min (max (ALERT_WEBHOOK_RETRY_BASE_SECONDS E) 5 * 2 ^ nat (max (attempt_number - 1) 0)) 3600"

definition give_up :: "int \<Rightarrow> delivery \<Rightarrow> delivery" where
  "give_up now d =
     d\<lparr>dv_status := Delivery_failed, dv_next_attempt_at := None, dv_lease_expires_at := None,
       dv_last_error := Some Attempts_exhausted, dv_updated_at := now\<rparr>"

definition start_attempt :: "('a alert_env_scheme) \<Rightarrow> int \<Rightarrow> delivery \<Rightarrow> delivery" where
  "start_attempt E now d =
     d\<lparr>dv_status := Sending, dv_attempt_count := dv_attempt_count d + 1,
       dv_lease_expires_at := Some (now + max (ALERT_WEBHOOK_TIMEOUT_SECONDS E * 2) 30),
       dv_next_attempt_at := None, dv_updated_at := now\<rparr>"

definition update_delivery :: "string \<Rightarrow> (delivery \<Rightarrow> delivery) \<Rightarrow> ('b alert_db_scheme) \<Rightarrow> 'b alert_db_scheme" where
  "update_delivery i f db = db\<lparr>deliveries := sql_update (\<lambda>d. dv_id d = i) f (deliveries db)\<rparr>"

text \<open>The guard of the second update repeats what was selected in the same transaction.\<close>

definition claim_due_delivery ::
  "('a alert_env_scheme) \<Rightarrow> int \<Rightarrow> ('b alert_db_scheme) \<Rightarrow> 'b alert_db_scheme \<times> delivery option" where
  "claim_due_delivery E t db =
     (let now = timestamp_seconds t in
      case due_deliveries now db of
        [] \<Rightarrow> (db, None)
      | d # ds \<Rightarrow>
          if max_attempts E < dv_attempt_count d + 1 then (update_delivery (dv_id d) (give_up now) db, None)
          else let db1 = update_delivery (dv_id d) (start_attempt E now) db
               in (db1, find (\<lambda>q. dv_id q = dv_id d) (deliveries db1)))"

text \<open>The answer of the endpoint: a status code (also that of an \<open>HTTPError\<close>), or none.\<close>

datatype send_outcome = Answered int | No_answer delivery_error

definition http_status :: "send_outcome \<Rightarrow> int option" where
  "http_status r = (case r of Answered code \<Rightarrow> Some code | No_answer e \<Rightarrow> None)"

definition error_code :: "send_outcome \<Rightarrow> delivery_error option" where
  "error_code r = (case r of Answered code \<Rightarrow> None | No_answer e \<Rightarrow> Some e)"

definition success :: "send_outcome \<Rightarrow> bool" where
  "success r = (case r of Answered code \<Rightarrow> 200 \<le> code \<and> code < 300 | No_answer e \<Rightarrow> False)"

definition retryable :: "send_outcome \<Rightarrow> bool" where
  "retryable r =
     (case r of Answered code \<Rightarrow> code = 408 \<or> code = 429 \<or> 500 \<le> code \<and> code < 600 | No_answer e \<Rightarrow> True)"

definition result_status :: "('a alert_env_scheme) \<Rightarrow> int \<Rightarrow> send_outcome \<Rightarrow> delivery_status" where
  "result_status E attempt r =
     (if success r then Delivered else if retryable r \<and> attempt < max_attempts E then Retry_wait else Delivery_failed)"

definition result_error :: "('a alert_env_scheme) \<Rightarrow> int \<Rightarrow> send_outcome \<Rightarrow> delivery_error option" where
  "result_error E attempt r =
     (case result_status E attempt r of
        Delivered \<Rightarrow> None
      | Retry_wait \<Rightarrow> Some (case error_code r of None \<Rightarrow> Http_retryable | Some e \<Rightarrow> e)
      | _ \<Rightarrow> Some (case error_code r of None \<Rightarrow> Http_rejected | Some e \<Rightarrow> e))"

definition settle_attempt :: "('a alert_env_scheme) \<Rightarrow> int \<Rightarrow> int \<Rightarrow> send_outcome \<Rightarrow> delivery \<Rightarrow> delivery" where
  "settle_attempt E now attempt r d =
     (let st = result_status E attempt r in
      d\<lparr>dv_status := st,
        dv_next_attempt_at := (if st = Retry_wait then Some (now + retry_delay_seconds E attempt) else None),
        dv_lease_expires_at := None,
        dv_delivered_at := (if st = Delivered then Some now else dv_delivered_at d),
        dv_last_error := result_error E attempt r, dv_updated_at := now\<rparr>)"

definition record_delivery_result ::
  "('a alert_env_scheme) \<Rightarrow> int \<Rightarrow> delivery \<Rightarrow> send_outcome \<Rightarrow> ('b alert_db_scheme) \<Rightarrow> 'b alert_db_scheme \<times> delivery_status" where
  "record_delivery_result E t row r db =
     (let now = timestamp_seconds t;
          attempt = dv_attempt_count row;
          st = result_status E attempt r
      in (db\<lparr>deliveries := sql_update (\<lambda>d. dv_id d = dv_id row \<and> dv_status d = Sending \<and> dv_attempt_count d = attempt)
               (settle_attempt E now attempt r) (deliveries db),
             attempts :=
               (if list_ex (\<lambda>a. da_delivery_id a = dv_id row \<and> da_number a = attempt) (attempts db) then attempts db
                else attempts db @ [\<lparr>da_delivery_id = dv_id row, da_number = attempt, da_outcome = st,
                  da_http_status = http_status r, da_error = result_error E attempt r, da_created_at = now\<rparr>])\<rparr>,
          st))"

text \<open>The rows to escalate are read before the transaction that escalates them.\<close>

definition escalation_due :: "int \<Rightarrow> delivery \<Rightarrow> bool" where
  "escalation_due now d =
     (dv_kind d = Transition \<and> dv_transition d = Breach \<and> dv_status d = Delivered \<and> dv_acknowledged_at d = None \<and>
      (case dv_escalation_due_at d of None \<Rightarrow> False | Some s \<Rightarrow> s \<le> now) \<and> dv_escalation_enqueued_at d = None)"

definition due_escalations :: "int \<Rightarrow> ('b alert_db_scheme) \<Rightarrow> delivery list" where
  "due_escalations now db = sort_key dv_id (filter (escalation_due now) (deliveries db))"

definition escalation_of :: "int \<Rightarrow> delivery \<Rightarrow> delivery" where
  "escalation_of now d =
     \<lparr>dv_id = delivery_name (dv_event_id d) Escalation, dv_event_id = dv_event_id d, dv_kind = Escalation,
      dv_objective = dv_objective d, dv_transition = dv_transition d, dv_actual = dv_actual d,
      dv_threshold = dv_threshold d, dv_window_hours = dv_window_hours d, dv_status = Waiting, dv_attempt_count = 0,
      dv_next_attempt_at = Some now, dv_lease_expires_at = None, dv_delivered_at = None, dv_acknowledged_at = None,
      dv_escalation_due_at = None, dv_escalation_enqueued_at = None, dv_last_error = None, dv_created_at = now,
      dv_updated_at = now\<rparr>"

definition escalate :: "int \<Rightarrow> delivery \<Rightarrow> ('b alert_db_scheme) \<Rightarrow> 'b alert_db_scheme" where
  "escalate now d db =
     db\<lparr>deliveries := sql_update (\<lambda>q. dv_id q = dv_id d \<and> dv_escalation_enqueued_at q = None)
          (\<lambda>q. q\<lparr>dv_escalation_enqueued_at := Some now, dv_updated_at := now\<rparr>)
          (insert_or_ignore (escalation_of now d) (deliveries db))\<rparr>"

definition enqueue_due_escalations :: "int \<Rightarrow> ('b alert_db_scheme) \<Rightarrow> 'b alert_db_scheme \<times> nat" where
  "enqueue_due_escalations t db =
     (let now = timestamp_seconds t; rows = due_escalations now db in (fold (escalate now) rows db, length rows))"

definition severity :: "alert_transition \<Rightarrow> string" where
  "severity tr = (case tr of Breach \<Rightarrow> ''critical'' | Recovery \<Rightarrow> ''info'')"

definition payload :: "('a alert_env_scheme) \<Rightarrow> delivery \<Rightarrow> pyval" where
  "payload E d =
     PDict [(PStr ''schema_version'', PStr ''slo-webhook-alert/v1''), (PStr ''alert_id'', PStr (dv_id d)),
       (PStr ''event_kind'', PStr (case dv_kind d of Transition \<Rightarrow> ''transition'' | Escalation \<Rightarrow> ''escalation'')),
       (PStr ''objective'', PStr (dv_objective d)),
       (PStr ''transition'', PStr (case dv_transition d of Breach \<Rightarrow> ''breach'' | Recovery \<Rightarrow> ''recovery'')),
       (PStr ''severity'', PStr (severity (dv_transition d))),
       (PStr ''actual'', case dv_actual d of None \<Rightarrow> PNone | Some x \<Rightarrow> PFloat x),
       (PStr ''threshold'', PFloat (dv_threshold d)), (PStr ''window_hours'', PInt (dv_window_hours d)),
       (PStr ''occurred_at'', PStr (timestamp_text E (dv_created_at d)))]"

record outbox_report =
  ob_enabled :: bool
  ob_attempted :: nat
  ob_delivered :: nat
  ob_retry_wait :: nat
  ob_delivery_failed :: nat
  ob_escalations :: nat

definition count_status :: "delivery_status \<Rightarrow> outbox_report \<Rightarrow> outbox_report" where
  "count_status st r =
     r\<lparr>ob_attempted := ob_attempted r + 1,
       ob_delivered := ob_delivered r + (if st = Delivered then 1 else 0),
       ob_retry_wait := ob_retry_wait r + (if st = Retry_wait then 1 else 0),
       ob_delivery_failed := ob_delivery_failed r + (if st = Delivery_failed then 1 else 0)\<rparr>"

text \<open>The batch, on the number of attempts left; \<open>send k\<close> answers the \<open>k\<close>th request.\<close>

fun deliver_batch ::
  "('a alert_env_scheme) \<Rightarrow> (nat \<Rightarrow> pyval \<Rightarrow> send_outcome) \<Rightarrow> int \<Rightarrow> nat \<Rightarrow> nat \<Rightarrow> ('b alert_db_scheme) \<Rightarrow> outbox_report \<Rightarrow>
   'b alert_db_scheme \<times> outbox_report" where
  "deliver_batch E send t k 0 db rep = (db, rep)"
| "deliver_batch E send t k (Suc n) db rep =
     (case claim_due_delivery E t db of
        (db1, None) \<Rightarrow> (db1, rep)
      | (db1, Some row) \<Rightarrow>
          (case record_delivery_result E t row (send k (payload E row)) db1 of
             (db2, st) \<Rightarrow> deliver_batch E send t (Suc k) n db2 (count_status st rep)))"

definition batch_size :: "('a alert_env_scheme) \<Rightarrow> nat" where
  "batch_size E = nat (max (min (ALERT_WEBHOOK_BATCH_SIZE E) 50) 1)"

definition process_alert_delivery_outbox ::
  "('a alert_env_scheme) \<Rightarrow> (nat \<Rightarrow> pyval \<Rightarrow> send_outcome) \<Rightarrow> int \<Rightarrow> ('b alert_db_scheme) \<Rightarrow> 'b alert_db_scheme \<times> outbox_report" where
  "process_alert_delivery_outbox E send t db =
     (let rep = \<lparr>ob_enabled = webhook_enabled E, ob_attempted = 0, ob_delivered = 0, ob_retry_wait = 0,
                 ob_delivery_failed = 0, ob_escalations = 0\<rparr>
      in if \<not> webhook_enabled E then (db, rep)
         else case enqueue_due_escalations t db of
           (db1, n) \<Rightarrow> deliver_batch E send t 0 (batch_size E) db1 (rep\<lparr>ob_escalations := n\<rparr>))"

definition acknowledge_alert_delivery :: "int \<Rightarrow> string \<Rightarrow> ('b alert_db_scheme) \<Rightarrow> 'b alert_db_scheme \<times> bool" where
  "acknowledge_alert_delivery t i db =
     (if \<not> startswith i ''slo-'' \<or> length i > 96 then (db, False)
      else
        let p = (\<lambda>d. dv_id d = i \<and> dv_kind d = Transition \<and> dv_transition d = Breach \<and> dv_status d = Delivered \<and>
                     dv_acknowledged_at d = None)
        in (db\<lparr>deliveries := sql_update p
                 (\<lambda>d. d\<lparr>dv_status := Acknowledged, dv_acknowledged_at := Some (timestamp_seconds t), dv_updated_at := timestamp_seconds t\<rparr>)
                 (deliveries db)\<rparr>,
            sql_count p (deliveries db) = 1))"

definition unacknowledged_breaches :: "('b alert_db_scheme) \<Rightarrow> nat" where
  "unacknowledged_breaches db =
     sql_count (\<lambda>d. dv_kind d = Transition \<and> dv_transition d = Breach \<and> dv_status d = Delivered \<and> dv_acknowledged_at d = None)
       (deliveries db)"

definition alert_delivery_summary :: "('a alert_env_scheme) \<Rightarrow> ('b alert_db_scheme) \<Rightarrow> bool \<times> (delivery_status \<Rightarrow> nat) \<times> nat \<times> int" where
  "alert_delivery_summary E db =
     (ALERT_WEBHOOK_ENABLED E, (\<lambda>st. sql_count (\<lambda>d. dv_status d = st) (deliveries db)), unacknowledged_breaches db,
      max (ALERT_WEBHOOK_ACK_ESCALATION_SECONDS E) 60)"

definition evaluate_slo_alerts ::
  "('a alert_env_scheme) \<Rightarrow> (nat \<Rightarrow> pyval \<Rightarrow> send_outcome) \<Rightarrow> int \<Rightarrow> int \<Rightarrow> int option \<Rightarrow> (string \<Rightarrow> metric option) \<Rightarrow>
   ('b alert_db_scheme) \<Rightarrow> 'b alert_db_scheme" where
  "evaluate_slo_alerts E send t t' window_hours objectives db =
     fst (process_alert_delivery_outbox E send t' (evaluate_slo_alerts_sync E t (slo_window E window_hours) objectives db))"

end
