(* ===== verification/Alerts_Demo.thy ===== *)
theory Alerts_Demo
  imports Alerts
begin

text \<open>A breach of one objective, queued for a webhook that is usable or switched off.\<close>

definition demo_alert_env :: "bool \<Rightarrow> int \<Rightarrow> alert_env" where
  "demo_alert_env enabled n =
     \<lparr>ALERT_WEBHOOK_ENABLED = enabled, ALERT_WEBHOOK_URL = ''https://ops.test/hook'',
      ALERT_WEBHOOK_SIGNING_SECRET = ''0123456789abcdef'', ALERT_WEBHOOK_TIMEOUT_SECONDS = 10,
      ALERT_WEBHOOK_MAX_ATTEMPTS = 5, ALERT_WEBHOOK_RETRY_BASE_SECONDS = 30, ALERT_WEBHOOK_BATCH_SIZE = 20,
      ALERT_WEBHOOK_ACK_ESCALATION_SECONDS = 1800, JOB_OBSERVABILITY_RETENTION_HOURS = 168, JOB_SLO_WINDOW_HOURS = 24,
      JOB_SLO_CONFIRMATIONS_REQUIRED = n, JOB_SLO_ALERT_COOLDOWN_SECONDS = 100,
      urlsplit = (\<lambda>s. Some \<lparr>url_scheme = ''https'', url_hostname = Some ''ops.test'', url_username = None,
        url_password = None, url_fragment = [], url_query_keys = []\<rparr>),
      ip_is_global = (\<lambda>s. if s = ''93.184.216.34'' then Some True else None),
      getaddrinfo = (\<lambda>s. Some [''93.184.216.34'']), timestamp_text = str_of_int\<rparr>"

definition demo_metric :: "bool \<Rightarrow> string \<Rightarrow> metric option" where
  "demo_metric met x =
     (if x = ''job_success_rate'' then Some \<lparr>m_met = Some met, m_target = Some (Fin 95), m_target_max = None, m_actual = Some (Fin 90)\<rparr>
      else None)"

definition demo_alert_db :: alert_db where
  "demo_alert_db = \<lparr>slo_states = [], slo_events = [], next_event_id = 1, deliveries = [], attempts = []\<rparr>"

definition demo_accept :: "nat \<Rightarrow> pyval \<Rightarrow> send_outcome" where
  "demo_accept k body = Answered 204"

definition demo_queued :: "bool \<Rightarrow> alert_db" where
  "demo_queued enabled = evaluate_slo_alerts_sync (demo_alert_env enabled 1) 0 24 (demo_metric False) demo_alert_db"

definition demo_delivery :: "bool \<Rightarrow> delivery" where
  "demo_delivery enabled =
     \<lparr>dv_id = ''slo-1-transition'', dv_event_id = 1, dv_kind = Transition, dv_objective = ''job_success_rate'',
      dv_transition = Breach, dv_actual = Some (Fin 90), dv_threshold = Fin 95, dv_window_hours = 24,
      dv_status = (if enabled then Waiting else Off), dv_attempt_count = 0,
      dv_next_attempt_at = (if enabled then Some 0 else None), dv_lease_expires_at = None, dv_delivered_at = None,
      dv_acknowledged_at = None, dv_escalation_due_at = (if enabled then Some 1800 else None),
      dv_escalation_enqueued_at = None, dv_last_error = None, dv_created_at = 0, dv_updated_at = 0\<rparr>"

lemma demo_webhook: "webhook_enabled (demo_alert_env True n)" "\<not> webhook_enabled (demo_alert_env False n)"
  by code_simp+

lemma demo_queued_deliveries:
  "deliveries (demo_queued True) = [demo_delivery True]" "deliveries (demo_queued False) = [demo_delivery False]"
  by code_simp+

text \<open>A first claim, whose lease of thirty seconds runs out, and the second one.\<close>

definition demo_claimed :: "alert_db \<times> delivery option" where
  "demo_claimed = claim_due_delivery (demo_alert_env True 1) 1000000 (demo_queued True)"

definition demo_reclaimed :: "alert_db \<times> delivery option" where
  "demo_reclaimed = claim_due_delivery (demo_alert_env True 1) 40000000 (fst demo_claimed)"

lemma demo_claims:
  "snd demo_claimed = Some (start_attempt (demo_alert_env True 1) 1 (demo_delivery True))"
  "snd demo_reclaimed = Some (start_attempt (demo_alert_env True 1) 40 (start_attempt (demo_alert_env True 1) 1 (demo_delivery True)))"
  by code_simp+

text \<open>The webhook is switched on after the breach was recorded without it.\<close>

definition demo_later :: alert_db where
  "demo_later = evaluate_slo_alerts_sync (demo_alert_env True 1) 60000000 24 (demo_metric True) (demo_queued False)"

lemma demo_two: "timestamp_seconds 2000000 = 2"
  by (simp add: timestamp_seconds_def)

end
