(* ===== verification/Alerts_Props.thy ===== *)
theory Alerts_Props
  imports Alerts_Demo
begin

text \<open>
  What the alerts guarantee. The life of one delivery is the machine \<open>delivery_step\<close>; the operations
  of the outbox are moves of its table (\<open>outbox_move\<close>), and the locale \<open>delivery_relation\<close> carries a
  relation kept by the machine to all interleavings of the operations (\<open>alert_step\<close>). The debouncing of
  the objectives is compared with its specification on the list of observations.
\<close>

subsection \<open>The life of a delivery\<close>

inductive delivery_step :: "delivery \<Rightarrow> delivery \<Rightarrow> bool" where
  start: "due_delivery now d \<Longrightarrow> dv_attempt_count d < max_attempts (E :: alert_env) \<Longrightarrow> delivery_step d (start_attempt (E :: alert_env) now d)"
| giving_up: "due_delivery now d \<Longrightarrow> delivery_step d (give_up now d)"
| settle: "dv_status d = Sending \<Longrightarrow> attempt = dv_attempt_count d \<Longrightarrow> delivery_step d (settle_attempt (E :: alert_env) now attempt r d)"
| escalated: "escalation_due now d \<Longrightarrow> delivery_step d (d\<lparr>dv_escalation_enqueued_at := Some now, dv_updated_at := now\<rparr>)"
| acknowledge: "dv_kind d = Transition \<Longrightarrow> dv_transition d = Breach \<Longrightarrow> dv_status d = Delivered \<Longrightarrow>
    delivery_step d (d\<lparr>dv_status := Acknowledged, dv_acknowledged_at := Some now, dv_updated_at := now\<rparr>)"

definition dv_key :: "delivery \<Rightarrow> int \<times> event_kind" where
  "dv_key d = (dv_event_id d, dv_kind d)"

definition new_delivery :: "delivery \<Rightarrow> bool" where
  "new_delivery d =
     (dv_id d = delivery_name (dv_event_id d) (dv_kind d) \<and> dv_status d \<in> {Waiting, Off} \<and> dv_attempt_count d = 0 \<and>
      dv_escalation_enqueued_at d = None \<and> dv_delivered_at d = None \<and> dv_acknowledged_at d = None \<and> (dv_kind d = Escalation \<longrightarrow> dv_transition d = Breach))"

text \<open>Moves of the event counter and the table of deliveries.\<close>

inductive outbox_move :: "int \<times> delivery list \<Rightarrow> int \<times> delivery list \<Rightarrow> bool" where
  update: "(\<And>d. d \<in> set t \<Longrightarrow> p d \<Longrightarrow> delivery_step d (f d)) \<Longrightarrow> outbox_move (n, t) (n, sql_update p f t)"
| queue: "new_delivery d \<Longrightarrow> dv_kind d = Transition \<Longrightarrow> dv_event_id d = n \<Longrightarrow> outbox_move (n, t) (n + 1, insert_or_ignore d t)"
| silent: "outbox_move (n, t) (n + 1, t)"
| purge: "(\<And>d. p d \<Longrightarrow> settled d) \<Longrightarrow> outbox_move (n, t) (n, sql_delete p t)"
| escalation: "d \<in> set t \<Longrightarrow> escalation_due now d \<Longrightarrow>
    outbox_move (n, t) (n, sql_update (\<lambda>q. dv_id q = dv_id d \<and> dv_escalation_enqueued_at q = None)
      (\<lambda>q. q\<lparr>dv_escalation_enqueued_at := Some now, dv_updated_at := now\<rparr>) (insert_or_ignore (escalation_of now d) t))"

abbreviation outbox_moves :: "int \<times> delivery list \<Rightarrow> int \<times> delivery list \<Rightarrow> bool" where
  "outbox_moves \<equiv> outbox_move\<^sup>*\<^sup>*"

text \<open>The well-formed tables.\<close>

definition outbox_ok :: "int \<times> delivery list \<Rightarrow> bool" where
  "outbox_ok s =
     (case s of (n, t) \<Rightarrow>
        distinct (map dv_key t) \<and>
        (\<forall>d\<in>set t. dv_id d = delivery_name (dv_event_id d) (dv_kind d) \<and> dv_event_id d < n) \<and>
        (\<forall>e\<in>set t. \<forall>p\<in>set t. dv_kind e = Escalation \<and> dv_kind p = Transition \<and> dv_event_id p = dv_event_id e \<longrightarrow>
           dv_escalation_enqueued_at p \<noteq> None))"

lemma delivery_name_eq: "delivery_name i k = delivery_name j l \<longleftrightarrow> i = j \<and> k = l"
proof
  assume eq: "delivery_name i k = delivery_name j l"
  then have "rev (delivery_name i k) = rev (delivery_name j l)" by simp
  then have "k = l" by (cases k; cases l) (simp_all add: delivery_name_def)
  with eq show "i = j \<and> k = l" by (cases l) (simp_all add: delivery_name_def)
qed simp

lemma step_fields:
  assumes "delivery_step d d'"
  shows "dv_id d' = dv_id d" and "dv_key d' = dv_key d" and "dv_event_id d' = dv_event_id d" and "dv_kind d' = dv_kind d"
    and "dv_escalation_enqueued_at d \<noteq> None \<Longrightarrow> dv_escalation_enqueued_at d' \<noteq> None"
  using assms
  by (auto simp: dv_key_def start_attempt_def give_up_def settle_attempt_def Let_def elim!: delivery_step.cases)

lemma settled_no_step: "settled d \<Longrightarrow> \<not> delivery_step d d'"
  by (auto simp: settled_def due_delivery_def escalation_due_def elim!: delivery_step.cases)

lemma ok_key_unique:
  assumes "outbox_ok (n, t)" and "d \<in> set t" and "q \<in> set t" and "dv_key d = dv_key q"
  shows "d = q"
proof -
  have "inj_on dv_key (set t)" using assms(1) by (simp add: outbox_ok_def distinct_map)
  from inj_onD [OF this assms(4,2,3)] show ?thesis .
qed

lemma ok_id_key:
  assumes "outbox_ok (n, t)" and "d \<in> set t" and "q \<in> set t"
  shows "dv_id d = dv_id q \<longleftrightarrow> dv_key d = dv_key q"
  using assms by (auto simp: outbox_ok_def dv_key_def delivery_name_eq)

lemma ok_id_unique: "outbox_ok (n, t) \<Longrightarrow> d \<in> set t \<Longrightarrow> q \<in> set t \<Longrightarrow> dv_id d = dv_id q \<Longrightarrow> d = q"
  using ok_key_unique ok_id_key by blast

definition same_delivery :: "delivery \<Rightarrow> delivery \<Rightarrow> bool" where
  "same_delivery d d' =
     (dv_id d' = dv_id d \<and> dv_key d' = dv_key d \<and> (dv_escalation_enqueued_at d \<noteq> None \<longrightarrow> dv_escalation_enqueued_at d' \<noteq> None))"

lemma step_same: "delivery_step d d' \<Longrightarrow> same_delivery d d'"
  using step_fields by (fastforce simp: same_delivery_def)

lemma outbox_ok_map:
  assumes "outbox_ok (n, t)" and same: "\<And>d. d \<in> set t \<Longrightarrow> same_delivery d (g d)"
  shows "outbox_ok (n, map g t)"
proof -
  have "map (dv_key \<circ> g) t = map dv_key t" using same by (simp add: same_delivery_def)
  then have "distinct (map (dv_key \<circ> g) t)" using assms(1) by (simp only: outbox_ok_def split_conv)
  moreover have "dv_kind (g d) = dv_kind d" "dv_event_id (g d) = dv_event_id d" if "d \<in> set t" for d
    using same [OF that] by (simp_all add: same_delivery_def dv_key_def)
  ultimately show ?thesis
    using assms by (auto simp: outbox_ok_def same_delivery_def)
qed

lemma outbox_ok_snoc:
  assumes "outbox_ok (n, t)" and "dv_key e \<notin> dv_key ` set t" and "dv_event_id e < n"
    and "dv_id e = delivery_name (dv_event_id e) (dv_kind e)"
    and "dv_kind e = Escalation \<longrightarrow> (\<forall>p\<in>set t. dv_kind p = Transition \<and> dv_event_id p = dv_event_id e \<longrightarrow> dv_escalation_enqueued_at p \<noteq> None)"
    and "dv_kind e = Transition \<longrightarrow> (\<forall>q\<in>set t. dv_event_id q \<noteq> dv_event_id e)"
  shows "outbox_ok (n, t @ [e])"
  using assms by (auto simp: outbox_ok_def)

lemma insert_or_ignore_cases:
  obtains "insert_or_ignore d t = t" | "insert_or_ignore d t = t @ [d]" "dv_key d \<notin> dv_key ` set t" "dv_id d \<notin> dv_id ` set t"
proof (cases "list_ex (\<lambda>q. dv_id q = dv_id d \<or> dv_event_id q = dv_event_id d \<and> dv_kind q = dv_kind d) t")
  case True
  then show thesis by (intro that(1)) (simp add: insert_or_ignore_def)
next
  case False
  then show thesis by (intro that(2)) (auto simp: insert_or_ignore_def dv_key_def list_ex_iff)
qed

lemma outbox_move_ok: "outbox_move s s' \<Longrightarrow> outbox_ok s \<Longrightarrow> outbox_ok s'"
proof (induction rule: outbox_move.induct)
  case (update t p f n)
  have "same_delivery d (if p d then f d else d)" if "d \<in> set t" for d
    using step_same [OF update(1) [OF that]] by (simp add: same_delivery_def)
  then show ?case
    unfolding sql_update_def by (intro outbox_ok_map [OF update(2)])
next
  case (queue d n t)
  have ok: "outbox_ok (n + 1, t)" using queue(4) by (fastforce simp: outbox_ok_def)
  have "\<forall>q\<in>set t. dv_event_id q \<noteq> dv_event_id d" using queue(3,4) by (auto simp: outbox_ok_def)
  then show ?case
    using ok queue(1-3) by (cases rule: insert_or_ignore_cases [of d t]) (auto simp: new_delivery_def intro!: outbox_ok_snoc)
next
  case (silent n t)
  then show ?case by (fastforce simp: outbox_ok_def)
next
  case (purge p n t)
  then show ?case by (auto simp: outbox_ok_def sql_delete_def distinct_map_filter)
next
  case (escalation d t now n)
  define g :: "delivery \<Rightarrow> delivery" where "g q = (if dv_id q = dv_id d \<and> dv_escalation_enqueued_at q = None
    then q\<lparr>dv_escalation_enqueued_at := Some now, dv_updated_at := now\<rparr> else q)" for q
  have ok: "outbox_ok (n, map g t)"
    by (rule outbox_ok_map [OF escalation(3)]) (auto simp: g_def same_delivery_def dv_key_def)
  have d: "dv_id d = delivery_name (dv_event_id d) Transition" "dv_event_id d < n" "dv_kind d = Transition"
    using escalation by (auto simp: outbox_ok_def escalation_due_def)
  have e: "g (escalation_of now d) = escalation_of now d"
    by (simp add: g_def escalation_of_def d(1) delivery_name_eq)
  have parent: "dv_escalation_enqueued_at (g p) \<noteq> None" if "p \<in> set t" "dv_kind p = Transition" "dv_event_id p = dv_event_id d" for p
    using ok_key_unique [OF escalation(3) that(1) escalation(1)] that(2,3) d(3) by (auto simp: g_def dv_key_def)
  have upd: "sql_update (\<lambda>q. dv_id q = dv_id d \<and> dv_escalation_enqueued_at q = None)
      (\<lambda>q. q\<lparr>dv_escalation_enqueued_at := Some now, dv_updated_at := now\<rparr>) xs = map g xs" for xs
    by (induction xs) (simp_all add: sql_update_def g_def)
  show ?case
  proof (cases rule: insert_or_ignore_cases [of "escalation_of now d" t])
    case 1
    then show ?thesis using ok by (simp add: upd)
  next
    case 2
    have "outbox_ok (n, map g t @ [escalation_of now d])"
    proof (rule outbox_ok_snoc [OF ok])
      show "dv_key (escalation_of now d) \<notin> dv_key ` set (map g t)" using 2(2) by (auto simp: g_def dv_key_def)
      have "dv_kind (g p) = dv_kind p \<and> dv_event_id (g p) = dv_event_id p" for p by (simp add: g_def)
      then show "dv_kind (escalation_of now d) = Escalation \<longrightarrow> (\<forall>p\<in>set (map g t).
          dv_kind p = Transition \<and> dv_event_id p = dv_event_id (escalation_of now d) \<longrightarrow> dv_escalation_enqueued_at p \<noteq> None)"
        using parent by (simp add: escalation_of_def)
    qed (simp_all add: escalation_of_def d(2))
    then show ?thesis unfolding 2(1) using e by (simp add: upd)
  qed
qed

subsection \<open>What every interleaving keeps\<close>

text \<open>A key that has left the table stays out of it.\<close>

definition key_gone :: "int \<times> event_kind \<Rightarrow> int \<times> delivery list \<Rightarrow> bool" where
  "key_gone k s =
     (case s of (n, t) \<Rightarrow> k \<notin> dv_key ` set t \<and> fst k < n \<and>
        (snd k = Escalation \<longrightarrow> (\<forall>p\<in>set t. dv_kind p = Transition \<and> dv_event_id p = fst k \<longrightarrow> dv_escalation_enqueued_at p \<noteq> None)))"

lemma same_delivery_fields:
  assumes "same_delivery d d'"
  shows "dv_event_id d' = dv_event_id d" and "dv_kind d' = dv_kind d"
  using assms by (simp_all add: same_delivery_def dv_key_def)

lemma outbox_move_cases:
  assumes "outbox_move (n, t) (n', t')" and "outbox_ok (n, t)"
  obtains g where "n' = n" "t' = map g t" "\<And>d. d \<in> set t \<Longrightarrow> g d = d \<or> delivery_step d (g d)"
  | e where "n' = n + 1" "t' = t \<or> t' = t @ [e] \<and> new_delivery e \<and> dv_key e = (n, Transition)"
  | p where "n' = n" "t' = sql_delete p t" "\<And>d. p d \<Longrightarrow> settled d"
  | g e d where "n' = n" "t' = map g t @ [e]" "\<And>d. d \<in> set t \<Longrightarrow> g d = d \<or> delivery_step d (g d)" "new_delivery e"
      "d \<in> set t" "dv_key d = (dv_event_id d, Transition)" "dv_key e = (dv_event_id d, Escalation)" "dv_escalation_enqueued_at d = None"
      "dv_key e \<notin> dv_key ` set t"
  using assms(1)
proof (cases rule: outbox_move.cases)
  case (update p f)
  then show thesis by (intro that(1) [of "\<lambda>d. if p d then f d else d"]) (auto simp: sql_update_def)
next
  case (queue d)
  then show thesis
    by (cases rule: insert_or_ignore_cases [of d t]) (auto intro!: that(2) [of d] simp: dv_key_def)
next
  case silent
  then show thesis by (intro that(2)) auto
next
  case (purge p)
  then show thesis by (intro that(3) [of p]) auto
next
  case (escalation d now)
  define g :: "delivery \<Rightarrow> delivery" where "g q = (if dv_id q = dv_id d \<and> dv_escalation_enqueued_at q = None
    then q\<lparr>dv_escalation_enqueued_at := Some now, dv_updated_at := now\<rparr> else q)" for q
  have g: "g q = q \<or> delivery_step q (g q)" if "q \<in> set t" for q
    using ok_id_unique [OF assms(2) that escalation(3)] delivery_step.escalated [OF escalation(4)] by (auto simp: g_def)
  have d: "dv_id d = delivery_name (dv_event_id d) Transition" "dv_kind d = Transition" "dv_transition d = Breach" "dv_escalation_enqueued_at d = None"
    using escalation assms(2) by (auto simp: outbox_ok_def escalation_due_def)
  show thesis
  proof (cases rule: insert_or_ignore_cases [of "escalation_of now d" t])
    case 1
    show thesis by (rule that(1) [OF _ _ g]) (simp_all add: escalation(1,2) 1 sql_update_def g_def)
  next
    case 2
    have e: "g (escalation_of now d) = escalation_of now d"
      by (simp add: g_def escalation_of_def d(1) delivery_name_eq)
    show thesis
    proof (rule that(4) [OF _ _ g, of "escalation_of now d" d])
      show "t' = map g t @ [escalation_of now d]" unfolding escalation(2) 2(1) using e by (simp add: sql_update_def g_def)
      show "new_delivery (escalation_of now d)" using d by (simp add: new_delivery_def escalation_of_def)
    qed (use 2 d escalation in \<open>simp_all add: dv_key_def escalation_of_def\<close>)
  qed
qed

lemma key_gone_map:
  assumes "key_gone k (n, t)" and same: "\<And>d. d \<in> set t \<Longrightarrow> same_delivery d (g d)"
  shows "key_gone k (n, map g t)"
proof -
  have "dv_key (g d) = dv_key d" "dv_kind (g d) = dv_kind d" "dv_event_id (g d) = dv_event_id d"
      "dv_escalation_enqueued_at d \<noteq> None \<Longrightarrow> dv_escalation_enqueued_at (g d) \<noteq> None" if "d \<in> set t" for d
    using same [OF that] by (simp_all add: same_delivery_def dv_key_def)
  then show ?thesis using assms(1) by (auto simp: key_gone_def)
qed

lemma same_or_step: "g = d \<or> delivery_step d g \<Longrightarrow> same_delivery d g"
  using step_same by (auto simp: same_delivery_def)

lemma key_gone_move:
  assumes "outbox_move (n, t) (n', t')" and "outbox_ok (n, t)" and "key_gone k (n, t)"
  shows "key_gone k (n', t')"
  using assms(1,2)
proof (cases rule: outbox_move_cases)
  case (1 g)
  then show ?thesis using key_gone_map [OF assms(3)] same_or_step by blast
next
  case (2 e)
  then show ?thesis using assms(3) by (auto simp: key_gone_def dv_key_def)
next
  case (3 p)
  then show ?thesis using assms(3) by (auto simp: key_gone_def sql_delete_def)
next
  case (4 g e d)
  have "key_gone k (n, map g t)" using key_gone_map [OF assms(3)] same_or_step 4(3) by blast
  moreover have "k \<noteq> dv_key e" using assms(3) 4(5-8) by (auto simp: key_gone_def dv_key_def)
  ultimately show ?thesis using 4(7) by (auto simp: key_gone_def 4(1,2) dv_key_def)
qed

text \<open>A relation of a row to its later versions, and an invariant of the rows.\<close>

locale delivery_relation =
  fixes R :: "delivery \<Rightarrow> delivery \<Rightarrow> bool"
  assumes R_refl: "R d d"
    and R_trans: "R d e \<Longrightarrow> R e f \<Longrightarrow> R d f"
    and R_step: "delivery_step d e \<Longrightarrow> R d e"
begin

lemma move_related:
  assumes "outbox_move (n, t) (n', t')" and "outbox_ok (n, t)" and "d \<in> set t"
  shows "(\<exists>e\<in>set t'. dv_key e = dv_key d \<and> R d e) \<or> key_gone (dv_key d) (n', t')"
  using assms(1,2)
proof (cases rule: outbox_move_cases)
  case (1 g)
  have "dv_key (g d) = dv_key d \<and> R d (g d)"
    using 1(3) [OF assms(3)] R_refl R_step step_fields(2) by fastforce
  then show ?thesis using 1(2) assms(3) by auto
next
  case (2 e)
  then show ?thesis using assms(3) R_refl by auto
next
  case (3 p)
  show ?thesis
  proof (cases "p d")
    case True
    have "dv_key d \<notin> dv_key ` set t'"
      using True ok_key_unique [OF assms(2) assms(3)] by (auto simp: 3(2) sql_delete_def)
    then show ?thesis
      using assms(2,3) by (auto simp: key_gone_def dv_key_def outbox_ok_def 3(1,2) sql_delete_def)
  next
    case False
    then show ?thesis using assms(3) R_refl by (auto simp: 3(2) sql_delete_def)
  qed
next
  case (4 g e p)
  have "dv_key (g d) = dv_key d \<and> R d (g d)"
    using 4(3) [OF assms(3)] R_refl R_step step_fields(2) by fastforce
  then show ?thesis using 4(2) assms(3) by auto
qed

lemma moves_related:
  assumes "outbox_moves s s'" and "outbox_ok s" and "d \<in> set (snd s)"
  shows "outbox_ok s' \<and> ((\<exists>e\<in>set (snd s'). dv_key e = dv_key d \<and> R d e) \<or> key_gone (dv_key d) s')"
  using assms(1)
proof (induction rule: rtranclp_induct)
  case base
  then show ?case using assms R_refl by blast
next
  case (step s1 s2)
  obtain n t n' t' where s: "s1 = (n, t)" "s2 = (n', t')" by fastforce
  have ok: "outbox_ok (n, t)" using step s by simp
  show ?case
  proof (cases "key_gone (dv_key d) s1")
    case True
    then show ?thesis using key_gone_move [OF step(2) [unfolded s] ok] outbox_move_ok [OF step(2)] step.IH s by simp
  next
    case False
    then obtain e where e: "e \<in> set t" "dv_key e = dv_key d" "R d e" using step s by auto
    show ?thesis
      using move_related [OF step(2) [unfolded s] ok e(1)] outbox_move_ok [OF step(2)] step.IH R_trans [OF e(3)] e(2) s by auto
  qed
qed

text \<open>So a later row under the key of an earlier one is related to it.\<close>

lemma moves_related_row:
  assumes "outbox_moves s s'" and "outbox_ok s" and "d \<in> set (snd s)" and "e \<in> set (snd s')" and "dv_key e = dv_key d"
  shows "R d e"
proof -
  obtain n' t' where s': "s' = (n', t')" by fastforce
  have ok: "outbox_ok (n', t')" using moves_related [OF assms(1-3)] s' by simp
  have "dv_key d \<in> dv_key ` set t'" using assms(4,5) s' by (metis imageI snd_conv)
  then have "\<not> key_gone (dv_key d) s'" by (simp add: key_gone_def s')
  then obtain x where "x \<in> set t'" "dv_key x = dv_key d" "R d x"
    using moves_related [OF assms(1-3)] s' by auto
  moreover have "x = e" using ok_key_unique [OF ok] calculation(1,2) assms(4,5) s' by simp
  ultimately show ?thesis by simp
qed

end

locale delivery_invariant =
  fixes I :: "delivery \<Rightarrow> bool"
  assumes I_new: "new_delivery d \<Longrightarrow> I d"
    and I_step: "delivery_step d e \<Longrightarrow> I d \<Longrightarrow> I e"
begin

lemma moves_all:
  assumes "outbox_moves s s'" and "outbox_ok s" and "\<forall>d\<in>set (snd s). I d"
  shows "outbox_ok s' \<and> (\<forall>d\<in>set (snd s'). I d)"
  using assms
proof (induction rule: rtranclp_induct)
  case (step s1 s2)
  obtain n t n' t' where s: "s1 = (n, t)" "s2 = (n', t')" by fastforce
  have ok: "outbox_ok (n, t)" and I: "\<forall>d\<in>set t. I d" using step s by auto
  have "\<forall>d\<in>set t'. I d"
    using step(2) [unfolded s] ok
  proof (cases rule: outbox_move_cases)
    case (1 g)
    have "I (g d)" if "d \<in> set t" for d using 1(3) [OF that] I that I_step by metis
    then show ?thesis by (simp add: 1(2))
  next
    case (2 e)
    then show ?thesis using I I_new by auto
  next
    case (3 p)
    then show ?thesis using I by (simp add: sql_delete_def)
  next
    case (4 g e d)
    have "I (g d)" if "d \<in> set t" for d using 4(3) [OF that] I that I_step by metis
    then show ?thesis using I_new [OF 4(4)] by (simp add: 4(2))
  qed
  moreover have "outbox_ok s2" using outbox_move_ok [OF step(2)] ok s by simp
  ultimately show ?case using s by simp
qed simp

end

subsection \<open>The operations as moves\<close>

text \<open>
  The steps of concurrent brokers and administrators: a batch of the outbox is a sequence of claims
  and of results, which may arrive late, for any row that was once claimed. Every step may run under
  other settings.
\<close>

inductive alert_step :: "alert_db \<Rightarrow> alert_db \<Rightarrow> bool" where
  al_evaluate: "alert_step db (evaluate_slo_alerts_sync (E :: alert_env) t hours objectives db)"
| al_escalate: "alert_step db (fst (enqueue_due_escalations t db))"
| al_claim: "alert_step db (fst (claim_due_delivery (E :: alert_env) t db))"
| al_record: "alert_step db (fst (record_delivery_result (E :: alert_env) t row r db))"
| al_acknowledge: "alert_step db (fst (acknowledge_alert_delivery t i db))"

abbreviation alert_steps :: "alert_db \<Rightarrow> alert_db \<Rightarrow> bool" where
  "alert_steps \<equiv> alert_step\<^sup>*\<^sup>*"

definition outbox :: "alert_db \<Rightarrow> int \<times> delivery list" where
  "outbox db = (next_event_id db, deliveries db)"

lemma update_slo_outbox [simp]: "outbox (update_slo objective f db) = outbox db"
  by (simp add: outbox_def update_slo_def)

lemma queue_moves:
  fixes E :: alert_env
  shows "outbox_moves (n, deliveries db) (n + 1, deliveries (queue_slo_alert_delivery E t n objective tr actual threshold hours db))"
proof -
  have "outbox_move (n, deliveries db) (n, deliveries (purge_deliveries E t db))"
    unfolding purge_deliveries_def by (simp, rule outbox_move.purge) (simp add: expired_delivery_def)
  moreover have "outbox_move (n, deliveries (purge_deliveries E t db))
      (n + 1, deliveries (queue_slo_alert_delivery E t n objective tr actual threshold hours db))"
    by (simp add: queue_slo_alert_delivery_def Let_def, rule outbox_move.queue)
      (simp_all add: new_delivery_def transition_delivery_def Let_def)
  ultimately show ?thesis by auto
qed

lemma queue_counter [simp]:
  "next_event_id (queue_slo_alert_delivery E t n objective tr actual threshold hours db) = next_event_id db"
  by (simp add: queue_slo_alert_delivery_def purge_deliveries_def Let_def)

lemma record_transition_moves:
  fixes db :: alert_db and E :: alert_env
  shows "outbox_moves (outbox db) (outbox (record_transition E t hours objective desired actual threshold row db))"
proof -
  let ?tr = "transition_of desired"
  let ?notify = "notification_due E t ?tr row"
  define db1 where "db1 = (update_slo objective (change_state t desired ?notify) db)
    \<lparr>slo_events := slo_events db @ [\<lparr>ev_id = next_event_id db, ev_objective = objective, ev_transition = ?tr, ev_actual = actual,
       ev_threshold = threshold, ev_window_hours = hours, ev_notified = ?notify, ev_created_at = timestamp_seconds t\<rparr>],
     next_event_id := next_event_id db + 1\<rparr>"
  have db1: "deliveries db1 = deliveries db" "next_event_id db1 = next_event_id db + 1"
    by (simp_all add: db1_def update_slo_def)
  show ?thesis
  proof (cases ?notify)
    case True
    then have "record_transition E t hours objective desired actual threshold row db =
        queue_slo_alert_delivery E t (next_event_id db) objective ?tr actual threshold hours db1"
      by (simp add: record_transition_def db1_def Let_def)
    then show ?thesis
      using queue_moves [of "next_event_id db" db1 E t objective ?tr actual threshold hours] by (simp add: outbox_def db1)
  next
    case False
    then have "record_transition E t hours objective desired actual threshold row db = db1"
      by (simp add: record_transition_def db1_def Let_def)
    then show ?thesis by (auto simp: outbox_def db1 intro: outbox_move.silent)
  qed
qed

lemma evaluate_moves:
  fixes db :: alert_db and E :: alert_env
  shows "outbox_moves (outbox db) (outbox (evaluate_slo_alerts_sync E t hours objectives db))"
proof -
  have "outbox_moves (outbox db) (outbox (evaluate_objective E t hours objectives objective db))" for objective and db :: alert_db
  proof -
    have "outbox (d\<lparr>slo_states := x\<rparr>) = outbox d" for d x by (simp add: outbox_def)
    then show ?thesis
      using record_transition_moves [of db] record_transition_moves [of "db\<lparr>slo_states := x\<rparr>" for x]
      by (auto simp: evaluate_objective_def judge_objective_def Let_def split: option.split)
  qed
  then have "outbox_moves (outbox db) (outbox (fold (evaluate_objective E t hours objectives) os db))" for os
    by (induction os arbitrary: db) (auto intro: rtranclp_trans)
  then show ?thesis by (simp add: evaluate_slo_alerts_sync_def purge_events_def outbox_def)
qed

lemma update_delivery_move:
  fixes db :: alert_db and E :: alert_env
  assumes "outbox_ok (outbox db)" and "d \<in> set (deliveries db)" and "delivery_step d (f d)"
  shows "outbox_move (outbox db) (outbox (update_delivery (dv_id d) f db))"
proof -
  have "delivery_step q (f q)" if "q \<in> set (deliveries db)" "dv_id q = dv_id d" for q
    using ok_id_unique [of "next_event_id db" "deliveries db" q d] assms that by (simp add: outbox_def)
  then show ?thesis unfolding outbox_def update_delivery_def by (simp add: outbox_move.update)
qed

lemma due_deliveries_set: "set (due_deliveries now db) = {d \<in> set (deliveries db). due_delivery now d}"
  by (auto simp: due_deliveries_def)

lemma claim_moves:
  fixes db :: alert_db and E :: alert_env
  assumes "outbox_ok (outbox db)"
  shows "outbox_moves (outbox db) (outbox (fst (claim_due_delivery E t db)))"
proof (cases "due_deliveries (timestamp_seconds t) db")
  case Nil
  then show ?thesis by (simp add: claim_due_delivery_def)
next
  case (Cons d ds)
  then have d: "d \<in> set (deliveries db)" "due_delivery (timestamp_seconds t) d"
    using due_deliveries_set [of "timestamp_seconds t" db] by auto
  have "delivery_step d (give_up (timestamp_seconds t) d)" by (rule giving_up [OF d(2)])
  moreover have "delivery_step d (start_attempt E (timestamp_seconds t) d)" if "\<not> max_attempts E < dv_attempt_count d + 1"
    using that by (intro start [OF d(2)]) simp
  ultimately show ?thesis
    using update_delivery_move [OF assms d(1)] Cons by (auto simp: claim_due_delivery_def Let_def intro!: r_into_rtranclp)
qed

lemma record_move:
  fixes db :: alert_db and E :: alert_env
  shows "outbox_move (outbox db) (outbox (fst (record_delivery_result E t row r db)))"
  unfolding outbox_def record_delivery_result_def Let_def
  by (simp, rule outbox_move.update) (auto intro: delivery_step.settle)

lemma acknowledge_moves:
  fixes db :: alert_db and E :: alert_env
  shows "outbox_moves (outbox db) (outbox (fst (acknowledge_alert_delivery t i db)))"
  unfolding outbox_def acknowledge_alert_delivery_def Let_def
  by (auto intro!: r_into_rtranclp outbox_move.update delivery_step.acknowledge)

lemma escalate_move:
  fixes db :: alert_db and E :: alert_env
  assumes "d \<in> set (deliveries db)" and "escalation_due now d"
  shows "outbox_move (outbox db) (outbox (escalate now d db))"
  unfolding outbox_def escalate_def by (simp add: outbox_move.escalation [OF assms])

lemma escalations_moves:
  fixes db :: alert_db and E :: alert_env
  assumes "distinct (map dv_id ds)" and "\<forall>d\<in>set ds. d \<in> set (deliveries db) \<and> escalation_due now d"
  shows "outbox_moves (outbox db) (outbox (fold (escalate now) ds db))"
  using assms
proof (induction ds arbitrary: db)
  case (Cons d ds)
  have "q \<in> set (deliveries (escalate now d db))" if "q \<in> set ds" for q
  proof -
    have "q \<in> set (insert_or_ignore (escalation_of now d) (deliveries db))" "dv_id q \<noteq> dv_id d"
      using Cons.prems that by (auto simp: insert_or_ignore_def) (metis imageI)
    then show ?thesis by (auto simp: escalate_def in_sql_update intro!: bexI [of _ q])
  qed
  then have "outbox_moves (outbox (escalate now d db)) (outbox (fold (escalate now) ds (escalate now d db)))"
    using Cons.prems by (intro Cons.IH) auto
  then show ?case
    using escalate_move [of d db now] Cons.prems by (auto intro: converse_rtranclp_into_rtranclp)
qed simp

lemma alert_step_moves:
  assumes "alert_step db db'" and "outbox_ok (outbox db)"
  shows "outbox_moves (outbox db) (outbox db')"
  using assms(1)
proof cases
  case (al_evaluate E t hours objectives)
  then show ?thesis by (simp add: evaluate_moves)
next
  case (al_escalate t)
  have ids: "distinct (map dv_id (deliveries db))"
    using ok_id_unique [OF assms(2) [unfolded outbox_def]] assms(2)
    by (auto simp: outbox_ok_def outbox_def distinct_map inj_on_def)
  then have "distinct (map dv_id (due_escalations (timestamp_seconds t) db))"
    by (simp add: due_escalations_def distinct_map_filter distinct_map inj_on_def)
  then show ?thesis
    unfolding al_escalate enqueue_due_escalations_def Let_def fst_conv
    by (rule escalations_moves) (simp add: due_escalations_def)
next
  case (al_claim E t)
  then show ?thesis using claim_moves [OF assms(2)] by simp
next
  case (al_record E t row r)
  then show ?thesis using record_move by blast
next
  case (al_acknowledge t i)
  then show ?thesis by (simp add: acknowledge_moves)
qed

lemma alert_steps_moves:
  assumes "alert_steps db db'" and "outbox_ok (outbox db)"
  shows "outbox_ok (outbox db') \<and> outbox_moves (outbox db) (outbox db')"
  using assms
proof (induction rule: rtranclp_induct)
  case (step db1 db2)
  have moves: "outbox_moves (outbox db1) (outbox db2)" using alert_step_moves [OF step(2)] step by blast
  then have "outbox_ok (outbox db2)" using step by (induction rule: rtranclp_induct) (auto intro: outbox_move_ok)
  then show ?case using moves step by auto
qed simp

subsection \<open>Guarantees of the outbox\<close>

definition row_ok :: "delivery \<Rightarrow> bool" where
  "row_ok d =
     (0 \<le> dv_attempt_count d \<and> dv_attempt_count d \<le> 10 \<and>
      (dv_kind d = Escalation \<longrightarrow> dv_transition d = Breach) \<and>
      (dv_status d \<in> {Off, Waiting} \<longrightarrow> dv_attempt_count d = 0) \<and>
      (dv_status d = Sending \<longrightarrow> 1 \<le> dv_attempt_count d \<and> dv_lease_expires_at d \<noteq> None) \<and>
      (dv_status d = Retry_wait \<longrightarrow> 1 \<le> dv_attempt_count d \<and> dv_attempt_count d < 10 \<and> dv_next_attempt_at d \<noteq> None) \<and>
      (dv_status d \<in> {Delivered, Acknowledged} \<longrightarrow> 1 \<le> dv_attempt_count d \<and> dv_delivered_at d \<noteq> None) \<and>
      (dv_status d = Acknowledged \<longleftrightarrow> dv_acknowledged_at d \<noteq> None) \<and>
      (dv_status d = Acknowledged \<longrightarrow> dv_kind d = Transition \<and> dv_transition d = Breach))"

lemma max_attempts_le: "max_attempts E \<le> 10"
  by (simp add: max_attempts_def)

lemma delivery_row_ok_new: "new_delivery d \<Longrightarrow> row_ok d"
  by (auto simp: new_delivery_def row_ok_def)

lemma delivery_row_ok_step: "delivery_step d e \<Longrightarrow> row_ok d \<Longrightarrow> row_ok e"
proof (induction rule: delivery_step.induct)
  case (start now d E)
  then show ?case using max_attempts_le [of E] by (auto simp: row_ok_def due_delivery_def start_attempt_def)
next
  case (giving_up now d)
  then show ?case by (auto simp: row_ok_def due_delivery_def give_up_def)
next
  case (settle d attempt E now r)
  then show ?case
    using max_attempts_le [of E] by (auto simp: row_ok_def settle_attempt_def result_status_def Let_def)
next
  case (escalated now d)
  then show ?case by (simp add: row_ok_def)
next
  case (acknowledge d now)
  then show ?case by (auto simp: row_ok_def)
qed

interpretation rows: delivery_invariant row_ok
  by unfold_locales (auto intro: delivery_row_ok_new delivery_row_ok_step)

interpretation final: delivery_relation "\<lambda>d e. settled d \<longrightarrow> e = d"
  by unfold_locales (auto dest: settled_no_step)

interpretation claims: delivery_relation "\<lambda>d e. dv_id e = dv_id d \<and> dv_attempt_count d \<le> dv_attempt_count e"
  by unfold_locales
    (auto simp: start_attempt_def give_up_def settle_attempt_def Let_def elim!: delivery_step.cases)

lemma empty_outbox: "deliveries db = [] \<Longrightarrow> outbox_ok (outbox db) \<and> (\<forall>d\<in>set (snd (outbox db)). row_ok d)"
  by (simp add: outbox_ok_def outbox_def)

lemma reachable_rows:
  assumes "deliveries db0 = []" and "alert_steps db0 db"
  shows "outbox_ok (outbox db)" and "\<forall>d\<in>set (deliveries db). row_ok d"
  using rows.moves_all [OF conjunct2 [OF alert_steps_moves [OF assms(2)]]] alert_steps_moves [OF assms(2)] empty_outbox [OF assms(1)]
  by (auto simp: outbox_def)

text \<open>
  C38. The outbox stays consistent. Whatever concurrent evaluations, deliveries, late results and
  acknowledgements do to an outbox that started empty, under settings that may change: there is at
  most one delivery per event and kind, so at most one escalation of a breach; no delivery is
  attempted more than ten times; what is being sent has a lease, what waits for a retry a date; a
  delivery counts as delivered only with the date of its success; and only a delivered breach is ever
  acknowledged.
\<close>

theorem reachable_outbox_consistent:
  assumes "deliveries db0 = []" and "alert_steps db0 db"
  shows "distinct (map (\<lambda>d. (dv_event_id d, dv_kind d)) (deliveries db)) \<and>
    (\<forall>d\<in>set (deliveries db). 0 \<le> dv_attempt_count d \<and> dv_attempt_count d \<le> 10 \<and>
      (dv_status d = Sending \<longrightarrow> dv_lease_expires_at d \<noteq> None) \<and> (dv_status d = Retry_wait \<longrightarrow> dv_next_attempt_at d \<noteq> None) \<and>
      (dv_status d = Delivered \<longrightarrow> dv_delivered_at d \<noteq> None) \<and>
      (dv_acknowledged_at d \<noteq> None \<longrightarrow> dv_status d = Acknowledged \<and> dv_kind d = Transition \<and> dv_transition d = Breach \<and> dv_delivered_at d \<noteq> None))"
proof -
  have "map (\<lambda>d. (dv_event_id d, dv_kind d)) (deliveries db) = map dv_key (deliveries db)" by (simp add: dv_key_def)
  then have "distinct (map (\<lambda>d. (dv_event_id d, dv_kind d)) (deliveries db))"
    using reachable_rows(1) [OF assms] by (simp only: outbox_ok_def outbox_def split_conv)
  moreover have "row_ok d" if "d \<in> set (deliveries db)" for d using reachable_rows(2) [OF assms] that by blast
  ultimately show ?thesis unfolding row_ok_def by auto
qed

lemma demo_start: "deliveries demo_alert_db = []"
  by (simp add: demo_alert_db_def)

lemma demo_queued_steps: "alert_steps demo_alert_db (demo_queued enabled)"
  unfolding demo_queued_def by (rule r_into_rtranclp, rule al_evaluate)

theorem reachable_outbox_consistent_witness:
  "deliveries (demo_queued True) = [demo_delivery True] \<and> dv_attempt_count (demo_delivery True) \<le> 10"
  using reachable_outbox_consistent [OF demo_start demo_queued_steps, of True] demo_queued_deliveries(1) by simp



lemma claim_Some:
  fixes db :: alert_db
  assumes "claim_due_delivery E t db = (db1, Some row)" and "outbox_ok (outbox db)"
  obtains d ds where "due_deliveries (timestamp_seconds t) db = d # ds" "d \<in> set (deliveries db)" "due_delivery (timestamp_seconds t) d"
    "dv_attempt_count d < max_attempts E" "row = start_attempt E (timestamp_seconds t) d"
    "db1 = update_delivery (dv_id d) (start_attempt E (timestamp_seconds t)) db" "row \<in> set (deliveries db1)"
proof (cases "due_deliveries (timestamp_seconds t) db")
  case Nil
  then show thesis using assms(1) by (simp add: claim_due_delivery_def)
next
  case (Cons d ds)
  have d: "d \<in> set (deliveries db)" "due_delivery (timestamp_seconds t) d"
    using Cons due_deliveries_set [of "timestamp_seconds t" db] by auto
  have db1: "\<not> max_attempts E < dv_attempt_count d + 1" "db1 = update_delivery (dv_id d) (start_attempt E (timestamp_seconds t)) db"
    "find (\<lambda>q. dv_id q = dv_id d) (deliveries db1) = Some row"
    using assms(1) Cons by (auto simp: claim_due_delivery_def Let_def split: if_splits)
  have row: "row \<in> set (deliveries db1)" "dv_id row = dv_id d" using find_Some_mem [OF db1(3)] by auto
  then obtain q where q: "q \<in> set (deliveries db)" "row = (if dv_id q = dv_id d then start_attempt E (timestamp_seconds t) q else q)"
    by (auto simp: db1(2) update_delivery_def in_sql_update)
  then have "dv_id q = dv_id d" using row(2) by (auto simp: start_attempt_def split: if_splits)
  then have "q = d" using ok_id_unique [OF assms(2) [unfolded outbox_def] q(1) d(1)] by simp
  then show thesis using that [OF Cons d _ _ db1(2) row(1)] db1(1) q(2) by simp
qed

lemma sql_update_none: "(\<And>r. r \<in> set t \<Longrightarrow> \<not> p r) \<Longrightarrow> sql_update p f t = t"
  by (simp add: sql_update_def map_idI)

lemma id_key: "outbox_ok (outbox db) \<Longrightarrow> outbox_ok (outbox db') \<Longrightarrow> d \<in> set (deliveries db) \<Longrightarrow> e \<in> set (deliveries db') \<Longrightarrow>
    dv_id d = dv_id e \<longleftrightarrow> dv_key d = dv_key e"
  by (auto simp: outbox_ok_def outbox_def dv_key_def delivery_name_eq)

text \<open>
  C15. A late sender is fenced. Once a delivery was claimed a second time, because the first claim's
  lease had run out, the result of the first sender changes no delivery, whenever it arrives.
\<close>

theorem late_result_is_fenced:
  fixes E E' :: alert_env
  assumes "deliveries db0 = []" and "alert_steps db0 db" and "claim_due_delivery E t db = (db1, Some row)"
    and "alert_steps db1 db2" and "claim_due_delivery E' t' db2 = (db3, Some row')" and "dv_id row' = dv_id row"
    and "alert_steps db3 db4"
  shows "deliveries (fst (record_delivery_result E'' t'' row r db4)) = deliveries db4"
proof -
  have ok: "outbox_ok (outbox db)" using reachable_rows(1) [OF assms(1,2)] .
  have step1: "alert_step db db1" using al_claim [of db E t] assms(3) by simp
  have ok1: "outbox_ok (outbox db1)" using alert_steps_moves [OF r_into_rtranclp [of alert_step, OF step1] ok] by simp
  have ok2: "outbox_ok (outbox db2)" and moves2: "outbox_moves (outbox db1) (outbox db2)"
    using alert_steps_moves [OF assms(4) ok1] by auto
  have step3: "alert_step db2 db3" using al_claim [of db2 E' t'] assms(5) by simp
  have ok3: "outbox_ok (outbox db3)" using alert_steps_moves [OF r_into_rtranclp [of alert_step, OF step3] ok2] by simp
  have ok4: "outbox_ok (outbox db4)" and moves4: "outbox_moves (outbox db3) (outbox db4)"
    using alert_steps_moves [OF assms(7) ok3] by auto
  have row: "row \<in> set (deliveries db1)" by (rule claim_Some [OF assms(3) ok])
  obtain d where d: "d \<in> set (deliveries db2)" "row' = start_attempt E' (timestamp_seconds t') d" "row' \<in> set (deliveries db3)"
    by (rule claim_Some [OF assms(5) ok2])
  have "dv_id d = dv_id row" using d(2) assms(6) by (simp add: start_attempt_def)
  then have "dv_attempt_count row \<le> dv_attempt_count d"
    using claims.moves_related_row [OF moves2 ok1, of row d] row d(1) id_key [OF ok1 ok2 row d(1)] by (simp add: outbox_def)
  then have less: "dv_attempt_count row < dv_attempt_count row'" using d(2) by (simp add: start_attempt_def)
  have "\<not> (dv_id e = dv_id row \<and> dv_status e = Sending \<and> dv_attempt_count e = dv_attempt_count row)"
    if e: "e \<in> set (deliveries db4)" for e
  proof
    assume same: "dv_id e = dv_id row \<and> dv_status e = Sending \<and> dv_attempt_count e = dv_attempt_count row"
    then have "dv_key e = dv_key row'" using id_key [OF ok3 ok4 d(3) e] assms(6) by simp
    then have "dv_attempt_count row' \<le> dv_attempt_count e"
      using claims.moves_related_row [OF moves4 ok3, of row' e] d(3) e by (simp add: outbox_def)
    then show False using less same by simp
  qed
  then show ?thesis by (simp add: record_delivery_result_def Let_def sql_update_none)
qed

theorem late_result_is_fenced_witness:
  "deliveries (fst (record_delivery_result (demo_alert_env True 1) 50000000
      (start_attempt (demo_alert_env True 1) 1 (demo_delivery True)) (Answered 204) (fst demo_reclaimed))) =
   deliveries (fst demo_reclaimed)"
proof (rule late_result_is_fenced [OF demo_start demo_queued_steps])
  show "claim_due_delivery (demo_alert_env True 1) 1000000 (demo_queued True) =
      (fst demo_claimed, Some (start_attempt (demo_alert_env True 1) 1 (demo_delivery True)))"
    using demo_claims(1) by (simp add: demo_claimed_def prod_eq_iff)
  show "claim_due_delivery (demo_alert_env True 1) 40000000 (fst demo_claimed) = (fst demo_reclaimed,
      Some (start_attempt (demo_alert_env True 1) 40 (start_attempt (demo_alert_env True 1) 1 (demo_delivery True))))"
    using demo_claims(2) by (simp add: demo_reclaimed_def prod_eq_iff)
qed (simp_all add: start_attempt_def)

subsection \<open>The outbox drains\<close>

text \<open>A batch against an endpoint that accepts everything.\<close>

lemma due_start_settle:
  "success r \<Longrightarrow> \<not> due_delivery now (settle_attempt E now a r (start_attempt E now d))"
  by (simp add: due_delivery_def settle_attempt_def result_status_def Let_def)

lemma deliver_one:
  fixes db :: alert_db and E :: alert_env
  assumes "outbox_ok (outbox db)" and "due_deliveries (timestamp_seconds t) db = d # ds" and "dv_attempt_count d < max_attempts E"
  obtains db1 where "claim_due_delivery E t db = (db1, Some (start_attempt E (timestamp_seconds t) d))"
    "deliveries (fst (record_delivery_result E t (start_attempt E (timestamp_seconds t) d) r db1)) =
       sql_update (\<lambda>q. dv_id q = dv_id d)
         (\<lambda>q. settle_attempt E (timestamp_seconds t) (dv_attempt_count d + 1) r (start_attempt E (timestamp_seconds t) q)) (deliveries db)"
    "next_event_id db1 = next_event_id db"
proof -
  let ?now = "timestamp_seconds t"
  define db1 where "db1 = update_delivery (dv_id d) (start_attempt E ?now) db"
  have d: "d \<in> set (deliveries db)" using assms(2) due_deliveries_set [of ?now db] by auto
  have same: "q = d" if "q \<in> set (deliveries db)" "dv_id q = dv_id d" for q
    using ok_id_unique [OF assms(1) [unfolded outbox_def] that(1) d that(2)] .
  have ids: "distinct (map dv_id (deliveries db1))"
  proof -
    have "distinct (map dv_id (deliveries db))"
      using assms(1) same ok_id_unique [OF assms(1) [unfolded outbox_def]]
      by (auto simp: outbox_ok_def outbox_def distinct_map inj_on_def)
    moreover have "map dv_id (deliveries db1) = map dv_id (deliveries db)"
      by (simp add: db1_def update_delivery_def map_sql_update start_attempt_def)
    ultimately show ?thesis by simp
  qed
  have mem: "start_attempt E ?now d \<in> set (deliveries db1)"
    using d by (auto simp: db1_def update_delivery_def in_sql_update)
  have "find (\<lambda>q. dv_id q = dv_id d) (deliveries db1) = Some (start_attempt E ?now d)"
    using find_key_eq [OF ids mem] by (simp add: start_attempt_def)
  then have claim: "claim_due_delivery E t db = (db1, Some (start_attempt E ?now d))"
    using assms(2,3) by (simp add: claim_due_delivery_def Let_def db1_def)
  have "deliveries (fst (record_delivery_result E t (start_attempt E ?now d) r db1)) =
       sql_update (\<lambda>q. dv_id q = dv_id d)
         (\<lambda>q. settle_attempt E ?now (dv_attempt_count d + 1) r (start_attempt E ?now q)) (deliveries db)"
    using same
    by (auto simp: record_delivery_result_def Let_def db1_def update_delivery_def sql_update_def start_attempt_def)
  then show thesis using that claim by (simp add: db1_def update_delivery_def)
qed

lemma due_after_delivery:
  assumes "outbox_ok (n, deliveries db)" and "due_deliveries now db = d # ds" and "\<not> due_delivery now (f d)"
    and "deliveries db' = sql_update (\<lambda>q. dv_id q = dv_id d) f (deliveries db)"
  shows "due_deliveries now db' = ds"
proof -
  have d: "d \<in> set (deliveries db)" using assms(2) due_deliveries_set [of now db] by auto
  have same: "q = d" if "q \<in> set (deliveries db)" "dv_id q = dv_id d" for q
    using ok_id_unique [OF assms(1) that(1) d that(2)] .
  have "filter (due_delivery now) (sql_update (\<lambda>q. dv_id q = dv_id d) f l) = filter (\<lambda>q. dv_id q \<noteq> dv_id d) (filter (due_delivery now) l)"
    if "\<forall>q\<in>set l. dv_id q = dv_id d \<longrightarrow> q = d" for l
    using that assms(3) by (induction l) (auto simp: sql_update_def)
  then have "filter (due_delivery now) (deliveries db') = filter (\<lambda>q. dv_id q \<noteq> dv_id d) (filter (due_delivery now) (deliveries db))"
    using same unfolding assms(4) by blast
  then have "due_deliveries now db' = filter (\<lambda>q. dv_id q \<noteq> dv_id d) (due_deliveries now db)"
    by (simp add: due_deliveries_def filter_sort)
  moreover have "distinct (map dv_id (due_deliveries now db))"
  proof -
    have "distinct (map dv_id (deliveries db))"
      using assms(1) ok_id_unique [OF assms(1)] by (auto simp: outbox_ok_def distinct_map inj_on_def)
    then show ?thesis by (simp add: due_deliveries_def distinct_map_filter distinct_map inj_on_def)
  qed
  ultimately show ?thesis unfolding assms(2) by (simp add: filter_id_conv) (metis imageI)
qed

definition drained :: "int \<Rightarrow> alert_db \<Rightarrow> nat \<Rightarrow> alert_db \<times> outbox_report \<Rightarrow> bool" where
  "drained now db m res =
     (case res of (db', rep) \<Rightarrow>
        due_deliveries now db' = [] \<and> ob_delivered rep = m + length (due_deliveries now db) \<and>
        (\<forall>d\<in>set (deliveries db). if due_delivery now d then \<exists>e\<in>set (deliveries db'). dv_id e = dv_id d \<and> dv_status e = Delivered
                                  else d \<in> set (deliveries db')))"

lemma deliver_batch_drains:
  fixes db :: alert_db and E :: alert_env
  assumes send: "\<And>k b. success (send k b)"
  shows "outbox_ok (outbox db) \<Longrightarrow> \<forall>d\<in>set (due_deliveries (timestamp_seconds t) db). dv_attempt_count d < max_attempts E \<Longrightarrow>
    length (due_deliveries (timestamp_seconds t) db) \<le> n \<Longrightarrow> drained (timestamp_seconds t) db (ob_delivered rep) (deliver_batch E send t k n db rep)"
proof (induction n arbitrary: k db rep)
  case 0
  then have "set (due_deliveries (timestamp_seconds t) db) = {}" by simp
  then show ?case using 0 by (auto simp: drained_def due_deliveries_set)
next
  case (Suc n)
  show ?case
  proof (cases "due_deliveries (timestamp_seconds t) db")
    case Nil
    then have "\<not> due_delivery (timestamp_seconds t) d" if "d \<in> set (deliveries db)" for d
      using due_deliveries_set [of "timestamp_seconds t" db] that by auto
    then show ?thesis using Nil by (simp add: drained_def claim_due_delivery_def)
  next
    case (Cons d ds)
    let ?row = "start_attempt E (timestamp_seconds t) d"
    define r where "r = send k (payload E ?row)"
    obtain db1 where claim: "claim_due_delivery E t db = (db1, Some ?row)"
      and upd: "deliveries (fst (record_delivery_result E t ?row r db1)) =
         sql_update (\<lambda>q. dv_id q = dv_id d)
           (\<lambda>q. settle_attempt E (timestamp_seconds t) (dv_attempt_count d + 1) r (start_attempt E (timestamp_seconds t) q)) (deliveries db)"
      using deliver_one [OF Suc.prems(1) Cons, of E r] Suc.prems(2) Cons by auto
    obtain db2 st where rec: "record_delivery_result E t ?row r db1 = (db2, st)" by fastforce
    have "alert_step db db1" "alert_step db1 db2"
      using al_claim [of db E t] al_record [of db1 E t ?row r] by (simp_all add: claim rec)
    then have "alert_steps db db2" by (meson rtranclp.rtrancl_into_rtrancl rtranclp.rtrancl_refl)
    then have ok: "outbox_ok (outbox db2)" using alert_steps_moves Suc.prems(1) by blast
    have st: "st = Delivered" using rec send by (auto simp: record_delivery_result_def Let_def result_status_def r_def)
    have due2: "due_deliveries (timestamp_seconds t) db2 = ds"
    proof (rule due_after_delivery [OF Suc.prems(1) [unfolded outbox_def] Cons,
          where f = "\<lambda>q. settle_attempt E (timestamp_seconds t) (dv_attempt_count d + 1) r (start_attempt E (timestamp_seconds t) q)"])
      show "\<not> due_delivery (timestamp_seconds t) (settle_attempt E (timestamp_seconds t) (dv_attempt_count d + 1) r (start_attempt E (timestamp_seconds t) d))"
        using send by (simp add: due_start_settle r_def)
    qed (use upd rec in simp)
    have IH: "drained (timestamp_seconds t) db2 (ob_delivered (count_status st rep)) (deliver_batch E send t (Suc k) n db2 (count_status st rep))"
      using Suc.prems Cons due2 ok by (intro Suc.IH) auto
    have run: "deliver_batch E send t k (Suc n) db rep = deliver_batch E send t (Suc k) n db2 (count_status st rep)"
      using claim rec by (simp add: r_def)
    have db2: "deliveries db2 = sql_update (\<lambda>q. dv_id q = dv_id d)
        (\<lambda>q. settle_attempt E (timestamp_seconds t) (dv_attempt_count d + 1) r (start_attempt E (timestamp_seconds t) q)) (deliveries db)"
      using upd rec by simp
    have kept: "if due_delivery (timestamp_seconds t) q then \<exists>e\<in>set (deliveries db'). dv_id e = dv_id q \<and> dv_status e = Delivered
        else q \<in> set (deliveries db')"
      if db': "drained (timestamp_seconds t) db2 m (db', rep')" and q: "q \<in> set (deliveries db)" for q db' m rep'
    proof (cases "dv_id q = dv_id d")
      case True
      let ?q = "settle_attempt E (timestamp_seconds t) (dv_attempt_count d + 1) r (start_attempt E (timestamp_seconds t) q)"
      have "?q \<in> set (deliveries db2)" using q True by (auto simp: db2 in_sql_update)
      moreover have "\<not> due_delivery (timestamp_seconds t) ?q" using send by (simp add: due_start_settle r_def)
      ultimately have "?q \<in> set (deliveries db')" using db' by (auto simp: drained_def)
      moreover have "dv_id ?q = dv_id q" "dv_status ?q = Delivered"
        using send by (simp_all add: settle_attempt_def start_attempt_def result_status_def r_def Let_def)
      moreover have "due_delivery (timestamp_seconds t) q"
        using ok_id_unique [OF Suc.prems(1) [unfolded outbox_def] q, of d] True Cons due_deliveries_set [of "timestamp_seconds t" db] by auto
      ultimately show ?thesis by auto
    next
      case False
      then have "q \<in> set (deliveries db2)" using q by (auto simp: db2 in_sql_update)
      then show ?thesis using db' by (auto simp: drained_def)
    qed
    obtain db' rep' where res: "deliver_batch E send t (Suc k) n db2 (count_status st rep) = (db', rep')" by fastforce
    then have drained2: "drained (timestamp_seconds t) db2 (ob_delivered (count_status st rep)) (db', rep')" using IH by simp
    then have "due_deliveries (timestamp_seconds t) db' = []" "ob_delivered rep' = ob_delivered rep + length (due_deliveries (timestamp_seconds t) db)"
      using st Cons due2 by (simp_all add: drained_def count_status_def)
    then show ?thesis using kept [OF drained2] unfolding run res drained_def split_conv by blast
  qed
qed



text \<open>A delivery without attempts left is given up and ends the batch, whatever else is due.\<close>

lemma exhausted_delivery_stops_batch:
  assumes "due_deliveries (timestamp_seconds t) db = d # ds" and "max_attempts E \<le> dv_attempt_count d"
  shows "deliver_batch E send t k n db rep =
    ((if n = 0 then db else update_delivery (dv_id d) (give_up (timestamp_seconds t)) db), rep)"
  using assms by (cases n) (simp_all add: claim_due_delivery_def Let_def)

end
