(* ===== verification/Slo_Props.thy ===== *)
theory Slo_Props
  imports Alerts_Demo
begin

text \<open>
  The objectives of the service: what a history of evaluations does to the row of an objective, its
  comparison with the specification of debouncing on the list of observations, and the spacing of the
  notifications.
\<close>

subsection \<open>The row of an objective\<close>

definition slo_row_of :: "string \<Rightarrow> ('b alert_db_scheme) \<Rightarrow> slo_row option" where
  "slo_row_of objective db = find (\<lambda>r. sl_objective r = objective) (slo_states db)"

definition slo_status_of :: "string \<Rightarrow> ('b alert_db_scheme) \<Rightarrow> slo_status" where
  "slo_status_of objective db = (case slo_row_of objective db of None \<Rightarrow> Healthy | Some r \<Rightarrow> sl_status r)"

text \<open>What a measurement says: nothing, an incomplete window, or a verdict.\<close>

definition verdict :: "metric option \<Rightarrow> slo_status option option" where
  "verdict m =
     (case m of
        None \<Rightarrow> None
      | Some m \<Rightarrow>
          (case m_met m of
             None \<Rightarrow> Some None
           | Some met \<Rightarrow> if m_target m = None \<and> m_target_max m = None then None
                         else Some (Some (if met then Healthy else Breaching))))"

definition judged_row :: "('a alert_env_scheme) \<Rightarrow> int \<Rightarrow> slo_status \<Rightarrow> slo_row \<Rightarrow> slo_row" where
  "judged_row E t desired r =
     (if sl_status r = desired then reset_observations t r
      else let count = (if sl_pending r = Some desired then sl_count r + 1 else 1) in
        if count < confirmations E then observe t desired count r
        else change_state t desired (notification_due E t (transition_of desired) r) r)"

definition next_row :: "('a alert_env_scheme) \<Rightarrow> int \<Rightarrow> string \<Rightarrow> slo_status option option \<Rightarrow> slo_row option \<Rightarrow> slo_row option" where
  "next_row E t objective v row =
     (case v of
        None \<Rightarrow> row
      | Some None \<Rightarrow> map_option (reset_observations t) row
      | Some (Some desired) \<Rightarrow>
          (case row of
             None \<Rightarrow> Some (if desired = Healthy then new_slo_row objective t else judged_row E t desired (new_slo_row objective t))
           | Some r \<Rightarrow> Some (judged_row E t desired r)))"

lemma find_updated_row:
  assumes "\<And>r. p (f r) = p r"
  shows "find p (sql_update q f t) = map_option (\<lambda>r. if q r then f r else r) (find p t)"
  using assms by (induction t) (auto simp: sql_update_def)

lemma find_snoc: "find p (t @ [r]) = (case find p t of None \<Rightarrow> if p r then Some r else None | Some x \<Rightarrow> Some x)"
  by (induction t) auto

lemma objective_kept [simp]:
  "sl_objective (reset_observations t r) = sl_objective r" "sl_objective (observe t d c r) = sl_objective r"
  "sl_objective (change_state t d n r) = sl_objective r" "sl_objective (new_slo_row objective t) = objective"
  by (simp_all add: reset_observations_def observe_def change_state_def new_slo_row_def)

lemma update_slo_row:
  assumes "\<And>r. sl_objective (f r) = sl_objective r"
  shows "slo_row_of x (update_slo objective f db) = (if x = objective then map_option f (slo_row_of x db) else slo_row_of x db)"
proof -
  have "slo_row_of x (update_slo objective f db) =
      map_option (\<lambda>r. if sl_objective r = objective then f r else r) (slo_row_of x db)"
    unfolding slo_row_of_def update_slo_def by (simp add: find_updated_row assms)
  moreover have "sl_objective r = x" if "slo_row_of x db = Some r" for r
    using find_Some_mem [OF that [unfolded slo_row_of_def]] by simp
  ultimately show ?thesis by (cases "slo_row_of x db"; cases "x = objective") simp_all
qed

lemma queue_states [simp]:
  "slo_states (queue_slo_alert_delivery E t n objective tr actual threshold hours db) = slo_states db"
  "slo_events (queue_slo_alert_delivery E t n objective tr actual threshold hours db) = slo_events db"
  by (simp_all add: queue_slo_alert_delivery_def purge_deliveries_def Let_def)

lemma record_transition_states:
  "slo_states (record_transition E t hours objective desired actual threshold row db) =
     slo_states (update_slo objective (change_state t desired (notification_due E t (transition_of desired) row)) db)"
  by (simp add: record_transition_def Let_def)

lemma slo_row_of_cong: "slo_states db = slo_states db' \<Longrightarrow> slo_row_of x db = slo_row_of x db'"
  by (simp add: slo_row_of_def)

lemma record_transition_row:
  "slo_row_of x (record_transition E t hours objective desired actual threshold row db) =
     (if x = objective then map_option (change_state t desired (notification_due E t (transition_of desired) row)) (slo_row_of x db)
      else slo_row_of x db)"
  by (simp add: slo_row_of_cong [OF record_transition_states] update_slo_row)

lemma judge_objective_row:
  assumes "slo_row_of objective db = Some row"
  shows "slo_row_of x (judge_objective E t hours objective desired actual threshold row db) =
    (if x = objective then Some (judged_row E t desired row) else slo_row_of x db)"
  using assms by (simp add: judge_objective_def judged_row_def Let_def update_slo_row record_transition_row)

lemma evaluate_objective_row:
  "slo_row_of x (evaluate_objective E t hours objectives objective db) =
    (if x = objective then next_row E t objective (verdict (objectives objective)) (slo_row_of x db) else slo_row_of x db)"
proof (cases "objectives objective")
  case None
  then show ?thesis by (simp add: evaluate_objective_def next_row_def verdict_def)
next
  case (Some m)
  show ?thesis
  proof (cases "m_met m")
    case None
    then show ?thesis using Some by (simp add: evaluate_objective_def next_row_def verdict_def update_slo_row)
  next
    case met: (Some met)
    show ?thesis
    proof (cases "m_target m = None \<and> m_target_max m = None")
      case True
      then show ?thesis using Some met by (simp add: evaluate_objective_def next_row_def verdict_def)
    next
      case False
      then obtain threshold where th: "(if m_target m \<noteq> None then m_target m else m_target_max m) = Some threshold" by (cases "m_target m") auto
      let ?d = "if met then Healthy else Breaching"
      have v: "verdict (objectives objective) = Some (Some ?d)" using Some met False by (auto simp: verdict_def)
      show ?thesis
      proof (cases "find (\<lambda>r. sl_objective r = objective) (slo_states db)")
        case none: None
        have none_row: "slo_row_of objective db = None" using none by (simp add: slo_row_of_def)
        let ?db1 = "db\<lparr>slo_states := slo_states db @ [new_slo_row objective t]\<rparr>"
        have row1: "slo_row_of y ?db1 = (if y = objective then Some (new_slo_row objective t) else slo_row_of y db)" for y
          using none by (auto simp: slo_row_of_def find_snoc split: option.split)
        have "evaluate_objective E t hours objectives objective db =
            (if ?d = Healthy then ?db1 else judge_objective E t hours objective ?d (m_actual m) threshold (new_slo_row objective t) ?db1)"
          using Some met th none by (simp only: evaluate_objective_def option.case Let_def)
        then show ?thesis
          unfolding v by (simp add: judge_objective_row row1 next_row_def none_row)
      next
        case row: (Some row)
        have "evaluate_objective E t hours objectives objective db = judge_objective E t hours objective ?d (m_actual m) threshold row db"
          using Some met th row by (simp only: evaluate_objective_def option.case Let_def)
        moreover have "slo_row_of objective db = Some row" using row by (simp add: slo_row_of_def)
        ultimately show ?thesis unfolding v by (simp add: judge_objective_row next_row_def)
      qed
    qed
  qed
qed

lemma evaluate_objectives_row:
  assumes "distinct os"
  shows "slo_row_of x (fold (evaluate_objective E t hours objectives) os db) =
    (if x \<in> set os then next_row E t x (verdict (objectives x)) (slo_row_of x db) else slo_row_of x db)"
  using assms by (induction os arbitrary: db) (auto simp: evaluate_objective_row)

lemma evaluate_sync_row:
  assumes "x \<in> set SLO_OBJECTIVE_NAMES"
  shows "slo_row_of x (evaluate_slo_alerts_sync E t hours objectives db) = next_row E t x (verdict (objectives x)) (slo_row_of x db)"
proof -
  have "distinct SLO_OBJECTIVE_NAMES" by (simp add: SLO_OBJECTIVE_NAMES_def)
  then show ?thesis
    using evaluate_objectives_row [of SLO_OBJECTIVE_NAMES x] assms
    by (simp add: evaluate_slo_alerts_sync_def purge_events_def slo_row_of_def)
qed

subsection \<open>Evaluations with their deliveries\<close>

text \<open>The outbox leaves the objectives and their events alone.\<close>

lemma outbox_keeps_objectives:
  "slo_states (fst (process_alert_delivery_outbox E send t db)) = slo_states db"
  "slo_events (fst (process_alert_delivery_outbox E send t db)) = slo_events db"
  "next_event_id (fst (process_alert_delivery_outbox E send t db)) = next_event_id db"
proof -
  have claim: "slo_states db1 = slo_states db \<and> slo_events db1 = slo_events db \<and> next_event_id db1 = next_event_id db"
    if "claim_due_delivery E t db = (db1, row)" for db db1 :: "'c alert_db_scheme" and row
    using that by (auto simp: claim_due_delivery_def Let_def update_delivery_def split: list.splits if_splits)
  have batch: "slo_states (fst (deliver_batch E send t k n db rep)) = slo_states db \<and>
      slo_events (fst (deliver_batch E send t k n db rep)) = slo_events db \<and>
      next_event_id (fst (deliver_batch E send t k n db rep)) = next_event_id db" for k n rep and db :: "'c alert_db_scheme"
  proof (induction n arbitrary: k db rep)
    case (Suc n)
    obtain db1 row where c: "claim_due_delivery E t db = (db1, row)" by fastforce
    show ?case
      using claim [OF c] Suc.IH c by (cases row) (simp_all add: record_delivery_result_def Let_def)
  qed simp
  have esc: "slo_states (fold (escalate now) ds db) = slo_states db \<and> slo_events (fold (escalate now) ds db) = slo_events db \<and>
      next_event_id (fold (escalate now) ds db) = next_event_id db" for now ds and db :: "'c alert_db_scheme"
    by (induction ds arbitrary: db) (simp_all add: escalate_def)
  show "slo_states (fst (process_alert_delivery_outbox E send t db)) = slo_states db"
    "slo_events (fst (process_alert_delivery_outbox E send t db)) = slo_events db"
    "next_event_id (fst (process_alert_delivery_outbox E send t db)) = next_event_id db"
    by (simp_all add: process_alert_delivery_outbox_def enqueue_due_escalations_def Let_def batch esc)
qed

text \<open>One call of \<open>evaluate_slo_alerts\<close>, and a history of calls.\<close>

record evaluation =
  el_send :: "nat \<Rightarrow> pyval \<Rightarrow> send_outcome"
  el_time :: int
  el_delivery_time :: int
  el_window :: "int option"
  el_objectives :: "string \<Rightarrow> metric option"

definition evaluate :: "('a alert_env_scheme) \<Rightarrow> evaluation \<Rightarrow> ('b alert_db_scheme) \<Rightarrow> 'b alert_db_scheme" where
  "evaluate E e = evaluate_slo_alerts E (el_send e) (el_time e) (el_delivery_time e) (el_window e) (el_objectives e)"

lemma evaluate_row:
  assumes "x \<in> set SLO_OBJECTIVE_NAMES"
  shows "slo_row_of x (evaluate E e db) = next_row E (el_time e) x (verdict (el_objectives e x)) (slo_row_of x db)"
  using evaluate_sync_row [OF assms]
  unfolding evaluate_def evaluate_slo_alerts_def slo_row_of_def outbox_keeps_objectives .

subsection \<open>Debouncing\<close>

text \<open>
  The specification, on the observations of an objective from the latest to the first: the status is
  that of the latest run of \<open>n\<close> agreeing verdicts.
\<close>

fun debounced :: "nat \<Rightarrow> slo_status option list \<Rightarrow> slo_status" where
  "debounced n [] = Healthy"
| "debounced n (None # older) = debounced n older"
| "debounced n (Some d # older) = (if n \<le> length (takeWhile (\<lambda>v. v = Some d) (Some d # older)) then d else debounced n older)"

definition opposite :: "slo_status \<Rightarrow> slo_status" where
  "opposite s = (case s of Healthy \<Rightarrow> Breaching | Breaching \<Rightarrow> Healthy)"

definition run_of :: "slo_status \<Rightarrow> slo_status option list \<Rightarrow> int" where
  "run_of d obs = int (length (takeWhile (\<lambda>v. v = Some d) obs))"

lemma run_of_simps [simp]:
  "run_of d [] = 0" "run_of d (v # obs) = (if v = Some d then run_of d obs + 1 else 0)"
  by (simp_all add: run_of_def)

lemma opposite_simps [simp]: "opposite s \<noteq> s" "s \<noteq> opposite s" "opposite (opposite s) = s" "d \<noteq> s \<longleftrightarrow> d = opposite s"
  by (cases s; cases d; simp add: opposite_def)+

definition debounced_for :: "('a alert_env_scheme) \<Rightarrow> slo_status option list \<Rightarrow> slo_status" where
  "debounced_for E obs = debounced (nat (confirmations E)) obs"

definition debouncing :: "('a alert_env_scheme) \<Rightarrow> slo_status option list \<Rightarrow> slo_row \<Rightarrow> bool" where
  "debouncing E obs r =
     (sl_status r = debounced_for E obs \<and> sl_pending r \<in> {None, Some (opposite (sl_status r))} \<and>
      run_of (opposite (sl_status r)) obs = (if sl_pending r = None then 0 else sl_count r) \<and>
      run_of (opposite (sl_status r)) obs < confirmations E)"

lemma confirmations_pos: "1 \<le> confirmations E"
  by (simp add: confirmations_def)

lemma debounced_for_simps:
  "debounced_for E [] = Healthy" "debounced_for E (None # obs) = debounced_for E obs"
  "debounced_for E (Some d # obs) = (if confirmations E \<le> run_of d obs + 1 then d else debounced_for E obs)"
  using confirmations_pos [of E] by (simp_all add: debounced_for_def run_of_def nat_le_iff)

lemma debouncing_reset:
  assumes "debouncing E obs r" and "v = None \<or> v = Some (sl_status r)"
  shows "debouncing E (v # obs) (reset_observations t r)"
  using assms confirmations_pos [of E]
  by (auto simp: debouncing_def reset_observations_def debounced_for_simps)

lemma debouncing_judged:
  assumes "debouncing E obs r"
  shows "debouncing E (Some d # obs) (judged_row E t d r)"
proof (cases "d = sl_status r")
  case True
  then show ?thesis using debouncing_reset [OF assms] by (simp add: judged_row_def)
next
  case False
  then have d: "d = opposite (sl_status r)" by simp
  show ?thesis
    using assms confirmations_pos [of E]
    by (auto simp: debouncing_def judged_row_def d observe_def change_state_def Let_def debounced_for_simps)
qed

lemma debouncing_new: "debouncing E [] (new_slo_row objective t)"
  using confirmations_pos [of E] by (simp add: debouncing_def new_slo_row_def debounced_for_simps)

definition observations :: "string \<Rightarrow> evaluation list \<Rightarrow> slo_status option list" where
  "observations x hist = List.map_filter (\<lambda>e. verdict (el_objectives e x)) hist"

definition tracked :: "('a alert_env_scheme) \<Rightarrow> slo_status option list \<Rightarrow> slo_row option \<Rightarrow> bool" where
  "tracked E obs row = (case row of None \<Rightarrow> set obs \<subseteq> {None} | Some r \<Rightarrow> debouncing E obs r)"

lemma silent_observations:
  assumes "set obs \<subseteq> {None}"
  shows "run_of d obs = 0" and "debounced_for E obs = Healthy"
  using assms by (induction obs) (auto simp: debounced_for_simps)

lemma debouncing_silent: "set obs \<subseteq> {None} \<Longrightarrow> debouncing E obs (new_slo_row objective t)"
  using confirmations_pos [of E] by (simp add: debouncing_def new_slo_row_def silent_observations)

lemma debouncing_silent_healthy: "set obs \<subseteq> {None} \<Longrightarrow> debouncing E (Some Healthy # obs) (new_slo_row objective t)"
  using confirmations_pos [of E]
  by (simp add: debouncing_def new_slo_row_def debounced_for_simps silent_observations del: opposite_simps(4))

lemma tracked_next:
  assumes "tracked E obs row"
  shows "tracked E (case v of None \<Rightarrow> obs | Some x \<Rightarrow> x # obs) (next_row E t objective v row)"
proof (cases row)
  case None
  then have silent: "set obs \<subseteq> {None}" using assms by (simp add: tracked_def)
  show ?thesis
    using silent debouncing_judged [OF debouncing_silent [OF silent]] debouncing_silent_healthy [OF silent] None
    by (auto simp: tracked_def next_row_def split: option.split)
next
  case (Some r)
  then have r: "debouncing E obs r" using assms by (simp add: tracked_def)
  show ?thesis
    using r debouncing_judged [OF r] debouncing_reset [OF r] Some by (simp add: tracked_def next_row_def split: option.split)
qed

lemma tracked_history:
  assumes "x \<in> set SLO_OBJECTIVE_NAMES"
  shows "tracked E obs (slo_row_of x db) \<Longrightarrow>
    tracked E (rev (observations x hist) @ obs) (slo_row_of x (fold (evaluate E) hist db))"
proof (induction hist arbitrary: obs db)
  case Nil
  then show ?case by (simp add: observations_def map_filter_simps)
next
  case (Cons e hist)
  let ?obs = "case verdict (el_objectives e x) of None \<Rightarrow> obs | Some v \<Rightarrow> v # obs"
  have "tracked E ?obs (slo_row_of x (evaluate E e db))"
    unfolding evaluate_row [OF assms] by (rule tracked_next [OF Cons.prems])
  from Cons.IH [OF this] show ?case
    by (cases "verdict (el_objectives e x)") (simp_all add: observations_def map_filter_simps)
qed

text \<open>
  C14. Alerts are debounced. After any history of evaluations, each with the delivery of what is due,
  the status of an objective is what the specification reads off the observations alone: the verdict
  of the latest run of as many agreeing, uninterrupted verdicts as the settings require, and healthy
  before there was one. An incomplete window interrupts a run; an objective that is not measured does
  not.
\<close>

theorem alerts_are_debounced:
  fixes E :: alert_env
  assumes "slo_states db0 = []" and "x \<in> set SLO_OBJECTIVE_NAMES"
  shows "slo_status_of x (fold (evaluate E) hist db0) = debounced (nat (confirmations E)) (rev (observations x hist))"
proof -
  have "tracked E [] (slo_row_of x db0)" by (simp add: tracked_def slo_row_of_def assms(1))
  from tracked_history [OF assms(2) this, of hist]
  have "tracked E (rev (observations x hist)) (slo_row_of x (fold (evaluate E) hist db0))" by simp
  then have "slo_status_of x (fold (evaluate E) hist db0) = debounced_for E (rev (observations x hist))"
    by (simp add: tracked_def slo_status_of_def debouncing_def silent_observations split: option.splits)
  then show ?thesis by (simp add: debounced_for_def)
qed

definition demo_evaluation :: "bool \<Rightarrow> int \<Rightarrow> evaluation" where
  "demo_evaluation met t =
     \<lparr>el_send = demo_accept, el_time = t, el_delivery_time = t, el_window = None, el_objectives = demo_metric met\<rparr>"

theorem alerts_are_debounced_witness:
  "slo_status_of ''job_success_rate'' (fold (evaluate (demo_alert_env True 2)) [demo_evaluation False 0, demo_evaluation True 60000000,
      demo_evaluation False 120000000] demo_alert_db) = Healthy \<and>
   slo_status_of ''job_success_rate'' (fold (evaluate (demo_alert_env True 2)) [demo_evaluation True 0, demo_evaluation False 60000000,
      demo_evaluation False 120000000] demo_alert_db) = Breaching"
proof -
  have init: "slo_states demo_alert_db = []" "''job_success_rate'' \<in> set SLO_OBJECTIVE_NAMES"
    by (simp_all add: demo_alert_db_def SLO_OBJECTIVE_NAMES_def)
  show ?thesis
    unfolding alerts_are_debounced [OF init]
    by (simp add: observations_def map_filter_simps demo_evaluation_def demo_metric_def verdict_def confirmations_def demo_alert_env_def)
qed

subsection \<open>Spacing of the notifications\<close>

definition spaced :: "int \<Rightarrow> (string \<Rightarrow> slo_row option) \<Rightarrow> alert_event list \<Rightarrow> int \<Rightarrow> bool" where
  "spaced c rows events n =
     ((\<forall>e\<in>set events. ev_id e < n \<and> (ev_notified e \<longrightarrow>
         (\<exists>r s. rows (ev_objective e) = Some r \<and> notified_at (ev_transition e) r = Some s \<and> ev_created_at e \<le> s))) \<and>
      (\<forall>e1\<in>set events. \<forall>e2\<in>set events. ev_notified e1 \<and> ev_notified e2 \<and> ev_objective e1 = ev_objective e2 \<and>
         ev_transition e1 = ev_transition e2 \<and> ev_id e1 < ev_id e2 \<longrightarrow> ev_created_at e1 + c \<le> ev_created_at e2))"

text \<open>The dates of the notifications of an objective only grow.\<close>

definition no_older :: "slo_row option \<Rightarrow> slo_row option \<Rightarrow> bool" where
  "no_older row row' =
     (\<forall>r. row = Some r \<longrightarrow> (\<exists>r'. row' = Some r' \<and>
        (\<forall>tr s. notified_at tr r = Some s \<longrightarrow> (\<exists>s'. notified_at tr r' = Some s' \<and> s \<le> s'))))"

lemma no_older_refl [simp]: "no_older row row"
  by (simp add: no_older_def)

lemma spaced_rows:
  assumes "spaced c rows events n" and "\<And>x. no_older (rows x) (rows' x)"
  shows "spaced c rows' events n"
proof -
  have "\<exists>r s. rows' (ev_objective e) = Some r \<and> notified_at (ev_transition e) r = Some s \<and> ev_created_at e \<le> s"
    if "e \<in> set events" "ev_notified e" for e
    using assms(1) that assms(2) [of "ev_objective e"] unfolding spaced_def no_older_def by (metis order_trans)
  then show ?thesis using assms(1) by (auto simp: spaced_def)
qed

lemma cooldown_nonneg: "0 \<le> cooldown_seconds E"
  by (simp add: cooldown_seconds_def)

lemma notification_due_spacing:
  assumes "notification_due E t tr r" and "notified_at tr r = Some s"
  shows "s + cooldown_seconds E \<le> timestamp_seconds t"
proof -
  have "(s + cooldown_seconds E) * 1000000 \<le> t" using assms by (simp add: notification_due_def algebra_simps)
  then have "(s + cooldown_seconds E) * 1000000 div 1000000 \<le> t div 1000000" by (rule zdiv_mono1) simp
  then show ?thesis by (simp add: timestamp_seconds_def)
qed

lemma notified_at_kept:
  "notified_at tr (reset_observations t r) = notified_at tr r" "notified_at tr (observe t d c r) = notified_at tr r"
  "notified_at tr (change_state t d n r) = (if n \<and> tr = transition_of d then Some (timestamp_seconds t) else notified_at tr r)"
  by (auto simp: notified_at_def reset_observations_def observe_def change_state_def split: alert_transition.split)

lemma no_older_change:
  "no_older (Some r) (Some (change_state t d (notification_due E t (transition_of d) r) r))"
  using notification_due_spacing [of E t "transition_of d" r] cooldown_nonneg [of E]
  by (fastforce simp: no_older_def notified_at_kept)

definition db_spaced :: "('a alert_env_scheme) \<Rightarrow> ('b alert_db_scheme) \<Rightarrow> bool" where
  "db_spaced E db = spaced (cooldown_seconds E) (\<lambda>x. slo_row_of x db) (slo_events db) (next_event_id db)"

lemma update_slo_rest [simp]:
  "slo_events (update_slo objective f db) = slo_events db" "next_event_id (update_slo objective f db) = next_event_id db"
  by (simp_all add: update_slo_def)

lemma db_spaced_update:
  assumes "db_spaced E db" and "\<And>r. sl_objective (f r) = sl_objective r" and "\<And>tr r. notified_at tr (f r) = notified_at tr r"
  shows "db_spaced E (update_slo objective f db)"
  using assms(1) unfolding db_spaced_def update_slo_rest
  by (rule spaced_rows) (auto simp: update_slo_row assms(2) no_older_def assms(3))

lemma db_spaced_transition:
  assumes "db_spaced E db" and "slo_row_of objective db = Some row"
  shows "db_spaced E (record_transition E t hours objective desired actual threshold row db)"
proof -
  let ?tr = "transition_of desired"
  let ?notify = "notification_due E t ?tr row"
  let ?e = "\<lparr>ev_id = next_event_id db, ev_objective = objective, ev_transition = ?tr, ev_actual = actual,
    ev_threshold = threshold, ev_window_hours = hours, ev_notified = ?notify, ev_created_at = timestamp_seconds t\<rparr>"
  let ?rows = "\<lambda>x. if x = objective then Some (change_state t desired ?notify row) else slo_row_of x db"
  have "spaced (cooldown_seconds E) ?rows (slo_events db) (next_event_id db)"
    using assms(1) unfolding db_spaced_def by (rule spaced_rows) (simp add: assms(2) no_older_change)
  then have "spaced (cooldown_seconds E) ?rows (slo_events db @ [?e]) (next_event_id db + 1)"
  proof -
    assume sp: "spaced (cooldown_seconds E) ?rows (slo_events db) (next_event_id db)"
    have "ev_created_at e + cooldown_seconds E \<le> timestamp_seconds t"
      if e: "e \<in> set (slo_events db)" "ev_notified e" "?notify" "ev_objective e = objective" "ev_transition e = ?tr" for e
    proof -
      obtain s where "notified_at ?tr row = Some s" "ev_created_at e \<le> s"
        using assms(1) e assms(2) by (auto simp: db_spaced_def spaced_def)
      then show ?thesis using notification_due_spacing [OF e(3)] by fastforce
    qed
    then show ?thesis using sp by (fastforce simp: spaced_def notified_at_kept)
  qed
  moreover have "(\<lambda>x. slo_row_of x (record_transition E t hours objective desired actual threshold row db)) = ?rows"
    by (auto simp: record_transition_row assms(2))
  moreover have "slo_events (record_transition E t hours objective desired actual threshold row db) = slo_events db @ [?e]"
    "next_event_id (record_transition E t hours objective desired actual threshold row db) = next_event_id db + 1"
    by (simp_all add: record_transition_def queue_slo_alert_delivery_def purge_deliveries_def Let_def)
  ultimately show ?thesis by (simp add: db_spaced_def)
qed

lemma db_spaced_judge:
  assumes "db_spaced E db" and "slo_row_of objective db = Some row"
  shows "db_spaced E (judge_objective E t hours objective desired actual threshold row db)"
  using assms by (simp add: judge_objective_def Let_def db_spaced_update db_spaced_transition notified_at_kept)

lemma db_spaced_objective:
  assumes "db_spaced E db"
  shows "db_spaced E (evaluate_objective E t hours objectives objective db)"
proof -
  let ?db1 = "db\<lparr>slo_states := slo_states db @ [new_slo_row objective t]\<rparr>"
  have new: "db_spaced E ?db1 \<and> slo_row_of objective ?db1 = Some (new_slo_row objective t)"
    if "find (\<lambda>r. sl_objective r = objective) (slo_states db) = None"
  proof -
    have row: "slo_row_of x ?db1 = (if x = objective then Some (new_slo_row objective t) else slo_row_of x db)" for x
      using that by (auto simp: slo_row_of_def find_snoc split: option.split)
    have "no_older (slo_row_of x db) (slo_row_of x ?db1)" for x
    proof (cases "x = objective")
      case True
      then have "slo_row_of x db = None" using that by (simp add: slo_row_of_def)
      then show ?thesis by (simp add: no_older_def)
    qed (simp add: row)
    then have "db_spaced E ?db1" using assms spaced_rows [of _ "\<lambda>x. slo_row_of x db"] by (simp add: db_spaced_def)
    then show ?thesis by (simp add: row)
  qed
  show ?thesis
    using assms new
    by (auto simp: evaluate_objective_def Let_def db_spaced_update notified_at_kept slo_row_of_def
        intro!: db_spaced_judge split: option.split)
qed

lemma db_spaced_evaluate:
  assumes "db_spaced E db"
  shows "db_spaced E (evaluate E e db)"
proof -
  let ?db1 = "fold (evaluate_objective E (el_time e) (slo_window E (el_window e)) (el_objectives e)) SLO_OBJECTIVE_NAMES db"
  have "db_spaced E (fold (evaluate_objective E t hours objectives) os db)" for t hours objectives os
    using assms by (induction os arbitrary: db) (simp_all add: db_spaced_objective)
  then have "db_spaced E ?db1" .
  then have "db_spaced E (purge_events E (el_time e) ?db1)"
    by (auto simp: db_spaced_def spaced_def purge_events_def sql_delete_def slo_row_of_def)
  then show ?thesis
    by (simp add: db_spaced_def evaluate_def evaluate_slo_alerts_def evaluate_slo_alerts_sync_def outbox_keeps_objectives
        slo_row_of_def)
qed

text \<open>
  C39. Notifications are spaced. Along any history of evaluations, whatever the clock reads, two
  transitions of the same objective in the same direction that were both announced lie at least the
  cooldown apart.
\<close>

theorem alert_notifications_are_spaced:
  fixes E :: alert_env
  assumes "slo_events db0 = []"
    and "e1 \<in> set (slo_events (fold (evaluate E) hist db0))" and "e2 \<in> set (slo_events (fold (evaluate E) hist db0))"
    and "ev_notified e1" and "ev_notified e2" and "ev_objective e1 = ev_objective e2" and "ev_transition e1 = ev_transition e2"
    and "ev_id e1 < ev_id e2"
  shows "ev_created_at e1 + cooldown_seconds E \<le> ev_created_at e2"
proof -
  have "db_spaced E db0" using assms(1) by (simp add: db_spaced_def spaced_def)
  then have "db_spaced E (fold (evaluate E) hist db0)"
    by (induction hist arbitrary: db0) (simp_all add: db_spaced_evaluate)
  then show ?thesis using assms(2-8) unfolding db_spaced_def spaced_def by blast
qed

theorem alert_notifications_are_spaced_witness:
  "\<exists>events e1 e2. slo_events (fold (evaluate (demo_alert_env True 1)) [demo_evaluation False 0, demo_evaluation True 60000000,
      demo_evaluation False 120000000] demo_alert_db) = events \<and> e1 \<in> set events \<and> e2 \<in> set events \<and>
      ev_id e1 < ev_id e2 \<and> ev_created_at e1 + 100 \<le> ev_created_at e2"
proof -
  let ?db = "fold (evaluate (demo_alert_env True 1)) [demo_evaluation False 0, demo_evaluation True 60000000,
      demo_evaluation False 120000000] demo_alert_db"
  let ?e = "\<lambda>i t. \<lparr>ev_id = i, ev_objective = ''job_success_rate'', ev_transition = Breach, ev_actual = Some (Fin 90),
    ev_threshold = Fin 95, ev_window_hours = 24, ev_notified = True, ev_created_at = t\<rparr>"
  have events: "slo_events ?db = [?e 1 0, (?e 2 60)\<lparr>ev_transition := Recovery\<rparr>, ?e 3 120]" by code_simp
  have "slo_events demo_alert_db = []" by (simp add: demo_alert_db_def)
  then have "ev_created_at (?e 1 0) + cooldown_seconds (demo_alert_env True 1) \<le> ev_created_at (?e 3 120)"
    by (rule alert_notifications_are_spaced [of _ _ _ "[demo_evaluation False 0, demo_evaluation True 60000000,
      demo_evaluation False 120000000]"]) (unfold events, simp_all)
  then show ?thesis
    unfolding events by - (rule exI, rule exI [of _ "?e 1 0"], rule exI [of _ "?e 3 120"], rule conjI [OF refl], simp add: cooldown_seconds_def demo_alert_env_def)
qed

end
